(* ===== verification/GoStrings.thy ===== *)
theory GoStrings
  imports Main "HOL-Library.Sublist" "HOL-Library.Char_ord" "HOL-Library.List_Lexorder"
begin

text \<open>
  The part of Go's standard library the driver uses on strings: \<^verbatim>\<open>strings\<close>,
  \<^verbatim>\<open>strconv\<close>, \<^verbatim>\<open>fmt.Sscanf("%d")\<close> and \<^verbatim>\<open>path/filepath\<close>, as executable functions
  on byte strings, with the lemmas the component theories use. A Go string is a list of
  bytes; the functions that fold case or look for white space treat the ASCII range, which
  is what every string the driver inspects (paths, mount tables, parameters, device
  names) is made of. Machine integers (\<^verbatim>\<open>int64\<close>) are \<open>int\<close> with the wrap-around written out
  by \<open>wrap64\<close>.
\<close>

section \<open>Automation shared by the development\<close>

named_theorems gostr \<open>facts about Go's string functions\<close>
named_theorems wp \<open>weakest-precondition rules of the state monad\<close>

section \<open>strings: prefixes, searching, cutting\<close>

definition hasPrefix :: "string \<Rightarrow> string \<Rightarrow> bool" where
  "hasPrefix s p = (take (length p) s = p)"

definition hasSuffix :: "string \<Rightarrow> string \<Rightarrow> bool" where
  "hasSuffix s p = (length p \<le> length s \<and> drop (length s - length p) s = p)"

fun index_of :: "string \<Rightarrow> string \<Rightarrow> nat option" where
  "index_of [] sub = (if sub = [] then Some 0 else None)"
| "index_of (c # s) sub =
     (if hasPrefix (c # s) sub then Some 0 else map_option Suc (index_of s sub))"

fun last_index_of :: "string \<Rightarrow> string \<Rightarrow> nat option" where
  "last_index_of [] sub = (if sub = [] then Some 0 else None)"
| "last_index_of (c # s) sub =
     (case last_index_of s sub of
        Some i \<Rightarrow> Some (Suc i)
      | None \<Rightarrow> if hasPrefix (c # s) sub then Some 0 else None)"

definition containsStr :: "string \<Rightarrow> string \<Rightarrow> bool" where
  "containsStr s sub = (index_of s sub \<noteq> None)"

definition cut :: "string \<Rightarrow> string \<Rightarrow> string \<times> string \<times> bool" where
  "cut s sep = (case index_of s sep of
       None \<Rightarrow> (s, [], False)
     | Some i \<Rightarrow> (take i s, drop (i + length sep) s, True))"

definition cutPrefix :: "string \<Rightarrow> string \<Rightarrow> string \<times> bool" where
  "cutPrefix s p = (if hasPrefix s p then (drop (length p) s, True) else (s, False))"

fun split_on :: "char \<Rightarrow> string \<Rightarrow> string list" where
  "split_on c [] = [[]]"
| "split_on c (x # xs) =
     (if x = c then [] # split_on c xs
      else (case split_on c xs of [] \<Rightarrow> [[x]] | y # ys \<Rightarrow> (x # y) # ys))"

fun joinStr :: "string \<Rightarrow> string list \<Rightarrow> string" where
  "joinStr sep [] = []"
| "joinStr sep [x] = x"
| "joinStr sep (x # y # ys) = x @ sep @ joinStr sep (y # ys)"

lemma hasPrefix_iff [gostr]: "hasPrefix s p \<longleftrightarrow> (\<exists>t. s = p @ t)"
proof
  assume "hasPrefix s p"
  then have "s = p @ drop (length p) s"
    by (metis append_take_drop_id hasPrefix_def)
  then show "\<exists>t. s = p @ t" ..
qed (auto simp: hasPrefix_def)

lemma hasPrefix_append [simp]: "hasPrefix (p @ t) p"
  by (simp add: hasPrefix_def)

lemma hasPrefix_Nil [simp]: "hasPrefix s [] \<longleftrightarrow> True" "hasPrefix [] p \<longleftrightarrow> p = []"
  by (auto simp: hasPrefix_def)

lemma hasPrefix_Cons [simp]: "hasPrefix (c # s) (d # p) \<longleftrightarrow> c = d \<and> hasPrefix s p"
  by (auto simp: hasPrefix_def)

lemma hasPrefix_append_same [simp]: "hasPrefix (p @ s) (p @ q) \<longleftrightarrow> hasPrefix s q"
  by (auto simp: hasPrefix_def)

lemma cutPrefix_append [simp]: "cutPrefix (p @ t) p = (t, True)"
  by (simp add: cutPrefix_def)

lemma index_of_Some:
  "index_of s sub = Some i \<Longrightarrow>
     i + length sub \<le> length s \<and> s = take i s @ sub @ drop (i + length sub) s"
proof (induction s arbitrary: i)
  case Nil
  then show ?case by (auto split: if_splits)
next
  case (Cons c s)
  show ?case
  proof (cases "hasPrefix (c # s) sub")
    case True
    with Cons.prems have [simp]: "i = 0" by simp
    from True obtain t where "c # s = sub @ t" by (auto simp: hasPrefix_iff)
    then have "length sub \<le> length (c # s)" "c # s = sub @ drop (length sub) (c # s)"
      by (simp, metis append_eq_conv_conj)
    then show ?thesis by simp
  next
    case False
    with Cons.prems obtain j where "index_of s sub = Some j" "i = Suc j" by auto
    with Cons.IH show ?thesis by simp
  qed
qed

lemma index_of_first:
  "index_of s sub = Some i \<Longrightarrow> j < i \<Longrightarrow> \<not> hasPrefix (drop j s) sub"
proof (induction s arbitrary: i j)
  case Nil
  then show ?case by (auto split: if_splits)
next
  case (Cons c s)
  then show ?case by (cases j) (auto split: if_splits)
qed

lemma index_of_None: "index_of s sub = None \<longleftrightarrow> (\<forall>j. \<not> hasPrefix (drop j s) sub)"
proof (induction s)
  case Nil
  then show ?case by auto
next
  case (Cons c s)
  have "(\<forall>j. \<not> hasPrefix (drop j (c # s)) sub) \<longleftrightarrow>
        \<not> hasPrefix (c # s) sub \<and> (\<forall>j. \<not> hasPrefix (drop j s) sub)"
    by (metis drop0 drop_Suc_Cons not0_implies_Suc)
  with Cons.IH show ?case by auto
qed

lemma containsStr_iff [gostr]: "containsStr s sub \<longleftrightarrow> (\<exists>a b. s = a @ sub @ b)"
proof
  assume "containsStr s sub"
  then obtain i where "index_of s sub = Some i" by (auto simp: containsStr_def)
  from index_of_Some [OF this] show "\<exists>a b. s = a @ sub @ b" by blast
next
  assume "\<exists>a b. s = a @ sub @ b"
  then obtain a b where "s = a @ sub @ b" by blast
  then have "hasPrefix (drop (length a) s) sub" by simp
  then show "containsStr s sub" by (auto simp: containsStr_def index_of_None)
qed

lemma containsStr_append [intro]:
  "containsStr s sub \<Longrightarrow> containsStr (s @ t) sub"
  "containsStr t sub \<Longrightarrow> containsStr (s @ t) sub"
  by (auto simp: containsStr_iff) (metis append.assoc)+

text \<open>Searching for a separator whose first character does not occur before it.\<close>

lemma index_of_fresh:
  "c \<notin> set a \<Longrightarrow> index_of (a @ (c # sub) @ b) (c # sub) = Some (length a)"
  by (induction a) auto

lemma index_of_absent: "c \<notin> set s \<Longrightarrow> index_of s (c # sub) = None"
  by (induction s) auto

lemma index_of_prefix [simp]: "index_of (sub @ t) sub = Some 0"
  by (cases "sub @ t") (auto, metis hasPrefix_append)

lemma index_of_take: "index_of s sub = Some i \<Longrightarrow> index_of (take (i + length sub) s @ t) sub = Some i"
proof (induction s arbitrary: i)
  case Nil
  then show ?case by (cases t) (auto split: if_splits)
next
  case (Cons c s)
  show ?case
  proof (cases "hasPrefix (c # s) sub")
    case True
    with Cons.prems have "i = 0" by simp
    with True show ?thesis by (simp add: hasPrefix_def)
  next
    case False
    with Cons.prems obtain j where j: "index_of s sub = Some j" "i = Suc j" by auto
    have "j + length sub \<le> length s" using index_of_Some [OF j(1)] by simp
    then have "hasPrefix (c # take (j + length sub) s @ t) sub = hasPrefix (c # s) sub"
      by (cases sub) (auto simp: hasPrefix_def)
    with False Cons.IH [OF j(1)] j(2) show ?thesis by simp
  qed
qed

lemma index_of_le: "hasPrefix (drop k s) sub \<Longrightarrow> \<exists>i \<le> k. index_of s sub = Some i"
proof -
  assume p: "hasPrefix (drop k s) sub"
  then obtain i where i: "index_of s sub = Some i" using index_of_None [of s sub] by auto
  have "i \<le> k" using index_of_first [OF i, of k] p by (meson not_le)
  with i show ?thesis by blast
qed

lemma cut_fresh: "c \<notin> set a \<Longrightarrow> cut (a @ (c # sub) @ b) (c # sub) = (a, b, True)"
  by (simp add: cut_def index_of_fresh del: append_Cons)

lemma cut_absent: "c \<notin> set s \<Longrightarrow> cut s (c # sub) = (s, [], False)"
  by (simp add: cut_def index_of_absent)

lemma cut_found:
  "cut s sep = (a, b, True) \<Longrightarrow> s = a @ sep @ b"
  by (auto simp: cut_def dest: index_of_Some split: option.splits)

lemma cut_single:
  "cut s [c] = (a, b, True) \<Longrightarrow> c \<notin> set a"
proof (induction s arbitrary: a b)
  case Nil
  then show ?case by (simp add: cut_def)
next
  case (Cons d s)
  show ?case
  proof (cases "c = d")
    case True
    with Cons.prems show ?thesis by (auto simp: cut_def)
  next
    case False
    from Cons.prems False obtain i where i: "index_of s [c] = Some i" "a = d # take i s"
      by (auto simp: cut_def split: option.splits)
    then have "cut s [c] = (take i s, drop (i + 1) s, True)" by (simp add: cut_def)
    from Cons.IH [OF this] i False show ?thesis by auto
  qed
qed

text \<open>Splitting on one character.\<close>

lemma split_on_nonempty [simp]: "split_on c s \<noteq> []"
  by (induction s) (auto split: list.splits)

lemma split_on_absent: "c \<notin> set s \<Longrightarrow> split_on c s = [s]"
  by (induction s) auto

lemma split_on_append:
  "c \<notin> set a \<Longrightarrow> split_on c (a @ c # s) = a # split_on c s"
  by (induction a) auto

lemma split_on_join:
  "xs \<noteq> [] \<Longrightarrow> (\<And>x. x \<in> set xs \<Longrightarrow> c \<notin> set x) \<Longrightarrow> split_on c (joinStr [c] xs) = xs"
  by (induction xs rule: induct_list012) (auto simp: split_on_absent split_on_append)

lemma split_on_no_sep: "x \<in> set (split_on c s) \<Longrightarrow> c \<notin> set x"
proof (induction s arbitrary: x)
  case (Cons d s)
  then show ?case by (cases "split_on c s") (auto split: if_splits)
qed simp

section \<open>White space\<close>

definition isSpace :: "char \<Rightarrow> bool" where
  "isSpace c = (c \<in> {CHR '' '', CHR 0x09, CHR 0x0A, CHR 0x0B, CHR 0x0C, CHR 0x0D})"

definition trimSpace :: "string \<Rightarrow> string" where
  "trimSpace s = rev (dropWhile isSpace (rev (dropWhile isSpace s)))"

fun split_ws :: "string \<Rightarrow> string list" where
  "split_ws [] = [[]]"
| "split_ws (x # xs) =
     (if isSpace x then [] # split_ws xs
      else (case split_ws xs of [] \<Rightarrow> [[x]] | y # ys \<Rightarrow> (x # y) # ys))"

definition strFields :: "string \<Rightarrow> string list" where
  "strFields s = filter (\<lambda>w. w \<noteq> []) (split_ws s)"

lemma split_ws_nonempty [simp]: "split_ws s \<noteq> []"
  by (induction s) (auto split: list.splits)

lemma strFields_no_space: "w \<in> set (strFields s) \<Longrightarrow> w \<noteq> [] \<and> (\<forall>c \<in> set w. \<not> isSpace c)"
proof -
  have "w \<in> set (split_ws s) \<Longrightarrow> c \<in> set w \<Longrightarrow> \<not> isSpace c" for c
  proof (induction s arbitrary: w)
    case (Cons d s)
    then show ?case by (cases "split_ws s") (force split: if_splits)+
  qed simp
  then show "w \<in> set (strFields s) \<Longrightarrow> w \<noteq> [] \<and> (\<forall>c \<in> set w. \<not> isSpace c)"
    by (auto simp: strFields_def)
qed

definition noSpace :: "string \<Rightarrow> bool" where
  "noSpace w = (w \<noteq> [] \<and> list_all (\<lambda>c. \<not> isSpace c) w)"

lemma split_ws_word: "list_all (\<lambda>c. \<not> isSpace c) w \<Longrightarrow> split_ws w = [w]"
  by (induction w) auto

lemma split_ws_append:
  "list_all (\<lambda>c. \<not> isSpace c) w \<Longrightarrow> isSpace c \<Longrightarrow> split_ws (w @ c # s) = w # split_ws s"
  by (induction w) auto

lemma strFields_word: "noSpace w \<Longrightarrow> strFields w = [w]"
  by (auto simp: strFields_def noSpace_def split_ws_word)

lemma strFields_append: "noSpace w \<Longrightarrow> isSpace c \<Longrightarrow> strFields (w @ c # s) = w # strFields s"
  by (auto simp: strFields_def noSpace_def split_ws_append)

lemma strFields_join:
  "(\<And>w. w \<in> set ws \<Longrightarrow> noSpace w) \<Longrightarrow> strFields (joinStr '' '' ws) = ws"
proof (induction ws rule: induct_list012)
  case 1
  then show ?case by (simp add: strFields_def)
next
  case (2 x)
  then show ?case by (simp add: strFields_word)
next
  case (3 x y zs)
  then show ?case by (simp add: strFields_append isSpace_def)
qed

section \<open>strconv: decimal integers, and int64\<close>

definition wrap64 :: "int \<Rightarrow> int" where
  "wrap64 x = (x + 2 ^ 63) mod 2 ^ 64 - 2 ^ 63"

definition int64 :: "int \<Rightarrow> bool" where
  "int64 x = (- (2 ^ 63) \<le> x \<and> x < 2 ^ 63)"

lemma int64_wrap64 [simp]: "int64 (wrap64 x)"
proof -
  have "0 \<le> (x + 2 ^ 63) mod 2 ^ 64" and "(x + 2 ^ 63) mod 2 ^ 64 < (2 :: int) ^ 64"
    by simp_all
  then show ?thesis by (simp add: wrap64_def int64_def)
qed

lemma wrap64_id [simp]: "int64 x \<Longrightarrow> wrap64 x = x"
  by (simp add: int64_def wrap64_def)

lemma wrap64_idem [simp]: "wrap64 (wrap64 x) = wrap64 x"
  by simp

definition isDigit :: "char \<Rightarrow> bool" where
  "isDigit c = ((48 :: nat) \<le> of_char c \<and> of_char c \<le> (57 :: nat))"

definition digit_val :: "char \<Rightarrow> nat" where
  "digit_val c = of_char c - 48"

definition digit_char :: "nat \<Rightarrow> char" where
  "digit_char d = char_of (48 + d)"

definition digits_val :: "string \<Rightarrow> nat" where
  "digits_val s = foldl (\<lambda>n c. 10 * n + digit_val c) 0 s"

text \<open>\<^verbatim>\<open>strconv.ParseInt(s, 10, 64)\<close> and \<^verbatim>\<open>strconv.Atoi\<close> (the same on a 64-bit platform).\<close>

definition signed_val :: "string \<Rightarrow> int option" where
  "signed_val s =
     (let (neg, ds) = (case s of
          [] \<Rightarrow> (False, [])
        | c # r \<Rightarrow> if c = CHR ''-'' then (True, r)
                   else if c = CHR ''+'' then (False, r) else (False, c # r));
          v = (if neg then - int (digits_val ds) else int (digits_val ds))
      in if ds \<noteq> [] \<and> list_all isDigit ds \<and> int64 v then Some v else None)"

abbreviation parseInt :: "string \<Rightarrow> int option" where
  "parseInt \<equiv> signed_val"

abbreviation atoi :: "string \<Rightarrow> int option" where
  "atoi \<equiv> signed_val"

text \<open>
  \<^verbatim>\<open>fmt.Sscanf(s, "%d", &n)\<close>: an optional sign, then as many digits as there are. What
  follows the digits is left unread and is not an error.
\<close>

definition sscanf_d :: "string \<Rightarrow> int option" where
  "sscanf_d s =
     (let s1 = dropWhile isSpace s;
          (sg, r) = (case s1 of
              [] \<Rightarrow> ([], [])
            | c # t \<Rightarrow> if c = CHR ''-'' \<or> c = CHR ''+'' then ([c], t) else ([], c # t))
      in signed_val (sg @ takeWhile isDigit r))"

fun show_nat :: "nat \<Rightarrow> string" where
  "show_nat n = (if n < 10 then [digit_char n] else show_nat (n div 10) @ [digit_char (n mod 10)])"

declare show_nat.simps [simp del]

definition show_int :: "int \<Rightarrow> string" where
  "show_int i = (if i < 0 then CHR ''-'' # show_nat (nat (- i)) else show_nat (nat i))"

lemma of_char_digit: "d < 10 \<Longrightarrow> of_char (digit_char d) = 48 + d"
  by (simp add: digit_char_def)

lemma digit_char_props [simp]:
  "d < 10 \<Longrightarrow> isDigit (digit_char d)" "d < 10 \<Longrightarrow> digit_val (digit_char d) = d"
  by (simp_all add: isDigit_def digit_val_def of_char_digit)

lemma digits_val_snoc [simp]: "digits_val (s @ [c]) = 10 * digits_val s + digit_val c"
  by (simp add: digits_val_def)

lemma show_nat_props: "show_nat n \<noteq> [] \<and> list_all isDigit (show_nat n) \<and> digits_val (show_nat n) = n"
proof (induction n rule: show_nat.induct)
  case (1 n)
  show ?case
  proof (cases "n < 10")
    case True
    then show ?thesis by (simp add: show_nat.simps [of n] digits_val_def)
  next
    case False
    with 1 show ?thesis by (simp add: show_nat.simps [of n])
  qed
qed

lemma show_nat_digits: "list_all isDigit (show_nat n)" "show_nat n \<noteq> []" "digits_val (show_nat n) = n"
  using show_nat_props by auto

lemma isDigit_not: "isDigit c \<Longrightarrow> c \<noteq> CHR ''-''" "isDigit c \<Longrightarrow> c \<noteq> CHR ''+''"
  "isDigit c \<Longrightarrow> c \<noteq> CHR ''.''" "isDigit c \<Longrightarrow> c \<noteq> CHR ''g''" "isDigit c \<Longrightarrow> c \<noteq> CHR ''/''"
  by (auto simp: isDigit_def)

lemma isDigit_not_space: "isDigit c \<Longrightarrow> \<not> isSpace c"
  by (auto simp: isDigit_def isSpace_def)

lemma signed_val_digits:
  assumes "list_all isDigit ds" "ds \<noteq> []"
  shows "signed_val ds = (if int64 (int (digits_val ds)) then Some (int (digits_val ds)) else None)"
  using assms by (cases ds) (auto simp: signed_val_def Let_def dest: isDigit_not)

theorem parseInt_show_nat: "int n < 2 ^ 63 \<Longrightarrow> parseInt (show_nat n) = Some (int n)"
  by (simp add: signed_val_digits show_nat_digits int64_def)

lemma parseInt_show_int: "int64 i \<Longrightarrow> parseInt (show_int i) = Some i"
proof (cases "i < 0")
  case True
  assume "int64 i"
  with True show ?thesis
    by (simp add: show_int_def signed_val_def show_nat_digits)
next
  case False
  assume "int64 i"
  with False show ?thesis
    by (simp add: show_int_def signed_val_digits show_nat_digits)
qed

lemma sscanf_d_show_nat:
  assumes "int n < 2 ^ 63" and "rest = [] \<or> \<not> isDigit (hd rest)"
  shows "sscanf_d (show_nat n @ rest) = Some (int n)"
proof -
  obtain c ds where s: "show_nat n = c # ds" "isDigit c" "list_all isDigit ds"
    using show_nat_digits [of n] by (cases "show_nat n") auto
  have tw: "takeWhile isDigit rest = []" using assms(2) by (cases rest) auto
  have "takeWhile isDigit (c # ds @ rest) = c # ds"
    using s(2,3) tw by (simp add: takeWhile_append list_all_iff)
  moreover have "\<not> isSpace c" "c \<noteq> CHR ''-''" "c \<noteq> CHR ''+''"
    using s(2) by (auto dest: isDigit_not isDigit_not_space)
  ultimately have "sscanf_d (show_nat n @ rest) = signed_val (show_nat n)"
    by (simp add: sscanf_d_def s(1) Let_def)
  with parseInt_show_nat assms(1) show ?thesis by simp
qed

lemma signed_val_int64: "signed_val s = Some v \<Longrightarrow> int64 v"
  by (auto simp: signed_val_def Let_def split: prod.splits if_splits)

lemma sscanf_d_int64: "sscanf_d s = Some v \<Longrightarrow> int64 v"
  by (auto simp: sscanf_d_def Let_def split: prod.splits dest: signed_val_int64)

section \<open>strings.NewReplacer, ReplaceAll, ToLower\<close>

text \<open>
  At each position the first pair (in argument order) whose old string matches is
  applied, and the scan goes on behind the match. Old strings are not empty in any call
  the driver makes.
\<close>

fun replacer :: "(string \<times> string) list \<Rightarrow> string \<Rightarrow> string" where
  "replacer rs [] = []"
| "replacer rs (c # s) =
     (case find (\<lambda>(old, new). hasPrefix (c # s) old) rs of
        None \<Rightarrow> c # replacer rs s
      | Some (old, new) \<Rightarrow> new @ replacer rs (drop (length old - 1) s))"

definition replaceAll :: "string \<Rightarrow> string \<Rightarrow> string \<Rightarrow> string" where
  "replaceAll s old new = replacer [(old, new)] s"

definition lower_char :: "char \<Rightarrow> char" where
  "lower_char c = (if (65 :: nat) \<le> of_char c \<and> of_char c \<le> (90 :: nat)
                   then char_of (of_char c + (32 :: nat)) else c)"

definition toLower :: "string \<Rightarrow> string" where
  "toLower s = map lower_char s"

lemma length_toLower [simp]: "length (toLower s) = length s"
  by (simp add: toLower_def)

lemma toLower_append [simp]: "toLower (a @ b) = toLower a @ toLower b"
  by (simp add: toLower_def)

lemma toLower_take_drop: "toLower (take n s) = take n (toLower s)" "toLower (drop n s) = drop n (toLower s)"
  by (simp_all add: toLower_def take_map drop_map)

section \<open>path/filepath\<close>

definition clean_step :: "bool \<Rightarrow> string list \<Rightarrow> string \<Rightarrow> string list" where
  "clean_step rooted out el =
     (if el = ''..'' then
        (case out of
           [] \<Rightarrow> if rooted then [] else [''..'']
         | t # rest \<Rightarrow> if t = ''..'' then ''..'' # out else rest)
      else el # out)"

definition clean :: "string \<Rightarrow> string" where
  "clean p =
     (if p = [] then ''.''
      else let rooted = (hd p = CHR ''/'');
               comps = filter (\<lambda>c. c \<noteq> [] \<and> c \<noteq> ''.'') (split_on (CHR ''/'') p);
               s = joinStr ''/'' (rev (foldl (clean_step rooted) [] comps))
           in if rooted then CHR ''/'' # s else if s = [] then ''.'' else s)"

definition pathJoin :: "string list \<Rightarrow> string" where
  "pathJoin es =
     (let es' = filter (\<lambda>e. e \<noteq> []) es in if es' = [] then [] else clean (joinStr ''/'' es'))"

lemma clean_ne: "clean p \<noteq> []"
  by (simp add: clean_def Let_def)

lemma pathJoin_ne: "e \<noteq> [] \<Longrightarrow> pathJoin (e # es) \<noteq> []"
  by (simp add: pathJoin_def clean_ne)

definition pathDir :: "string \<Rightarrow> string" where
  "pathDir p = (case last_index_of p ''/'' of None \<Rightarrow> clean [] | Some i \<Rightarrow> clean (take (i + 1) p))"

definition pathBase :: "string \<Rightarrow> string" where
  "pathBase p =
     (if p = [] then ''.''
      else let q = rev (dropWhile (\<lambda>c. c = CHR ''/'') (rev p))
           in if q = [] then ''/''
              else (case last_index_of q ''/'' of None \<Rightarrow> q | Some i \<Rightarrow> drop (i + 1) q))"

text \<open>An absolute path given by its components, and components that survive \<^verbatim>\<open>Clean\<close>.\<close>

definition abspath :: "string list \<Rightarrow> string" where
  "abspath cs = CHR ''/'' # joinStr ''/'' cs"

definition pathComp :: "string \<Rightarrow> bool" where
  "pathComp c = (c \<noteq> [] \<and> c \<noteq> ''.'' \<and> c \<noteq> ''..'' \<and> CHR ''/'' \<notin> set c)"

lemma pathComp_no_slash: "pathComp c \<Longrightarrow> CHR ''/'' \<notin> set c"
  by (simp add: pathComp_def)

lemma joinStr_Cons: "xs \<noteq> [] \<Longrightarrow> joinStr sep (x # xs) = x @ sep @ joinStr sep xs"
  by (cases xs) auto

lemma joinStr_append:
  "xs \<noteq> [] \<Longrightarrow> ys \<noteq> [] \<Longrightarrow> joinStr sep (xs @ ys) = joinStr sep xs @ sep @ joinStr sep ys"
proof (induction xs)
  case (Cons x xs)
  then show ?case by (cases "xs = []") (simp_all add: joinStr_Cons)
qed simp

lemma split_on_abspath:
  assumes "list_all pathComp cs" "cs \<noteq> []"
  shows "split_on (CHR ''/'') (abspath cs) = [] # cs"
proof -
  have "split_on (CHR ''/'') (joinStr ''/'' cs) = cs"
    by (rule split_on_join) (use assms in \<open>auto simp: list_all_iff dest: pathComp_no_slash\<close>)
  then show ?thesis by (simp add: abspath_def)
qed

lemma abspath_inject:
  assumes "list_all pathComp cs" "list_all pathComp ds" "cs \<noteq> []" "ds \<noteq> []"
  shows "abspath cs = abspath ds \<longleftrightarrow> cs = ds"
  by (metis assms list.inject split_on_abspath)

lemma foldl_clean_step:
  "list_all pathComp cs \<Longrightarrow> foldl (clean_step b) out cs = rev cs @ out"
  by (induction cs arbitrary: out) (auto simp: clean_step_def pathComp_def)

lemma clean_abspath:
  assumes "list_all pathComp cs" "cs \<noteq> []"
  shows "clean (abspath cs) = abspath cs"
proof -
  have "filter (\<lambda>c. c \<noteq> [] \<and> c \<noteq> ''.'') ([] # cs) = cs"
    using assms(1) by (auto simp: pathComp_def list_all_iff filter_id_conv)
  then show ?thesis
    using split_on_abspath [OF assms] assms(1)
    by (simp add: clean_def foldl_clean_step) (simp add: abspath_def)
qed

lemma pathJoin_abspath:
  assumes "list_all pathComp cs" "cs \<noteq> []" "list_all pathComp ds" "ds \<noteq> []"
  shows "pathJoin (abspath cs # ds) = abspath (cs @ ds)"
proof -
  have f: "filter (\<lambda>e. e \<noteq> []) (abspath cs # ds) = abspath cs # ds"
    using assms(3) by (auto simp: abspath_def pathComp_def list_all_iff filter_id_conv)
  have "joinStr ''/'' (abspath cs # ds) = abspath (cs @ ds)"
    using assms(2,4) by (simp add: joinStr_Cons joinStr_append abspath_def)
  then show ?thesis
    using assms by (simp only: pathJoin_def f Let_def) (simp add: clean_abspath)
qed

lemma last_index_char: "x \<notin> set c \<Longrightarrow> last_index_of (s @ x # c) [x] = Some (length s)"
proof (induction s)
  case Nil
  have "x \<notin> set c \<Longrightarrow> last_index_of c [x] = None"
    by (induction c) auto
  with Nil show ?case by simp
qed auto

lemma pathDir_abspath:
  assumes "list_all pathComp cs" "cs \<noteq> []" "pathComp c"
  shows "pathDir (abspath (cs @ [c])) = abspath cs"
proof -
  have e: "abspath (cs @ [c]) = abspath cs @ CHR ''/'' # c"
    using assms(2) by (simp add: abspath_def joinStr_append)
  have "last_index_of (abspath (cs @ [c])) ''/'' = Some (length (abspath cs))"
    using assms(3) by (simp add: e last_index_char pathComp_def)
  then have d: "pathDir (abspath (cs @ [c])) = clean (abspath cs @ ''/'')"
    by (simp add: pathDir_def e)
  have "split_on (CHR ''/'') (joinStr ''/'' cs @ ''/'') = cs @ [[]]"
  proof -
    have "joinStr ''/'' cs @ ''/'' = joinStr ''/'' (cs @ [[]])"
      using assms(2) by (simp add: joinStr_append)
    moreover have "split_on (CHR ''/'') (joinStr ''/'' (cs @ [[]])) = cs @ [[]]"
      by (rule split_on_join) (use assms(1) in \<open>auto simp: list_all_iff dest: pathComp_no_slash\<close>)
    ultimately show ?thesis by simp
  qed
  then have s: "split_on (CHR ''/'') (abspath cs @ ''/'') = [] # cs @ [[]]"
    by (simp add: abspath_def)
  have "filter (\<lambda>c. c \<noteq> [] \<and> c \<noteq> ''.'') ([] # cs @ [[]]) = cs"
    using assms(1) by (auto simp: pathComp_def list_all_iff filter_id_conv)
  then have "clean (abspath cs @ ''/'') = abspath cs"
    using s assms(1) by (simp add: clean_def foldl_clean_step) (simp add: abspath_def)
  with d show ?thesis by simp
qed

end
