(* ===== verification/Prelude.thy ===== *)
theory Prelude
  imports GoStrings "HOL-Library.State_Monad"
begin

text \<open>
  What every component shares: Go errors and gRPC statuses as values, Go maps of strings,
  and the state monad in which the stateful code is written, with a small Hoare logic
  (\<open>triple\<close>) and the combinators for Go's "call, check the error, return early" idiom.
\<close>

section \<open>Errors\<close>

text \<open>\<open>BLOCKED\<close> is not an errno: it stands for a system call that did not return within its caller's budget.\<close>

datatype errno = ENOENT | EEXIST | EIO | ENOTCONN | ESTALE | EINVAL | EINTR | ENOSPC | EBUSY | ENOTEMPTY
  | EOTHER | BLOCKED

datatype sentinel = ErrUnuploadedData | ErrRPCTimeout | K8sNotFound

text \<open>
  A Go \<^verbatim>\<open>error\<close>. \<open>Err\<close> is a plain error with its text, \<open>Errno\<close> an operating-system error,
  \<open>Sentinel\<close> a package-level error value that callers test with \<^verbatim>\<open>errors.Is\<close>,
  \<open>TimedOut\<close> the \<^verbatim>\<open>*errTimeout\<close> of the LUKS package. \<open>WrapW\<close> is \<^verbatim>\<open>fmt.Errorf\<close> with
  \<^verbatim>\<open>%w\<close>, which \<^verbatim>\<open>errors.Is\<close> looks through; \<open>WrapV\<close> is the same with \<^verbatim>\<open>%v\<close>, which keeps the
  text only. The texts are short tags for the source's format strings; no code branches on them
  except where a definition says so.
\<close>

datatype goerr =
    Err string
  | Errno errno
  | Sentinel sentinel
  | TimedOut string
  | WrapW string goerr
  | WrapV string goerr

fun errorsIs :: "goerr \<Rightarrow> sentinel \<Rightarrow> bool" where
  "errorsIs (Sentinel x) y = (x = y)"
| "errorsIs (WrapW _ e) y = errorsIs e y"
| "errorsIs _ y = False"

fun isErrno :: "goerr \<Rightarrow> errno \<Rightarrow> bool" where
  "isErrno (Errno x) y = (x = y)"
| "isErrno (WrapW _ e) y = isErrno e y"
| "isErrno _ y = False"

fun errText :: "goerr \<Rightarrow> string" where
  "errText (Err s) = s"
| "errText (Errno _) = ''errno''"
| "errText (Sentinel _) = ''sentinel''"
| "errText (TimedOut s) = s @ '' timed out''"
| "errText (WrapW s e) = s @ '': '' @ errText e"
| "errText (WrapV s e) = s @ '': '' @ errText e"

type_synonym 'a res = "goerr + 'a"

datatype code = InvalidArgument | FailedPrecondition | Internal | Aborted | Unavailable
  | Unimplemented | Canceled

text \<open>A gRPC status error, and the result of a CSI handler.\<close>

datatype status = Status code goerr

fun statusCode :: "status \<Rightarrow> code" where
  "statusCode (Status c _) = c"

type_synonym 'a rpc = "status + 'a"

section \<open>Maps of strings\<close>

type_synonym smap = "string \<rightharpoonup> string"

text \<open>Go's \<^verbatim>\<open>m[k]\<close>: the empty string when the key is absent (a nil map has no keys).\<close>

definition mget :: "smap \<Rightarrow> string \<Rightarrow> string" where
  "mget m k = (case m k of None \<Rightarrow> [] | Some v \<Rightarrow> v)"

lemma mget_simps [simp]:
  "mget (m(k \<mapsto> v)) k = v" "k \<noteq> k' \<Longrightarrow> mget (m(k' \<mapsto> v)) k = mget m k" "mget Map.empty k = []"
  by (simp_all add: mget_def)

section \<open>The state monad\<close>

abbreviation ret :: "'a \<Rightarrow> ('s, 'a) state" where
  "ret \<equiv> State_Monad.return"

abbreviation getS :: "('s, 's) state" where
  "getS \<equiv> State_Monad.get"

abbreviation putS :: "'s \<Rightarrow> ('s, unit) state" where
  "putS \<equiv> State_Monad.set"

definition modS :: "('s \<Rightarrow> 's) \<Rightarrow> ('s, unit) state" where
  "modS f = State_Monad.State (\<lambda>s. ((), f s))"

definition gets :: "('s \<Rightarrow> 'a) \<Rightarrow> ('s, 'a) state" where
  "gets f = State_Monad.State (\<lambda>s. (f s, s))"

definition whenS :: "bool \<Rightarrow> ('s, unit) state \<Rightarrow> ('s, unit) state" where
  "whenS b m = (if b then m else ret ())"

text \<open>
  \<open>callE m wrap k\<close> is the idiom \<^verbatim>\<open>x, err := m(); if err != nil { return wrap(err) }; k(x)\<close>;
  \<open>checkE\<close> is the same for a call that returns only an error (\<open>None\<close> is Go's nil).
\<close>

definition callE ::
  "('s, goerr + 'a) state \<Rightarrow> (goerr \<Rightarrow> 'e) \<Rightarrow> ('a \<Rightarrow> ('s, 'e + 'b) state) \<Rightarrow> ('s, 'e + 'b) state" where
  "callE m wrap k = do {
     r \<leftarrow> m;
     (case r of Inl e \<Rightarrow> ret (Inl (wrap e)) | Inr x \<Rightarrow> k x)
   }"

definition checkE ::
  "('s, goerr option) state \<Rightarrow> (goerr \<Rightarrow> 'e) \<Rightarrow> ('s, 'e + 'b) state \<Rightarrow> ('s, 'e + 'b) state" where
  "checkE m wrap k = do {
     r \<leftarrow> m;
     (case r of Some e \<Rightarrow> ret (Inl (wrap e)) | None \<Rightarrow> k)
   }"

text \<open>The same for functions whose own result is only an error.\<close>

definition orFail ::
  "('s, goerr option) state \<Rightarrow> (goerr \<Rightarrow> goerr) \<Rightarrow> ('s, goerr option) state \<Rightarrow> ('s, goerr option) state" where
  "orFail m wrap k = do {
     r \<leftarrow> m;
     (case r of Some e \<Rightarrow> ret (Some (wrap e)) | None \<Rightarrow> k)
   }"

lemma run_state_modS [simp]: "run_state (modS f) s = ((), f s)"
  by (simp add: modS_def)

lemma run_state_gets [simp]: "run_state (gets f) s = (f s, s)"
  by (simp add: gets_def)

lemma run_state_whenS [simp]:
  "run_state (whenS b m) s = (if b then run_state m s else ((), s))"
  by (simp add: whenS_def)

lemma run_state_if: "run_state (if b then m else n) s = (if b then run_state m s else run_state n s)"
  by simp

lemma run_callE [simp]:
  "run_state (callE m wrap k) s =
     (case run_state m s of (Inl e, s') \<Rightarrow> (Inl (wrap e), s') | (Inr x, s') \<Rightarrow> run_state (k x) s')"
  by (auto simp: callE_def split: prod.splits sum.splits)

lemma run_checkE [simp]:
  "run_state (checkE m wrap k) s =
     (case run_state m s of (Some e, s') \<Rightarrow> (Inl (wrap e), s') | (None, s') \<Rightarrow> run_state k s')"
  by (auto simp: checkE_def split: prod.splits option.splits)

lemma run_orFail [simp]:
  "run_state (orFail m wrap k) s =
     (case run_state m s of (Some e, s') \<Rightarrow> (Some (wrap e), s') | (None, s') \<Rightarrow> run_state k s')"
  by (auto simp: orFail_def split: prod.splits option.splits)

section \<open>A Hoare logic for the monad\<close>

definition triple :: "('s \<Rightarrow> bool) \<Rightarrow> ('s, 'a) state \<Rightarrow> ('a \<Rightarrow> 's \<Rightarrow> bool) \<Rightarrow> bool" where
  "triple P m Q = (\<forall>s. P s \<longrightarrow> (case run_state m s of (r, s') \<Rightarrow> Q r s'))"

lemma tripleD: "triple P m Q \<Longrightarrow> P s \<Longrightarrow> run_state m s = (r, s') \<Longrightarrow> Q r s'"
  by (auto simp: triple_def)

lemma tripleI: "(\<And>s r s'. P s \<Longrightarrow> run_state m s = (r, s') \<Longrightarrow> Q r s') \<Longrightarrow> triple P m Q"
  by (auto simp: triple_def split: prod.splits)

lemma triple_conseq:
  "triple P' m Q' \<Longrightarrow> (\<And>s. P s \<Longrightarrow> P' s) \<Longrightarrow> (\<And>r s. Q' r s \<Longrightarrow> Q r s) \<Longrightarrow> triple P m Q"
  by (fastforce simp: triple_def split: prod.splits)

lemma triple_weaken_post: "triple P m Q' \<Longrightarrow> (\<And>r s. Q' r s \<Longrightarrow> Q r s) \<Longrightarrow> triple P m Q"
  by (rule triple_conseq)

lemma triple_ret [wp]: "triple (Q x) (ret x) Q"
  by (simp add: triple_def)

lemma triple_gets [wp]: "triple (\<lambda>s. Q (f s) s) (gets f) Q"
  by (simp add: triple_def)

lemma triple_modS [wp]: "triple (\<lambda>s. Q () (f s)) (modS f) Q"
  by (simp add: triple_def)

lemma triple_bind [wp]:
  "triple P m R \<Longrightarrow> (\<And>x. triple (R x) (f x) Q) \<Longrightarrow> triple P (State_Monad.bind m f) Q"
  by (fastforce simp: triple_def split: prod.splits)

lemma triple_callE [wp]:
  assumes "triple P m (\<lambda>r s. case r of Inl e \<Rightarrow> Q (Inl (wrap e)) s | Inr x \<Rightarrow> R x s)"
    and "\<And>x. triple (R x) (k x) Q"
  shows "triple P (callE m wrap k) Q"
  using assms by (fastforce simp: triple_def split: prod.splits sum.splits)

lemma triple_checkE [wp]:
  assumes "triple P m (\<lambda>r s. case r of Some e \<Rightarrow> Q (Inl (wrap e)) s | None \<Rightarrow> R s)"
    and "triple R k Q"
  shows "triple P (checkE m wrap k) Q"
  using assms by (fastforce simp: triple_def split: prod.splits option.splits)

lemma triple_orFail [wp]:
  assumes "triple P m (\<lambda>r s. case r of Some e \<Rightarrow> Q (Some (wrap e)) s | None \<Rightarrow> R s)"
    and "triple R k Q"
  shows "triple P (orFail m wrap k) Q"
  using assms by (fastforce simp: triple_def split: prod.splits option.splits)

lemma triple_if [wp]:
  "(b \<Longrightarrow> triple P m Q) \<Longrightarrow> (\<not> b \<Longrightarrow> triple P n Q) \<Longrightarrow> triple P (if b then m else n) Q"
  by simp

text \<open>
  \<open>keeps I m\<close>: the invariant \<open>I\<close> survives \<open>m\<close>, whatever it returns. The rules below let
  an invariant proof of an operation follow the operation's text.
\<close>

definition keeps :: "('s \<Rightarrow> bool) \<Rightarrow> ('s, 'a) state \<Rightarrow> bool" where
  "keeps I m = triple I m (\<lambda>_. I)"

lemma keepsD: "keeps I m \<Longrightarrow> I s \<Longrightarrow> I (snd (run_state m s))"
  by (simp add: keeps_def triple_def case_prod_beta)

lemma keepsI: "(\<And>s. I s \<Longrightarrow> I (snd (run_state m s))) \<Longrightarrow> keeps I m"
  by (simp add: keeps_def triple_def case_prod_beta)

lemma keeps_ret [simp, intro]: "keeps I (ret x)"
  by (simp add: keepsI)

lemma keeps_gets [simp, intro]: "keeps I (gets f)"
  by (simp add: keepsI)

lemma keeps_getS [simp, intro]: "keeps I getS"
  by (simp add: keepsI)

lemma keeps_modS: "(\<And>s. I s \<Longrightarrow> I (f s)) \<Longrightarrow> keeps I (modS f)"
  by (simp add: keepsI)

lemma keeps_bind [intro]: "keeps I m \<Longrightarrow> (\<And>x. keeps I (f x)) \<Longrightarrow> keeps I (State_Monad.bind m f)"
  by (auto simp: keeps_def intro: triple_bind)

lemma keeps_whenS [intro]: "(b \<Longrightarrow> keeps I m) \<Longrightarrow> keeps I (whenS b m)"
  by (simp add: whenS_def)

lemma keeps_if [intro]: "(b \<Longrightarrow> keeps I m) \<Longrightarrow> (\<not> b \<Longrightarrow> keeps I n) \<Longrightarrow> keeps I (if b then m else n)"
  by simp

lemma keeps_case_sum [intro]:
  "(\<And>e. r = Inl e \<Longrightarrow> keeps I (f e)) \<Longrightarrow> (\<And>x. r = Inr x \<Longrightarrow> keeps I (g x)) \<Longrightarrow>
   keeps I (case r of Inl e \<Rightarrow> f e | Inr x \<Rightarrow> g x)"
  by (simp split: sum.splits)

lemma keeps_case_option [intro]:
  "(r = None \<Longrightarrow> keeps I f) \<Longrightarrow> (\<And>x. r = Some x \<Longrightarrow> keeps I (g x)) \<Longrightarrow>
   keeps I (case r of None \<Rightarrow> f | Some x \<Rightarrow> g x)"
  by (simp split: option.splits)

lemma keeps_case_prod [intro]:
  "(\<And>x y. p = (x, y) \<Longrightarrow> keeps I (f x y)) \<Longrightarrow> keeps I (case p of (x, y) \<Rightarrow> f x y)"
  by (simp split: prod.splits)

lemma keeps_callE [intro]: "keeps I m \<Longrightarrow> (\<And>x. keeps I (k x)) \<Longrightarrow> keeps I (callE m w k)"
  unfolding callE_def by blast

lemma keeps_checkE [intro]: "keeps I m \<Longrightarrow> keeps I k \<Longrightarrow> keeps I (checkE m w k)"
  unfolding checkE_def by blast

lemma keeps_orFail [intro]: "keeps I m \<Longrightarrow> keeps I k \<Longrightarrow> keeps I (orFail m w k)"
  unfolding orFail_def by blast

text \<open>
  \<open>ensures m Q\<close>: whatever the state it starts from, \<open>m\<close> ends with a result and a state that satisfy \<open>Q\<close>. The rules
  forget what happens before the last action, which is what a postcondition about the final check of an operation needs.
\<close>

definition ensures :: "('s, 'a) state \<Rightarrow> ('a \<Rightarrow> 's \<Rightarrow> bool) \<Rightarrow> bool" where
  "ensures m Q = (\<forall>s. case run_state m s of (r, s') \<Rightarrow> Q r s')"

lemma ensuresD: "ensures m Q \<Longrightarrow> run_state m s = (r, s') \<Longrightarrow> Q r s'"
  by (auto simp: ensures_def dest: spec [of _ s])

lemma ensuresI: "(\<And>s r s'. run_state m s = (r, s') \<Longrightarrow> Q r s') \<Longrightarrow> ensures m Q"
  by (auto simp: ensures_def split: prod.splits)

lemma ensures_weaken: "ensures m Q' \<Longrightarrow> (\<And>r s. Q' r s \<Longrightarrow> Q r s) \<Longrightarrow> ensures m Q"
  by (fastforce simp: ensures_def split: prod.splits)

lemma ensures_bind: "(\<And>x. ensures (f x) Q) \<Longrightarrow> ensures (State_Monad.bind m f) Q"
  by (rule ensuresI) (auto dest: ensuresD split: prod.splits)

lemma ensures_ret: "(\<And>s. Q x s) \<Longrightarrow> ensures (ret x) Q"
  by (simp add: ensures_def)

lemma ensures_checkE: "(\<And>e s. Q (Inl (w e)) s) \<Longrightarrow> ensures k Q \<Longrightarrow> ensures (checkE m w k) Q"
  by (fastforce simp: ensures_def split: prod.splits option.splits)

lemma ensures_callE: "(\<And>e s. Q (Inl (w e)) s) \<Longrightarrow> (\<And>x. ensures (k x) Q) \<Longrightarrow> ensures (callE m w k) Q"
  by (fastforce simp: ensures_def split: prod.splits sum.splits)

lemma ensures_orFail: "(\<And>e s. Q (Some (w e)) s) \<Longrightarrow> ensures k Q \<Longrightarrow> ensures (orFail m w k) Q"
  by (fastforce simp: ensures_def split: prod.splits option.splits)

lemma ensures_if: "(b \<Longrightarrow> ensures m Q) \<Longrightarrow> (\<not> b \<Longrightarrow> ensures n Q) \<Longrightarrow> ensures (if b then m else n) Q"
  by simp

lemma ensures_case_option:
  "(r = None \<Longrightarrow> ensures f Q) \<Longrightarrow> (\<And>x. r = Some x \<Longrightarrow> ensures (g x) Q) \<Longrightarrow>
   ensures (case r of None \<Rightarrow> f | Some x \<Rightarrow> g x) Q"
  by (simp split: option.splits)

lemma ensures_case_sum:
  "(\<And>e. r = Inl e \<Longrightarrow> ensures (f e) Q) \<Longrightarrow> (\<And>x. r = Inr x \<Longrightarrow> ensures (g x) Q) \<Longrightarrow>
   ensures (case r of Inl e \<Rightarrow> f e | Inr x \<Rightarrow> g x) Q"
  by (simp split: sum.splits)

lemmas ensures_rules = ensures_ret ensures_checkE ensures_callE ensures_orFail ensures_if
  ensures_case_option ensures_case_sum ensures_bind

end
