(* ===== verification/Host.thy ===== *)
theory Host
  imports Prelude
begin

text \<open>
  The world the driver runs in, none of whose code is in the repository: the kernel and its
  file system, the programs the driver executes (cryptsetup, losetup, mount, umount,
  mkfs, blkid, fallocate, \<dots>), the Kubernetes API server and librclone. It is a parameter of the model, a
  record of functions that answer each request. An answer may depend on the whole
  history of the requests made so far, so the world may change by itself between two
  requests in any way; theorems quantify over every such world unless a
  hypothesis restricts it. The history is kept in the state (\<open>hist\<close>) and is what trace
  properties are about. Logging (klog) has no effect on the behaviour and is left out.
\<close>

section \<open>Requests and answers\<close>

text \<open>An executed program: its name, its arguments and what it reads on standard input.\<close>

datatype cmd = Cmd (cmdName: string) (cmdArgs: "string list") (cmdStdin: string)

text \<open>
  Its end: success with its standard output, a failure (a program that could not be started
  or that exited with an error) with its standard output and error, or the budget of a bounded call
  running out, with the output so far.
\<close>

datatype cmdres = CmdOk string | CmdFail string string | CmdTimeout string

datatype fsop =
    MkdirAll string
  | Mkdir string
  | Remove string
  | RemoveAll string
  | Rename string string
  | WriteFile string string
  | CreateFile string
  | Truncate string int
  | Chmod string
  | BindMount string string
  | Unmount string bool \<comment> \<open>\<open>True\<close>: lazily (\<^verbatim>\<open>MNT_DETACH\<close>)\<close>
  | SetCloexec int \<comment> \<open>\<^verbatim>\<open>fcntl(fd, F_SETFD, FD_CLOEXEC)\<close>\<close>

datatype query = QCacheDir | QWalk string | QStat string | QStatfs string | QReadFile string | QReadDir string | QReadLink string
  | QReadDirRaw string int | QOpenFile string | QCloseFile string | QEvalSymlinks string | QGlob string | QNow | QSleep int
  | QLstat string | QFinished string | QDial string

datatype kquery =
    KListPVs
  | KGetPV string
  | KGetSC string
  | KGetSecret string string
  | KGetPVC string string
  | KGetPod string string
  | KListPods string
  | KListNodePods string string
  | KGetCSINode string

datatype json = JNull | JBool bool | JInt int | JStr string | JArr "json list" | JObj "(string \<times> json) list"

text \<open>
  What \<^verbatim>\<open>librclone.RPC\<close> answers within its budget: its output with the HTTP-like status, or nothing yet.
\<close>

datatype rpcreply = RpcReply string int | RpcNoAnswer

datatype event =
    Ran cmd cmdres
  | Did fsop "errno option"
  | Asked query
  | Kube kquery
  | DeletedPod string string bool "goerr option" \<comment> \<open>namespace, name, grace period 0\<close>
  | RpcCalled string json rpcreply
  | Emitted string string \<comment> \<open>event reason, object\<close>
  | KilledPid int bool

type_synonym hist = "event list"

record finfo =
  fi_size :: int
  fi_isdir :: bool
  fi_dev :: string

record fsstat =
  fs_bavail :: int
  fs_bsize :: int
  fs_blocks :: int

text \<open>
  The calls \<^verbatim>\<open>filepath.WalkDir\<close> makes to its callback, in its order: a directory, a file with its size and
  modification time, or an entry that could not be read.
\<close>

datatype walkItem = WDir string | WFile string int int | WErr string errno

section \<open>Kubernetes objects\<close>

text \<open>The fields of the API objects that the driver reads.\<close>

record csi_source =
  csi_driver :: string
  csi_handle :: string
  csi_attributes :: "smap option" \<comment> \<open>\<open>None\<close> is a nil map\<close>

record pv =
  pv_name :: string
  pv_csi :: "csi_source option"
  pv_storageClass :: string
  pv_claimRef :: "(string \<times> string) option" \<comment> \<open>namespace, name\<close>
  pv_annotations :: smap

record pvc =
  pvc_volumeName :: string
  pvc_annotations :: smap

datatype propagation = PropNone | HostToContainer | Bidirectional

datatype phase = Pending | Running | Succeeded | Failed

record vmount =
  vm_name :: string
  vm_propagation :: "propagation option"

record pod =
  pod_namespace :: string
  pod_name :: string
  pod_uid :: string
  pod_phase :: phase
  pod_deletion :: "int option" \<comment> \<open>seconds since the epoch\<close>
  pod_grace :: "int option"
  pod_hasController :: bool
  pod_restartNever :: bool
  pod_fsGroup :: "int option"
  pod_volumes :: "(string \<times> string option) list" \<comment> \<open>volume name, claim name\<close>
  pod_containers :: "vmount list list"
  pod_initContainers :: "vmount list list"

text \<open>A field of a decoded JSON object, and the views a type assertion gives of a value.\<close>

fun jfield :: "json \<Rightarrow> string \<Rightarrow> json option" where
  "jfield (JObj kvs) k = map_of kvs k"
| "jfield _ k = None"

fun jstr :: "json option \<Rightarrow> string option" where
  "jstr (Some (JStr s)) = Some s"
| "jstr _ = None"

fun jarr :: "json option \<Rightarrow> json list option" where
  "jarr (Some (JArr xs)) = Some xs"
| "jarr _ = None"

fun jint :: "json option \<Rightarrow> int option" where
  "jint (Some (JInt i)) = Some i"
| "jint _ = None"

fun jisobj :: "json option \<Rightarrow> bool" where
  "jisobj (Some (JObj _)) = True"
| "jisobj _ = False"

section \<open>The environment\<close>

record env =
  exec :: "hist \<Rightarrow> cmd \<Rightarrow> cmdres"
  fsDo :: "hist \<Rightarrow> fsop \<Rightarrow> errno option"
  stat :: "hist \<Rightarrow> string \<Rightarrow> errno + finfo"
  statfs :: "hist \<Rightarrow> string \<Rightarrow> errno + fsstat"
  readFile :: "hist \<Rightarrow> string \<Rightarrow> errno + string"
  readDir :: "hist \<Rightarrow> string \<Rightarrow> errno + (string \<times> bool) list" \<comment> \<open>name, is a directory\<close>
  openDir :: "hist \<Rightarrow> string \<Rightarrow> errno option" \<comment> \<open>opening a directory to list it\<close>
  dirents :: "hist \<Rightarrow> string \<Rightarrow> (errno + string) list"
    \<comment> \<open>the answers of the following \<^verbatim>\<open>getdents64\<close> calls, until it has no more entries\<close>
  behindBuffer :: "hist \<Rightarrow> nat \<Rightarrow> char" \<comment> \<open>the memory behind the buffer they fill\<close>
  openFile :: "hist \<Rightarrow> string \<Rightarrow> errno option"
  closeFile :: "hist \<Rightarrow> string \<Rightarrow> errno option"
  readLink :: "hist \<Rightarrow> string \<Rightarrow> errno + string"
  evalSymlinks :: "hist \<Rightarrow> string \<Rightarrow> errno + string"
  glob :: "hist \<Rightarrow> string \<Rightarrow> string list" \<comment> \<open>\<^verbatim>\<open>filepath.Glob\<close> of a well-formed pattern, which ignores I/O errors\<close>
  mountLate :: "hist \<Rightarrow> (int \<times> string option) option"
    \<comment> \<open>a mount-table read that outlived its budget: when it returned and what, once it has\<close>
  walk :: "hist \<Rightarrow> string \<Rightarrow> walkItem list" \<comment> \<open>\<^verbatim>\<open>filepath.WalkDir\<close>\<close>
  marshal :: "json \<Rightarrow> string" \<comment> \<open>\<^verbatim>\<open>encoding/json\<close>\<close>
  fmtAny :: "json \<Rightarrow> string" \<comment> \<open>\<^verbatim>\<open>fmt.Sprintf("%v", \<dots>)\<close>\<close>
  setCacheDir :: "hist \<Rightarrow> string \<Rightarrow> goerr option" \<comment> \<open>rclone's \<^verbatim>\<open>config.SetCacheDir\<close>\<close>
  getCacheDir :: "hist \<Rightarrow> string" \<comment> \<open>rclone's \<^verbatim>\<open>config.GetCacheDir\<close>\<close>
  getenv :: "string \<Rightarrow> string"
  now :: "hist \<Rightarrow> int" \<comment> \<open>nanoseconds since the epoch\<close>
  unmarshal :: "string \<Rightarrow> json option" \<comment> \<open>\<^verbatim>\<open>encoding/json\<close>\<close>
  hasClient :: bool \<comment> \<open>the Kubernetes clientset is not nil\<close>
  listPVs :: "hist \<Rightarrow> goerr + pv list"
  getPV :: "hist \<Rightarrow> string \<Rightarrow> goerr + pv"
  getSC :: "hist \<Rightarrow> string \<Rightarrow> goerr + smap"
  getSecret :: "hist \<Rightarrow> string \<Rightarrow> string \<Rightarrow> goerr + smap"
  getPVC :: "hist \<Rightarrow> string \<Rightarrow> string \<Rightarrow> goerr + pvc"
  getPod :: "hist \<Rightarrow> string \<Rightarrow> string \<Rightarrow> goerr + pod"
  listPods :: "hist \<Rightarrow> string \<Rightarrow> goerr + pod list"
  listNodePods :: "hist \<Rightarrow> string \<Rightarrow> string \<Rightarrow> goerr + pod list"
  csiNodeDrivers :: "hist \<Rightarrow> string \<Rightarrow> goerr + string list"
  podDelete :: "hist \<Rightarrow> string \<Rightarrow> string \<Rightarrow> bool \<Rightarrow> goerr option"
  librclone :: "hist \<Rightarrow> string \<Rightarrow> json \<Rightarrow> rpcreply"
  killPid :: "hist \<Rightarrow> int \<Rightarrow> bool"
  lstat :: "hist \<Rightarrow> string \<Rightarrow> errno option" \<comment> \<open>\<^verbatim>\<open>os.Lstat\<close>, of which only the error is used\<close>
  finished :: "hist \<Rightarrow> string \<Rightarrow> bool" \<comment> \<open>whether the goroutine of this label has returned by now\<close>
  psiStalled :: "string \<Rightarrow> bool option" \<comment> \<open>\<^verbatim>\<open>strconv.ParseFloat\<close>, and whether the number is at least 40\<close>
  parseURL :: "string \<Rightarrow> (string \<times> string) option" \<comment> \<open>\<^verbatim>\<open>url.Parse\<close>: host and path\<close>
  mapOrder :: "hist \<Rightarrow> string set \<Rightarrow> string list" \<comment> \<open>the order in which Go's \<^verbatim>\<open>range\<close> visits the keys of a map\<close>
  dialUnix :: "hist \<Rightarrow> string \<Rightarrow> bool" \<comment> \<open>\<^verbatim>\<open>net.DialTimeout\<close> on a unix socket succeeded\<close>

text \<open>The part of the state every stateful operation has: the history.\<close>

record os =
  hist :: hist

text \<open>\<open>askS\<close> makes one request: it computes the answer from the history and records the event.\<close>

definition askS :: "(hist \<Rightarrow> 'a) \<Rightarrow> ('a \<Rightarrow> event) \<Rightarrow> ('s os_scheme, 'a) state" where
  "askS answer ev = State_Monad.State (\<lambda>s.
     let a = answer (hist s) in (a, s\<lparr>hist := hist s @ [ev a]\<rparr>))"

lemma run_askS [simp]:
  "run_state (askS answer ev) s = (answer (hist s), s\<lparr>hist := hist s @ [ev (answer (hist s))]\<rparr>)"
  by (simp add: askS_def Let_def)

definition run :: "env \<Rightarrow> cmd \<Rightarrow> ('s os_scheme, cmdres) state" where
  "run env c = askS (\<lambda>h. exec env h c) (Ran c)"

definition fsCall :: "env \<Rightarrow> fsop \<Rightarrow> ('s os_scheme, errno option) state" where
  "fsCall env f = askS (\<lambda>h. fsDo env h f) (Did f)"

definition osStat :: "env \<Rightarrow> string \<Rightarrow> ('s os_scheme, errno + finfo) state" where
  "osStat env p = askS (\<lambda>h. stat env h p) (\<lambda>_. Asked (QStat p))"

definition osStatfs :: "env \<Rightarrow> string \<Rightarrow> ('s os_scheme, errno + fsstat) state" where
  "osStatfs env p = askS (\<lambda>h. statfs env h p) (\<lambda>_. Asked (QStatfs p))"

definition osReadFile :: "env \<Rightarrow> string \<Rightarrow> ('s os_scheme, errno + string) state" where
  "osReadFile env p = askS (\<lambda>h. readFile env h p) (\<lambda>_. Asked (QReadFile p))"

definition osReadDir :: "env \<Rightarrow> string \<Rightarrow> ('s os_scheme, errno + (string \<times> bool) list) state" where
  "osReadDir env p = askS (\<lambda>h. readDir env h p) (\<lambda>_. Asked (QReadDir p))"

definition osReadLink :: "env \<Rightarrow> string \<Rightarrow> ('s os_scheme, errno + string) state" where
  "osReadLink env p = askS (\<lambda>h. readLink env h p) (\<lambda>_. Asked (QReadLink p))"

definition osEvalSymlinks :: "env \<Rightarrow> string \<Rightarrow> ('s os_scheme, errno + string) state" where
  "osEvalSymlinks env p = askS (\<lambda>h. evalSymlinks env h p) (\<lambda>_. Asked (QEvalSymlinks p))"

definition osGlob :: "env \<Rightarrow> string \<Rightarrow> ('s os_scheme, string list) state" where
  "osGlob env p = askS (\<lambda>h. glob env h p) (\<lambda>_. Asked (QGlob p))"

definition osLstat :: "env \<Rightarrow> string \<Rightarrow> ('s os_scheme, errno option) state" where
  "osLstat env p = askS (\<lambda>h. lstat env h p) (\<lambda>_. Asked (QLstat p))"

text \<open>Whether a goroutine started earlier has returned by now.\<close>

definition hasFinished :: "env \<Rightarrow> string \<Rightarrow> ('s os_scheme, bool) state" where
  "hasFinished env label = askS (\<lambda>h. finished env h label) (\<lambda>_. Asked (QFinished label))"

definition dial :: "env \<Rightarrow> string \<Rightarrow> ('s os_scheme, bool) state" where
  "dial env addr = askS (\<lambda>h. dialUnix env h addr) (\<lambda>_. Asked (QDial addr))"

definition walkDir :: "env \<Rightarrow> string \<Rightarrow> ('s os_scheme, walkItem list) state" where
  "walkDir env p = askS (\<lambda>h. walk env h p) (\<lambda>_. Asked (QWalk p))"

definition timeNow :: "env \<Rightarrow> ('s os_scheme, int) state" where
  "timeNow env = askS (now env) (\<lambda>_. Asked QNow)"

definition sleep :: "env \<Rightarrow> int \<Rightarrow> ('s os_scheme, unit) state" where
  "sleep env d = askS (\<lambda>_. ()) (\<lambda>_. Asked (QSleep d))"

definition emit :: "string \<Rightarrow> string \<Rightarrow> ('s os_scheme, unit) state" where
  "emit reason obj = askS (\<lambda>_. ()) (\<lambda>_. Emitted reason obj)"

definition kube :: "(hist \<Rightarrow> 'a) \<Rightarrow> kquery \<Rightarrow> ('s os_scheme, 'a) state" where
  "kube f q = askS f (\<lambda>_. Kube q)"

lemmas host_ops = run_def fsCall_def osStat_def osStatfs_def osReadFile_def osReadDir_def walkDir_def
  osReadLink_def osEvalSymlinks_def osGlob_def osLstat_def hasFinished_def dial_def
  timeNow_def sleep_def emit_def kube_def

lemma run_host [simp]:
  "run_state (run env c) s = (exec env (hist s) c, s\<lparr>hist := hist s @ [Ran c (exec env (hist s) c)]\<rparr>)"
  "run_state (fsCall env f) s = (fsDo env (hist s) f, s\<lparr>hist := hist s @ [Did f (fsDo env (hist s) f)]\<rparr>)"
  "run_state (osStat env p) s = (stat env (hist s) p, s\<lparr>hist := hist s @ [Asked (QStat p)]\<rparr>)"
  "run_state (osStatfs env p) s = (statfs env (hist s) p, s\<lparr>hist := hist s @ [Asked (QStatfs p)]\<rparr>)"
  "run_state (osReadFile env p) s = (readFile env (hist s) p, s\<lparr>hist := hist s @ [Asked (QReadFile p)]\<rparr>)"
  "run_state (osReadDir env p) s = (readDir env (hist s) p, s\<lparr>hist := hist s @ [Asked (QReadDir p)]\<rparr>)"
  "run_state (osReadLink env p) s = (readLink env (hist s) p, s\<lparr>hist := hist s @ [Asked (QReadLink p)]\<rparr>)"
  "run_state (osEvalSymlinks env p) s = (evalSymlinks env (hist s) p, s\<lparr>hist := hist s @ [Asked (QEvalSymlinks p)]\<rparr>)"
  "run_state (osGlob env p) s = (glob env (hist s) p, s\<lparr>hist := hist s @ [Asked (QGlob p)]\<rparr>)"
  "run_state (osLstat env p) s = (lstat env (hist s) p, s\<lparr>hist := hist s @ [Asked (QLstat p)]\<rparr>)"
  "run_state (hasFinished env p) s = (finished env (hist s) p, s\<lparr>hist := hist s @ [Asked (QFinished p)]\<rparr>)"
  "run_state (dial env p) s = (dialUnix env (hist s) p, s\<lparr>hist := hist s @ [Asked (QDial p)]\<rparr>)"
  "run_state (walkDir env p) s = (walk env (hist s) p, s\<lparr>hist := hist s @ [Asked (QWalk p)]\<rparr>)"
  "run_state (timeNow env) s = (now env (hist s), s\<lparr>hist := hist s @ [Asked QNow]\<rparr>)"
  "run_state (sleep env d) s = ((), s\<lparr>hist := hist s @ [Asked (QSleep d)]\<rparr>)"
  "run_state (emit reason obj) s = ((), s\<lparr>hist := hist s @ [Emitted reason obj]\<rparr>)"
  "run_state (kube g q) s = (g (hist s), s\<lparr>hist := hist s @ [Kube q]\<rparr>)"
  by (simp_all add: host_ops)

text \<open>Go durations in nanoseconds.\<close>

definition seconds :: "int \<Rightarrow> int" where
  "seconds n = n * 1000000000"

definition minutes :: "int \<Rightarrow> int" where
  "minutes n = seconds (60 * n)"

text \<open>A failed file-system call as a Go error, and the outcome of a command as one.\<close>

definition fsErr :: "errno option \<Rightarrow> goerr option" where
  "fsErr r = map_option Errno r"

definition cmdErr :: "cmdres \<Rightarrow> goerr option" where
  "cmdErr r = (case r of
       CmdOk _ \<Rightarrow> None
     | CmdFail _ err \<Rightarrow> Some (WrapV err (Err ''exit status''))
     | CmdTimeout _ \<Rightarrow> Some (Err ''timed out''))"

definition cmdOut :: "cmdres \<Rightarrow> string" where
  "cmdOut r = (case r of CmdOk out \<Rightarrow> out | CmdFail out _ \<Rightarrow> out | CmdTimeout out \<Rightarrow> out)"

lemma cmdErr_simps [simp]:
  "cmdErr (CmdOk out) = None" "cmdErr (CmdFail out err) = Some (WrapV err (Err ''exit status''))"
  "cmdErr (CmdTimeout out) = Some (Err ''timed out'')"
  by (simp_all add: cmdErr_def)

lemma cmdErr_None [simp]: "cmdErr r = None \<longleftrightarrow> (\<exists>out. r = CmdOk out)"
  by (auto simp: cmdErr_def split: cmdres.splits)

text \<open>
  A quiet environment: every command succeeds without output, no file, object or secret exists, and the clock
  stands still. The witnesses start from it and set the answers they need.
\<close>

definition quietEnv :: env where
  "quietEnv = \<lparr>exec = (\<lambda>_ _. CmdOk []), fsDo = (\<lambda>_ _. None), stat = (\<lambda>_ _. Inl ENOENT),
     statfs = (\<lambda>_ _. Inl ENOENT), readFile = (\<lambda>_ _. Inl ENOENT), readDir = (\<lambda>_ _. Inl ENOENT),
     openDir = (\<lambda>_ _. Some ENOENT), dirents = (\<lambda>_ _. []), behindBuffer = (\<lambda>_ _. CHR 0x00),
     openFile = (\<lambda>_ _. Some ENOENT), closeFile = (\<lambda>_ _. None), readLink = (\<lambda>_ _. Inl ENOENT),
     evalSymlinks = (\<lambda>_ _. Inl ENOENT), glob = (\<lambda>_ _. []),
     mountLate = (\<lambda>_. None), walk = (\<lambda>_ p. [WErr p ENOENT]),
     marshal = (\<lambda>_. []), fmtAny = (\<lambda>_. []),
     setCacheDir = (\<lambda>_ _. None), getCacheDir = (\<lambda>_. []), getenv = (\<lambda>_. []), now = (\<lambda>_. 0), unmarshal = (\<lambda>s. if s = ''{}'' then Some (JObj []) else None), hasClient = True,
     listPVs = (\<lambda>_. Inr []), getPV = (\<lambda>_ _. Inl (Sentinel K8sNotFound)),
     getSC = (\<lambda>_ _. Inl (Sentinel K8sNotFound)), getSecret = (\<lambda>_ _ _. Inl (Sentinel K8sNotFound)),
     getPVC = (\<lambda>_ _ _. Inl (Sentinel K8sNotFound)), getPod = (\<lambda>_ _ _. Inl (Sentinel K8sNotFound)),
     listPods = (\<lambda>_ _. Inr []), listNodePods = (\<lambda>_ _ _. Inr []), csiNodeDrivers = (\<lambda>_ _. Inr []),
     podDelete = (\<lambda>_ _ _ _. None), librclone = (\<lambda>_ _ _. RpcReply ''{}'' 200),
     killPid = (\<lambda>_ _. True), lstat = (\<lambda>_ _. Some ENOENT), finished = (\<lambda>_ _. True), psiStalled = (\<lambda>_. None),
     parseURL = (\<lambda>_. None), mapOrder = (\<lambda>_. sorted_list_of_set), dialUnix = (\<lambda>_ _. False)\<rparr>"

section \<open>Traces\<close>

text \<open>The commands of a history that ran, and those that succeeded.\<close>

definition ranCmds :: "hist \<Rightarrow> cmd list" where
  "ranCmds h = List.map_filter (\<lambda>e. case e of Ran c _ \<Rightarrow> Some c | _ \<Rightarrow> None) h"

definition doneOps :: "hist \<Rightarrow> fsop list" where
  "doneOps h = List.map_filter (\<lambda>e. case e of Did f _ \<Rightarrow> Some f | _ \<Rightarrow> None) h"

lemma ranCmds_simps [simp]:
  "ranCmds [] = []" "ranCmds (h @ h') = ranCmds h @ ranCmds h'"
  "ranCmds (Ran c r # h) = c # ranCmds h" "ranCmds (Did f x # h) = ranCmds h"
  "ranCmds (Asked q # h) = ranCmds h" "ranCmds (Kube k # h) = ranCmds h"
  "ranCmds (DeletedPod a b g e # h) = ranCmds h" "ranCmds (RpcCalled m p y # h) = ranCmds h"
  "ranCmds (Emitted a b # h) = ranCmds h" "ranCmds (KilledPid i b' # h) = ranCmds h"
  by (simp_all add: ranCmds_def List.map_filter_def)

lemma doneOps_simps [simp]:
  "doneOps [] = []" "doneOps (h @ h') = doneOps h @ doneOps h'"
  "doneOps (Ran c r # h) = doneOps h" "doneOps (Did f x # h) = f # doneOps h"
  "doneOps (Asked q # h) = doneOps h" "doneOps (Kube k # h) = doneOps h"
  "doneOps (DeletedPod a b g e # h) = doneOps h" "doneOps (RpcCalled m p y # h) = doneOps h"
  "doneOps (Emitted a b # h) = doneOps h" "doneOps (KilledPid i b' # h) = doneOps h"
  by (simp_all add: doneOps_def List.map_filter_def)

text \<open>
  \<open>emits m P\<close>: the operation only appends to the history, and every event it appends satisfies \<open>P\<close>. What a
  continuation may assume about the result of the first operation is that some run produced it.
\<close>

definition emits :: "('s os_scheme, 'a) state \<Rightarrow> (event \<Rightarrow> bool) \<Rightarrow> bool" where
  "emits m P = (\<forall>s. \<exists>t. hist (snd (run_state m s)) = hist s @ t \<and> list_all P t)"

lemma emitsD: "emits m P \<Longrightarrow> run_state m s = (r, s') \<Longrightarrow> \<exists>t. hist s' = hist s @ t \<and> list_all P t"
  by (metis emits_def snd_conv)

lemma emits_weaken: "emits m P \<Longrightarrow> (\<And>e. P e \<Longrightarrow> Q e) \<Longrightarrow> emits m Q"
  unfolding emits_def by (metis (no_types, lifting) list.pred_mono_strong)

lemma emits_ret: "emits (ret x) P"
  by (simp add: emits_def)

lemma emits_gets: "emits (gets f) P"
  by (simp add: emits_def)

lemma emits_modS: "(\<And>s. hist (f s) = hist s) \<Longrightarrow> emits (modS f) P"
  by (simp add: emits_def)

lemma emits_askS: "(\<And>h. P (ev (answer h))) \<Longrightarrow> emits (askS answer ev) P"
  by (auto simp: emits_def)

lemma emits_bind:
  assumes "emits m P" "\<And>s x s'. run_state m s = (x, s') \<Longrightarrow> emits (f x) P"
  shows "emits (State_Monad.bind m f) P"
  unfolding emits_def
proof
  fix s
  obtain x s1 where r: "run_state m s = (x, s1)" by fastforce
  obtain y s2 where r2: "run_state (f x) s1 = (y, s2)" by fastforce
  from emitsD [OF assms(1) r] emitsD [OF assms(2) [OF r] r2] r r2
  show "\<exists>t. hist (snd (run_state (State_Monad.bind m f) s)) = hist s @ t \<and> list_all P t" by auto
qed

lemma emits_if: "(b \<Longrightarrow> emits m P) \<Longrightarrow> (\<not> b \<Longrightarrow> emits n P) \<Longrightarrow> emits (if b then m else n) P"
  by simp

lemma emits_whenS: "(b \<Longrightarrow> emits m P) \<Longrightarrow> emits (whenS b m) P"
  by (simp add: whenS_def emits_ret)

lemma emits_case_option:
  "(r = None \<Longrightarrow> emits f P) \<Longrightarrow> (\<And>x. r = Some x \<Longrightarrow> emits (g x) P) \<Longrightarrow> emits (case r of None \<Rightarrow> f | Some x \<Rightarrow> g x) P"
  by (simp split: option.splits)

lemma emits_case_sum:
  "(\<And>e. r = Inl e \<Longrightarrow> emits (f e) P) \<Longrightarrow> (\<And>x. r = Inr x \<Longrightarrow> emits (g x) P) \<Longrightarrow>
   emits (case r of Inl e \<Rightarrow> f e | Inr x \<Rightarrow> g x) P"
  by (simp split: sum.splits)

lemma emits_case_prod:
  "(\<And>x y. p = (x, y) \<Longrightarrow> emits (f x y) P) \<Longrightarrow> emits (case p of (x, y) \<Rightarrow> f x y) P"
  by (simp split: prod.splits)

lemma emits_callE: "emits m P \<Longrightarrow> (\<And>x. emits (k x) P) \<Longrightarrow> emits (callE m w k) P"
  unfolding callE_def by (intro emits_bind emits_case_sum emits_ret)

lemma emits_checkE: "emits m P \<Longrightarrow> emits k P \<Longrightarrow> emits (checkE m w k) P"
  unfolding checkE_def by (intro emits_bind emits_case_option emits_ret)

lemma emits_orFail: "emits m P \<Longrightarrow> emits k P \<Longrightarrow> emits (orFail m w k) P"
  unfolding orFail_def by (intro emits_bind emits_case_option emits_ret)

lemma emits_host:
  "(\<And>r. P (Ran c r)) \<Longrightarrow> emits (run env c) P" "(\<And>r. P (Did f r)) \<Longrightarrow> emits (fsCall env f) P"
  "P (Asked (QStat p)) \<Longrightarrow> emits (osStat env p) P" "P (Asked (QStatfs p)) \<Longrightarrow> emits (osStatfs env p) P"
  "P (Asked (QReadFile p)) \<Longrightarrow> emits (osReadFile env p) P" "P (Asked (QReadDir p)) \<Longrightarrow> emits (osReadDir env p) P"
  "P (Asked (QReadLink p)) \<Longrightarrow> emits (osReadLink env p) P" "P (Asked (QEvalSymlinks p)) \<Longrightarrow> emits (osEvalSymlinks env p) P"
  "P (Asked (QGlob p)) \<Longrightarrow> emits (osGlob env p) P" "P (Asked (QLstat p)) \<Longrightarrow> emits (osLstat env p) P"
  "P (Asked (QFinished p)) \<Longrightarrow> emits (hasFinished env p) P" "P (Asked (QDial p)) \<Longrightarrow> emits (dial env p) P"
  "P (Asked (QWalk p)) \<Longrightarrow> emits (walkDir env p) P" "P (Asked QNow) \<Longrightarrow> emits (timeNow env) P"
  "P (Asked (QSleep d)) \<Longrightarrow> emits (sleep env d) P" "P (Emitted a b) \<Longrightarrow> emits (emit a b) P"
  "P (Kube q) \<Longrightarrow> emits (kube g q) P"
  by (simp_all add: host_ops emits_askS)

lemmas emits_kube = emits_host(17)

named_theorems emits_rules \<open>what operations and the combinators of the monad emit\<close>

lemmas [emits_rules] = emits_ret emits_gets emits_host emits_if emits_whenS emits_case_option emits_case_sum
  emits_case_prod emits_callE emits_checkE emits_orFail emits_bind

text \<open>Events that only look.\<close>

fun looks :: "event \<Rightarrow> bool" where
  "looks (Asked _) = True"
| "looks (Kube _) = True"
| "looks _ = False"

end
