(* ===== verification/HostMounts.thy ===== *)
theory HostMounts
  imports Host
begin

text \<open>
  The host mount table (\<^verbatim>\<open>pkg/rclone/mounts.go\<close>): parsing \<^verbatim>\<open>/proc/1/mountinfo\<close>, and the cached,
  single-flight, never-blocking reader every mount query goes through. The package variables
  guarded by \<^verbatim>\<open>mountsMu\<close> are the fields of the state \<open>mnt\<close>. The goroutine that reads the
  table may outlive its caller's budget; its completion is the answer \<^const>\<open>mountLate\<close> of the environment,
  taken in at the next query, which is the first moment the code can observe it.
\<close>

section \<open>Parsing\<close>

record HostMount =
  mt_Dev :: string
  mt_FSType :: string

type_synonym stacks = "string \<rightharpoonup> HostMount list"

definition unescapeMountField :: "string \<Rightarrow> string" where
  "unescapeMountField s =
     (if \<not> containsStr s [CHR 0x5C] then s
      else replacer [(CHR 0x5C # ''040'', '' ''), (CHR 0x5C # ''011'', [CHR 0x09]),
                     (CHR 0x5C # ''012'', [CHR 0x0A]), (CHR 0x5C # ''134'', [CHR 0x5C])] s)"

text \<open>The inner loop: the field after the first \<^verbatim>\<open>-\<close> at index 5 or later, if there is one.\<close>

fun afterDash :: "string list \<Rightarrow> string option" where
  "afterDash (f # g # fs) = (if f = ''-'' then Some g else afterDash (g # fs))"
| "afterDash _ = None"

definition mountLine :: "string \<Rightarrow> (string \<times> HostMount) option" where
  "mountLine line =
     (let fs = strFields line
      in if length fs < 5 then None
         else map_option (\<lambda>t. (unescapeMountField (fs ! 4), \<lparr>mt_Dev = fs ! 2, mt_FSType = t\<rparr>))
                (afterDash (drop 5 fs)))"

definition stackOf :: "stacks \<Rightarrow> string \<Rightarrow> HostMount list" where
  "stackOf st p = (case st p of None \<Rightarrow> [] | Some ms \<Rightarrow> ms)"

definition addMount :: "stacks \<Rightarrow> string \<Rightarrow> stacks" where
  "addMount out line = (case mountLine line of
       None \<Rightarrow> out
     | Some (p, m) \<Rightarrow> out(p \<mapsto> stackOf out p @ [m]))"

definition parseMountStacks :: "string \<Rightarrow> stacks" where
  "parseMountStacks data = foldl addMount Map.empty (split_on (CHR 0x0A) data)"

definition flattenMountStacks :: "stacks \<Rightarrow> (string \<rightharpoonup> string)" where
  "flattenMountStacks st = (\<lambda>p. map_option (\<lambda>ms. mt_FSType (last ms)) (st p))"

definition parseMountInfo :: "string \<Rightarrow> (string \<rightharpoonup> string)" where
  "parseMountInfo data = flattenMountStacks (parseMountStacks data)"

section \<open>The cached reader\<close>

definition hostMountInfo :: string where
  "hostMountInfo = ''/proc/1/mountinfo''"

definition selfMountInfo :: string where
  "selfMountInfo = ''/proc/self/mountinfo''"

definition mountsCacheTTL :: int where
  "mountsCacheTTL = seconds 5"

definition mountsMaxStale :: int where
  "mountsMaxStale = seconds 90"

text \<open>
  \<open>mountsReadAt\<close> is \<open>None\<close> for the zero time. \<open>mountsTakenAt\<close> is a history variable that no code
  reads: when the cached table was really read.
\<close>

record mnt = os +
  mountsStacks :: "stacks option"
  mountsFlat :: "string \<rightharpoonup> string"
  mountsReadAt :: "int option"
  mountsInFlight :: bool
  mountsBlockedAt :: int
  mountsTakenAt :: int

datatype 'a outcome = Done 'a | Blocked

definition readHostMounts :: "env \<Rightarrow> ('s os_scheme, stacks option outcome) state" where
  "readHostMounts env = do {
     r \<leftarrow> osReadFile env hostMountInfo;
     (case r of
        Inr d \<Rightarrow> ret (Done (Some (parseMountStacks d)))
      | Inl e \<Rightarrow>
          if e = BLOCKED then ret Blocked
          else do {
            r' \<leftarrow> osReadFile env selfMountInfo;
            ret (case r' of
                   Inr d \<Rightarrow> Done (Some (parseMountStacks d))
                 | Inl e' \<Rightarrow> if e' = BLOCKED then Blocked else Done None)
          })
   }"

text \<open>What the reading goroutine does under the lock when the read has returned.\<close>

definition finishRead :: "int \<Rightarrow> stacks option \<Rightarrow> 's mnt_scheme \<Rightarrow> 's mnt_scheme" where
  "finishRead t m s = (case m of
       None \<Rightarrow> s\<lparr>mountsInFlight := False\<rparr>
     | Some st \<Rightarrow> s\<lparr>mountsStacks := Some st, mountsFlat := flattenMountStacks st,
                   mountsReadAt := Some t, mountsTakenAt := t, mountsInFlight := False\<rparr>)"

definition lateRead :: "env \<Rightarrow> ('s mnt_scheme, unit) state" where
  "lateRead env = modS (\<lambda>s.
     if mountsInFlight s then
       (case mountLate env (hist s) of
          None \<Rightarrow> s
        | Some (t, d) \<Rightarrow> finishRead t (map_option parseMountStacks d) s)
     else s)"

definition youngerThan :: "int \<Rightarrow> int \<Rightarrow> 's mnt_scheme \<Rightarrow> bool" where
  "youngerThan age n s = (case mountsReadAt s of None \<Rightarrow> False | Some t \<Rightarrow> n - t < age)"

text \<open>The pair \<^verbatim>\<open>(table, ok)\<close> is an option: the code returns a table exactly when \<^verbatim>\<open>ok\<close>.\<close>

definition cachedMountsLocked :: "env \<Rightarrow> ('s mnt_scheme, stacks option) state" where
  "cachedMountsLocked env = do {
     m \<leftarrow> gets mountsStacks;
     if m = None then ret None
     else do {
       n \<leftarrow> timeNow env;
       young \<leftarrow> gets (youngerThan mountsMaxStale n);
       ret (if young then m else None)
     }
   }"

definition hostMountStacksOK :: "env \<Rightarrow> ('s mnt_scheme, stacks option) state" where
  "hostMountStacksOK env = do {
     lateRead env;
     n \<leftarrow> timeNow env;
     m \<leftarrow> gets mountsStacks;
     young \<leftarrow> gets (youngerThan mountsCacheTTL n);
     if m \<noteq> None \<and> young then ret m
     else do {
       busy \<leftarrow> gets mountsInFlight;
       if busy then cachedMountsLocked env
       else do {
         modS (\<lambda>s. s\<lparr>mountsInFlight := True, mountsBlockedAt := n\<rparr>);
         r \<leftarrow> readHostMounts env;
         (case r of
            Done m' \<Rightarrow> do {
              t \<leftarrow> timeNow env;
              modS (finishRead t m');
              ret m'
            }
          | Blocked \<Rightarrow> cachedMountsLocked env)
       }
     }
   }"

definition HostMountsOK :: "env \<Rightarrow> ('s mnt_scheme, (string \<rightharpoonup> string) option) state" where
  "HostMountsOK env = do {
     r \<leftarrow> hostMountStacksOK env;
     (case r of None \<Rightarrow> ret None | Some _ \<Rightarrow> do { f \<leftarrow> gets mountsFlat; ret (Some f) })
   }"

definition HostMountStacksOK :: "env \<Rightarrow> ('s mnt_scheme, stacks option) state" where
  "HostMountStacksOK env = hostMountStacksOK env"

text \<open>\<^verbatim>\<open>HostMounts\<close> returns a nil map, which has no keys, when the table is unknown.\<close>

definition HostMounts :: "env \<Rightarrow> ('s mnt_scheme, string \<rightharpoonup> string) state" where
  "HostMounts env = do {
     r \<leftarrow> HostMountsOK env;
     ret (case r of None \<Rightarrow> Map.empty | Some f \<Rightarrow> f)
   }"

definition HostMountDepth :: "env \<Rightarrow> string \<Rightarrow> ('s mnt_scheme, nat option) state" where
  "HostMountDepth env path = do {
     r \<leftarrow> hostMountStacksOK env;
     ret (map_option (\<lambda>st. length (stackOf st path)) r)
   }"

definition InvalidateHostMounts :: "env \<Rightarrow> ('s mnt_scheme, unit) state" where
  "InvalidateHostMounts env = do {
     r \<leftarrow> gets mountsReadAt;
     if r = None then ret ()
     else do {
       n \<leftarrow> timeNow env;
       modS (\<lambda>s. s\<lparr>mountsReadAt := Some (n - mountsCacheTTL)\<rparr>)
     }
   }"

definition IsHostMountPoint :: "env \<Rightarrow> string \<Rightarrow> ('s mnt_scheme, bool) state" where
  "IsHostMountPoint env path = do {
     m \<leftarrow> HostMounts env;
     ret (m path \<noteq> None)
   }"

text \<open>\<^verbatim>\<open>(isFUSE, known)\<close>: \<open>None\<close> is \<^verbatim>\<open>(false, false)\<close>.\<close>

definition HostFUSEMountState :: "env \<Rightarrow> string \<Rightarrow> ('s mnt_scheme, bool option) state" where
  "HostFUSEMountState env path = do {
     r \<leftarrow> HostMountsOK env;
     ret (map_option (\<lambda>m. case m path of None \<Rightarrow> False | Some t \<Rightarrow> containsStr t ''fuse'') r)
   }"

definition IsHostFUSEMount :: "env \<Rightarrow> string \<Rightarrow> ('s mnt_scheme, bool) state" where
  "IsHostFUSEMount env path = do {
     r \<leftarrow> HostFUSEMountState env path;
     ret (r = Some True)
   }"

definition HostMountsKnown :: "env \<Rightarrow> ('s mnt_scheme, bool) state" where
  "HostMountsKnown env = do {
     r \<leftarrow> HostMountsOK env;
     ret (r \<noteq> None)
   }"

section \<open>Parsing what the kernel prints\<close>

text \<open>
  The kernel's side of the format (\<^verbatim>\<open>fs/proc_namespace.c\<close>): one line per mount, fields separated by
  single spaces, with space, tab, newline and backslash octal-escaped in paths.
\<close>

definition kescape_char :: "char \<Rightarrow> string" where
  "kescape_char c =
     (if c = CHR '' '' then CHR 0x5C # ''040'' else if c = CHR 0x09 then CHR 0x5C # ''011''
      else if c = CHR 0x0A then CHR 0x5C # ''012'' else if c = CHR 0x5C then CHR 0x5C # ''134'' else [c])"

definition kescape :: "string \<Rightarrow> string" where
  "kescape s = concat (map kescape_char s)"

record mentry =
  me_head :: "string \<times> string" \<comment> \<open>mount ID and parent ID\<close>
  me_dev :: string
  me_root :: string
  me_point :: string \<comment> \<open>the mount point, unescaped\<close>
  me_opts :: "string list" \<comment> \<open>mount options and optional fields\<close>
  me_fstype :: string
  me_tail :: "string list" \<comment> \<open>source and super options\<close>

definition mentryWords :: "mentry \<Rightarrow> string list" where
  "mentryWords e = [fst (me_head e), snd (me_head e), me_dev e, me_root e, kescape (me_point e)] @ me_opts e @
     [''-'', me_fstype e] @ me_tail e"

definition mentryLine :: "mentry \<Rightarrow> string" where
  "mentryLine e = joinStr '' '' (mentryWords e)"

definition kernelTable :: "mentry list \<Rightarrow> string" where
  "kernelTable es = concat (map (\<lambda>e. mentryLine e @ [CHR 0x0A]) es)"

definition mentryOk :: "mentry \<Rightarrow> bool" where
  "mentryOk e = (list_all noSpace ([fst (me_head e), snd (me_head e), me_dev e, me_root e, me_fstype e] @ me_opts e @ me_tail e)
     \<and> ''-'' \<notin> set (me_opts e) \<and> me_point e \<noteq> []
     \<and> list_all (\<lambda>c. c \<notin> {CHR 0x0B, CHR 0x0C, CHR 0x0D}) (me_point e))"

definition mentryMount :: "mentry \<Rightarrow> HostMount" where
  "mentryMount e = \<lparr>mt_Dev = me_dev e, mt_FSType = me_fstype e\<rparr>"

lemma replacer_kescape:
  "replacer [(CHR 0x5C # ''040'', '' ''), (CHR 0x5C # ''011'', [CHR 0x09]),
             (CHR 0x5C # ''012'', [CHR 0x0A]), (CHR 0x5C # ''134'', [CHR 0x5C])] (kescape s) = s"
  by (induction s) (auto simp: kescape_def kescape_char_def)

lemma kescape_plain: "CHR 0x5C \<notin> set (kescape s) \<Longrightarrow> kescape s = s"
  by (induction s) (auto simp: kescape_def kescape_char_def split: if_splits)

lemma containsStr_char: "containsStr s [c] \<longleftrightarrow> c \<in> set s"
  by (auto simp: containsStr_iff in_set_conv_decomp)

lemma unescape_kescape: "unescapeMountField (kescape s) = s"
  by (auto simp: unescapeMountField_def containsStr_char replacer_kescape dest: kescape_plain)

lemma kescape_noSpace:
  "s \<noteq> [] \<Longrightarrow> list_all (\<lambda>c. c \<notin> {CHR 0x0B, CHR 0x0C, CHR 0x0D}) s \<Longrightarrow> noSpace (kescape s)"
proof -
  have "list_all (\<lambda>c. c \<notin> {CHR 0x0B, CHR 0x0C, CHR 0x0D}) s \<Longrightarrow> list_all (\<lambda>c. \<not> isSpace c) (kescape s)"
    by (induction s) (auto simp: kescape_def kescape_char_def isSpace_def)
  moreover have "s \<noteq> [] \<Longrightarrow> kescape s \<noteq> []"
    by (cases s) (simp_all add: kescape_def kescape_char_def)
  ultimately show "s \<noteq> [] \<Longrightarrow> list_all (\<lambda>c. c \<notin> {CHR 0x0B, CHR 0x0C, CHR 0x0D}) s \<Longrightarrow> noSpace (kescape s)"
    by (simp add: noSpace_def)
qed

lemma mentryWords_noSpace: "mentryOk e \<Longrightarrow> w \<in> set (mentryWords e) \<Longrightarrow> noSpace w"
proof -
  assume ok: "mentryOk e" and w: "w \<in> set (mentryWords e)"
  have "noSpace ''-''" by (simp add: noSpace_def isSpace_def)
  moreover have "noSpace (kescape (me_point e))"
    using ok by (intro kescape_noSpace) (simp_all add: mentryOk_def)
  moreover have "list_all noSpace ([fst (me_head e), snd (me_head e), me_dev e, me_root e, me_fstype e] @ me_opts e @ me_tail e)"
    using ok by (simp only: mentryOk_def)
  ultimately have "list_all noSpace (mentryWords e)" by (simp add: mentryWords_def)
  with w show ?thesis by (simp add: list_all_iff)
qed

lemma afterDash_skip: "''-'' \<notin> set xs \<Longrightarrow> afterDash (xs @ ''-'' # t # ys) = Some t"
proof (induction xs)
  case (Cons x xs)
  then show ?case by (cases xs) auto
qed simp

lemma mountLine_mentry:
  assumes "mentryOk e"
  shows "mountLine (mentryLine e) = Some (me_point e, mentryMount e)"
proof -
  have f: "strFields (mentryLine e) = mentryWords e"
    unfolding mentryLine_def by (rule strFields_join) (rule mentryWords_noSpace [OF assms])
  have "afterDash (me_opts e @ ''-'' # me_fstype e # me_tail e) = Some (me_fstype e)"
    using assms by (intro afterDash_skip) (simp add: mentryOk_def)
  then show ?thesis
    by (simp add: mountLine_def f Let_def mentryWords_def unescape_kescape mentryMount_def)
qed

lemma mentryLine_no_newline: "mentryOk e \<Longrightarrow> CHR 0x0A \<notin> set (mentryLine e)"
proof -
  have *: "(\<And>w. w \<in> set ws \<Longrightarrow> noSpace w) \<Longrightarrow> CHR 0x0A \<notin> set (joinStr '' '' ws)" for ws
    by (induction ws rule: induct_list012) (auto simp: noSpace_def isSpace_def list_all_iff)
  assume "mentryOk e"
  then show ?thesis unfolding mentryLine_def by (intro * mentryWords_noSpace)
qed

lemma split_kernelTable:
  "list_all mentryOk es \<Longrightarrow> split_on (CHR 0x0A) (kernelTable es) = map mentryLine es @ [[]]"
  by (induction es) (simp_all add: kernelTable_def split_on_append mentryLine_no_newline)

text \<open>The mounts of a list of lines at a path.\<close>

definition mountsAt :: "string list \<Rightarrow> string \<Rightarrow> HostMount list" where
  "mountsAt ls p = map snd (filter (\<lambda>x. fst x = p) (List.map_filter mountLine ls))"

lemma mountsAt_Cons:
  "mountsAt (l # ls) p =
     (case mountLine l of None \<Rightarrow> [] | Some (q, m) \<Rightarrow> if q = p then [m] else []) @ mountsAt ls p"
  by (auto simp: mountsAt_def List.map_filter_def split: option.splits)

lemma foldl_addMount:
  "foldl addMount st ls p = (if mountsAt ls p = [] then st p else Some (stackOf st p @ mountsAt ls p))"
proof (induction ls arbitrary: st)
  case Nil
  then show ?case by (simp add: mountsAt_def List.map_filter_def)
next
  case (Cons l ls)
  then show ?case
    by (auto simp: mountsAt_Cons addMount_def stackOf_def split: option.splits prod.splits)
qed

lemma parseMountStacks_lines:
  "parseMountStacks data p =
     (let ms = mountsAt (split_on (CHR 0x0A) data) p in if ms = [] then None else Some ms)"
  by (simp add: parseMountStacks_def foldl_addMount stackOf_def Let_def)

lemma parseMountStacks_nonempty: "parseMountStacks data p \<noteq> Some []"
  by (simp add: parseMountStacks_lines Let_def)

lemma mountsAt_mentries:
  "list_all mentryOk es \<Longrightarrow>
     mountsAt (map mentryLine es @ [[]]) p = map mentryMount (filter (\<lambda>e. me_point e = p) es)"
proof (induction es)
  case Nil
  then show ?case by (simp add: mountsAt_def List.map_filter_def mountLine_def strFields_def)
next
  case (Cons e es)
  then show ?case by (simp add: mountsAt_Cons mountLine_mentry)
qed

text \<open>
  C30: Parsing is the inverse of what the kernel prints: for every mount table, the stack parsed for a path is
  exactly the mounts the kernel has at that path, in the kernel's order with the topmost last, whatever octal
  escapes the mount point needs; a path without mounts has no entry. Stacked mounts never collapse, and
  the flattened view shows the topmost one.
\<close>

theorem parseMountStacks_kernel:
  assumes "list_all mentryOk es"
  shows "parseMountStacks (kernelTable es) p =
           (let ms = map mentryMount (filter (\<lambda>e. me_point e = p) es) in if ms = [] then None else Some ms)
       \<and> parseMountInfo (kernelTable es) p =
           (let ts = map me_fstype (filter (\<lambda>e. me_point e = p) es) in if ts = [] then None else Some (last ts))"
  using assms
  by (simp add: parseMountStacks_lines split_kernelTable mountsAt_mentries parseMountInfo_def
      flattenMountStacks_def Let_def last_map mentryMount_def)

theorem parseMountStacks_kernel_witness:
  "let e = \<lparr>me_head = (''36'', ''35''), me_dev = ''0:51'', me_root = ''/'', me_point = ''/a b'',
            me_opts = [''rw'', ''shared:1''], me_fstype = ''fuse.rclone'', me_tail = [''r:'', ''rw'']\<rparr>
   in list_all mentryOk [e, e\<lparr>me_dev := ''0:52''\<rparr>] \<and>
      parseMountStacks (kernelTable [e, e\<lparr>me_dev := ''0:52''\<rparr>]) ''/a b''
        = Some [\<lparr>mt_Dev = ''0:51'', mt_FSType = ''fuse.rclone''\<rparr>, \<lparr>mt_Dev = ''0:52'', mt_FSType = ''fuse.rclone''\<rparr>]"
proof -
  let ?e = "\<lparr>me_head = (''36'', ''35''), me_dev = ''0:51'', me_root = ''/'', me_point = ''/a b'',
            me_opts = [''rw'', ''shared:1''], me_fstype = ''fuse.rclone'', me_tail = [''r:'', ''rw'']\<rparr>"
  have ok: "list_all mentryOk [?e, ?e\<lparr>me_dev := ''0:52''\<rparr>]"
    by (simp add: mentryOk_def noSpace_def isSpace_def)
  from parseMountStacks_kernel [OF ok, of "''/a b''"] show ?thesis
    using ok by (simp add: Let_def mentryMount_def)
qed

section \<open>The cached table\<close>

definition initMnt :: mnt where
  "initMnt = \<lparr>hist = [], mountsStacks = None, mountsFlat = Map.empty, mountsReadAt = None,
     mountsInFlight = False, mountsBlockedAt = 0, mountsTakenAt = 0\<rparr>"

text \<open>The two views of the table agree, and no path has an empty stack.\<close>

definition mountsCoherent :: "'s mnt_scheme \<Rightarrow> bool" where
  "mountsCoherent s = (case mountsStacks s of
       None \<Rightarrow> mountsFlat s = Map.empty \<and> mountsReadAt s = None
     | Some st \<Rightarrow> mountsFlat s = flattenMountStacks st \<and> mountsReadAt s \<noteq> None \<and> (\<forall>p. st p \<noteq> Some []))"

text \<open>The recorded read time is the real one (which an invalidation would change).\<close>

definition readAtTrue :: "'s mnt_scheme \<Rightarrow> bool" where
  "readAtTrue s = (mountsReadAt s = None \<or> mountsReadAt s = Some (mountsTakenAt s))"

lemma mountsCoherent_hist [simp]: "mountsCoherent (s\<lparr>hist := h\<rparr>) = mountsCoherent s"
  "mountsCoherent (s\<lparr>mountsInFlight := b, mountsBlockedAt := n\<rparr>) = mountsCoherent s"
  by (simp_all add: mountsCoherent_def split: option.splits)

lemma readAtTrue_hist [simp]: "readAtTrue (s\<lparr>hist := h\<rparr>) = readAtTrue s"
  "readAtTrue (s\<lparr>mountsInFlight := b, mountsBlockedAt := n\<rparr>) = readAtTrue s"
  by (simp_all add: readAtTrue_def)

lemma youngerThan_upd [simp]: "youngerThan a n (s\<lparr>hist := h\<rparr>) = youngerThan a n s"
  "youngerThan a n (s\<lparr>mountsInFlight := b, mountsBlockedAt := k\<rparr>) = youngerThan a n s"
  by (simp_all add: youngerThan_def)

lemma finishRead_coherent:
  "mountsCoherent s \<Longrightarrow> (\<And>st p. m = Some st \<Longrightarrow> st p \<noteq> Some []) \<Longrightarrow> mountsCoherent (finishRead t m s)"
  by (auto simp: mountsCoherent_def finishRead_def split: option.splits)

lemma finishRead_readAtTrue: "readAtTrue s \<Longrightarrow> readAtTrue (finishRead t m s)"
  by (auto simp: readAtTrue_def finishRead_def split: option.splits)

lemma finishRead_hist [simp]: "hist (finishRead t m s) = hist s"
  by (simp add: finishRead_def split: option.splits)

lemma run_lateRead_inv:
  "hist (snd (run_state (lateRead env) s)) = hist s"
  "mountsCoherent s \<Longrightarrow> mountsCoherent (snd (run_state (lateRead env) s))"
  "readAtTrue s \<Longrightarrow> readAtTrue (snd (run_state (lateRead env) s))"
  by (auto simp: lateRead_def parseMountStacks_nonempty intro!: finishRead_coherent finishRead_readAtTrue
      split: option.splits)

text \<open>
  \<open>served env s' st\<close>: the state \<open>s'\<close> just after a query that answered with the trusted table \<open>st\<close>. The query's
  last action was to look at the clock.
\<close>

definition served :: "env \<Rightarrow> 's mnt_scheme \<Rightarrow> stacks \<Rightarrow> bool" where
  "served env s' st = (mountsStacks s' = Some st \<and>
     (\<exists>h t. hist s' = h @ [Asked QNow] \<and> mountsReadAt s' = Some t \<and> now env h - t < mountsMaxStale))"

lemma cachedMountsLocked_result:
  assumes "run_state (cachedMountsLocked env) s = (r, s')"
  shows "(\<exists>h. s' = s\<lparr>hist := h\<rparr>) \<and> (r = Some st \<longrightarrow> served env s' st)"
proof (cases "mountsStacks s")
  case None
  with assms have "r = None" "s' = s" by (auto simp: cachedMountsLocked_def)
  moreover have "s = s\<lparr>hist := hist s\<rparr>" by simp
  ultimately show ?thesis by blast
next
  case (Some a)
  with assms show ?thesis
    by (auto simp: cachedMountsLocked_def served_def youngerThan_def split: if_splits option.splits)
qed

lemma readHostMounts_result:
  assumes "run_state (readHostMounts env) s = (r, s')"
  shows "(\<exists>h. s' = s\<lparr>hist := h\<rparr>) \<and> (\<forall>st p. r = Done (Some st) \<longrightarrow> st p \<noteq> Some [])"
  using assms
  by (auto simp: readHostMounts_def parseMountStacks_nonempty split: sum.splits if_splits)

text \<open>A read of the table, when no other is in flight.\<close>

lemma startedRead_result:
  assumes "run_state (do { q \<leftarrow> readHostMounts env;
      (case q of Done m' \<Rightarrow> do { t \<leftarrow> timeNow env; modS (finishRead t m'); ret m' } | Blocked \<Rightarrow> cachedMountsLocked env) }) s = (r, s')"
    and "mountsCoherent s"
  shows "mountsCoherent s' \<and> (readAtTrue s \<longrightarrow> readAtTrue s') \<and> (r = Some st \<longrightarrow> served env s' st)"
proof -
  obtain q s1 where q: "run_state (readHostMounts env) s = (q, s1)" by fastforce
  from readHostMounts_result [OF q] obtain h where s1: "s1 = s\<lparr>hist := h\<rparr>"
    and ne: "\<And>st p. q = Done (Some st) \<Longrightarrow> st p \<noteq> Some []" by blast
  show ?thesis
  proof (cases q)
    case (Done m')
    with assms(1) q have s': "s' = finishRead (now env h) m' (s1\<lparr>hist := h @ [Asked QNow]\<rparr>)" "r = m'"
      by (auto simp: s1)
    have "mountsCoherent s'" unfolding s'
      by (rule finishRead_coherent) (use assms(2) ne Done in \<open>auto simp: s1\<close>)
    moreover have "readAtTrue s \<longrightarrow> readAtTrue s'" unfolding s' by (auto intro!: finishRead_readAtTrue simp: s1)
    moreover have "r = Some st \<longrightarrow> served env s' st" using s'
      by (auto simp: served_def finishRead_def mountsMaxStale_def seconds_def)
    ultimately show ?thesis by blast
  next
    case Blocked
    with assms(1) q have "run_state (cachedMountsLocked env) s1 = (r, s')" by simp
    from cachedMountsLocked_result [OF this, of st] assms(2) show ?thesis by (auto simp: s1)
  qed
qed

lemma hostMountStacksOK_result:
  assumes r: "run_state (hostMountStacksOK env) s = (r, s')" and c: "mountsCoherent s"
  shows "mountsCoherent s'" and "readAtTrue s \<Longrightarrow> readAtTrue s'" and "r = Some st \<Longrightarrow> served env s' st"
proof -
  define s1 where "s1 = snd (run_state (lateRead env) s)"
  define n where "n = now env (hist s1)"
  define s2 where "s2 = s1\<lparr>hist := hist s1 @ [Asked QNow]\<rparr>"
  have c2: "mountsCoherent s2" and t2: "readAtTrue s \<Longrightarrow> readAtTrue s2"
    using run_lateRead_inv [where s = s and env = env] c by (simp_all add: s2_def s1_def)
  have l: "run_state (lateRead env) s = ((), s1)" by (simp add: s1_def prod_eq_iff)
  consider (fresh) "mountsStacks s2 \<noteq> None" "youngerThan mountsCacheTTL n s2" "r = mountsStacks s2" "s' = s2"
    | (busy) "run_state (cachedMountsLocked env) s2 = (r, s')"
    | (read) "run_state (do { q \<leftarrow> readHostMounts env;
         (case q of Done m' \<Rightarrow> do { t \<leftarrow> timeNow env; modS (finishRead t m'); ret m' }
          | Blocked \<Rightarrow> cachedMountsLocked env)}) (s2\<lparr>mountsInFlight := True, mountsBlockedAt := n\<rparr>) = (r, s')"
    using r by (auto simp: hostMountStacksOK_def l s2_def n_def split: if_splits)
  then have "mountsCoherent s' \<and> (readAtTrue s \<longrightarrow> readAtTrue s') \<and> (r = Some st \<longrightarrow> served env s' st)"
  proof cases
    case fresh
    have "n - t < mountsMaxStale" if "n - t < mountsCacheTTL" for t
      using that by (simp add: mountsMaxStale_def mountsCacheTTL_def seconds_def)
    with fresh c2 t2 show ?thesis
      by (auto simp: served_def youngerThan_def s2_def n_def split: option.splits)
  next
    case busy
    from cachedMountsLocked_result [OF this, of st] c2 t2 show ?thesis by auto
  next
    case read
    from startedRead_result [OF this, of st] c2 t2 show ?thesis by simp
  qed
  then show "mountsCoherent s'" "readAtTrue s \<Longrightarrow> readAtTrue s'" "r = Some st \<Longrightarrow> served env s' st" by auto
qed

text \<open>The other queries are views of the same table.\<close>

lemma HostMountDepth_result:
  assumes "run_state (HostMountDepth env p) s = (Some d, s')" "mountsCoherent s"
  shows "\<exists>st. mountsStacks s' = Some st \<and> d = length (stackOf st p) \<and> mountsCoherent s'"
  using assms hostMountStacksOK_result [of env s _ s']
  by (fastforce simp: HostMountDepth_def served_def split: prod.splits option.splits)

lemma depth_zero_iff: "mountsCoherent s \<Longrightarrow> mountsStacks s = Some st \<Longrightarrow> stackOf st p = [] \<longleftrightarrow> mountsFlat s p = None"
  by (auto simp: mountsCoherent_def stackOf_def flattenMountStacks_def split: option.splits)

text \<open>
  Anything the rest of the driver does between two queries appends events to the history and leaves the
  table alone; only \<^verbatim>\<open>InvalidateHostMounts\<close> changes it otherwise.
\<close>

datatype mountAct = Query | Elsewhere event | Invalidate

fun doAct :: "env \<Rightarrow> mountAct \<Rightarrow> 's mnt_scheme \<Rightarrow> 's mnt_scheme" where
  "doAct env Query s = snd (run_state (hostMountStacksOK env) s)"
| "doAct env (Elsewhere e) s = s\<lparr>hist := hist s @ [e]\<rparr>"
| "doAct env Invalidate s = snd (run_state (InvalidateHostMounts env) s)"

lemma InvalidateHostMounts_coherent: "mountsCoherent s \<Longrightarrow> mountsCoherent (snd (run_state (InvalidateHostMounts env) s))"
  by (auto simp: InvalidateHostMounts_def mountsCoherent_def split: option.splits)

lemma doAct_coherent: "mountsCoherent s \<Longrightarrow> mountsCoherent (doAct env a s)"
  by (cases a) (auto intro: hostMountStacksOK_result(1) [OF surjective_pairing] InvalidateHostMounts_coherent)

lemma doAct_readAtTrue:
  "a \<noteq> Invalidate \<Longrightarrow> mountsCoherent s \<Longrightarrow> readAtTrue s \<Longrightarrow> readAtTrue (doAct env a s)"
  by (cases a) (auto intro: hostMountStacksOK_result(2) [OF surjective_pairing])

lemma acts_invariant:
  "mountsCoherent s \<Longrightarrow> mountsCoherent (fold (doAct env) acts s)"
  "Invalidate \<notin> set acts \<Longrightarrow> mountsCoherent s \<Longrightarrow> readAtTrue s \<Longrightarrow> readAtTrue (fold (doAct env) acts s)"
  by (induction acts arbitrary: s) (auto simp: doAct_coherent doAct_readAtTrue)

lemma initMnt_inv: "mountsCoherent initMnt" "readAtTrue initMnt"
  by (simp_all add: initMnt_def mountsCoherent_def readAtTrue_def)



section \<open>Invalidation renews a stale table\<close>

text \<open>
  \<open>wedgedEnv\<close>: the clock advances 20 seconds with every event, the mount table can be read once, and every
  later read blocks for good.
\<close>

definition wedgedEnv :: env where
  "wedgedEnv = quietEnv\<lparr>now := \<lambda>h. seconds 20 * int (length h),
     readFile := \<lambda>h _. if length h < 3 then Inr [] else Inl BLOCKED\<rparr>"

lemma wedgedEnv_simps [simp]:
  "now wedgedEnv h = seconds 20 * int (length h)" "mountLate wedgedEnv h = None"
  "readFile wedgedEnv h p = (if length h < 3 then Inr [] else Inl BLOCKED)"
  by (simp_all add: wedgedEnv_def quietEnv_def)

definition wedgedState :: "nat \<Rightarrow> mnt \<Rightarrow> bool" where
  "wedgedState n s = (mountsStacks s = Some Map.empty \<and> mountsInFlight s \<and> mountsTakenAt s = seconds 40 \<and>
     mountsReadAt s \<noteq> None \<and> length (hist s) = n)"

lemma parseMountStacks_Nil: "parseMountStacks [] = Map.empty"
  by (simp add: parseMountStacks_def addMount_def mountLine_def strFields_def)

lemma wedged_start: "wedgedState 6 (fold (doAct wedgedEnv) [Query, Query] initMnt)"
  by (simp add: wedgedState_def hostMountStacksOK_def lateRead_def initMnt_def readHostMounts_def parseMountStacks_Nil
      finishRead_def youngerThan_def mountsCacheTTL_def mountsMaxStale_def cachedMountsLocked_def seconds_def)

lemma wedged_round:
  assumes "wedgedState n s"
  shows "wedgedState (n + 3) (fold (doAct wedgedEnv) [Invalidate, Query] s)"
    and "fst (run_state (hostMountStacksOK wedgedEnv) (doAct wedgedEnv Invalidate s)) = Some Map.empty"
  using assms
  by (auto simp: wedgedState_def hostMountStacksOK_def lateRead_def InvalidateHostMounts_def
      youngerThan_def mountsCacheTTL_def mountsMaxStale_def cachedMountsLocked_def seconds_def)

lemma wedged_rounds:
  "wedgedState n s \<Longrightarrow> wedgedState (n + 3 * k) (fold (doAct wedgedEnv) (concat (replicate k [Invalidate, Query])) s)"
proof (induction k arbitrary: n s)
  case (Suc k)
  from Suc.IH [OF wedged_round(1) [OF Suc.prems]] show ?case by (simp add: add.assoc)
qed simp

text \<open>
  \<^verbatim>\<open>InvalidateHostMounts\<close> sets the read time to five seconds ago even when the table is older than that, so it
  renews a stale table: with a reader that stays wedged and a driver that keeps invalidating the cache, a table of any
  age is served as trustworthy, and the 90-second bound is void.
\<close>

theorem InvalidateHostMounts_renews_stale_table:
  "\<exists>env acts st. Invalidate \<in> set acts \<and>
     (case run_state (hostMountStacksOK env) (fold (doAct env) acts initMnt) of (r, s') \<Rightarrow>
        r = Some st \<and> age < now env (hist s') - mountsTakenAt s')"
proof -
  let ?k = "nat age"
  let ?acts = "[Query, Query] @ concat (replicate ?k [Invalidate, Query]) @ [Invalidate]"
  define s where "s = fold (doAct wedgedEnv) ([Query, Query] @ concat (replicate ?k [Invalidate, Query])) initMnt"
  have w: "wedgedState (6 + 3 * ?k) s"
    using wedged_rounds [OF wedged_start, of ?k] by (simp add: s_def)
  have s: "fold (doAct wedgedEnv) ?acts initMnt = doAct wedgedEnv Invalidate s" by (simp add: s_def)
  obtain r s' where r: "run_state (hostMountStacksOK wedgedEnv) (doAct wedgedEnv Invalidate s) = (r, s')"
    by fastforce
  have "r = Some Map.empty" using wedged_round(2) [OF w] r by simp
  moreover have "wedgedState (6 + 3 * ?k + 3) s'" using wedged_round(1) [OF w] r by simp
  then have "age < now wedgedEnv (hist s') - mountsTakenAt s'" by (simp add: wedgedState_def seconds_def)
  ultimately show ?thesis
    by (intro exI [of _ wedgedEnv] exI [of _ ?acts] exI [of _ "Map.empty :: stacks"]) (simp only: s r, simp)
qed

section \<open>Queries only look\<close>

lemma lateRead_emits: "emits (lateRead env) P"
  unfolding lateRead_def by (rule emits_modS) (simp split: option.splits)

lemma cachedMountsLocked_emits: "emits (cachedMountsLocked env) looks"
  unfolding cachedMountsLocked_def by (intro emits_rules) auto

lemma readHostMounts_emits: "emits (readHostMounts env) looks"
  unfolding readHostMounts_def by (intro emits_rules) auto

lemma hostMountStacksOK_emits: "emits (hostMountStacksOK env) looks"
proof -
  have fin: "emits (do { t \<leftarrow> timeNow env; modS (finishRead t m); ret m }) looks" for m
    by (intro emits_rules emits_modS) auto
  have cont: "emits (case r of Done m' \<Rightarrow> do { t \<leftarrow> timeNow env; modS (finishRead t m'); ret m' }
      | Blocked \<Rightarrow> cachedMountsLocked env) looks" for r
    by (cases r) (simp_all add: fin cachedMountsLocked_emits)
  show ?thesis
    unfolding hostMountStacksOK_def
    by (intro emits_bind emits_if emits_ret emits_gets lateRead_emits cont cachedMountsLocked_emits readHostMounts_emits
        emits_modS emits_host) auto
qed

lemma HostMountDepth_emits: "emits (HostMountDepth env p) looks"
  unfolding HostMountDepth_def by (intro emits_bind emits_ret hostMountStacksOK_emits)

lemma HostMountsOK_emits: "emits (HostMountsOK env) looks"
  unfolding HostMountsOK_def by (intro emits_rules hostMountStacksOK_emits)

lemma InvalidateHostMounts_emits: "emits (InvalidateHostMounts env) looks"
  unfolding InvalidateHostMounts_def by (intro emits_rules emits_modS) auto

lemma mount_queries_emit:
  "emits (HostMounts env) looks" "emits (IsHostMountPoint env p) looks" "emits (HostFUSEMountState env p) looks"
  "emits (IsHostFUSEMount env p) looks" "emits (HostMountsKnown env) looks"
  unfolding HostMounts_def IsHostMountPoint_def HostFUSEMountState_def IsHostFUSEMount_def HostMountsKnown_def
  by (intro emits_bind emits_ret HostMountsOK_emits)+

lemma looks_ranCmds: "list_all looks t \<Longrightarrow> ranCmds t = []"
  by (induction t rule: list.induct) (auto simp: ranCmds_def List.map_filter_def elim: looks.elims)

lemma looks_doneOps: "list_all looks t \<Longrightarrow> doneOps t = []"
  by (induction t rule: list.induct) (auto simp: doneOps_def List.map_filter_def elim: looks.elims)

end
