(* ===== verification/Luks.thy ===== *)
theory Luks
  imports Host
begin

text \<open>
  The LUKS manager (\<^verbatim>\<open>pkg/luks/luks.go\<close>): cryptsetup run with a hard timeout and one retry,
  and the idempotent format, open, close and resize operations over it. The lemmas give the
  exact commands each operation issues on every branch.
\<close>

section \<open>Running cryptsetup\<close>

text \<open>\<^verbatim>\<open>runBounded\<close>: a budget that runs out is the error \<^verbatim>\<open>*errTimeout\<close>, any other failure is not.\<close>

definition runBounded :: "env \<Rightarrow> string \<Rightarrow> string \<Rightarrow> string list \<Rightarrow> ('s os_scheme, goerr option) state" where
  "runBounded env stdin name args = do {
     r \<leftarrow> run env (Cmd name args stdin);
     ret (case r of
            CmdOk _ \<Rightarrow> None
          | CmdFail _ err \<Rightarrow> Some (if err \<noteq> [] then WrapV (trimSpace err) (Err ''exit status'') else Err ''exit status'')
          | CmdTimeout _ \<Rightarrow> Some (TimedOut name))
   }"

fun isTimeout :: "goerr \<Rightarrow> bool" where
  "isTimeout (TimedOut _) = True"
| "isTimeout _ = False"

abbreviation CryptsetupCmd :: string where
  "CryptsetupCmd \<equiv> ''cryptsetup''"

definition runCryptsetup :: "env \<Rightarrow> string \<Rightarrow> string list \<Rightarrow> ('s os_scheme, goerr option) state" where
  "runCryptsetup env stdin args = do {
     err \<leftarrow> runBounded env stdin CryptsetupCmd args;
     (case err of
        None \<Rightarrow> ret None
      | Some e \<Rightarrow>
          if \<not> isTimeout e then ret (Some e)
          else do {
            _ \<leftarrow> runBounded env [] ''dmsetup'' [''udevcomplete_all'', ''-y''];
            runBounded env stdin CryptsetupCmd args
          })
   }"

section \<open>Names and queries\<close>

definition GenerateMapperName :: "string \<Rightarrow> string" where
  "GenerateMapperName volumeID = ''luks-'' @ volumeID"

definition GetMappedDevicePath :: "string \<Rightarrow> string" where
  "GetMappedDevicePath mapperName = pathJoin [''/dev/mapper'', mapperName]"

definition IsLUKSDevice :: "env \<Rightarrow> string \<Rightarrow> ('s os_scheme, bool) state" where
  "IsLUKSDevice env devicePath = do {
     err \<leftarrow> runBounded env [] CryptsetupCmd [''isLuks'', devicePath];
     ret (err = None)
   }"

definition IsLUKSOpened :: "env \<Rightarrow> string \<Rightarrow> ('s os_scheme, bool) state" where
  "IsLUKSOpened env mapperName = do {
     r \<leftarrow> osStat env (pathJoin [''/dev/mapper'', mapperName]);
     ret (case r of Inl _ \<Rightarrow> False | Inr _ \<Rightarrow> True)
   }"

section \<open>Operations\<close>

definition OpenLUKS :: "env \<Rightarrow> string \<Rightarrow> string \<Rightarrow> string \<Rightarrow> ('s os_scheme, goerr option) state" where
  "OpenLUKS env devicePath mapperName passphrase = do {
     opened \<leftarrow> IsLUKSOpened env mapperName;
     if opened then ret None
     else orFail (runCryptsetup env passphrase [''luksOpen'', devicePath, mapperName])
            (WrapV ''luksOpen'') (ret None)
   }"

definition FormatAndOpenLUKS :: "env \<Rightarrow> string \<Rightarrow> string \<Rightarrow> string \<Rightarrow> ('s os_scheme, goerr option) state" where
  "FormatAndOpenLUKS env devicePath mapperName passphrase = do {
     isLuks \<leftarrow> IsLUKSDevice env devicePath;
     if isLuks then OpenLUKS env devicePath mapperName passphrase
     else orFail (runCryptsetup env passphrase [''luksFormat'', ''--batch-mode'', devicePath])
            (WrapV ''luksFormat'')
            (OpenLUKS env devicePath mapperName passphrase)
   }"

definition CloseLUKS :: "env \<Rightarrow> string \<Rightarrow> ('s os_scheme, goerr option) state" where
  "CloseLUKS env mapperName = do {
     opened \<leftarrow> IsLUKSOpened env mapperName;
     if \<not> opened then ret None
     else orFail (runCryptsetup env [] [''luksClose'', mapperName])
            (WrapV ''luksClose'') (ret None)
   }"

definition ResizeLUKS :: "env \<Rightarrow> string \<Rightarrow> string \<Rightarrow> ('s os_scheme, goerr option) state" where
  "ResizeLUKS env mapperName passphrase = do {
     opened \<leftarrow> IsLUKSOpened env mapperName;
     if \<not> opened then ret (Some (Err ''not opened''))
     else orFail (runCryptsetup env passphrase [''resize'', mapperName])
            (WrapV ''resize'') (ret None)
   }"

definition GetLUKSDeviceSize :: "env \<Rightarrow> string \<Rightarrow> ('s os_scheme, int res) state" where
  "GetLUKSDeviceSize env devicePath = do {
     r \<leftarrow> run env (Cmd ''blockdev'' [''--getsize64'', devicePath] []);
     ret (case r of
            CmdOk out \<Rightarrow>
              (case parseInt (trimSpace out) of
                 None \<Rightarrow> Inl (WrapV ''parse size'' (Err (trimSpace out)))
               | Some sz \<Rightarrow> Inr sz)
          | _ \<Rightarrow> Inl (WrapV ''get size'' (Err ''exit status'')))
   }"

lemmas luks_ops = OpenLUKS_def FormatAndOpenLUKS_def CloseLUKS_def ResizeLUKS_def
  IsLUKSDevice_def IsLUKSOpened_def GetLUKSDeviceSize_def

section \<open>What the operations issue\<close>

abbreviation isLuksCmd :: "string \<Rightarrow> cmd" where
  "isLuksCmd dev \<equiv> Cmd ''cryptsetup'' [''isLuks'', dev] []"

abbreviation luksFormatCmd :: "string \<Rightarrow> string \<Rightarrow> cmd" where
  "luksFormatCmd dev pass \<equiv> Cmd ''cryptsetup'' [''luksFormat'', ''--batch-mode'', dev] pass"

abbreviation luksOpenCmd :: "string \<Rightarrow> string \<Rightarrow> string \<Rightarrow> cmd" where
  "luksOpenCmd dev m pass \<equiv> Cmd ''cryptsetup'' [''luksOpen'', dev, m] pass"

abbreviation luksCloseCmd :: "string \<Rightarrow> cmd" where
  "luksCloseCmd m \<equiv> Cmd ''cryptsetup'' [''luksClose'', m] []"

abbreviation udevCompleteCmd :: cmd where
  "udevCompleteCmd \<equiv> Cmd ''dmsetup'' [''udevcomplete_all'', ''-y''] []"

lemma run_runBounded [simp]:
  "run_state (runBounded env stdin name args) s =
     (case exec env (hist s) (Cmd name args stdin) of
        CmdOk _ \<Rightarrow> None
      | CmdFail _ err \<Rightarrow> Some (if err \<noteq> [] then WrapV (trimSpace err) (Err ''exit status'') else Err ''exit status'')
      | CmdTimeout _ \<Rightarrow> Some (TimedOut name),
      s\<lparr>hist := hist s @ [Ran (Cmd name args stdin) (exec env (hist s) (Cmd name args stdin))]\<rparr>)"
  by (simp add: runBounded_def host_ops)

lemma run_IsLUKSOpened [simp]:
  "run_state (IsLUKSOpened env m) s =
     (\<not> isl (stat env (hist s) (pathJoin [''/dev/mapper'', m])),
      s\<lparr>hist := hist s @ [Asked (QStat (pathJoin [''/dev/mapper'', m]))]\<rparr>)"
  by (simp add: IsLUKSOpened_def host_ops split: sum.splits)

lemma run_IsLUKSDevice:
  "run_state (IsLUKSDevice env dev) s =
     ((\<exists>out. exec env (hist s) (isLuksCmd dev) = CmdOk out),
      s\<lparr>hist := hist s @ [Ran (isLuksCmd dev) (exec env (hist s) (isLuksCmd dev))]\<rparr>)"
  by (auto simp: IsLUKSDevice_def split: cmdres.splits)

text \<open>
  The retry: cryptsetup runs once, or, after a timeout, a second time behind one
  \<^verbatim>\<open>dmsetup udevcomplete_all\<close>; the result is that of the last run. So it runs at most twice
  and a failure that is not a timeout is never retried.
\<close>

lemma run_runCryptsetup:
  "run_state (runCryptsetup env stdin args) s =
    (case exec env (hist s) (Cmd ''cryptsetup'' args stdin) of
       CmdTimeout out \<Rightarrow>
         (let h1 = hist s @ [Ran (Cmd ''cryptsetup'' args stdin) (CmdTimeout out)];
              h2 = h1 @ [Ran udevCompleteCmd (exec env h1 udevCompleteCmd)]
          in run_state (runBounded env stdin ''cryptsetup'' args) (s\<lparr>hist := h2\<rparr>))
     | _ \<Rightarrow> run_state (runBounded env stdin ''cryptsetup'' args) s)"
  unfolding runCryptsetup_def
  by (auto simp: Let_def split: cmdres.splits)

lemma runCryptsetup_trace:
  "\<exists>t. hist (snd (run_state (runCryptsetup env stdin args) s)) = hist s @ t \<and>
       (\<forall>c \<in> set (ranCmds t). c = Cmd ''cryptsetup'' args stdin \<or> c = udevCompleteCmd) \<and>
       hd (ranCmds t) = Cmd ''cryptsetup'' args stdin \<and>
       count_list (ranCmds t) (Cmd ''cryptsetup'' args stdin) \<le> 2"
  by (auto simp: run_runCryptsetup Let_def split: cmdres.splits)

lemma runCryptsetup_ok:
  assumes "run_state (runCryptsetup env stdin args) s = (None, s')"
  shows "\<exists>t out. hist s' = hist s @ t @ [Ran (Cmd ''cryptsetup'' args stdin) (CmdOk out)]"
  using assms
  by (auto simp: run_runCryptsetup Let_def split: cmdres.splits prod.splits if_splits)

text \<open>A successful open or close leaves a trace ending in a successful cryptsetup run, or did not run it.\<close>

lemma OpenLUKS_result:
  assumes "run_state (OpenLUKS env dev m pass) s = (r, s')"
  shows "\<exists>t. hist s' = hist s @ Asked (QStat (pathJoin [''/dev/mapper'', m])) # t \<and>
    (\<forall>c \<in> set (ranCmds t). c = luksOpenCmd dev m pass \<or> c = udevCompleteCmd) \<and>
    (if isl (stat env (hist s) (pathJoin [''/dev/mapper'', m]))
     then r = None \<longrightarrow> (\<exists>out u. t = u @ [Ran (luksOpenCmd dev m pass) (CmdOk out)])
     else r = None \<and> t = [])"
proof (cases "isl (stat env (hist s) (pathJoin [''/dev/mapper'', m]))")
  case False
  with assms show ?thesis by (auto simp: OpenLUKS_def)
next
  case True
  let ?s1 = "s\<lparr>hist := hist s @ [Asked (QStat (pathJoin [''/dev/mapper'', m]))]\<rparr>"
  obtain q s2 where q: "run_state (runCryptsetup env pass [''luksOpen'', dev, m]) ?s1 = (q, s2)"
    by (cases "run_state (runCryptsetup env pass [''luksOpen'', dev, m]) ?s1") auto
  from True q assms have r: "s' = s2" "r = None \<longrightarrow> q = None"
    by (auto simp: OpenLUKS_def split: option.splits)
  from runCryptsetup_trace [of env pass "[''luksOpen'', dev, m]" ?s1] q
  obtain t where t: "hist s2 = hist ?s1 @ t"
    "\<forall>c \<in> set (ranCmds t). c = luksOpenCmd dev m pass \<or> c = udevCompleteCmd"
    by auto
  moreover have "r = None \<longrightarrow> (\<exists>out u. t = u @ [Ran (luksOpenCmd dev m pass) (CmdOk out)])"
  proof
    assume "r = None"
    with r q have "run_state (runCryptsetup env pass [''luksOpen'', dev, m]) ?s1 = (None, s2)" by simp
    from runCryptsetup_ok [OF this] t(1)
    show "\<exists>out u. t = u @ [Ran (luksOpenCmd dev m pass) (CmdOk out)]" by auto
  qed
  ultimately show ?thesis using r True by auto
qed

text \<open>The events an operation appends to the history.\<close>

definition newEvents :: "('s os_scheme, 'a) state \<Rightarrow> 's os_scheme \<Rightarrow> hist" where
  "newEvents m s = drop (length (hist s)) (hist (snd (run_state m s)))"

lemma newEventsI: "hist (snd (run_state m s)) = hist s @ t \<Longrightarrow> newEvents m s = t"
  by (simp add: newEvents_def)

lemma FormatAndOpenLUKS_trace:
  "\<exists>t. newEvents (FormatAndOpenLUKS env dev m pass) s
      = Ran (isLuksCmd dev) (exec env (hist s) (isLuksCmd dev)) # t \<and>
     (if \<exists>out. exec env (hist s) (isLuksCmd dev) = CmdOk out
      then \<forall>c \<in> set (ranCmds t). c = luksOpenCmd dev m pass \<or> c = udevCompleteCmd
      else ranCmds t \<noteq> [] \<and> hd (ranCmds t) = luksFormatCmd dev pass)"
proof -
  let ?s1 = "s\<lparr>hist := hist s @ [Ran (isLuksCmd dev) (exec env (hist s) (isLuksCmd dev))]\<rparr>"
  show ?thesis
  proof (cases "\<exists>out. exec env (hist s) (isLuksCmd dev) = CmdOk out")
    case True
    then have "run_state (FormatAndOpenLUKS env dev m pass) s = run_state (OpenLUKS env dev m pass) ?s1"
      by (simp add: FormatAndOpenLUKS_def run_IsLUKSDevice)
    moreover obtain r s' where "run_state (OpenLUKS env dev m pass) ?s1 = (r, s')" by fastforce
    ultimately show ?thesis using True OpenLUKS_result [of env dev m pass ?s1 r s']
      by (auto simp: newEvents_def)
  next
    case False
    obtain q s2 where q: "run_state (runCryptsetup env pass [''luksFormat'', ''--batch-mode'', dev]) ?s1 = (q, s2)"
      by fastforce
    from runCryptsetup_trace [of env pass "[''luksFormat'', ''--batch-mode'', dev]" ?s1] q
    obtain t where t: "hist s2 = hist ?s1 @ t" "hd (ranCmds t) = luksFormatCmd dev pass" "ranCmds t \<noteq> []"
      by (auto simp: run_runCryptsetup Let_def split: cmdres.splits)
    show ?thesis
    proof (cases q)
      case None
      obtain r s' where o: "run_state (OpenLUKS env dev m pass) s2 = (r, s')" by fastforce
      from OpenLUKS_result [OF o] obtain u where "hist s' = hist s2 @ u" by blast
      with o None False q t show ?thesis
        by (auto simp: FormatAndOpenLUKS_def run_IsLUKSDevice newEvents_def)
    next
      case (Some e)
      with False q t show ?thesis
        by (auto simp: FormatAndOpenLUKS_def run_IsLUKSDevice newEvents_def)
    qed
  qed
qed

text \<open>
  \<^verbatim>\<open>FormatAndOpenLUKS\<close> runs \<^verbatim>\<open>luksFormat\<close> on a device exactly when the \<^verbatim>\<open>cryptsetup isLuks\<close>
  probe did not succeed. A device that cryptsetup reports as LUKS is never
  reformatted; but any other outcome of the probe, a timeout or a program that could not be
  started included, leads to a format.
\<close>

theorem FormatAndOpenLUKS_formats_iff:
  "luksFormatCmd dev pass \<in> set (ranCmds (newEvents (FormatAndOpenLUKS env dev m pass) s))
     \<longleftrightarrow> (\<nexists>out. exec env (hist s) (isLuksCmd dev) = CmdOk out)"
proof -
  from FormatAndOpenLUKS_trace [of env dev m pass s]
  obtain t where t: "newEvents (FormatAndOpenLUKS env dev m pass) s
      = Ran (isLuksCmd dev) (exec env (hist s) (isLuksCmd dev)) # t"
    "if \<exists>out. exec env (hist s) (isLuksCmd dev) = CmdOk out
      then \<forall>c \<in> set (ranCmds t). c = luksOpenCmd dev m pass \<or> c = udevCompleteCmd
      else ranCmds t \<noteq> [] \<and> hd (ranCmds t) = luksFormatCmd dev pass" by blast
  show ?thesis
  proof (cases "\<exists>out. exec env (hist s) (isLuksCmd dev) = CmdOk out")
    case True
    with t show ?thesis by auto
  next
    case False
    with t(2) have "luksFormatCmd dev pass \<in> set (ranCmds t)" by (metis list.set_sel(1))
    with False t(1) show ?thesis by simp
  qed
qed

end
