(* ===== verification/Cluster.thy ===== *)
theory Cluster
  imports Host
begin

text \<open>
  Access to the cluster's objects (\<^verbatim>\<open>driver/k8s.go\<close>) and the driver's own identity (\<^verbatim>\<open>driver/driver.go\<close>, the mode test
  of \<^verbatim>\<open>cmd/main.go\<close>). The Go interface \<^verbatim>\<open>StorageClassParamsRetriever\<close>, which the node and the controller both
  implement, is the locale \<open>params_retriever\<close>; \<^verbatim>\<open>GetS3PathPrefixByVolumeID\<close> is its client.
\<close>

section \<open>Constants\<close>

definition DriverName :: string where
  "DriverName = ''lukscryptwalker.csi.k8s.io''"

definition TopologyKeyNode :: string where
  "TopologyKeyNode = ''topology.'' @ DriverName @ ''/node''"

definition PinnedNodeParam :: string where
  "PinnedNodeParam = DriverName @ ''/node''"

definition controllerSocketDir :: string where
  "controllerSocketDir = ''/var/lib/csi/sockets/pluginproxy/''"

definition StorageBackendParam :: string where
  "StorageBackendParam = ''storage-backend''"

definition S3PathPrefixParam :: string where
  "S3PathPrefixParam = ''s3-path-prefix''"

definition IsNodeMode :: "string \<Rightarrow> bool" where
  "IsNodeMode endpoint = (\<not> containsStr endpoint controllerSocketDir)"

definition isControllerMode :: "string \<Rightarrow> bool" where
  "isControllerMode endpoint = containsStr endpoint ''/var/lib/csi/sockets/pluginproxy/''"

section \<open>Looking objects up\<close>

definition ofVolume :: "string \<Rightarrow> pv \<Rightarrow> bool" where
  "ofVolume volumeID p = (case pv_csi p of None \<Rightarrow> False | Some c \<Rightarrow> csi_handle c = volumeID)"

definition getPVByVolumeID :: "env \<Rightarrow> string \<Rightarrow> ('s os_scheme, pv res) state" where
  "getPVByVolumeID env volumeID =
     (if \<not> hasClient env then ret (Inl (Err ''no clientset''))
      else callE (kube (listPVs env) KListPVs) (WrapV ''list PVs'')
        (\<lambda>pvs. ret (case find (ofVolume volumeID) pvs of None \<Rightarrow> Inl (Err ''PV not found'') | Some p \<Rightarrow> Inr p)))"

definition getStorageClassParameters :: "env \<Rightarrow> string \<Rightarrow> ('s os_scheme, smap res) state" where
  "getStorageClassParameters env name =
     (if \<not> hasClient env then ret (Inl (Err ''no clientset''))
      else if name = [] then ret (Inl (Err ''StorageClass name is empty''))
      else callE (kube (\<lambda>h. getSC env h name) (KGetSC name)) (WrapV ''get StorageClass'') (\<lambda>ps. ret (Inr ps)))"

definition nodeGetStorageClassParametersByVolumeID :: "env \<Rightarrow> string \<Rightarrow> ('s os_scheme, smap res) state" where
  "nodeGetStorageClassParametersByVolumeID env volumeID =
     callE (getPVByVolumeID env volumeID) (WrapW ''get PV'') (\<lambda>p.
       if pv_storageClass p = [] then ret (Inl (Err ''PV has no StorageClass''))
       else callE (getStorageClassParameters env (pv_storageClass p)) (WrapW ''get StorageClass parameters'')
         (\<lambda>ps. ret (Inr ps)))"

definition controllerGetStorageClassParametersByVolumeID :: "env \<Rightarrow> string \<Rightarrow> ('s os_scheme, smap res) state" where
  "controllerGetStorageClassParametersByVolumeID env volumeID =
     callE (getPVByVolumeID env volumeID) (WrapW ''get PV'') (\<lambda>p.
       if pv_storageClass p = [] then ret (Inl (Err ''PV has no StorageClass''))
       else callE (getStorageClassParameters env (pv_storageClass p)) (WrapW ''get StorageClass parameters'')
         (\<lambda>ps. ret (Inr ps)))"

definition GetS3PathPrefixByVolumeID ::
  "(string \<Rightarrow> ('s os_scheme, smap res) state) \<Rightarrow> string \<Rightarrow> ('s os_scheme, string res) state" where
  "GetS3PathPrefixByVolumeID retrieve volumeID =
     callE (retrieve volumeID) id (\<lambda>scParams. ret (Inr (mget scParams S3PathPrefixParam)))"

section \<open>The retriever interface\<close>

text \<open>
  \<open>scOf env h v ps\<close>: at history \<open>h\<close> the cluster's answer to "the parameters of the StorageClass of the
  PV whose handle is \<open>v\<close>" is \<open>ps\<close>.
\<close>

definition scOf :: "env \<Rightarrow> hist \<Rightarrow> string \<Rightarrow> smap \<Rightarrow> bool" where
  "scOf env h v ps = (hasClient env \<and> (\<exists>pvs p. listPVs env h = Inr pvs \<and> find (ofVolume v) pvs = Some p \<and>
     pv_storageClass p \<noteq> [] \<and> getSC env (h @ [Kube KListPVs]) (pv_storageClass p) = Inr ps))"

locale params_retriever =
  fixes retrieve :: "string \<Rightarrow> ('s os_scheme, smap res) state"
    and cluster :: "hist \<Rightarrow> string \<Rightarrow> smap \<Rightarrow> bool"
  assumes only_looks: "emits (retrieve v) looks"
    and answers: "run_state (retrieve v) s = (Inr ps, s') \<Longrightarrow> cluster (hist s) v ps"
begin

text \<open>The client never defaults a prefix it could not look up, and changes nothing.\<close>

lemma prefix_from_cluster:
  "run_state (GetS3PathPrefixByVolumeID retrieve v) s = (Inr pre, s') \<Longrightarrow>
     \<exists>ps. cluster (hist s) v ps \<and> pre = mget ps S3PathPrefixParam"
  by (auto simp: GetS3PathPrefixByVolumeID_def dest: answers split: prod.splits sum.splits)

lemma prefix_only_looks: "emits (GetS3PathPrefixByVolumeID retrieve v) looks"
  unfolding GetS3PathPrefixByVolumeID_def by (intro emits_callE emits_ret only_looks)

lemma prefix_error:
  "run_state (retrieve v) s = (Inl e, s1) \<Longrightarrow> run_state (GetS3PathPrefixByVolumeID retrieve v) s = (Inl e, s1)"
  by (simp add: GetS3PathPrefixByVolumeID_def)

end

lemma getPVByVolumeID_looks: "emits (getPVByVolumeID env v) looks"
  unfolding getPVByVolumeID_def by (intro emits_rules) auto

lemma getStorageClassParameters_looks: "emits (getStorageClassParameters env n) looks"
  unfolding getStorageClassParameters_def by (intro emits_rules) auto

lemmas retriever_defs = getPVByVolumeID_def getStorageClassParameters_def

interpretation node_params: params_retriever "nodeGetStorageClassParametersByVolumeID env" "scOf env" for env
proof
  show "emits (nodeGetStorageClassParametersByVolumeID env v) looks" for v
    unfolding nodeGetStorageClassParametersByVolumeID_def
    by (intro emits_callE emits_if emits_ret getPVByVolumeID_looks getStorageClassParameters_looks)
qed (auto simp: nodeGetStorageClassParametersByVolumeID_def retriever_defs scOf_def
      split: if_splits prod.splits sum.splits option.splits)

interpretation controller_params: params_retriever "controllerGetStorageClassParametersByVolumeID env" "scOf env" for env
proof
  show "emits (controllerGetStorageClassParametersByVolumeID env v) looks" for v
    unfolding controllerGetStorageClassParametersByVolumeID_def
    by (intro emits_callE emits_if emits_ret getPVByVolumeID_looks getStorageClassParameters_looks)
qed (auto simp: controllerGetStorageClassParametersByVolumeID_def retriever_defs scOf_def
      split: if_splits prod.splits sum.splits option.splits)

text \<open>
  The two tests for the deployment mode, the driver's and the program's own, always disagree exactly as they
  should: a process runs node-only work if and only if it set up the encrypted cache.
\<close>

lemma mode_tests_agree: "IsNodeMode endpoint \<longleftrightarrow> \<not> isControllerMode endpoint"
  by (simp add: IsNodeMode_def isControllerMode_def controllerSocketDir_def)

text \<open>An S3 volume for the witnesses.\<close>

definition s3Context :: smap where
  "s3Context = [StorageBackendParam \<mapsto> ''s3'']"

definition s3PV :: pv where
  "s3PV = \<lparr>pv_name = ''v'', pv_csi = Some \<lparr>csi_driver = DriverName, csi_handle = ''v'', csi_attributes = Some s3Context\<rparr>,
     pv_storageClass = ''sc'', pv_claimRef = Some (''ns'', ''claim''), pv_annotations = Map.empty\<rparr>"

end
