(* ===== verification/Rclone.thy ===== *)
theory Rclone
  imports HostMounts
begin

text \<open>
  The rclone client (\<^verbatim>\<open>pkg/rclone/config.go\<close> and \<^verbatim>\<open>rclone.go\<close>): remote strings and named configs, bounded
  calls into librclone with the record of the calls that have not returned, the watchdog over that
  record, the redaction of credentials in error texts, and the purge of a volume's objects.
  librclone itself is the parameter \<^const>\<open>librclone\<close> of the environment.
\<close>

section \<open>Configuration\<close>

record S3Config =
  Region :: string
  Endpoint :: string
  AccessKeyID :: string
  SecretAccessKey :: string
  Bucket :: string
  ForcePathStyle :: bool
  Provider :: string

record CryptConfig =
  Password :: string
  Password2 :: string

definition quoteValue :: "string \<Rightarrow> string" where
  "quoteValue value =
     (if \<exists>c \<in> set value. c \<in> {CHR '':'', CHR '','', CHR ''='', CHR 0x27, CHR '' '', CHR 0x09}
      then CHR 0x27 # replaceAll value [CHR 0x27] [CHR 0x27, CHR 0x27] @ [CHR 0x27]
      else value)"

definition providerOf :: "S3Config \<Rightarrow> string" where
  "providerOf config =
     (if Provider config = [] then (if Endpoint config \<noteq> [] then ''Other'' else ''AWS'') else Provider config)"

definition BuildS3RemoteString :: "S3Config \<Rightarrow> string \<Rightarrow> string res" where
  "BuildS3RemoteString config path =
     (if Bucket config = [] then Inl (Err ''S3 bucket is required'')
      else if Region config = [] then Inl (Err ''S3 region is required'')
      else Inr (let
         parts = [''provider='' @ providerOf config, ''env_auth=false'',
                  ''access_key_id='' @ quoteValue (AccessKeyID config),
                  ''secret_access_key='' @ quoteValue (SecretAccessKey config),
                  ''region='' @ quoteValue (Region config)]
               @ (if Endpoint config \<noteq> [] then [''endpoint='' @ quoteValue (Endpoint config)] else [])
               @ (if ForcePathStyle config then [''force_path_style=true''] else []);
         fullPath = (if path \<noteq> [] then Bucket config @ ''/'' @ path else Bucket config)
       in '':s3,'' @ joinStr '','' parts @ '':'' @ fullPath))"

definition DeriveRcloneCryptConfig :: "string \<Rightarrow> string \<Rightarrow> CryptConfig" where
  "DeriveRcloneCryptConfig luksPassphrase salt =
     \<lparr>Password = luksPassphrase, Password2 = luksPassphrase @ ''-'' @ salt\<rparr>"

section \<open>Redaction\<close>

text \<open>
  The loop of \<^verbatim>\<open>redactBetween\<close>. It may run forever, so it is a partial function: \<open>None\<close> is not returning.
  \<^verbatim>\<open>lowerResult\<close> is always the lower-case form of \<^verbatim>\<open>result\<close> at the loop head.
\<close>

partial_function (option) redactLoop :: "string \<Rightarrow> string \<Rightarrow> string \<Rightarrow> string option" where
  "redactLoop lowerPrefix sfx result =
     (case index_of (toLower result) lowerPrefix of
        None \<Rightarrow> Some result
      | Some startIdx \<Rightarrow>
          (let valueStart = startIdx + length lowerPrefix;
               remaining = drop valueStart result
           in case index_of (toLower remaining) sfx of
                None \<Rightarrow> Some (take valueStart result @ ''[REDACTED]'')
              | Some endIdx \<Rightarrow>
                  redactLoop lowerPrefix sfx
                    (take valueStart result @ ''[REDACTED]'' @ drop (valueStart + endIdx) result)))"

definition redactBetween :: "string \<Rightarrow> string \<Rightarrow> string \<Rightarrow> string option" where
  "redactBetween s pref sfx = redactLoop (toLower pref) sfx s"

definition redactPatterns :: "(string \<times> string) list" where
  "redactPatterns = [(''access_key_id='', '',''), (''access_key_id='', '':''), (''secret_access_key='', '',''),
     (''secret_access_key='', '':''), (''password='', '',''), (''password='', '':''), (''password2='', '',''),
     (''password2='', '':'')]"

definition sanitizeErrorMessage :: "string \<Rightarrow> string option" where
  "sanitizeErrorMessage msg =
     foldl (\<lambda>r (pref, sfx). case r of None \<Rightarrow> None | Some m \<Rightarrow> redactBetween m pref sfx) (Some msg) redactPatterns"

section \<open>Bounded calls\<close>

record inFlightRPC =
  rpc_method :: string
  rpc_started :: int
  rpc_budget :: int

text \<open>The package variables of rclone.go, and the counter that makes every mount's VFS options unique.\<close>

record rc = mnt +
  initOnceDone :: bool
  initDone :: bool
  rpcInFlight :: "(nat \<times> inFlightRPC) list"
  rpcSeq :: nat
  mountGeneration :: int
  vfsCacheSize :: int

definition RPCDefaultTimeout :: int where
  "RPCDefaultTimeout = seconds 60"

definition rpcStuckFatalAfter :: int where
  "rpcStuckFatalAfter = minutes 5"

definition overdueBy :: "inFlightRPC \<Rightarrow> int \<Rightarrow> int" where
  "overdueBy c t = t - rpc_started c - max (rpc_budget c) rpcStuckFatalAfter"

definition holdsMountLock :: "string \<Rightarrow> bool" where
  "holdsMountLock method = hasPrefix method ''mount/''"

definition stuckRPCs :: "(nat \<times> inFlightRPC) list \<Rightarrow> int \<Rightarrow> inFlightRPC list" where
  "stuckRPCs inFlight t = filter (\<lambda>c. 0 \<le> overdueBy c t) (map snd inFlight)"

text \<open>The loop of \<^verbatim>\<open>checkStuckRPCs\<close>; \<open>Some\<close> is the call it aborts the process for.\<close>

fun firstFatal :: "inFlightRPC list \<Rightarrow> inFlightRPC option" where
  "firstFatal [] = None"
| "firstFatal (c # cs) = (if holdsMountLock (rpc_method c) then Some c else firstFatal cs)"

definition checkStuckRPCs :: "(nat \<times> inFlightRPC) list \<Rightarrow> int \<Rightarrow> inFlightRPC option" where
  "checkStuckRPCs inFlight t = firstFatal (stuckRPCs inFlight t)"

text \<open>
  A call that answers within its budget leaves the record; one that does not stays in it, and its caller
  gets \<^verbatim>\<open>ErrRPCTimeout\<close>.
\<close>

definition callLibrclone :: "env \<Rightarrow> string \<Rightarrow> json \<Rightarrow> int \<Rightarrow> ('s rc_scheme, (string \<times> int) res) state" where
  "callLibrclone env method input timeout = do {
     t \<leftarrow> timeNow env;
     modS (\<lambda>s. s\<lparr>rpcSeq := rpcSeq s + 1,
       rpcInFlight := (rpcSeq s + 1, \<lparr>rpc_method = method, rpc_started = t, rpc_budget = timeout\<rparr>) # rpcInFlight s\<rparr>);
     i \<leftarrow> gets rpcSeq;
     r \<leftarrow> askS (\<lambda>h. librclone env h method input) (RpcCalled method input);
     (case r of
        RpcReply out status \<Rightarrow> do {
          modS (\<lambda>s. s\<lparr>rpcInFlight := filter (\<lambda>e. fst e \<noteq> i) (rpcInFlight s)\<rparr>);
          ret (Inr (out, status))
        }
      | RpcNoAnswer \<Rightarrow> ret (Inl (WrapW method (Sentinel ErrRPCTimeout))))
   }"

definition setServerModTime :: "env \<Rightarrow> ('s rc_scheme, unit) state" where
  "setServerModTime env =
     (if getenv env ''RCLONE_USE_SERVER_MODTIME'' = ''false'' then ret ()
      else do {
        _ \<leftarrow> callLibrclone env ''options/set'' (JObj [(''main'', JObj [(''UseServerModTime'', JBool True)])]) RPCDefaultTimeout;
        ret ()
      })"

text \<open>\<^verbatim>\<open>Initialize\<close> never fails; its effect on librclone is the first option it sets.\<close>

definition Initialize :: "env \<Rightarrow> ('s rc_scheme, unit) state" where
  "Initialize env = do {
     d \<leftarrow> gets initDone;
     if d then ret ()
     else do {
       once \<leftarrow> gets initOnceDone;
       (if once then ret ()
        else do { modS (\<lambda>s. s\<lparr>initOnceDone := True\<rparr>); setServerModTime env });
       modS (\<lambda>s. s\<lparr>initDone := True\<rparr>)
     }
   }"

definition Finalize :: "('s rc_scheme, unit) state" where
  "Finalize = modS (\<lambda>s. if initDone s then s\<lparr>initDone := False\<rparr> else s)"

text \<open>
  The text of a failed call. Where \<^verbatim>\<open>sanitizeErrorMessage\<close> does not return, neither does the call; the
  model then keeps the unsanitised text, so what is proved about a call's result holds for the calls that return.
\<close>

definition rpcErrText :: "env \<Rightarrow> json option \<Rightarrow> string" where
  "rpcErrText env out = (case out of
       None \<Rightarrow> []
     | Some j \<Rightarrow> (case jstr (jfield j ''error'') of Some e \<Rightarrow> e | None \<Rightarrow> fmtAny env j))"

definition sanitized :: "string \<Rightarrow> string" where
  "sanitized msg = (case sanitizeErrorMessage msg of Some m \<Rightarrow> m | None \<Rightarrow> msg)"

text \<open>
  The output decoded into a Go map: an empty output and a JSON null leave it nil, and what is not a JSON object is kept
  under a key of its own.
\<close>

definition decodeOutput :: "env \<Rightarrow> string \<Rightarrow> json option" where
  "decodeOutput env out =
     (if out = [] then None
      else case unmarshal env out of
        Some (JObj kvs) \<Rightarrow> Some (JObj kvs)
      | Some JNull \<Rightarrow> None
      | _ \<Rightarrow> Some (JObj [(''_raw'', JStr out)]))"

definition RPCWithTimeout :: "env \<Rightarrow> string \<Rightarrow> json \<Rightarrow> int \<Rightarrow> ('s rc_scheme, json option res) state" where
  "RPCWithTimeout env method params timeout = do {
     Initialize env;
     callE (callLibrclone env method params timeout) id (\<lambda>(out, status).
       ret (if status \<ge> 400
            then Inl (WrapV (''RPC '' @ method) (Err (sanitized (rpcErrText env (decodeOutput env out)))))
            else Inr (decodeOutput env out)))
   }"

text \<open>The raw output with its status, and the error if there is one.\<close>

definition RPCWithRaw :: "env \<Rightarrow> string \<Rightarrow> json \<Rightarrow> ('s rc_scheme, (string \<times> int) \<times> goerr option) state" where
  "RPCWithRaw env method params = do {
     Initialize env;
     r \<leftarrow> callLibrclone env method params RPCDefaultTimeout;
     ret (case r of
            Inl e \<Rightarrow> (([], 0), Some e)
          | Inr (out, status) \<Rightarrow>
              if status \<ge> 400 then ((sanitized out, status), Some (WrapV (''RPC '' @ method) (Err (sanitized out))))
              else ((out, status), None))
   }"

definition RPC :: "env \<Rightarrow> string \<Rightarrow> json \<Rightarrow> ('s rc_scheme, json option res) state" where
  "RPC env method params = RPCWithTimeout env method params RPCDefaultTimeout"

definition IsRPCTimeout :: "goerr \<Rightarrow> bool" where
  "IsRPCTimeout e = errorsIs e ErrRPCTimeout"

section \<open>Named configs\<close>

definition nameParam :: "string \<Rightarrow> json" where
  "nameParam name = JObj [(''name'', JStr name)]"

definition s3ConfigParams :: "string \<Rightarrow> S3Config \<Rightarrow> json" where
  "s3ConfigParams name config = JObj [(''name'', JStr name), (''type'', JStr ''s3''),
     (''parameters'', JObj ([(''provider'', JStr (providerOf config)), (''env_auth'', JStr ''false''),
        (''access_key_id'', JStr (AccessKeyID config)), (''secret_access_key'', JStr (SecretAccessKey config)),
        (''region'', JStr (Region config))]
      @ (if Endpoint config \<noteq> [] then [(''endpoint'', JStr (Endpoint config))] else [])
      @ (if ForcePathStyle config then [(''force_path_style'', JStr ''true'')] else [])))]"

definition CreateNamedS3Config :: "env \<Rightarrow> string \<Rightarrow> S3Config \<Rightarrow> ('s rc_scheme, goerr option) state" where
  "CreateNamedS3Config env name config = do {
     _ \<leftarrow> RPC env ''config/delete'' (nameParam name);
     r \<leftarrow> RPC env ''config/create'' (s3ConfigParams name config);
     ret (case r of Inl e \<Rightarrow> Some (WrapW ''create S3 config'' e) | Inr _ \<Rightarrow> None)
   }"

definition cryptConfigParams :: "string \<Rightarrow> string \<Rightarrow> CryptConfig \<Rightarrow> json" where
  "cryptConfigParams name s3RemotePath cryptConfig = JObj [(''name'', JStr name), (''type'', JStr ''crypt''),
     (''parameters'', JObj ([(''remote'', JStr s3RemotePath), (''password'', JStr (Password cryptConfig)),
        (''filename_encryption'', JStr ''standard''), (''directory_name_encryption'', JStr ''true'')]
      @ (if Password2 cryptConfig \<noteq> [] then [(''password2'', JStr (Password2 cryptConfig))] else []))),
     (''opt'', JObj [(''obscure'', JBool True)])]"

definition CreateNamedCryptConfig :: "env \<Rightarrow> string \<Rightarrow> string \<Rightarrow> CryptConfig \<Rightarrow> ('s rc_scheme, goerr option) state" where
  "CreateNamedCryptConfig env name s3RemotePath cryptConfig =
     (if Password cryptConfig = [] then ret (Some (Err ''crypt password is required''))
      else do {
        _ \<leftarrow> RPC env ''config/delete'' (nameParam name);
        r \<leftarrow> RPC env ''config/create'' (cryptConfigParams name s3RemotePath cryptConfig);
        ret (case r of Inl e \<Rightarrow> Some (WrapW ''create crypt config'' e) | Inr _ \<Rightarrow> None)
      })"

fun DeleteNamedConfigs :: "env \<Rightarrow> string list \<Rightarrow> ('s rc_scheme, unit) state" where
  "DeleteNamedConfigs env [] = ret ()"
| "DeleteNamedConfigs env (name # names) = do {
     _ \<leftarrow> RPC env ''config/delete'' (nameParam name);
     DeleteNamedConfigs env names
   }"

section \<open>Purging a volume\<close>

definition containsFold :: "string \<Rightarrow> string \<Rightarrow> bool" where
  "containsFold s sub = containsStr (toLower s) (toLower sub)"

definition s3VolumePath :: "string \<Rightarrow> string \<Rightarrow> string" where
  "s3VolumePath s3PathPrefix volumeID =
     (if s3PathPrefix = [] then ''volumes/'' @ volumeID else s3PathPrefix @ ''/volumes/'' @ volumeID)"

definition purgeParams :: "string \<Rightarrow> json" where
  "purgeParams remote = JObj [(''fs'', JStr remote), (''remote'', JStr [])]"

definition DeleteVolumeData :: "env \<Rightarrow> S3Config \<Rightarrow> string \<Rightarrow> string \<Rightarrow> ('s rc_scheme, goerr option) state" where
  "DeleteVolumeData env s3Config volumeID s3PathPrefix = do {
     Initialize env;
     (case BuildS3RemoteString s3Config (s3VolumePath s3PathPrefix volumeID) of
        Inl e \<Rightarrow> ret (Some (WrapW ''build S3 remote string'' e))
      | Inr s3Remote \<Rightarrow> do {
          r \<leftarrow> RPCWithTimeout env ''operations/purge'' (purgeParams s3Remote) (minutes 30);
          ret (case r of
                 Inr _ \<Rightarrow> None
               | Inl e \<Rightarrow>
                   let t = errText e
                   in if containsFold t ''directory not found'' \<or> containsFold t ''not found'' \<or> containsFold t ''404''
                      then None else Some (WrapW ''purge volume data'' e))
        })
   }"

section \<open>Redaction loops on its own output\<close>

text \<open>
  After a value has been replaced, the prefix and the suffix are found again at the same place: the loop has
  reached a fixed point from which it never leaves.
\<close>

lemma redact_again:
  assumes "index_of (toLower r) p = Some i" and "index_of (toLower (drop (i + length p) r)) sfx = Some j"
  defines "r' \<equiv> take (i + length p) r @ ''[REDACTED]'' @ drop (i + length p + j) r"
  shows "index_of (toLower r') p = Some i" and "index_of (toLower (drop (i + length p) r')) sfx \<noteq> None"
proof -
  have len: "i + length p \<le> length r" using index_of_Some [OF assms(1)] by simp
  show "index_of (toLower r') p = Some i"
    using index_of_take [OF assms(1)] by (simp add: r'_def toLower_take_drop)
  have "drop (i + length p) r' = ''[REDACTED]'' @ drop j (drop (i + length p) r)"
    using len by (simp add: r'_def add.commute)
  moreover have "containsStr (toLower (drop j (drop (i + length p) r))) sfx"
  proof -
    let ?x = "toLower (drop (i + length p) r)"
    have j: "j \<le> length ?x" "?x = take j ?x @ sfx @ drop (j + length sfx) ?x"
      using index_of_Some [OF assms(2)] by auto
    have "drop j ?x = sfx @ drop (j + length sfx) ?x" using j(1) by (subst j(2)) simp
    then have "toLower (drop j (drop (i + length p) r)) = sfx @ drop (j + length sfx) ?x"
      by (simp only: toLower_take_drop)
    then show ?thesis by (auto simp: containsStr_iff)
  qed
  ultimately show "index_of (toLower (drop (i + length p) r')) sfx \<noteq> None"
    using containsStr_append(2) by (metis containsStr_def toLower_append)
qed

lemma redactLoop_diverges:
  assumes "redactLoop p sfx r = Some out"
  shows "\<forall>i. index_of (toLower r) p = Some i \<longrightarrow> index_of (toLower (drop (i + length p) r)) sfx = None"
  using assms
proof (rule redactLoop.raw_induct [rotated])
  fix f :: "string \<Rightarrow> string \<Rightarrow> string \<Rightarrow> string option" and p sfx r out
  assume IH: "\<And>p sfx r out. f p sfx r = Some out \<Longrightarrow>
      \<forall>i. index_of (toLower r) p = Some i \<longrightarrow> index_of (toLower (drop (i + length p) r)) sfx = None"
    and body: "(case index_of (toLower r) p of
        None \<Rightarrow> Some r
      | Some startIdx \<Rightarrow>
          (let valueStart = startIdx + length p; remaining = drop valueStart r
           in case index_of (toLower remaining) sfx of
                None \<Rightarrow> Some (take valueStart r @ ''[REDACTED]'')
              | Some endIdx \<Rightarrow> f p sfx (take valueStart r @ ''[REDACTED]'' @ drop (valueStart + endIdx) r))) = Some out"
  show "\<forall>i. index_of (toLower r) p = Some i \<longrightarrow> index_of (toLower (drop (i + length p) r)) sfx = None"
  proof (intro allI impI)
    fix i assume i: "index_of (toLower r) p = Some i"
    show "index_of (toLower (drop (i + length p) r)) sfx = None"
    proof (cases "index_of (toLower (drop (i + length p) r)) sfx")
      case (Some j)
      from body i Some have "f p sfx (take (i + length p) r @ ''[REDACTED]'' @ drop (i + length p + j) r) = Some out"
        by (simp add: Let_def)
      note IH [OF this, rule_format, OF redact_again(1) [OF i Some]]
      with redact_again(2) [OF i Some] show ?thesis by (rule notE)
    qed simp
  qed
qed

text \<open>
  What \<^verbatim>\<open>redactBetween\<close> does, on every input: without the prefix it returns the message unchanged; with
  the prefix and no suffix behind it, it returns with everything behind the prefix redacted; and as soon as the
  first occurrence of the prefix is followed by the suffix, the case it is written for, it never returns.
\<close>

theorem redactBetween_spec:
  "redactBetween s pref sfx =
     (case index_of (toLower s) (toLower pref) of
        None \<Rightarrow> Some s
      | Some i \<Rightarrow> if containsStr (toLower (drop (i + length pref) s)) sfx then None
                  else Some (take (i + length pref) s @ ''[REDACTED]''))"
proof (cases "index_of (toLower s) (toLower pref)")
  case None
  then show ?thesis by (simp add: redactBetween_def redactLoop.simps [of _ _ s])
next
  case (Some i)
  show ?thesis
  proof (cases "containsStr (toLower (drop (i + length pref) s)) sfx")
    case True
    then have "redactBetween s pref sfx \<noteq> Some out" for out
      using redactLoop_diverges [of "toLower pref" sfx s out] Some by (auto simp: redactBetween_def containsStr_def)
    with True Some show ?thesis by (cases "redactBetween s pref sfx") auto
  next
    case False
    with Some show ?thesis by (simp add: redactBetween_def redactLoop.simps [of _ _ s] containsStr_def Let_def)
  qed
qed

lemma redactBetween_hangs:
  assumes "toLower s = a @ toLower pref @ b @ sfx @ c"
  shows "redactBetween s pref sfx = None"
proof -
  have "hasPrefix (drop (length a) (toLower s)) (toLower pref)" using assms by simp
  from index_of_le [OF this] obtain i where i: "i \<le> length a" "index_of (toLower s) (toLower pref) = Some i" by blast
  have "toLower (drop (i + length pref) s)
      = drop (i + length pref) (a @ toLower pref) @ b @ sfx @ c"
    using i(1) by (simp add: toLower_take_drop assms)
  then have "containsStr (toLower (drop (i + length pref) s)) sfx"
    by (auto simp: containsStr_iff) (metis append.assoc)
  with i(2) show ?thesis by (simp add: redactBetween_spec)
qed

text \<open>
  C40: An error message that quotes the connection string \<^verbatim>\<open>BuildS3RemoteString\<close> built, as rclone's messages about a
  remote do, is never sanitised: \<^verbatim>\<open>sanitizeErrorMessage\<close> loops forever on it, and with it the RPC
  that failed and its caller, the purge in \<^verbatim>\<open>DeleteVolume\<close> among them.
\<close>

theorem sanitizeErrorMessage_hangs_on_remote:
  assumes "BuildS3RemoteString config path = Inr remote"
  shows "sanitizeErrorMessage (before @ remote @ behind) = None"
proof -
  define q where "q = quoteValue (AccessKeyID config)"
  have "\<exists>a c. remote = a @ ''access_key_id='' @ q @ '','' @ c"
    using assms
    by (auto simp: BuildS3RemoteString_def Let_def q_def joinStr_Cons split: if_splits)
       (rule exI [of _ "'':s3,provider='' @ providerOf config @ '',env_auth=false,''"], simp)+
  then obtain a c where r: "remote = a @ ''access_key_id='' @ q @ '','' @ c" by blast
  have "toLower (before @ remote @ behind)
      = toLower (before @ a) @ toLower ''access_key_id='' @ toLower q @ '','' @ toLower (c @ behind)"
    by (simp add: r) (simp add: toLower_def lower_char_def)
  from redactBetween_hangs [OF this] show ?thesis
    by (simp add: sanitizeErrorMessage_def redactPatterns_def)
qed

theorem sanitizeErrorMessage_hangs_on_remote_witness:
  "\<exists>remote. BuildS3RemoteString \<lparr>Region = ''r'', Endpoint = [], AccessKeyID = ''AK'', SecretAccessKey = ''SK'',
       Bucket = ''b'', ForcePathStyle = False, Provider = []\<rparr> ''volumes/v'' = Inr remote
     \<and> sanitizeErrorMessage (''couldn't find '' @ remote @ '': denied'') = None"
proof -
  have "\<exists>remote. BuildS3RemoteString \<lparr>Region = ''r'', Endpoint = [], AccessKeyID = ''AK'', SecretAccessKey = ''SK'',
       Bucket = ''b'', ForcePathStyle = False, Provider = []\<rparr> ''volumes/v'' = Inr remote"
    by (simp add: BuildS3RemoteString_def)
  then show ?thesis using sanitizeErrorMessage_hangs_on_remote by blast
qed

section \<open>The watchdog\<close>

lemma firstFatal_None: "firstFatal cs = None \<longleftrightarrow> (\<forall>c \<in> set cs. \<not> holdsMountLock (rpc_method c))"
  by (induction cs) auto

text \<open>
  The watchdog ends the process exactly when some call of a \<^verbatim>\<open>mount/\<close> method, which holds rclone's global mount lock,
  has been in flight for at least its own budget and at least five minutes; no other overdue call and
  no call still within its budget ever makes it abort, in whatever order the table is visited.
\<close>

theorem checkStuckRPCs_aborts_iff:
  "checkStuckRPCs inFlight t \<noteq> None \<longleftrightarrow>
     (\<exists>c \<in> snd ` set inFlight. holdsMountLock (rpc_method c)
        \<and> rpc_started c + rpc_budget c \<le> t \<and> rpc_started c + minutes 5 \<le> t)"
proof -
  have "0 \<le> overdueBy c t \<longleftrightarrow> rpc_started c + rpc_budget c \<le> t \<and> rpc_started c + minutes 5 \<le> t" for c
    by (auto simp: overdueBy_def rpcStuckFatalAfter_def)
  then show ?thesis by (auto simp: checkStuckRPCs_def firstFatal_None stuckRPCs_def)
qed

text \<open>Bookkeeping: identifiers in the record are at most the last one given out.\<close>

definition rpcFresh :: "'s rc_scheme \<Rightarrow> bool" where
  "rpcFresh s = (\<forall>e \<in> set (rpcInFlight s). fst e \<le> rpcSeq s)"

lemma run_callLibrclone:
  "run_state (callLibrclone env method input timeout) s =
     (let e = (rpcSeq s + 1, \<lparr>rpc_method = method, rpc_started = now env (hist s), rpc_budget = timeout\<rparr>);
          h = hist s @ [Asked QNow];
          r = librclone env h method input;
          s1 = s\<lparr>hist := h @ [RpcCalled method input r], rpcSeq := rpcSeq s + 1\<rparr>
      in case r of
           RpcReply out status \<Rightarrow> (Inr (out, status), s1\<lparr>rpcInFlight := filter (\<lambda>x. fst x \<noteq> rpcSeq s + 1) (rpcInFlight s)\<rparr>)
         | RpcNoAnswer \<Rightarrow> (Inl (WrapW method (Sentinel ErrRPCTimeout)), s1\<lparr>rpcInFlight := e # rpcInFlight s\<rparr>))"
  by (simp add: callLibrclone_def Let_def split: rpcreply.splits)

lemma callLibrclone_record:
  assumes "rpcFresh s" "run_state (callLibrclone env method input timeout) s = (r, s')"
  shows "rpcFresh s' \<and> rpcInFlight s' =
    (case r of Inr _ \<Rightarrow> rpcInFlight s
     | Inl _ \<Rightarrow> (rpcSeq s + 1, \<lparr>rpc_method = method, rpc_started = now env (hist s), rpc_budget = timeout\<rparr>) # rpcInFlight s)"
proof -
  have "filter (\<lambda>x. fst x \<noteq> rpcSeq s + 1) (rpcInFlight s) = rpcInFlight s"
    using assms(1) by (auto simp: rpcFresh_def filter_id_conv)
  then show ?thesis
    using assms by (fastforce simp: run_callLibrclone rpcFresh_def Let_def split: rpcreply.splits)
qed

section \<open>Purging touches one volume\<close>

text \<open>The calls into librclone a history holds.\<close>

definition rpcCalls :: "hist \<Rightarrow> (string \<times> json) list" where
  "rpcCalls h = List.map_filter (\<lambda>e. case e of RpcCalled m p _ \<Rightarrow> Some (m, p) | _ \<Rightarrow> None) h"

lemma rpcCalls_simps [simp]:
  "rpcCalls [] = []" "rpcCalls (h @ h') = rpcCalls h @ rpcCalls h'"
  "rpcCalls (RpcCalled m p r # h) = (m, p) # rpcCalls h" "rpcCalls (Asked q # h) = rpcCalls h"
  "rpcCalls (Ran c x # h) = rpcCalls h" "rpcCalls (Did f y # h) = rpcCalls h" "rpcCalls (Kube k # h) = rpcCalls h"
  by (simp_all add: rpcCalls_def List.map_filter_def)

abbreviation optionsCall :: "string \<times> json" where
  "optionsCall \<equiv> (''options/set'', JObj [(''main'', JObj [(''UseServerModTime'', JBool True)])])"

lemma callLibrclone_calls:
  "rpcCalls (hist (snd (run_state (callLibrclone env m p t) s))) = rpcCalls (hist s) @ [(m, p)]"
  by (simp add: run_callLibrclone Let_def split: rpcreply.splits)

lemma Initialize_calls:
  "\<exists>cs. set cs \<subseteq> {optionsCall} \<and> rpcCalls (hist (snd (run_state (Initialize env) s))) = rpcCalls (hist s) @ cs"
  using callLibrclone_calls [of env "fst optionsCall" "snd optionsCall" RPCDefaultTimeout "s\<lparr>initOnceDone := True\<rparr>"]
  by (auto simp: Initialize_def setServerModTime_def case_prod_beta)

lemma RPCWithTimeout_calls:
  "\<exists>cs. set cs \<subseteq> {optionsCall} \<and>
     rpcCalls (hist (snd (run_state (RPCWithTimeout env m p t) s))) = rpcCalls (hist s) @ cs @ [(m, p)]"
proof -
  let ?s1 = "snd (run_state (Initialize env) s)"
  from Initialize_calls [of env s] obtain cs where cs: "set cs \<subseteq> {optionsCall}"
    "rpcCalls (hist ?s1) = rpcCalls (hist s) @ cs" by blast
  have "snd (run_state (RPCWithTimeout env m p t) s) = snd (run_state (callLibrclone env m p t) ?s1)"
    by (simp add: RPCWithTimeout_def case_prod_beta split: sum.splits prod.splits)
  with cs callLibrclone_calls [of env m p t ?s1] show ?thesis by (auto intro!: exI [of _ cs])
qed

text \<open>An object key lies under a path of the bucket.\<close>

definition underPath :: "string \<Rightarrow> string \<Rightarrow> bool" where
  "underPath path key = hasPrefix key (path @ ''/'')"

lemma s3VolumePath_disjoint:
  assumes "CHR ''/'' \<notin> set v" "CHR ''/'' \<notin> set w" "v \<noteq> w" "underPath (s3VolumePath p v) key"
  shows "\<not> underPath (s3VolumePath p w) key"
proof
  assume w: "underPath (s3VolumePath p w) key"
  obtain pre where pre: "\<And>x. s3VolumePath p x = pre @ x" by (cases "p = []") (auto simp: s3VolumePath_def)
  from assms(4) obtain a where a: "key = pre @ v @ ''/'' @ a" by (auto simp: underPath_def hasPrefix_iff pre)
  from w obtain b where b: "key = pre @ w @ ''/'' @ b" by (auto simp: underPath_def hasPrefix_iff pre)
  from a b have "v @ ''/'' @ a = w @ ''/'' @ b" by simp
  then have "cut (v @ ''/'' @ a) ''/'' = cut (w @ ''/'' @ b) ''/''" by simp
  with cut_fresh [OF assms(1), of "[]" a] cut_fresh [OF assms(2), of "[]" b] assms(3) show False by simp
qed

lemma DeleteVolumeData_calls:
  assumes "run_state (DeleteVolumeData env config v pre) s = (r, s')"
  shows "\<exists>cs. rpcCalls (hist s') = rpcCalls (hist s) @ cs \<and>
       (\<forall>c \<in> set cs. c = optionsCall \<or> (\<exists>remote. BuildS3RemoteString config (s3VolumePath pre v) = Inr remote
          \<and> c = (''operations/purge'', purgeParams remote)))"
proof -
  let ?s1 = "snd (run_state (Initialize env) s)"
  from Initialize_calls [of env s] obtain cs where cs: "set cs \<subseteq> {optionsCall}"
    "rpcCalls (hist ?s1) = rpcCalls (hist s) @ cs" by blast
  show ?thesis
  proof (cases "BuildS3RemoteString config (s3VolumePath pre v)")
    case (Inl e)
    with assms have "s' = ?s1" by (auto simp: DeleteVolumeData_def split: prod.splits)
    with cs show ?thesis by auto
  next
    case (Inr remote)
    let ?rpc = "RPCWithTimeout env ''operations/purge'' (purgeParams remote) (minutes 30)"
    from assms Inr have s': "s' = snd (run_state ?rpc ?s1)"
      by (auto simp: DeleteVolumeData_def split: prod.splits)
    from RPCWithTimeout_calls [of env "''operations/purge''" "purgeParams remote" "minutes 30" ?s1]
    obtain ds where ds: "set ds \<subseteq> {optionsCall}"
      "rpcCalls (hist s') = rpcCalls (hist ?s1) @ ds @ [(''operations/purge'', purgeParams remote)]"
      unfolding s' by blast
    with cs Inr show ?thesis
      by (intro exI [of _ "cs @ ds @ [(''operations/purge'', purgeParams remote)]"]) auto
  qed
qed



end
