(* ===== verification/Secrets.thy ===== *)
theory Secrets
  imports Host
begin

text \<open>
  Secret handling (\<^verbatim>\<open>pkg/secrets\<close>): which Kubernetes secrets a volume refers to
  (\<^verbatim>\<open>params.go\<close>), fetching them (\<^verbatim>\<open>fetch.go\<close>), reading S3 credentials that the provisioner
  passes in (\<^verbatim>\<open>secrets.go\<close>) and validating the result (\<^verbatim>\<open>validation.go\<close>).
\<close>

section \<open>Keys and data\<close>

definition SecretNamespaceKey :: string where
  "SecretNamespaceKey = ''csi.storage.k8s.io/node-stage-secret-namespace''"
definition SecretNameKey :: string where
  "SecretNameKey = ''csi.storage.k8s.io/node-stage-secret-name''"
definition PassphraseKeyParam :: string where
  "PassphraseKeyParam = ''passphraseKey''"
definition DefaultPassphraseKey :: string where
  "DefaultPassphraseKey = ''passphrase''"
definition S3SecretNameKey :: string where
  "S3SecretNameKey = ''s3-secret-name''"
definition S3SecretNamespaceKey :: string where
  "S3SecretNamespaceKey = ''s3-secret-namespace''"
definition S3AccessKeyIDKey :: string where
  "S3AccessKeyIDKey = ''s3-access-key-id''"
definition S3SecretAccessKeyKey :: string where
  "S3SecretAccessKeyKey = ''s3-secret-access-key''"
definition S3BucketKey :: string where
  "S3BucketKey = ''s3-bucket''"
definition S3RegionKey :: string where
  "S3RegionKey = ''s3-region''"
definition S3EndpointKey :: string where
  "S3EndpointKey = ''s3-endpoint''"
definition S3ForcePathStyleKey :: string where
  "S3ForcePathStyleKey = ''s3-force-path-style''"

lemmas secretKeys = SecretNamespaceKey_def SecretNameKey_def PassphraseKeyParam_def DefaultPassphraseKey_def S3SecretNameKey_def S3SecretNamespaceKey_def S3AccessKeyIDKey_def S3SecretAccessKeyKey_def S3BucketKey_def S3RegionKey_def S3EndpointKey_def S3ForcePathStyleKey_def

record SecretReference =
  ref_name :: string
  ref_namespace :: string

record SecretParams =
  LUKSSecret :: SecretReference
  S3Secret :: SecretReference
  PassphraseKey :: string

record VolumeSecrets =
  vs_passphrase :: string
  vs_passphraseKey :: string
  vs_bucket :: string
  vs_region :: string
  vs_endpoint :: string
  vs_forcePathStyle :: bool
  vs_accessKeyID :: string
  vs_secretAccessKey :: string
  vs_luksSecretName :: string
  vs_luksSecretNamespace :: string
  vs_s3SecretName :: string
  vs_s3SecretNamespace :: string

record S3SecretConfig =
  sc_bucket :: string
  sc_region :: string
  sc_endpoint :: string
  sc_forcePathStyle :: bool
  sc_accessKeyID :: string
  sc_secretAccessKey :: string

record S3Credentials =
  cr_bucket :: string
  cr_region :: string
  cr_endpoint :: string
  cr_accessKeyID :: string
  cr_secretAccessKey :: string

section \<open>Which secrets\<close>

text \<open>
  \<^verbatim>\<open>if v, ok := volumeContext[key]; ok { \<dots> } else if scParams != nil { if v, ok := scParams[key]; ok \<dots> }\<close>:
  the volume context wins, then the StorageClass, then the default. A nil map has no keys, so
  it is the empty map here.
\<close>

definition pickParam :: "smap \<Rightarrow> smap \<Rightarrow> string \<Rightarrow> string \<Rightarrow> string" where
  "pickParam scParams volumeContext key dflt =
     (case volumeContext key of
        Some v \<Rightarrow> v
      | None \<Rightarrow> (case scParams key of Some v \<Rightarrow> v | None \<Rightarrow> dflt))"

definition ExtractSecretParams :: "smap \<Rightarrow> smap \<Rightarrow> SecretParams" where
  "ExtractSecretParams scParams volumeContext =
     \<lparr>LUKSSecret = \<lparr>ref_name = pickParam scParams volumeContext SecretNameKey [],
                    ref_namespace = pickParam scParams volumeContext SecretNamespaceKey []\<rparr>,
      S3Secret = \<lparr>ref_name = pickParam scParams volumeContext S3SecretNameKey [],
                  ref_namespace = pickParam scParams volumeContext S3SecretNamespaceKey []\<rparr>,
      PassphraseKey = pickParam scParams volumeContext PassphraseKeyParam DefaultPassphraseKey\<rparr>"

definition HasLUKSSecret :: "SecretParams \<Rightarrow> bool" where
  "HasLUKSSecret p = (ref_name (LUKSSecret p) \<noteq> [] \<and> ref_namespace (LUKSSecret p) \<noteq> [])"

definition HasS3Secret :: "SecretParams \<Rightarrow> bool" where
  "HasS3Secret p = (ref_name (S3Secret p) \<noteq> [] \<and> ref_namespace (S3Secret p) \<noteq> [])"

section \<open>Fetching\<close>

definition fetchPassphrase :: "env \<Rightarrow> SecretReference \<Rightarrow> string \<Rightarrow> ('s os_scheme, string res) state" where
  "fetchPassphrase env ref key0 =
     (let key = (if key0 = [] then DefaultPassphraseKey else key0)
      in callE (kube (\<lambda>h. getSecret env h (ref_namespace ref) (ref_name ref))
                     (KGetSecret (ref_namespace ref) (ref_name ref)))
           (WrapW ''get secret'')
           (\<lambda>data. ret (case data key of
                None \<Rightarrow> Inl (Err ''no passphrase entry'')
              | Some p \<Rightarrow> Inr p)))"

definition requireKey :: "smap \<Rightarrow> string \<Rightarrow> (string \<Rightarrow> 'a res) \<Rightarrow> 'a res" where
  "requireKey data key k = (case data key of None \<Rightarrow> Inl (Err (key @ '' not found'')) | Some v \<Rightarrow> k v)"

definition fetchS3Config :: "env \<Rightarrow> SecretReference \<Rightarrow> ('s os_scheme, S3SecretConfig res) state" where
  "fetchS3Config env ref =
     callE (kube (\<lambda>h. getSecret env h (ref_namespace ref) (ref_name ref))
                 (KGetSecret (ref_namespace ref) (ref_name ref)))
       (WrapW ''get secret'')
       (\<lambda>data. ret (
          requireKey data S3BucketKey (\<lambda>bucket.
          requireKey data S3RegionKey (\<lambda>region.
          requireKey data S3AccessKeyIDKey (\<lambda>accessKeyID.
          requireKey data S3SecretAccessKeyKey (\<lambda>secretAccessKey.
            Inr \<lparr>sc_bucket = bucket, sc_region = region,
                 sc_endpoint = mget data S3EndpointKey,
                 sc_forcePathStyle = (data S3ForcePathStyleKey = Some ''true''),
                 sc_accessKeyID = accessKeyID, sc_secretAccessKey = secretAccessKey\<rparr>))))))"

definition emptySecrets :: "string \<Rightarrow> VolumeSecrets" where
  "emptySecrets key = \<lparr>vs_passphrase = [], vs_passphraseKey = key, vs_bucket = [], vs_region = [],
     vs_endpoint = [], vs_forcePathStyle = False, vs_accessKeyID = [], vs_secretAccessKey = [],
     vs_luksSecretName = [], vs_luksSecretNamespace = [], vs_s3SecretName = [], vs_s3SecretNamespace = []\<rparr>"

definition FetchVolumeSecrets :: "env \<Rightarrow> SecretParams \<Rightarrow> ('s os_scheme, VolumeSecrets res) state" where
  "FetchVolumeSecrets env params =
     (if \<not> hasClient env then ret (Inl (Err ''no clientset''))
      else callE
        (if ref_name (LUKSSecret params) \<noteq> [] \<and> ref_namespace (LUKSSecret params) \<noteq> [] then
           callE (fetchPassphrase env (LUKSSecret params) (PassphraseKey params))
             (WrapW ''fetch passphrase'')
             (\<lambda>p. ret (Inr ((emptySecrets (PassphraseKey params))
                \<lparr>vs_passphrase := p, vs_luksSecretName := ref_name (LUKSSecret params),
                 vs_luksSecretNamespace := ref_namespace (LUKSSecret params)\<rparr>)))
         else ret (Inr (emptySecrets (PassphraseKey params))))
        id
        (\<lambda>vs. if ref_name (S3Secret params) \<noteq> [] \<and> ref_namespace (S3Secret params) \<noteq> [] then
           callE (fetchS3Config env (S3Secret params)) (WrapW ''fetch S3 config'')
             (\<lambda>c. ret (Inr (vs\<lparr>vs_bucket := sc_bucket c, vs_region := sc_region c,
                vs_endpoint := sc_endpoint c, vs_forcePathStyle := sc_forcePathStyle c,
                vs_accessKeyID := sc_accessKeyID c, vs_secretAccessKey := sc_secretAccessKey c,
                vs_s3SecretName := ref_name (S3Secret params),
                vs_s3SecretNamespace := ref_namespace (S3Secret params)\<rparr>)))
         else ret (Inr vs)))"

section \<open>Credentials from a CSI secrets map, and validation\<close>

definition S3ConfigFromSecrets :: "smap \<Rightarrow> S3Credentials option" where
  "S3ConfigFromSecrets d =
     (if mget d S3BucketKey = [] then None
      else if mget d S3AccessKeyIDKey = [] \<or> mget d S3SecretAccessKeyKey = [] then None
      else Some \<lparr>cr_bucket = mget d S3BucketKey, cr_region = mget d S3RegionKey,
                 cr_endpoint = mget d S3EndpointKey, cr_accessKeyID = mget d S3AccessKeyIDKey,
                 cr_secretAccessKey = mget d S3SecretAccessKeyKey\<rparr>)"

definition Validate :: "VolumeSecrets \<Rightarrow> bool \<Rightarrow> goerr option" where
  "Validate vs requireS3 =
     (if vs_passphrase vs = [] then Some (Err ''no passphrase'')
      else if requireS3 \<and> vs_accessKeyID vs = [] then Some (Err ''no access key ID'')
      else if requireS3 \<and> vs_secretAccessKey vs = [] then Some (Err ''no secret access key'')
      else None)"

definition HasS3Credentials :: "VolumeSecrets \<Rightarrow> bool" where
  "HasS3Credentials vs = (vs_accessKeyID vs \<noteq> [] \<and> vs_secretAccessKey vs \<noteq> [])"

section \<open>Properties\<close>

lemma Validate_None:
  "Validate vs requireS3 = None \<longleftrightarrow> vs_passphrase vs \<noteq> [] \<and> (requireS3 \<longrightarrow> HasS3Credentials vs)"
  by (auto simp: Validate_def HasS3Credentials_def)

text \<open>Where the result of a fetch comes from.\<close>

lemma run_fetchPassphrase:
  "run_state (fetchPassphrase env ref key0) s =
     ((case getSecret env (hist s) (ref_namespace ref) (ref_name ref) of
         Inl e \<Rightarrow> Inl (WrapW ''get secret'' e)
       | Inr data \<Rightarrow> (case data (if key0 = [] then DefaultPassphraseKey else key0) of
            None \<Rightarrow> Inl (Err ''no passphrase entry'')
          | Some p \<Rightarrow> Inr p)),
      s\<lparr>hist := hist s @ [Kube (KGetSecret (ref_namespace ref) (ref_name ref))]\<rparr>)"
  by (simp add: fetchPassphrase_def host_ops split: sum.splits)

text \<open>
  When the secrets of a volume are fetched successfully, its LUKS passphrase is exactly the entry the
  Kubernetes secret holds under the configured key (the default key when none is configured), where
  the secret's name and namespace are looked up in the volume context first and in the StorageClass
  parameters only when the context has no such key; without a complete reference no passphrase is set.
\<close>

theorem FetchVolumeSecrets_passphrase:
  assumes "run_state (FetchVolumeSecrets env (ExtractSecretParams sc vc)) s = (Inr vs, s')"
  shows "hasClient env \<and>
    (let name = pickParam sc vc SecretNameKey []; ns = pickParam sc vc SecretNamespaceKey [];
         key = pickParam sc vc PassphraseKeyParam DefaultPassphraseKey
     in if name \<noteq> [] \<and> ns \<noteq> []
        then \<exists>data. getSecret env (hist s) ns name = Inr data \<and>
          data (if key = [] then DefaultPassphraseKey else key) = Some (vs_passphrase vs)
        else vs_passphrase vs = [])"
  using assms
  by (auto simp: FetchVolumeSecrets_def ExtractSecretParams_def run_fetchPassphrase fetchS3Config_def host_ops
        requireKey_def emptySecrets_def Let_def split: if_splits sum.splits option.splits prod.splits)

theorem FetchVolumeSecrets_passphrase_witness:
  "\<exists>vs s'. run_state (FetchVolumeSecrets
       (quietEnv\<lparr>getSecret := \<lambda>_ _ _. Inr [DefaultPassphraseKey \<mapsto> ''pw'']\<rparr>)
       (ExtractSecretParams [SecretNameKey \<mapsto> ''n''] [SecretNamespaceKey \<mapsto> ''ns''])) \<lparr>hist = []\<rparr> = (Inr vs, s')
     \<and> vs_passphrase vs = ''pw''"
proof -
  let ?env = "quietEnv\<lparr>getSecret := \<lambda>_ _ _. Inr [DefaultPassphraseKey \<mapsto> ''pw'']\<rparr>"
  let ?m = "FetchVolumeSecrets ?env (ExtractSecretParams [SecretNameKey \<mapsto> ''n''] [SecretNamespaceKey \<mapsto> ''ns''])"
  have "\<exists>vs s'. run_state ?m \<lparr>hist = []\<rparr> = (Inr vs, s')"
    by (simp add: FetchVolumeSecrets_def ExtractSecretParams_def run_fetchPassphrase pickParam_def quietEnv_def secretKeys)
  then obtain vs s' where r: "run_state ?m \<lparr>hist = []\<rparr> = (Inr vs, s')" by blast
  from FetchVolumeSecrets_passphrase [OF this] have "vs_passphrase vs = ''pw''"
    by (simp add: pickParam_def secretKeys)
  with r show ?thesis by blast
qed

end
