(* ===== verification/Controller.thy ===== *)
theory Controller
  imports Cluster Rclone Secrets
begin

text \<open>
  The CSI controller service (\<^verbatim>\<open>driver/controller.go\<close>): creating a volume is bookkeeping, with the capacity and, for a
  LUKS volume, the node that will hold its backing file; deleting an S3 volume purges its objects; expanding one approves
  the size and leaves the work to the node.
\<close>

section \<open>Requests\<close>

datatype accessMode = UNKNOWN | SINGLE_NODE_WRITER | SINGLE_NODE_READER_ONLY | MULTI_NODE_READER_ONLY
  | MULTI_NODE_SINGLE_WRITER | MULTI_NODE_MULTI_WRITER | SINGLE_NODE_SINGLE_WRITER | SINGLE_NODE_MULTI_WRITER

record mountVolume =
  mv_fsType :: string
  mv_mountGroup :: string
  mv_flags :: "string list"

record VolumeCapability =
  cap_mount :: "mountVolume option" \<comment> \<open>\<open>None\<close>: another access type\<close>
  cap_mode :: accessMode

type_synonym capacityRange = "int \<times> int" \<comment> \<open>required bytes, limit bytes\<close>

record CreateVolumeRequest =
  cv_name :: string
  cv_capabilities :: "VolumeCapability list option"
  cv_range :: "capacityRange option"
  cv_parameters :: smap
  cv_preferred :: "smap list"
  cv_requisite :: "smap list"

record Volume =
  VolumeId :: string
  CapacityBytes :: int
  VolumeContext :: smap
  AccessibleTopology :: "smap list"

section \<open>Handlers\<close>

definition fsTypeOk :: "string \<Rightarrow> bool" where
  "fsTypeOk t = (t \<in> {[], ''ext2'', ''ext3'', ''ext4'', ''xfs''})"

fun validateVolumeCapabilities :: "VolumeCapability list \<Rightarrow> goerr option" where
  "validateVolumeCapabilities [] = None"
| "validateVolumeCapabilities (c # cs) =
     (case cap_mount c of
        None \<Rightarrow> Some (Err ''only mount access type is supported'')
      | Some m \<Rightarrow>
          if cap_mode c \<notin> {SINGLE_NODE_WRITER, SINGLE_NODE_READER_ONLY} then Some (Err ''unsupported access mode'')
          else if \<not> fsTypeOk (mv_fsType m) then Some (Err ''unsupported filesystem type'')
          else validateVolumeCapabilities cs)"

fun firstNode :: "smap list \<Rightarrow> string" where
  "firstNode [] = []"
| "firstNode (t # ts) = (if mget t TopologyKeyNode \<noteq> [] then mget t TopologyKeyNode else firstNode ts)"

definition pickTopologyNode :: "smap list \<Rightarrow> smap list \<Rightarrow> string" where
  "pickTopologyNode preferred requisite =
     (if firstNode preferred \<noteq> [] then firstNode preferred else firstNode requisite)"

definition defaultCapacity :: int where
  "defaultCapacity = 1 * 1024 * 1024 * 1024"

definition requestedCapacity :: "capacityRange option \<Rightarrow> int" where
  "requestedCapacity r = (case r of
       None \<Rightarrow> defaultCapacity
     | Some (required, limit) \<Rightarrow> if required \<noteq> 0 then required else if limit \<noteq> 0 then limit else defaultCapacity)"

definition capacityKey :: string where
  "capacityKey = ''capacity''"

definition CreateVolume :: "CreateVolumeRequest \<Rightarrow> Volume rpc" where
  "CreateVolume req =
     (if cv_name req = [] then Inl (Status InvalidArgument (Err ''Name missing''))
      else case cv_capabilities req of
        None \<Rightarrow> Inl (Status InvalidArgument (Err ''Volume capabilities missing''))
      | Some caps \<Rightarrow> (case validateVolumeCapabilities caps of
          Some e \<Rightarrow> Inl (Status InvalidArgument (WrapV ''Invalid volume capabilities'' e))
        | None \<Rightarrow>
           (let capacityBytes = requestedCapacity (cv_range req);
                volumeContext = [capacityKey \<mapsto> show_int capacityBytes] ++ cv_parameters req;
                volume = \<lparr>VolumeId = cv_name req, CapacityBytes = capacityBytes,
                          VolumeContext = volumeContext, AccessibleTopology = []\<rparr>
            in if mget (cv_parameters req) StorageBackendParam \<noteq> ''s3'' then
                 (let node = pickTopologyNode (cv_preferred req) (cv_requisite req)
                  in if node = [] then Inl (Status FailedPrecondition (Err ''no topology segment''))
                     else Inr (volume\<lparr>VolumeContext := volumeContext(PinnedNodeParam \<mapsto> node),
                                      AccessibleTopology := [[TopologyKeyNode \<mapsto> node]]\<rparr>))
               else Inr volume)))"

text \<open>\<open>secrets\<close> is the request's map; an empty one has no keys.\<close>

definition DeleteVolume :: "env \<Rightarrow> string \<Rightarrow> smap \<Rightarrow> ('s rc_scheme, unit rpc) state" where
  "DeleteVolume env volumeID reqSecrets =
     (if volumeID = [] then ret (Inl (Status InvalidArgument (Err ''Volume ID missing'')))
      else if reqSecrets = Map.empty then ret (Inr ())
      else case S3ConfigFromSecrets reqSecrets of
        None \<Rightarrow> ret (Inr ())
      | Some c \<Rightarrow>
          callE (GetS3PathPrefixByVolumeID (controllerGetStorageClassParametersByVolumeID env) volumeID)
            (\<lambda>e. Status Unavailable (WrapV ''cannot determine S3 path prefix'' e)) (\<lambda>prefix.
            checkE (DeleteVolumeData env \<lparr>Region = cr_region c, Endpoint = cr_endpoint c, AccessKeyID = cr_accessKeyID c,
                SecretAccessKey = cr_secretAccessKey c, Bucket = cr_bucket c, ForcePathStyle = False, Provider = []\<rparr>
                volumeID prefix)
              (\<lambda>e. Status Internal (WrapV ''failed to delete S3 data'' e)) (ret (Inr ()))))"

text \<open>\<open>Inr (Inl message)\<close> is a response that does not confirm.\<close>

definition ValidateVolumeCapabilities :: "string \<Rightarrow> VolumeCapability list option \<Rightarrow> (string + VolumeCapability list) rpc" where
  "ValidateVolumeCapabilities volumeID caps =
     (if volumeID = [] then Inl (Status InvalidArgument (Err ''Volume ID missing''))
      else case caps of
        None \<Rightarrow> Inl (Status InvalidArgument (Err ''Volume capabilities missing''))
      | Some cs \<Rightarrow> (case validateVolumeCapabilities cs of Some e \<Rightarrow> Inr (Inl (errText e)) | None \<Rightarrow> Inr (Inr cs)))"

text \<open>The capacity granted, and whether the node must expand.\<close>

definition ControllerExpandVolume :: "string \<Rightarrow> capacityRange option \<Rightarrow> (int \<times> bool) rpc" where
  "ControllerExpandVolume volumeID crange =
     (if volumeID = [] then Inl (Status InvalidArgument (Err ''Volume ID missing''))
      else case crange of
        None \<Rightarrow> Inl (Status InvalidArgument (Err ''Capacity range missing''))
      | Some (required, limit) \<Rightarrow>
          (let requestedBytes = (if required = 0 then limit else required)
           in if requestedBytes = 0 then Inl (Status InvalidArgument (Err ''Required bytes missing''))
              else Inr (requestedBytes, True)))"

datatype controllerCapability = CREATE_DELETE_VOLUME | EXPAND_VOLUME

text \<open>The calls of the service that are not implemented; none of them reads its request or changes anything.\<close>

definition unimplemented :: "string \<Rightarrow> unit rpc" where
  "unimplemented name = Inl (Status Unimplemented (Err (name @ '' is not implemented'')))"

definition ControllerPublishVolume :: "unit rpc" where "ControllerPublishVolume = unimplemented ''ControllerPublishVolume''"
definition ControllerUnpublishVolume :: "unit rpc" where "ControllerUnpublishVolume = unimplemented ''ControllerUnpublishVolume''"
definition ListVolumes :: "unit rpc" where "ListVolumes = unimplemented ''ListVolumes''"
definition GetCapacity :: "unit rpc" where "GetCapacity = unimplemented ''GetCapacity''"
definition CreateSnapshot :: "unit rpc" where "CreateSnapshot = unimplemented ''CreateSnapshot''"
definition DeleteSnapshot :: "unit rpc" where "DeleteSnapshot = unimplemented ''DeleteSnapshot''"
definition ListSnapshots :: "unit rpc" where "ListSnapshots = unimplemented ''ListSnapshots''"
definition ControllerGetVolume :: "unit rpc" where "ControllerGetVolume = unimplemented ''ControllerGetVolume''"

definition ControllerGetCapabilities :: "controllerCapability list" where
  "ControllerGetCapabilities = [CREATE_DELETE_VOLUME, EXPAND_VOLUME]"

section \<open>Creating\<close>

lemma capacityKey_ne_pinned: "capacityKey \<noteq> PinnedNodeParam"
  by (simp add: capacityKey_def PinnedNodeParam_def DriverName_def)

lemma validateVolumeCapabilities_ok:
  "validateVolumeCapabilities cs = None \<longleftrightarrow> (\<forall>c \<in> set cs. \<exists>m. cap_mount c = Some m \<and> fsTypeOk (mv_fsType m) \<and>
     cap_mode c \<in> {SINGLE_NODE_WRITER, SINGLE_NODE_READER_ONLY})"
  by (induction cs) (auto split: option.splits)

lemma pickTopologyNode_source:
  "pickTopologyNode p r \<noteq> [] \<Longrightarrow> \<exists>t \<in> set (p @ r). mget t TopologyKeyNode = pickTopologyNode p r"
proof -
  have "firstNode ts \<noteq> [] \<Longrightarrow> \<exists>t \<in> set ts. mget t TopologyKeyNode = firstNode ts" for ts
    by (induction ts) auto
  then show "pickTopologyNode p r \<noteq> [] \<Longrightarrow> \<exists>t \<in> set (p @ r). mget t TopologyKeyNode = pickTopologyNode p r"
    by (auto simp: pickTopologyNode_def split: if_splits)
qed

text \<open>
  A created volume can be placed: a LUKS volume always carries one node, taken from the accessibility
  requirements with the scheduler's preference first, and it is the same node in its context (where the node plugin
  reads it) and in its topology (which becomes the PV's affinity), overriding any parameter of that name; an S3
  volume carries no topology. The capacity in the context parses back to the capacity of the response unless a
  StorageClass parameter of that name replaces it.
\<close>

theorem CreateVolume_placement:
  assumes "CreateVolume req = Inr v" and "int64 (requestedCapacity (cv_range req))"
  shows "VolumeId v = cv_name req \<and> CapacityBytes v = requestedCapacity (cv_range req) \<and>
    (if mget (cv_parameters req) StorageBackendParam = ''s3'' then AccessibleTopology v = []
     else \<exists>node. node \<noteq> [] \<and> VolumeContext v PinnedNodeParam = Some node \<and>
       AccessibleTopology v = [[TopologyKeyNode \<mapsto> node]] \<and>
       (\<exists>t \<in> set (cv_preferred req @ cv_requisite req). mget t TopologyKeyNode = node)) \<and>
    (cv_parameters req capacityKey = None \<longrightarrow> parseInt (mget (VolumeContext v) capacityKey) = Some (CapacityBytes v))"
proof -
  let ?node = "pickTopologyNode (cv_preferred req) (cv_requisite req)"
  let ?cap = "requestedCapacity (cv_range req)"
  let ?ctx = "[capacityKey \<mapsto> show_int ?cap] ++ cv_parameters req"
  have cap: "cv_parameters req capacityKey = None \<longrightarrow> parseInt (mget ?ctx capacityKey) = Some ?cap"
    using assms(2) by (auto simp: mget_def map_add_def parseInt_show_int)
  show ?thesis
  proof (cases "mget (cv_parameters req) StorageBackendParam = ''s3''")
    case True
    then show ?thesis using assms(1) cap
      by (auto simp: CreateVolume_def Let_def split: if_splits option.splits)
  next
    case False
    then have "?node \<noteq> []" "v = \<lparr>VolumeId = cv_name req, CapacityBytes = ?cap,
        VolumeContext = ?ctx(PinnedNodeParam \<mapsto> ?node), AccessibleTopology = [[TopologyKeyNode \<mapsto> ?node]]\<rparr>"
      using assms(1) by (auto simp: CreateVolume_def Let_def split: if_splits option.splits)
    with False cap capacityKey_ne_pinned pickTopologyNode_source show ?thesis by auto
  qed
qed

theorem CreateVolume_placement_witness:
  "\<exists>v. CreateVolume \<lparr>cv_name = ''pvc-1'', cv_capabilities = Some [], cv_range = Some (0, 5000), cv_parameters = Map.empty,
       cv_preferred = [[TopologyKeyNode \<mapsto> ''n1'']], cv_requisite = []\<rparr> = Inr v
     \<and> VolumeContext v PinnedNodeParam = Some ''n1''"
proof -
  let ?r = "\<lparr>cv_name = ''pvc-1'', cv_capabilities = Some [], cv_range = Some (0, 5000), cv_parameters = Map.empty,
       cv_preferred = [[TopologyKeyNode \<mapsto> ''n1'']], cv_requisite = []\<rparr>"
  have "\<exists>v. CreateVolume ?r = Inr v"
    by (simp add: CreateVolume_def pickTopologyNode_def Let_def)
  then obtain v where v: "CreateVolume ?r = Inr v" by blast
  from CreateVolume_placement [OF this] have "VolumeContext v PinnedNodeParam = Some ''n1''"
    by (auto simp: requestedCapacity_def int64_def)
  with v show ?thesis by blast
qed

section \<open>Deleting\<close>

text \<open>
  A volume whose S3 data is to be deleted is purged only under a prefix read from the parameters of its PV's
  StorageClass. When the prefix cannot be looked up, the call fails with Unavailable before anything is purged, so a
  wrong prefix never orphans the data silently.
\<close>

theorem DeleteVolume_prefix_known:
  assumes "run_state (DeleteVolume env v secrets) s = (r, s')" and "v \<noteq> []"
    and "S3ConfigFromSecrets secrets = Some c"
  shows "(\<exists>ps pre. scOf env (hist s) v ps \<and> pre = mget ps S3PathPrefixParam \<and>
      (\<exists>cfg r1 s1. run_state (GetS3PathPrefixByVolumeID (controllerGetStorageClassParametersByVolumeID env) v) s = (Inr pre, s1) \<and>
         run_state (DeleteVolumeData env cfg v pre) s1 = (r1, s') \<and> (r = Inr () \<longleftrightarrow> r1 = None)))
    \<or> (\<exists>e. r = Inl (Status Unavailable e)) \<and> (\<exists>t. hist s' = hist s @ t \<and> list_all looks t)"
proof -
  have ne: "secrets \<noteq> Map.empty" using assms(3) by (auto simp: S3ConfigFromSecrets_def)
  obtain q s1 where q: "run_state (GetS3PathPrefixByVolumeID (controllerGetStorageClassParametersByVolumeID env) v) s = (q, s1)"
    by fastforce
  show ?thesis
  proof (cases q)
    case (Inl e)
    then have "r = Inl (Status Unavailable (WrapV ''cannot determine S3 path prefix'' e))" "s' = s1"
      using assms ne q by (auto simp: DeleteVolume_def)
    with emitsD [OF controller_params.prefix_only_looks q] show ?thesis by blast
  next
    case (Inr pre)
    let ?cfg = "\<lparr>Region = cr_region c, Endpoint = cr_endpoint c, AccessKeyID = cr_accessKeyID c,
        SecretAccessKey = cr_secretAccessKey c, Bucket = cr_bucket c, ForcePathStyle = False, Provider = []\<rparr>"
    obtain r1 s2 where d: "run_state (DeleteVolumeData env ?cfg v pre) s1 = (r1, s2)" by fastforce
    with assms ne q Inr have "s' = s2" "r = Inr () \<longleftrightarrow> r1 = None"
      by (auto simp: DeleteVolume_def split: option.splits)
    with controller_params.prefix_from_cluster [of env v s pre s1] q Inr d show ?thesis by blast
  qed
qed

theorem DeleteVolume_prefix_known_witness:
  "\<exists>(s :: rc) r s'. run_state (DeleteVolume quietEnv ''pvc-1''
      [S3BucketKey \<mapsto> ''b'', S3AccessKeyIDKey \<mapsto> ''k'', S3SecretAccessKeyKey \<mapsto> ''x'']) s = (r, s')
     \<and> (\<exists>e. r = Inl (Status Unavailable e))"
proof -
  let ?m = "[S3BucketKey \<mapsto> ''b'', S3AccessKeyIDKey \<mapsto> ''k'', S3SecretAccessKeyKey \<mapsto> ''x'']"
  have c: "\<exists>c. S3ConfigFromSecrets ?m = Some c" by (simp add: S3ConfigFromSecrets_def mget_def secretKeys)
  fix s :: rc
  obtain r s' where r: "run_state (DeleteVolume quietEnv ''pvc-1'' ?m) s = (r, s')" by fastforce
  have "\<not> scOf quietEnv (hist s) ''pvc-1'' ps" for ps by (simp add: scOf_def quietEnv_def)
  with DeleteVolume_prefix_known [OF r] c have "\<exists>e. r = Inl (Status Unavailable e)" by auto
  with r show ?thesis by blast
qed

end
