(* ===== verification/NodeMounts.thy ===== *)
theory NodeMounts
  imports HostMounts Luks Controller
begin

text \<open>
  What the node service does to the host: bounded commands and the unwinding of stacked mounts
  (\<^verbatim>\<open>driver/node_s3.go\<close>), unmounting, binding and permissions (\<^verbatim>\<open>driver/node.go\<close>), backing files and loop devices
  (\<^verbatim>\<open>driver/utils.go\<close>).
\<close>

section \<open>Bounded commands\<close>

definition runCmdBoundedOutput :: "env \<Rightarrow> string \<Rightarrow> string list \<Rightarrow> ('s os_scheme, string res) state" where
  "runCmdBoundedOutput env name args = do {
     r \<leftarrow> run env (Cmd name args []);
     ret (case cmdErr r of None \<Rightarrow> Inr (cmdOut r) | Some e \<Rightarrow> Inl e)
   }"

definition runCmdBounded :: "env \<Rightarrow> string \<Rightarrow> string list \<Rightarrow> ('s os_scheme, goerr option) state" where
  "runCmdBounded env name args = do {
     r \<leftarrow> runCmdBoundedOutput env name args;
     ret (case r of Inl e \<Rightarrow> Some e | Inr _ \<Rightarrow> None)
   }"

section \<open>Unwinding mounts in the host namespace\<close>

abbreviation umountArgs :: "string \<Rightarrow> string list" where
  "umountArgs path \<equiv> [''-t'', ''1'', ''-m'', ''umount'', path]"

abbreviation umountLazyArgs :: "string \<Rightarrow> string list" where
  "umountLazyArgs path \<equiv> [''-t'', ''1'', ''-m'', ''umount'', ''-l'', path]"

definition unmountHostOnce :: "env \<Rightarrow> string \<Rightarrow> bool \<Rightarrow> ('s os_scheme, goerr option) state" where
  "unmountHostOnce env path tryNormal = do {
     n \<leftarrow> (if tryNormal then runCmdBounded env ''nsenter'' (umountArgs path) else ret (Some (Err ''not tried'')));
     if n = None then ret None
     else orFail (runCmdBounded env ''nsenter'' (umountLazyArgs path)) (WrapW ''umount -l'') (ret None)
   }"

definition maxMountStackUnwind :: nat where
  "maxMountStackUnwind = 10"

text \<open>The loop, with the number of rounds left; \<open>first\<close> is \<^verbatim>\<open>i == 0\<close>.\<close>

fun unwindLoop :: "env \<Rightarrow> string \<Rightarrow> bool \<Rightarrow> nat \<Rightarrow> ('s mnt_scheme, goerr option) state" where
  "unwindLoop env path first 0 = do {
     _ \<leftarrow> HostMountDepth env path;
     ret (Some (Err ''still carries stacked mounts''))
   }"
| "unwindLoop env path first (Suc n) = do {
     d \<leftarrow> HostMountDepth env path;
     (case d of
        None \<Rightarrow> ret (Some (Err ''host mount table unreadable''))
      | Some depth \<Rightarrow>
          if depth = 0 then ret None
          else orFail (unmountHostOnce env path first) id (do {
                 InvalidateHostMounts env;
                 unwindLoop env path False n
               }))
   }"

definition unmountHostStack :: "env \<Rightarrow> string \<Rightarrow> ('s mnt_scheme, goerr option) state" where
  "unmountHostStack env path = unwindLoop env path True maxMountStackUnwind"

definition unmountPath :: "env \<Rightarrow> string \<Rightarrow> ('s mnt_scheme, goerr option) state" where
  "unmountPath env targetPath = do {
     d \<leftarrow> HostMountDepth env targetPath;
     (case d of
        None \<Rightarrow> do { _ \<leftarrow> unmountHostOnce env targetPath True; ret None }
      | Some depth \<Rightarrow>
          if depth = 0 then ret None
          else orFail (unmountHostStack env targetPath) (WrapW ''failed to unmount'') (ret None))
   }"

definition isMountPoint :: "env \<Rightarrow> string \<Rightarrow> ('s mnt_scheme, bool) state" where
  "isMountPoint env path = IsHostMountPoint env path"

definition isMountedFrom :: "env \<Rightarrow> string \<Rightarrow> string \<Rightarrow> ('s os_scheme, bool) state" where
  "isMountedFrom env path device = do {
     r \<leftarrow> run env (Cmd ''findmnt'' [''-n'', ''-o'', ''SOURCE'', path] []);
     ret (cmdErr r = None \<and> trimSpace (cmdOut r) = device)
   }"

definition bindMount :: "env \<Rightarrow> string \<Rightarrow> string \<Rightarrow> bool \<Rightarrow> ('s os_scheme, goerr option) state" where
  "bindMount env sourcePath targetPath readonly =
     orFail (runCmdBounded env ''nsenter'' [''-t'', ''1'', ''-m'', ''-u'', ''mkdir'', ''-p'', targetPath]) (WrapV ''create target'') (
     orFail (runCmdBounded env ''nsenter'' [''-t'', ''1'', ''-m'', ''-u'', ''mount'', ''--bind'', sourcePath, targetPath]) (WrapV ''bind'') (
       if readonly then
         orFail (runCmdBounded env ''mount'' [''-o'', ''remount,ro'', targetPath]) (WrapV ''remount ro'') (ret None)
       else ret None))"

section \<open>Ownership and modes\<close>

definition extractFsGroupFromPod :: "env \<Rightarrow> smap \<Rightarrow> ('s os_scheme, int option) state" where
  "extractFsGroupFromPod env volumeContext =
     (if \<not> hasClient env then ret None
      else let podName = mget volumeContext ''csi.storage.k8s.io/pod.name'';
               podNamespace = mget volumeContext ''csi.storage.k8s.io/pod.namespace''
           in if podName = [] \<or> podNamespace = [] then ret None
              else do {
                r \<leftarrow> kube (\<lambda>h. getPod env h podNamespace podName) (KGetPod podNamespace podName);
                ret (case r of Inl _ \<Rightarrow> None | Inr p \<Rightarrow> pod_fsGroup p)
              })"

definition extractFsGroup :: "env \<Rightarrow> smap \<Rightarrow> VolumeCapability option \<Rightarrow> ('s os_scheme, int option) state" where
  "extractFsGroup env volumeContext volumeCapability =
     (case Option.bind (volumeContext ''fsGroup'') parseInt of
        Some g \<Rightarrow> ret (Some g)
      | None \<Rightarrow>
         (case Option.bind (Option.bind volumeCapability cap_mount)
                 (\<lambda>m. if mv_mountGroup m = [] then None else parseInt (mv_mountGroup m)) of
            Some g \<Rightarrow> ret (Some g)
          | None \<Rightarrow> extractFsGroupFromPod env volumeContext))"

definition FsModeParam :: string where
  "FsModeParam = ''fs-mode''"

definition defaultFsMode :: string where
  "defaultFsMode = ''0750''"

definition isValidOctalMode :: "string \<Rightarrow> bool" where
  "isValidOctalMode s = (3 \<le> length s \<and> length s \<le> 4 \<and> list_all (\<lambda>c. (48 :: nat) \<le> of_char c \<and> of_char c \<le> (55 :: nat)) s)"

definition extractFsMode :: "smap \<Rightarrow> string" where
  "extractFsMode volumeContext =
     (let mode = mget volumeContext FsModeParam
      in if mode = [] then defaultFsMode else if \<not> isValidOctalMode mode then defaultFsMode else mode)"

definition applyFsGroupPermissions :: "env \<Rightarrow> string \<Rightarrow> int \<Rightarrow> string \<Rightarrow> ('s os_scheme, goerr option) state" where
  "applyFsGroupPermissions env targetPath fsGroup mode0 =
     (let mode = (if mode0 = [] then defaultFsMode else mode0);
          own = show_int fsGroup @ '':'' @ show_int fsGroup
      in orFail (do { r \<leftarrow> run env (Cmd ''nsenter'' [''-t'', ''1'', ''-m'', ''-u'', ''chown'', ''-R'', own, targetPath] []); ret (cmdErr r) })
           (WrapV ''chown'') (
         orFail (do { r \<leftarrow> run env (Cmd ''nsenter'' [''-t'', ''1'', ''-m'', ''-u'', ''chmod'', ''-R'', mode, targetPath] []); ret (cmdErr r) })
           (WrapV ''chmod'') (ret None)))"

section \<open>Backing files and loop devices\<close>

definition DefaultLocalPath :: string where
  "DefaultLocalPath = ''/opt/local-path-provisioner''"

definition GetLocalPath :: "env \<Rightarrow> string \<Rightarrow> string" where
  "GetLocalPath env volumeID =
     (if getenv env ''CSI_LOCAL_PATH'' \<noteq> [] then pathJoin [getenv env ''CSI_LOCAL_PATH'', volumeID]
      else pathJoin [DefaultLocalPath, volumeID])"

definition GenerateBackingFilePath :: "string \<Rightarrow> string \<Rightarrow> string" where
  "GenerateBackingFilePath localPath volumeID = pathJoin [localPath, ''luks-'' @ volumeID @ ''.img'']"

definition ensureFreeSpace :: "env \<Rightarrow> string \<Rightarrow> int \<Rightarrow> ('s os_scheme, goerr option) state" where
  "ensureFreeSpace env dir needBytes = do {
     r \<leftarrow> osStatfs env dir;
     ret (case r of
            Inl e \<Rightarrow> Some (WrapV ''statfs'' (Errno e))
          | Inr st \<Rightarrow> if wrap64 (fs_bavail st * fs_bsize st) < needBytes then Some (Err ''not enough space'') else None)
   }"

abbreviation fallocateCmd :: "int \<Rightarrow> string \<Rightarrow> cmd" where
  "fallocateCmd n path \<equiv> Cmd ''fallocate'' [''-l'', show_int n, path] []"

abbreviation truncateCmd :: "int \<Rightarrow> string \<Rightarrow> cmd" where
  "truncateCmd n path \<equiv> Cmd ''truncate'' [''-s'', show_int n, path] []"

definition ExpandBackingFile :: "env \<Rightarrow> string \<Rightarrow> int \<Rightarrow> ('s os_scheme, goerr option) state" where
  "ExpandBackingFile env filePath newSizeBytes = do {
     i \<leftarrow> osStat env filePath;
     if (case i of Inr fi \<Rightarrow> fi_size fi \<ge> newSizeBytes | Inl _ \<Rightarrow> False) then ret None
     else do {
       f \<leftarrow> run env (fallocateCmd newSizeBytes filePath);
       if cmdErr f = None then ret None
       else do {
         j \<leftarrow> osStat env filePath;
         let delta = wrap64 (newSizeBytes - (case j of Inr fi \<Rightarrow> fi_size fi | Inl _ \<Rightarrow> 0));
         orFail (if delta > 0 then ensureFreeSpace env (pathDir filePath) delta else ret None) (WrapV ''refusing sparse expand'') (
           orFail (do { t \<leftarrow> run env (truncateCmd newSizeBytes filePath); ret (cmdErr t) }) (WrapV ''expand'') (ret None))
       }
     }
   }"

definition CreateBackingFile :: "env \<Rightarrow> string \<Rightarrow> string \<Rightarrow> ('s os_scheme, goerr option) state" where
  "CreateBackingFile env filePath sz =
     orFail (do {
         f \<leftarrow> run env (Cmd ''fallocate'' [''-l'', sz, filePath] []);
         if cmdErr f = None then ret None
         else orFail (case parseInt (trimSpace sz) of
                        Some sizeBytes \<Rightarrow> ensureFreeSpace env (pathDir filePath) sizeBytes
                      | None \<Rightarrow> ret None) (WrapV ''refusing to create sparse backing file'') (
                do { t \<leftarrow> run env (Cmd ''truncate'' [''-s'', sz, filePath] []); ret (map_option (WrapV ''truncate'') (cmdErr t)) })
       }) id (do {
         i \<leftarrow> osStat env filePath;
         ret (case i of Inl e \<Rightarrow> Some (WrapV ''stat created backing file'' (Errno e)) | Inr _ \<Rightarrow> None)
       })"

definition losetupLine :: "string \<Rightarrow> string option" where
  "losetupLine line = (case cut (trimSpace line) '':'' of
       (dev, _, ok) \<Rightarrow> if ok \<and> hasPrefix dev ''/dev/'' then Some dev else None)"

definition parseLosetupJ :: "string \<Rightarrow> string list" where
  "parseLosetupJ out = List.map_filter losetupLine (split_on (CHR 0x0A) out)"

definition loopDevicesFor :: "env \<Rightarrow> string \<Rightarrow> ('s os_scheme, string list) state" where
  "loopDevicesFor env backingFile = do {
     r \<leftarrow> runCmdBoundedOutput env ''losetup'' [''-j'', backingFile];
     ret (case r of Inl _ \<Rightarrow> [] | Inr out \<Rightarrow> parseLosetupJ out)
   }"

fun detachAll :: "env \<Rightarrow> string list \<Rightarrow> ('s os_scheme, unit) state" where
  "detachAll env [] = ret ()"
| "detachAll env (d # ds) = do { _ \<leftarrow> runCmdBounded env ''losetup'' [''-d'', d]; detachAll env ds }"

definition detachLoopDevicesFor :: "env \<Rightarrow> string \<Rightarrow> ('s os_scheme, unit) state" where
  "detachLoopDevicesFor env backingFile = do {
     ds \<leftarrow> loopDevicesFor env backingFile;
     detachAll env ds
   }"

definition unescapeMountTarget :: "string \<Rightarrow> string" where
  "unescapeMountTarget s =
     (if \<not> containsStr s [CHR 0x5C] then s
      else replacer [(CHR 0x5C # ''x20'', '' ''), (CHR 0x5C # ''040'', '' ''), (CHR 0x5C # ''011'', [CHR 0x09]),
                     (CHR 0x5C # ''012'', [CHR 0x0A]), (CHR 0x5C # ''134'', [CHR 0x5C])] s)"

text \<open>\<^verbatim>\<open>sort.Slice\<close> by descending length; it is not stable, and any order within one length will do.\<close>

definition parseFindmntTargets :: "string \<Rightarrow> string list" where
  "parseFindmntTargets out =
     rev (sort_key length (map unescapeMountTarget (filter (\<lambda>t. t \<noteq> []) (map trimSpace (split_on (CHR 0x0A) out)))))"

definition mountsBackedBy :: "env \<Rightarrow> string \<Rightarrow> ('s os_scheme, string list) state" where
  "mountsBackedBy env device = do {
     r \<leftarrow> runCmdBoundedOutput env ''nsenter'' [''-t'', ''1'', ''-m'', ''findmnt'', ''-rn'', ''-o'', ''TARGET'', ''-S'', device];
     ret (case r of Inl _ \<Rightarrow> [] | Inr out \<Rightarrow> parseFindmntTargets out)
   }"

fun releaseAll :: "env \<Rightarrow> string list \<Rightarrow> ('s os_scheme, unit) state" where
  "releaseAll env [] = ret ()"
| "releaseAll env (t # ts) = do { _ \<leftarrow> runCmdBounded env ''nsenter'' (umountLazyArgs t); releaseAll env ts }"

definition releaseVolumeMounts :: "env \<Rightarrow> string \<Rightarrow> ('s os_scheme, unit) state" where
  "releaseVolumeMounts env volumeID = do {
     ts \<leftarrow> mountsBackedBy env (GetMappedDevicePath (GenerateMapperName volumeID));
     releaseAll env ts
   }"

section \<open>Unwinding succeeds only when nothing is mounted\<close>

lemma run_runCmdBounded:
  "run_state (runCmdBounded env n a) s =
     (cmdErr (exec env (hist s) (Cmd n a [])), s\<lparr>hist := hist s @ [Ran (Cmd n a []) (exec env (hist s) (Cmd n a []))]\<rparr>)"
  by (auto simp: runCmdBounded_def runCmdBoundedOutput_def cmdErr_def split: cmdres.splits)

definition umounts :: "string \<Rightarrow> event \<Rightarrow> bool" where
  "umounts path e = (looks e \<or> (\<exists>r. e = Ran (Cmd ''nsenter'' (umountArgs path) []) r \<or>
     e = Ran (Cmd ''nsenter'' (umountLazyArgs path) []) r))"

lemma unmountHostOnce_hist:
  "\<exists>t. snd (run_state (unmountHostOnce env path b) s) = s\<lparr>hist := hist s @ t\<rparr> \<and> list_all (umounts path) t \<and> length (ranCmds t) \<le> 2"
  by (cases b) (auto simp: unmountHostOnce_def run_runCmdBounded umounts_def split: option.splits)

lemma looks_umounts: "looks e \<Longrightarrow> umounts path e"
  by (simp add: umounts_def)

text \<open>One query of the depth, and one round of the loop that was not the last.\<close>

lemma HostMountDepth_step:
  assumes "run_state (HostMountDepth env path) s = (d, s1)" "mountsCoherent s"
  shows "mountsCoherent s1" "d = Some 0 \<Longrightarrow> \<exists>st. served env s1 st \<and> stackOf st path = []"
    "\<exists>t. hist s1 = hist s @ t \<and> list_all (umounts path) t \<and> ranCmds t = []"
proof -
  from assms(1) obtain q where q: "run_state (hostMountStacksOK env) s = (q, s1)" "d = map_option (\<lambda>st. length (stackOf st path)) q"
    by (auto simp: HostMountDepth_def split: prod.splits)
  show "mountsCoherent s1" using hostMountStacksOK_result(1) [OF q(1) assms(2)] .
  show "\<exists>st. served env s1 st \<and> stackOf st path = []" if "d = Some 0"
    using that q(2) hostMountStacksOK_result(3) [OF q(1) assms(2)] by auto
  from emitsD [OF HostMountDepth_emits assms(1)] obtain t where "hist s1 = hist s @ t" "list_all looks t" by blast
  then show "\<exists>t. hist s1 = hist s @ t \<and> list_all (umounts path) t \<and> ranCmds t = []"
    by (auto simp: looks_ranCmds looks_umounts intro!: exI [of _ t] intro: list.pred_mono_strong)
qed

lemma unwind_round:
  assumes "run_state (unmountHostOnce env path first) s1 = (x, s2)" "mountsCoherent s1"
  defines "s3 \<equiv> snd (run_state (InvalidateHostMounts env) s2)"
  shows "mountsCoherent s2 \<and> (\<exists>t. hist s2 = hist s1 @ t \<and> list_all (umounts path) t \<and> length (ranCmds t) \<le> 2)"
    "mountsCoherent s3 \<and> (\<exists>t. hist s3 = hist s1 @ t \<and> list_all (umounts path) t \<and> length (ranCmds t) \<le> 2)"
proof -
  from unmountHostOnce_hist [of env path first s1] assms(1) obtain t where
    t: "s2 = s1\<lparr>hist := hist s1 @ t\<rparr>" "list_all (umounts path) t" "length (ranCmds t) \<le> 2" by auto
  then show a: "mountsCoherent s2 \<and> (\<exists>t. hist s2 = hist s1 @ t \<and> list_all (umounts path) t \<and> length (ranCmds t) \<le> 2)"
    using assms(2) by auto
  obtain t' where "hist s3 = hist s2 @ t'" "list_all looks t'"
    using emitsD [OF InvalidateHostMounts_emits surjective_pairing] unfolding s3_def by blast
  then have "hist s3 = hist s1 @ t @ t'" "list_all (umounts path) (t @ t')" "length (ranCmds (t @ t')) \<le> 2"
    using t by (auto simp: looks_ranCmds looks_umounts intro: list.pred_mono_strong)
  moreover have "mountsCoherent s3" unfolding s3_def using a by (intro InvalidateHostMounts_coherent) simp
  ultimately show "mountsCoherent s3 \<and> (\<exists>t. hist s3 = hist s1 @ t \<and> list_all (umounts path) t \<and> length (ranCmds t) \<le> 2)" by blast
qed

lemma unwindLoop_result:
  assumes "run_state (unwindLoop env path first n) s = (r, s')" "mountsCoherent s"
  shows "mountsCoherent s' \<and> (r = None \<longrightarrow> (\<exists>st. served env s' st \<and> stackOf st path = [])) \<and>
    (\<exists>t. hist s' = hist s @ t \<and> list_all (umounts path) t \<and> length (ranCmds t) \<le> 2 * n)"
  using assms
proof (induction n arbitrary: first s)
  case 0
  obtain d s1 where d: "run_state (HostMountDepth env path) s = (d, s1)" by fastforce
  with 0 have "s' = s1" "r \<noteq> None" by auto
  with HostMountDepth_step [OF d 0(2)] show ?case by auto
next
  case (Suc n)
  obtain d s1 where d: "run_state (HostMountDepth env path) s = (d, s1)" by fastforce
  note step = HostMountDepth_step [OF d Suc.prems(2)]
  obtain x s2 where x: "run_state (unmountHostOnce env path first) s1 = (x, s2)" by fastforce
  let ?s3 = "snd (run_state (InvalidateHostMounts env) s2)"
  note round = unwind_round [OF x step(1)]
  from Suc.prems(1) d x consider "s' = s1" "r \<noteq> None" | "s' = s1" "d = Some 0" | "s' = s2" "r \<noteq> None"
    | "run_state (unwindLoop env path False n) ?s3 = (r, s')"
    by (auto simp: case_prod_beta split: option.splits if_splits)
  then show ?case
  proof cases
    case 4
    from Suc.IH [OF 4] round(2) obtain t where "mountsCoherent s'" "r = None \<longrightarrow> (\<exists>st. served env s' st \<and> stackOf st path = [])"
      "hist s' = hist s1 @ t" "list_all (umounts path) t" "length (ranCmds t) \<le> 2 * Suc n" by fastforce
    with step(3) show ?thesis by fastforce
  qed (use step round(1) in fastforce)+
qed

text \<open>
  C29: \<^verbatim>\<open>unmountHostStack\<close> reports success only when a trusted mount table, in the state it returns, shows nothing mounted at
  the path any more, neither on top nor buried. It always returns, after at most ten rounds of at most two commands,
  and every command it runs unmounts this very path.
\<close>

theorem unmountHostStack_success:
  assumes "mountsCoherent s" and "run_state (unmountHostStack env path) s = (r, s')"
  shows "(r = None \<longrightarrow> (\<exists>st. served env s' st \<and> stackOf st path = [] \<and> mountsFlat s' path = None)) \<and>
    (\<exists>t. hist s' = hist s @ t \<and> list_all (umounts path) t \<and> length (ranCmds t) \<le> 20)"
proof -
  note u = unwindLoop_result [OF assms(2) [unfolded unmountHostStack_def] assms(1)]
  then have "stackOf st path = [] \<Longrightarrow> served env s' st \<Longrightarrow> mountsFlat s' path = None" for st
    using depth_zero_iff [of s' st path] by (auto simp: served_def)
  with u show ?thesis by (fastforce simp: maxMountStackUnwind_def)
qed

theorem unmountHostStack_success_witness:
  "\<exists>s'. run_state (unmountHostStack (quietEnv\<lparr>readFile := \<lambda>_ _. Inr []\<rparr>) ''/p'') initMnt = (None, s')
     \<and> mountsFlat s' ''/p'' = None"
proof -
  let ?env = "quietEnv\<lparr>readFile := \<lambda>_ _. Inr []\<rparr>"
  have "\<exists>s'. run_state (unmountHostStack ?env ''/p'') initMnt = (None, s')"
    by (simp add: unmountHostStack_def maxMountStackUnwind_def numeral_eq_Suc HostMountDepth_def hostMountStacksOK_def
        lateRead_def initMnt_def quietEnv_def readHostMounts_def parseMountStacks_Nil stackOf_def)
  then obtain s' where r: "run_state (unmountHostStack ?env ''/p'') initMnt = (None, s')" by blast
  from unmountHostStack_success [OF initMnt_inv(1) this] have "mountsFlat s' ''/p'' = None" by auto
  with r show ?thesis by blast
qed

end
