(* ===== verification/NodeLuks.thy ===== *)
theory NodeLuks
  imports NodeMounts
begin

text \<open>
  LUKS volumes on a node (\<^verbatim>\<open>driver/node_luks.go\<close>): backing file, LUKS device, file system and staging mount;
  restoring them after a reboot, expanding them, and taking them down.
\<close>

section \<open>Parameters\<close>

record StagingParameters =
  sp_volumeID :: string
  sp_stagingTargetPath :: string
  sp_localPath :: string
  sp_backingFile :: string
  sp_passphrase :: string
  sp_mapperName :: string
  sp_mappedDevice :: string
  sp_fsGroup :: "int option"
  sp_fsMode :: string
  sp_volumeCapability :: "VolumeCapability option"

record ExpansionParameters =
  xp_volumeID :: string
  xp_volumePath :: string
  xp_requestedBytes :: int
  xp_backingFile :: string
  xp_mapperName :: string
  xp_mappedDevice :: string
  xp_scParams :: smap

section \<open>File systems and loop devices\<close>

definition mountOf :: "VolumeCapability option \<Rightarrow> mountVolume option" where
  "mountOf c = Option.bind c cap_mount"

definition mkfsCmd :: "string \<Rightarrow> string \<Rightarrow> cmd option" where
  "mkfsCmd fsType dev =
     (if fsType = ''ext4'' then Some (Cmd ''mkfs.ext4'' [''-F'', ''-e'', ''remount-ro'', dev] [])
      else if fsType = ''ext3'' then Some (Cmd ''mkfs.ext3'' [''-F'', ''-e'', ''remount-ro'', dev] [])
      else if fsType = ''xfs'' then Some (Cmd ''mkfs.xfs'' [''-f'', dev] [])
      else None)"

definition fsTypeOf :: "mountVolume \<Rightarrow> string" where
  "fsTypeOf m = (if mv_fsType m = [] then ''ext4'' else mv_fsType m)"

definition formatDevice :: "env \<Rightarrow> string \<Rightarrow> VolumeCapability option \<Rightarrow> ('s os_scheme, goerr option) state" where
  "formatDevice env devicePath capability = (case mountOf capability of
       None \<Rightarrow> ret (Some (Err ''only mount access type is supported''))
     | Some m \<Rightarrow> do {
         b \<leftarrow> run env (Cmd ''blkid'' [devicePath] []);
         if cmdErr b = None then ret None
         else (case mkfsCmd (fsTypeOf m) devicePath of
                 None \<Rightarrow> ret (Some (Err ''unsupported filesystem type''))
               | Some c \<Rightarrow> orFail (do { r \<leftarrow> run env c; ret (cmdErr r) }) (WrapV ''format'') (ret None))
       })"

definition mountDevice :: "env \<Rightarrow> string \<Rightarrow> string \<Rightarrow> VolumeCapability option \<Rightarrow> ('s mnt_scheme, goerr option) state" where
  "mountDevice env devicePath targetPath capability = (case mountOf capability of
       None \<Rightarrow> ret (Some (Err ''only mount access type is supported''))
     | Some m \<Rightarrow> do {
         mounted \<leftarrow> isMountPoint env targetPath;
         ours \<leftarrow> (if mounted then isMountedFrom env targetPath devicePath else ret False);
         if mounted \<and> ours then ret None
         else orFail (if mounted then unmountPath env targetPath else ret None) (WrapV ''unmount stale mount'') (
              orFail (do { r \<leftarrow> fsCall env (MkdirAll targetPath); ret (fsErr r) }) (WrapV ''create target'') (
              orFail (do { r \<leftarrow> run env (Cmd ''mount'' ([''-t'', fsTypeOf m]
                        @ (if mv_flags m \<noteq> [] then [''-o'', joinStr '','' (mv_flags m)] else [])
                        @ [devicePath, targetPath]) []); ret (cmdErr r) }) (WrapV ''mount'') (ret None)))
       })"

fun firstLoop :: "string list \<Rightarrow> string option" where
  "firstLoop [] = None"
| "firstLoop (l # ls) = (if containsStr l '':'' then Some (trimSpace (hd (split_on (CHR '':'') l))) else firstLoop ls)"

definition refreshLoopDevice :: "env \<Rightarrow> string \<Rightarrow> ('s os_scheme, goerr option) state" where
  "refreshLoopDevice env backingFile = do {
     r \<leftarrow> run env (Cmd ''losetup'' [''-j'', backingFile] []);
     (case cmdErr r of
        Some e \<Rightarrow> ret (Some (WrapV ''find loop device'' e))
      | None \<Rightarrow>
          if trimSpace (cmdOut r) = [] then ret (Some (Err ''no loop device found''))
          else (case firstLoop (split_on (CHR 0x0A) (trimSpace (cmdOut r))) of
                  None \<Rightarrow> ret (Some (Err ''could not parse loop device''))
                | Some d \<Rightarrow> orFail (do { c \<leftarrow> run env (Cmd ''losetup'' [''-c'', d] []); ret (cmdErr c) })
                              (WrapV ''refresh'') (ret None)))
   }"

definition resizeFilesystem :: "env \<Rightarrow> string \<Rightarrow> string \<Rightarrow> ('s os_scheme, goerr option) state" where
  "resizeFilesystem env devicePath volumePath = do {
     r \<leftarrow> run env (Cmd ''blkid'' [''-s'', ''TYPE'', ''-o'', ''value'', devicePath] []);
     (case cmdErr r of
        Some e \<Rightarrow> ret (Some (WrapV ''detect filesystem'' e))
      | None \<Rightarrow>
          (let fsType = trimSpace (cmdOut r)
           in if fsType = [] then ret (Some (Err ''no filesystem found''))
              else if fsType \<in> {''ext2'', ''ext3'', ''ext4''} then
                orFail (do { x \<leftarrow> run env (Cmd ''resize2fs'' [devicePath] []); ret (cmdErr x) }) (WrapV ''resize'') (ret None)
              else if fsType = ''xfs'' then
                orFail (do { x \<leftarrow> run env (Cmd ''xfs_growfs'' [volumePath] []); ret (cmdErr x) }) (WrapV ''resize'') (ret None)
              else ret (Some (Err ''unsupported filesystem type''))))
   }"

section \<open>Staging\<close>

definition setupLUKSDevice :: "env \<Rightarrow> StagingParameters \<Rightarrow> ('s os_scheme, goerr option) state" where
  "setupLUKSDevice env p = FormatAndOpenLUKS env (sp_backingFile p) (sp_mapperName p) (sp_passphrase p)"

definition mountAndConfigureVolume :: "env \<Rightarrow> StagingParameters \<Rightarrow> ('s mnt_scheme, goerr option) state" where
  "mountAndConfigureVolume env p =
     orFail (formatDevice env (sp_mappedDevice p) (sp_volumeCapability p)) (WrapV ''format device'') (
     orFail (mountDevice env (sp_mappedDevice p) (sp_stagingTargetPath p) (sp_volumeCapability p)) (WrapV ''mount device'') (
       case sp_fsGroup p of
         None \<Rightarrow> ret None
       | Some g \<Rightarrow> orFail (applyFsGroupPermissions env (sp_stagingTargetPath p) g (sp_fsMode p)) (WrapV ''fsGroup'') (ret None)))"

definition isVolumeStaged :: "env \<Rightarrow> string \<Rightarrow> string \<Rightarrow> ('s mnt_scheme, bool) state" where
  "isVolumeStaged env volumeID stagingTargetPath = do {
     let mapperName = GenerateMapperName volumeID;
     opened \<leftarrow> IsLUKSOpened env mapperName;
     if \<not> opened then ret False
     else do {
       mounted \<leftarrow> isMountPoint env stagingTargetPath;
       if \<not> mounted then ret False
       else isMountedFrom env stagingTargetPath (GetMappedDevicePath mapperName)
     }
   }"

text \<open>\<open>nodeID\<close> is this driver's node.\<close>

definition ensureBackingFileExists :: "env \<Rightarrow> string \<Rightarrow> smap \<Rightarrow> string \<Rightarrow> ('s os_scheme, goerr option) state" where
  "ensureBackingFileExists env nodeID volumeContext backingFile = do {
     let capacityStr = (if mget volumeContext capacityKey = [] then ''1073741824'' else mget volumeContext capacityKey);
     i \<leftarrow> osStat env backingFile;
     (case i of
        Inl e \<Rightarrow>
          if e = ENOENT then
            (if mget volumeContext PinnedNodeParam \<noteq> [] \<and> mget volumeContext PinnedNodeParam \<noteq> nodeID
             then ret (Some (Err ''volume is pinned to another node''))
             else orFail (CreateBackingFile env backingFile capacityStr) (WrapV ''create backing file'') (ret None))
          else ret (Some (WrapV ''stat backing file'' (Errno e)))
      | Inr fi \<Rightarrow>
          if fi_size fi < 16 * 1024 * 1024 then
            orFail (do { r \<leftarrow> fsCall env (Remove backingFile); ret (fsErr r) }) (WrapV ''remove undersized'') (
            orFail (CreateBackingFile env backingFile capacityStr) (WrapV ''recreate'') (ret None))
          else ret None)
   }"

section \<open>Passphrases\<close>

definition passphraseOf :: "env \<Rightarrow> smap \<Rightarrow> smap \<Rightarrow> ('s os_scheme, string res) state" where
  "passphraseOf env scParams volumeContext =
     callE (FetchVolumeSecrets env (ExtractSecretParams scParams volumeContext)) (WrapW ''fetch secrets'')
       (\<lambda>vs. ret (if vs_passphrase vs = [] then Inl (Err ''LUKS passphrase not found'') else Inr (vs_passphrase vs)))"

definition getPassphraseFromRequest :: "env \<Rightarrow> string \<Rightarrow> smap \<Rightarrow> ('s os_scheme, string res) state" where
  "getPassphraseFromRequest env volumeID volumeContext =
     callE (getPVByVolumeID env volumeID) (WrapV ''get PV'') (\<lambda>p.
     callE (getStorageClassParameters env (pv_storageClass p)) (WrapV ''get StorageClass'') (\<lambda>sc.
       passphraseOf env sc volumeContext))"

definition getPassphraseForRestore :: "env \<Rightarrow> string \<Rightarrow> smap \<Rightarrow> ('s os_scheme, string res) state" where
  "getPassphraseForRestore env volumeID volumeContext =
     callE (getPVByVolumeID env volumeID) (WrapV ''get PV'') (\<lambda>p.
     callE (getStorageClassParameters env (pv_storageClass p)) (WrapV ''get StorageClass'') (\<lambda>sc.
       passphraseOf env sc volumeContext))"

definition getPassphraseForExpansion :: "env \<Rightarrow> smap \<Rightarrow> ('s os_scheme, string res) state" where
  "getPassphraseForExpansion env scParams = passphraseOf env scParams Map.empty"

section \<open>Teardown and restore\<close>

text \<open>The unmount that the teardown begins with.\<close>

definition releaseStaging :: "env \<Rightarrow> string \<Rightarrow> ('s mnt_scheme, goerr option) state" where
  "releaseStaging env stagingTargetPath = (if stagingTargetPath = [] then ret None
     else do {
       mounted \<leftarrow> isMountPoint env stagingTargetPath;
       if \<not> mounted then ret None
       else do {
         y \<leftarrow> run env (Cmd ''sync'' [''-f'', stagingTargetPath] []);
         whenS (cmdErr y \<noteq> None) (do { _ \<leftarrow> run env (Cmd ''sync'' [] []); ret () });
         unmountPath env stagingTargetPath
       }
     })"

definition cleanupVolumeStaging :: "env \<Rightarrow> string \<Rightarrow> string \<Rightarrow> ('s mnt_scheme, goerr option) state" where
  "cleanupVolumeStaging env volumeID stagingTargetPath =
     orFail (releaseStaging env stagingTargetPath) (WrapW ''not closing LUKS'') (
     orFail (CloseLUKS env (GenerateMapperName volumeID)) (WrapV ''close LUKS'') (do {
       detachLoopDevicesFor env (GenerateBackingFilePath (GetLocalPath env volumeID) volumeID);
       whenS (stagingTargetPath \<noteq> []) (do { _ \<leftarrow> fsCall env (RemoveAll stagingTargetPath); ret () });
       ret None
     }))"

definition restoreLUKSDeviceAndMount :: "env \<Rightarrow> string \<Rightarrow> string \<Rightarrow> string \<Rightarrow> string \<Rightarrow> smap \<Rightarrow> ('s mnt_scheme, goerr option) state" where
  "restoreLUKSDeviceAndMount env volumeID backingFile stagingTargetPath passphrase volumeContext = do {
     let mapperName = GenerateMapperName volumeID;
     let capability = Some \<lparr>cap_mount = Some \<lparr>mv_fsType = ''ext4'', mv_mountGroup = [], mv_flags = []\<rparr>, cap_mode = UNKNOWN\<rparr>;
     orFail (OpenLUKS env backingFile mapperName passphrase) (WrapV ''open LUKS'') (do {
       m \<leftarrow> mountDevice env (GetMappedDevicePath mapperName) stagingTargetPath capability;
       (case m of
          Some e \<Rightarrow> do { _ \<leftarrow> CloseLUKS env mapperName; ret (Some (WrapV ''mount device'' e)) }
        | None \<Rightarrow> do {
            g \<leftarrow> extractFsGroup env volumeContext None;
            (case g of
               None \<Rightarrow> ret None
             | Some i \<Rightarrow> orFail (applyFsGroupPermissions env stagingTargetPath i (extractFsMode volumeContext))
                           (WrapV ''fsGroup'') (ret None))
          })
     })
   }"

definition restoreLUKSVolumeStaging :: "env \<Rightarrow> string \<Rightarrow> string \<Rightarrow> smap \<Rightarrow> ('s mnt_scheme, goerr option) state" where
  "restoreLUKSVolumeStaging env volumeID stagingTargetPath volumeContext = do {
     let backingFile = GenerateBackingFilePath (GetLocalPath env volumeID) volumeID;
     i \<leftarrow> osStat env backingFile;
     if i = Inl ENOENT then ret (Some (Err ''backing file does not exist''))
     else do {
       p \<leftarrow> getPassphraseForRestore env volumeID volumeContext;
       (case p of
          Inl e \<Rightarrow> ret (Some (WrapV ''get passphrase'' e))
        | Inr passphrase \<Rightarrow>
            orFail (restoreLUKSDeviceAndMount env volumeID backingFile stagingTargetPath passphrase volumeContext)
              (WrapV ''restore'') (ret None))
     }
   }"

section \<open>Expansion\<close>

definition validateAndPrepareExpansionRequest ::
  "env \<Rightarrow> string \<Rightarrow> string \<Rightarrow> capacityRange option \<Rightarrow> ('s os_scheme, ExpansionParameters rpc) state" where
  "validateAndPrepareExpansionRequest env volumeID volumePath crange =
     (if volumeID = [] then ret (Inl (Status InvalidArgument (Err ''Volume ID missing'')))
      else if volumePath = [] then ret (Inl (Status InvalidArgument (Err ''Volume path missing'')))
      else case crange of
        None \<Rightarrow> ret (Inl (Status InvalidArgument (Err ''Capacity range missing'')))
      | Some (required, limit) \<Rightarrow>
          callE (nodeGetStorageClassParametersByVolumeID env volumeID) (\<lambda>e. Status FailedPrecondition (WrapV ''params'' e)) (\<lambda>sc. do {
            let mapperName = GenerateMapperName volumeID;
            opened \<leftarrow> IsLUKSOpened env mapperName;
            ret (if \<not> opened then Inl (Status FailedPrecondition (Err ''LUKS device is not opened''))
                 else Inr \<lparr>xp_volumeID = volumeID, xp_volumePath = volumePath,
                           xp_requestedBytes = (if required = 0 then limit else required),
                           xp_backingFile = GenerateBackingFilePath (GetLocalPath env volumeID) volumeID,
                           xp_mapperName = mapperName, xp_mappedDevice = GetMappedDevicePath mapperName,
                           xp_scParams = sc\<rparr>)
          }))"

definition luksHeaderSlack :: int where
  "luksHeaderSlack = 64 * 1024 * 1024"

definition internalErr :: "string \<Rightarrow> goerr \<Rightarrow> status" where
  "internalErr what e = Status Internal (WrapV what e)"

definition performVolumeExpansion :: "env \<Rightarrow> ExpansionParameters \<Rightarrow> ('s os_scheme, unit rpc) state" where
  "performVolumeExpansion env p =
     checkE (ExpandBackingFile env (xp_backingFile p) (xp_requestedBytes p)) (internalErr ''expand backing file'') (
     checkE (refreshLoopDevice env (xp_backingFile p)) (internalErr ''refresh loop'') (
     callE (getPassphraseForExpansion env (xp_scParams p)) (internalErr ''passphrase'') (\<lambda>passphrase.
     checkE (ResizeLUKS env (xp_mapperName p) passphrase) (internalErr ''resize LUKS'') (
     callE (GetLUKSDeviceSize env (xp_mappedDevice p)) (internalErr ''verify size'') (\<lambda>mappedSize.
       if mappedSize < wrap64 (xp_requestedBytes p - luksHeaderSlack) then ret (Inl (Status Internal (Err ''did not grow'')))
       else checkE (resizeFilesystem env (xp_mappedDevice p) (xp_volumePath p)) (internalErr ''resize fs'') (ret (Inr ())))))))"

definition NodeExpandVolume :: "env \<Rightarrow> string \<Rightarrow> string \<Rightarrow> capacityRange option \<Rightarrow> ('s os_scheme, int rpc) state" where
  "NodeExpandVolume env volumeID volumePath crange = do {
     r \<leftarrow> validateAndPrepareExpansionRequest env volumeID volumePath crange;
     (case r of
        Inl st \<Rightarrow> ret (Inl st)
      | Inr p \<Rightarrow> do {
          x \<leftarrow> performVolumeExpansion env p;
          ret (case x of Inl st \<Rightarrow> Inl st | Inr _ \<Rightarrow> Inr (xp_requestedBytes p))
        })
   }"

section \<open>Expansion reaches every layer\<close>

lemma resizeFilesystem_ensures:
  "ensures (resizeFilesystem env dev path) (\<lambda>r s. r = None \<longrightarrow> (\<exists>h out.
     hist s = h @ [Ran (Cmd ''resize2fs'' [dev] []) (CmdOk out)] \<or> hist s = h @ [Ran (Cmd ''xfs_growfs'' [path] []) (CmdOk out)]))"
  by (rule ensuresI)
     (auto simp: resizeFilesystem_def Let_def cmdErr_def split: if_splits cmdres.splits)

lemma resizeFilesystem_emits: "emits (resizeFilesystem env dev path) (\<lambda>_. True)"
  unfolding resizeFilesystem_def Let_def by (intro emits_rules) auto

lemma run_GetLUKSDeviceSize:
  assumes "run_state (GetLUKSDeviceSize env dev) s = (Inr sz, s')"
  shows "\<exists>out. parseInt (trimSpace out) = Some sz \<and>
    s' = s\<lparr>hist := hist s @ [Ran (Cmd ''blockdev'' [''--getsize64'', dev] []) (CmdOk out)]\<rparr>"
  using assms by (auto simp: GetLUKSDeviceSize_def split: cmdres.splits option.splits)

lemma performVolumeExpansion_success:
  assumes "run_state (performVolumeExpansion env p) s = (Inr (), s')"
  shows "\<exists>h h' out sz out'. parseInt (trimSpace out) = Some sz \<and> wrap64 (xp_requestedBytes p - luksHeaderSlack) \<le> sz \<and>
    hist s' = h @ [Ran (Cmd ''blockdev'' [''--getsize64'', xp_mappedDevice p] []) (CmdOk out)] @ h' \<and>
    (last (hist s') = Ran (Cmd ''resize2fs'' [xp_mappedDevice p] []) (CmdOk out') \<or>
     last (hist s') = Ran (Cmd ''xfs_growfs'' [xp_volumePath p] []) (CmdOk out'))"
proof -
  from assms obtain s1 sz s2 where sz: "run_state (GetLUKSDeviceSize env (xp_mappedDevice p)) s1 = (Inr sz, s2)"
    and le: "\<not> sz < wrap64 (xp_requestedBytes p - luksHeaderSlack)"
    and fs: "run_state (resizeFilesystem env (xp_mappedDevice p) (xp_volumePath p)) s2 = (None, s')"
    by (auto simp: performVolumeExpansion_def split: prod.splits option.splits sum.splits if_splits)
  from run_GetLUKSDeviceSize [OF sz] obtain out where out: "parseInt (trimSpace out) = Some sz"
    "hist s2 = hist s1 @ [Ran (Cmd ''blockdev'' [''--getsize64'', xp_mappedDevice p] []) (CmdOk out)]" by auto
  from emitsD [OF resizeFilesystem_emits fs] obtain h' where "hist s' = hist s2 @ h'" by blast
  moreover from ensuresD [OF resizeFilesystem_ensures fs] obtain out' where
    "last (hist s') = Ran (Cmd ''resize2fs'' [xp_mappedDevice p] []) (CmdOk out') \<or>
     last (hist s') = Ran (Cmd ''xfs_growfs'' [xp_volumePath p] []) (CmdOk out')" by auto
  ultimately show ?thesis using out le by force
qed

text \<open>
  A node that reports a volume as expanded has read, from the mapped device itself, a size of at least the
  granted capacity less the 64 MiB allowed for the LUKS header, and afterwards the file system on it was
  grown successfully: no layer below the file system can have silently stayed at its old size.
\<close>

theorem NodeExpandVolume_success:
  assumes "run_state (NodeExpandVolume env v path crange) s = (Inr n, s')"
  shows "\<exists>out sz h h' out'. parseInt (trimSpace out) = Some sz \<and> wrap64 (n - luksHeaderSlack) \<le> sz \<and>
    hist s' = h @ [Ran (Cmd ''blockdev'' [''--getsize64'', GetMappedDevicePath (GenerateMapperName v)] []) (CmdOk out)] @ h' \<and>
    (last (hist s') = Ran (Cmd ''resize2fs'' [GetMappedDevicePath (GenerateMapperName v)] []) (CmdOk out') \<or>
     last (hist s') = Ran (Cmd ''xfs_growfs'' [path] []) (CmdOk out'))"
proof -
  obtain q s1 where q: "run_state (validateAndPrepareExpansionRequest env v path crange) s = (q, s1)" by fastforce
  with assms obtain p where p: "q = Inr p" "run_state (performVolumeExpansion env p) s1 = (Inr (), s')" "n = xp_requestedBytes p"
    by (auto simp: NodeExpandVolume_def split: sum.splits prod.splits)
  have "xp_mappedDevice p = GetMappedDevicePath (GenerateMapperName v)" "xp_volumePath p = path"
    using q p(1) by (auto simp: validateAndPrepareExpansionRequest_def Let_def split: if_splits option.splits prod.splits sum.splits)
  with performVolumeExpansion_success [OF p(2)] p(3) show ?thesis by auto
qed

text \<open>A node on which an expansion succeeds.\<close>

definition expandEnv :: env where
  "expandEnv = quietEnv\<lparr>
     exec := \<lambda>_ c. CmdOk (if cmdName c = ''losetup'' then ''/dev/loop0: x'' else if cmdName c = ''blockdev'' then ''9''
                        else if cmdName c = ''blkid'' then ''ext4'' else []),
     stat := \<lambda>_ _. Inr \<lparr>fi_size = 4, fi_isdir = False, fi_dev = []\<rparr>,
     listPVs := \<lambda>_. Inr [\<lparr>pv_name = ''pv'', pv_csi = Some \<lparr>csi_driver = [], csi_handle = ''v'', csi_attributes = None\<rparr>,
                         pv_storageClass = ''sc'', pv_claimRef = None, pv_annotations = Map.empty\<rparr>],
     getSC := \<lambda>_ _. Inr [SecretNameKey \<mapsto> ''n'', SecretNamespaceKey \<mapsto> ''ns''],
     getSecret := \<lambda>_ _ _. Inr [DefaultPassphraseKey \<mapsto> ''pw'']\<rparr>"

definition expandParams :: "env \<Rightarrow> ExpansionParameters" where
  "expandParams env = \<lparr>xp_volumeID = ''v'', xp_volumePath = ''/p'', xp_requestedBytes = 67108870,
     xp_backingFile = GenerateBackingFilePath (GetLocalPath env ''v'') ''v'', xp_mapperName = GenerateMapperName ''v'',
     xp_mappedDevice = GetMappedDevicePath (GenerateMapperName ''v''),
     xp_scParams = [SecretNameKey \<mapsto> ''n'', SecretNamespaceKey \<mapsto> ''ns'']\<rparr>"

lemma expandEnv_steps:
  "fst (run_state (ExpandBackingFile expandEnv f n) s) = None"
  "fst (run_state (refreshLoopDevice expandEnv f) s) = None"
  "fst (run_state (getPassphraseForExpansion expandEnv (xp_scParams (expandParams expandEnv))) s) = Inr ''pw''"
  "fst (run_state (ResizeLUKS expandEnv m w) s) = None"
  "fst (run_state (GetLUKSDeviceSize expandEnv d) s) = Inr 9"
  "fst (run_state (resizeFilesystem expandEnv d w) s) = None"
  subgoal by (simp add: ExpandBackingFile_def expandEnv_def quietEnv_def)
  subgoal by (simp add: refreshLoopDevice_def expandEnv_def quietEnv_def cmdOut_def) code_simp
  subgoal by (simp add: getPassphraseForExpansion_def passphraseOf_def FetchVolumeSecrets_def ExtractSecretParams_def expandParams_def
        run_fetchPassphrase pickParam_def secretKeys expandEnv_def quietEnv_def)
  subgoal by (simp add: ResizeLUKS_def runCryptsetup_def expandEnv_def quietEnv_def)
  subgoal by (simp add: GetLUKSDeviceSize_def expandEnv_def quietEnv_def) code_simp
  subgoal by (simp add: resizeFilesystem_def expandEnv_def quietEnv_def cmdOut_def Let_def trimSpace_def isSpace_def)
  done

theorem NodeExpandVolume_success_witness:
  "\<exists>s'. run_state (NodeExpandVolume expandEnv ''v'' ''/p'' (Some (67108870, 0))) \<lparr>hist = []\<rparr> = (Inr 67108870, s')
     \<and> (\<exists>out. last (hist s') = Ran (Cmd ''resize2fs'' [GetMappedDevicePath (GenerateMapperName ''v'')] []) (CmdOk out) \<or>
           last (hist s') = Ran (Cmd ''xfs_growfs'' [''/p''] []) (CmdOk out))"
proof -
  have "\<exists>s'. run_state (NodeExpandVolume expandEnv ''v'' ''/p'' (Some (67108870, 0))) \<lparr>hist = []\<rparr> = (Inr 67108870, s')"
  proof -
    have 1: "fst (run_state (validateAndPrepareExpansionRequest expandEnv ''v'' ''/p'' (Some (67108870, 0))) s) = Inr (expandParams expandEnv)" for s
      by (simp add: validateAndPrepareExpansionRequest_def nodeGetStorageClassParametersByVolumeID_def expandParams_def
          getPVByVolumeID_def getStorageClassParameters_def ofVolume_def expandEnv_def quietEnv_def Let_def)
    show ?thesis
      by (simp add: NodeExpandVolume_def case_prod_beta 1 performVolumeExpansion_def expandEnv_steps)
         (simp add: expandParams_def luksHeaderSlack_def prod_eq_iff wrap64_def)
  qed
  then obtain s' where r: "run_state (NodeExpandVolume expandEnv ''v'' ''/p'' (Some (67108870, 0))) \<lparr>hist = []\<rparr> = (Inr 67108870, s')" by blast
  from NodeExpandVolume_success [OF this] r show ?thesis by blast
qed

section \<open>A local volume is created only where it is pinned\<close>

text \<open>Without the file, a volume pinned elsewhere is refused before any command runs.\<close>

lemma ensureBackingFileExists_pinned:
  assumes "stat env (hist s) f = Inl ENOENT" "mget ctx PinnedNodeParam \<noteq> []" "mget ctx PinnedNodeParam \<noteq> nodeID"
  shows "\<exists>e. run_state (ensureBackingFileExists env nodeID ctx f) s = (Some e, s\<lparr>hist := hist s @ [Asked (QStat f)]\<rparr>)"
  using assms by (simp add: ensureBackingFileExists_def Let_def)

text \<open>
  C33: The node and the controller agree on where a local volume lives: for every LUKS volume the controller creates there is one
  node such that on any other node, when the backing file is missing, staging refuses to create it and runs no
  command and changes no file; an empty container never hides data that lives elsewhere.
\<close>

theorem CreateVolume_pins_backing_file:
  assumes "CreateVolume req = Inr v" "mget (cv_parameters req) StorageBackendParam \<noteq> ''s3''"
  shows "\<exists>node. node \<noteq> [] \<and> AccessibleTopology v = [[TopologyKeyNode \<mapsto> node]] \<and>
    (\<forall>nodeID (s :: 's os_scheme) f. nodeID \<noteq> node \<longrightarrow> stat env (hist s) f = Inl ENOENT \<longrightarrow>
      (\<exists>e. run_state (ensureBackingFileExists env nodeID (VolumeContext v) f) s = (Some e, s\<lparr>hist := hist s @ [Asked (QStat f)]\<rparr>)))"
proof -
  let ?node = "pickTopologyNode (cv_preferred req) (cv_requisite req)"
  from assms have "?node \<noteq> []" "AccessibleTopology v = [[TopologyKeyNode \<mapsto> ?node]]" "VolumeContext v PinnedNodeParam = Some ?node"
    by (auto simp: CreateVolume_def Let_def split: if_splits option.splits)
  moreover from this have "mget (VolumeContext v) PinnedNodeParam = ?node" by (simp add: mget_def)
  ultimately show ?thesis by (intro exI [of _ ?node]) (auto intro!: ensureBackingFileExists_pinned)
qed

theorem CreateVolume_pins_backing_file_witness:
  "\<exists>v node. CreateVolume \<lparr>cv_name = ''pvc-1'', cv_capabilities = Some [], cv_range = None, cv_parameters = Map.empty,
       cv_preferred = [[TopologyKeyNode \<mapsto> ''n1'']], cv_requisite = []\<rparr> = Inr v \<and> AccessibleTopology v = [[TopologyKeyNode \<mapsto> node]]"
proof -
  let ?r = "\<lparr>cv_name = ''pvc-1'', cv_capabilities = Some [], cv_range = None, cv_parameters = Map.empty,
       cv_preferred = [[TopologyKeyNode \<mapsto> ''n1'']], cv_requisite = []\<rparr>"
  have "\<exists>v. CreateVolume ?r = Inr v" by (simp add: CreateVolume_def pickTopologyNode_def Let_def)
  then obtain v where v: "CreateVolume ?r = Inr v" by blast
  from CreateVolume_pins_backing_file [OF v, of quietEnv] v show ?thesis by (auto simp: mget_def)
qed

section \<open>Formatting\<close>

text \<open>
  A file system is created on an opened device exactly when \<^verbatim>\<open>blkid\<close> did not succeed on it, for one of the three types that can
  be made: a device blkid recognises is never reformatted, but any failure of blkid leads to \<^verbatim>\<open>mkfs\<close>; and
  ext2, which the controller accepts, never gets that far.
\<close>

theorem formatDevice_formats_iff:
  assumes "mountOf cap = Some m"
  shows "(\<exists>c. mkfsCmd (fsTypeOf m) dev = Some c \<and> c \<in> set (ranCmds (newEvents (formatDevice env dev cap) s)))
     \<longleftrightarrow> (\<nexists>out. exec env (hist s) (Cmd ''blkid'' [dev] []) = CmdOk out) \<and> fsTypeOf m \<in> {''ext4'', ''ext3'', ''xfs''}"
proof -
  have n: "mkfsCmd (fsTypeOf m) dev \<noteq> Some (Cmd ''blkid'' [dev] [])"
    by (auto simp: mkfsCmd_def)
  have e: "mkfsCmd (fsTypeOf m) dev = None \<longleftrightarrow> fsTypeOf m \<notin> {''ext4'', ''ext3'', ''xfs''}"
    by (auto simp: mkfsCmd_def)
  show ?thesis
  proof (cases "\<exists>out. exec env (hist s) (Cmd ''blkid'' [dev] []) = CmdOk out")
    case True
    with assms n show ?thesis by (auto simp: formatDevice_def newEvents_def)
  next
    case False
    with assms n e show ?thesis
      by (cases "mkfsCmd (fsTypeOf m) dev") (auto simp: formatDevice_def newEvents_def split: option.splits)
  qed
qed

theorem formatDevice_formats_iff_witness:
  "\<exists>c. mkfsCmd ''ext4'' ''/dev/x'' = Some c \<and> c \<in> set (ranCmds (newEvents (formatDevice
     (quietEnv\<lparr>exec := \<lambda>_ _. CmdTimeout []\<rparr>) ''/dev/x''
     (Some \<lparr>cap_mount = Some \<lparr>mv_fsType = [], mv_mountGroup = [], mv_flags = []\<rparr>, cap_mode = UNKNOWN\<rparr>)) \<lparr>hist = []\<rparr>))"
  using formatDevice_formats_iff [of "Some \<lparr>cap_mount = Some \<lparr>mv_fsType = [], mv_mountGroup = [], mv_flags = []\<rparr>, cap_mode = UNKNOWN\<rparr>"
      "\<lparr>mv_fsType = [], mv_mountGroup = [], mv_flags = []\<rparr>" "''/dev/x''" "quietEnv\<lparr>exec := \<lambda>_ _. CmdTimeout []\<rparr>" "\<lparr>hist = []\<rparr>"]
  by (simp add: mountOf_def fsTypeOf_def)

section \<open>Teardown\<close>

text \<open>
  Taking a volume down acts on an unknown mount state as if nothing were mounted. With the mount table
  unreadable and no mapper of that name open (every S3 volume), \<^verbatim>\<open>cleanupVolumeStaging\<close> unmounts nothing,
  removes the staging directory recursively, whatever may still be mounted on it, and reports success; the mount-table code
  asks its callers never to take unknown for unmounted.
\<close>

theorem cleanupVolumeStaging_unknown_table:
  "\<exists>env. fst (run_state (HostMountDepth env (CHR ''/'' # p)) initMnt) = None \<and>
     (case run_state (cleanupVolumeStaging env v (CHR ''/'' # p)) initMnt of (r, s') \<Rightarrow>
        r = None \<and> RemoveAll (CHR ''/'' # p) \<in> set (doneOps (hist s')) \<and> list_all (\<lambda>c. cmdName c = ''losetup'') (ranCmds (hist s')))"
proof -
  let ?env = "quietEnv\<lparr>readFile := \<lambda>_ _. Inl BLOCKED\<rparr>"
  have "fst (run_state (HostMountDepth ?env (CHR ''/'' # p)) initMnt) = None"
    by (simp add: HostMountDepth_def hostMountStacksOK_def lateRead_def initMnt_def quietEnv_def readHostMounts_def
        cachedMountsLocked_def)
  moreover have "case run_state (cleanupVolumeStaging ?env v (CHR ''/'' # p)) initMnt of (r, s') \<Rightarrow>
        r = None \<and> RemoveAll (CHR ''/'' # p) \<in> set (doneOps (hist s')) \<and> list_all (\<lambda>c. cmdName c = ''losetup'') (ranCmds (hist s'))"
    by (simp add: cleanupVolumeStaging_def releaseStaging_def isMountPoint_def IsHostMountPoint_def HostMounts_def HostMountsOK_def
        hostMountStacksOK_def lateRead_def initMnt_def quietEnv_def readHostMounts_def cachedMountsLocked_def
        CloseLUKS_def IsLUKSOpened_def detachLoopDevicesFor_def loopDevicesFor_def runCmdBoundedOutput_def cmdOut_def
        parseLosetupJ_def List.map_filter_def losetupLine_def trimSpace_def cut_def)
  ultimately show ?thesis by (intro exI conjI)
qed

section \<open>Expanding never shrinks\<close>

text \<open>
  Growing a backing file never shrinks it: a file that is already as large as requested is left alone, without a
  command; otherwise success means that \<^verbatim>\<open>fallocate\<close> or \<^verbatim>\<open>truncate\<close> just set the requested size; and the sparse
  \<^verbatim>\<open>truncate\<close> only runs once the file system had room for the growth.
\<close>

theorem ExpandBackingFile_grows:
  assumes "\<And>h. stat env h f = Inr fi" "0 \<le> fi_size fi" "int64 n"
    and "run_state (ExpandBackingFile env f n) s = (r, s')"
  shows "\<exists>t. hist s' = hist s @ t \<and>
    (n \<le> fi_size fi \<longrightarrow> r = None \<and> ranCmds t = []) \<and>
    (fi_size fi < n \<and> r = None \<longrightarrow> (\<exists>out. last t = Ran (fallocateCmd n f) (CmdOk out) \<or> last t = Ran (truncateCmd n f) (CmdOk out))) \<and>
    (truncateCmd n f \<in> set (ranCmds t) \<longrightarrow> (\<exists>h st. statfs env h (pathDir f) = Inr st \<and> n - fi_size fi \<le> wrap64 (fs_bavail st * fs_bsize st)))"
proof (cases "n \<le> fi_size fi")
  case True
  with assms show ?thesis by (auto simp: ExpandBackingFile_def)
next
  case False
  have d: "wrap64 (n - fi_size fi) = n - fi_size fi" using assms(2,3) False by (simp add: int64_def)
  let ?h = "hist s @ [Asked (QStat f)]"
  let ?h' = "?h @ [Ran (fallocateCmd n f) (exec env ?h (fallocateCmd n f)), Asked (QStat f)]"
  show ?thesis
  proof (cases "cmdErr (exec env ?h (fallocateCmd n f)) = None")
    case True
    with False assms show ?thesis by (auto simp: ExpandBackingFile_def)
  next
    case fails: False
    show ?thesis
    proof (cases "\<exists>st. statfs env ?h' (pathDir f) = Inr st \<and> n - fi_size fi \<le> wrap64 (fs_bavail st * fs_bsize st)")
      case True
      with False fails assms d show ?thesis
        by (auto simp: ExpandBackingFile_def Let_def ensureFreeSpace_def not_less split: option.splits; blast)
    next
      case no: False
      from no have "\<exists>e. run_state (ensureFreeSpace env (pathDir f) (n - fi_size fi)) (s\<lparr>hist := ?h'\<rparr>)
          = (Some e, s\<lparr>hist := ?h' @ [Asked (QStatfs (pathDir f))]\<rparr>)"
        by (auto simp: ensureFreeSpace_def not_less split: sum.splits)
      with False fails assms d show ?thesis by (auto simp: ExpandBackingFile_def Let_def)
    qed
  qed
qed

theorem ExpandBackingFile_grows_witness:
  "\<exists>s'. run_state (ExpandBackingFile (quietEnv\<lparr>stat := \<lambda>_ _. Inr \<lparr>fi_size = 4, fi_isdir = False, fi_dev = []\<rparr>\<rparr>) ''/b'' 8) \<lparr>hist = []\<rparr> = (None, s')
     \<and> last (hist s') = Ran (fallocateCmd 8 ''/b'') (CmdOk [])"
proof -
  let ?fi = "\<lparr>fi_size = 4, fi_isdir = False, fi_dev = []\<rparr>"
  let ?env = "quietEnv\<lparr>stat := \<lambda>_ _. Inr ?fi\<rparr>"
  let ?s' = "\<lparr>hist = [Asked (QStat ''/b''), Ran (fallocateCmd 8 ''/b'') (CmdOk [])]\<rparr>"
  have r: "run_state (ExpandBackingFile ?env ''/b'' 8) \<lparr>hist = []\<rparr> = (None, ?s')"
    by (simp add: ExpandBackingFile_def quietEnv_def)
  have "\<exists>t. hist ?s' = [] @ t \<and> (\<exists>out. last t = Ran (fallocateCmd 8 ''/b'') (CmdOk out) \<or> last t = Ran (truncateCmd 8 ''/b'') (CmdOk out))"
    using ExpandBackingFile_grows [of ?env "''/b''" ?fi 8 "\<lparr>hist = []\<rparr>" None ?s'] r by (auto simp: int64_def)
  with r show ?thesis by (intro exI [of _ ?s']) auto
qed

end
