(* ===== verification/VfsNames.thy ===== *)
theory VfsNames
  imports Rclone
begin

text \<open>
  Names and settings of \<^verbatim>\<open>syncmanager.go\<close>: the VFS name of a volume at a generation and its two inverses, the
  parsers of durations and sizes, the VFS options of a mount.
\<close>

section \<open>VFS names and generations\<close>

definition vfsNamesFor :: "string \<Rightarrow> int \<Rightarrow> string \<times> string \<times> string" where
  "vfsNamesFor volumeID generation =
     (let vfsName = (if generation > 0 then volumeID @ ''.g'' @ show_int generation else volumeID)
      in (vfsName, vfsName @ ''-s3'', vfsName))"

definition volumeIDOfVFSName :: "string \<Rightarrow> string" where
  "volumeIDOfVFSName vfsName = (case last_index_of vfsName ''.g'' of
       None \<Rightarrow> vfsName
     | Some i \<Rightarrow> if i = 0 then vfsName
                 else (case atoi (drop (i + 2) vfsName) of None \<Rightarrow> vfsName | Some _ \<Rightarrow> take i vfsName))"

definition generationOfVFSName :: "string \<Rightarrow> string \<Rightarrow> int" where
  "generationOfVFSName volumeID vfsName =
     (if vfsName = [] \<or> vfsName = volumeID then 0
      else case cutPrefix vfsName (volumeID @ ''.g'') of
        (rest, ok) \<Rightarrow>
          if \<not> ok then 0
          else (case atoi rest of None \<Rightarrow> 0 | Some n \<Rightarrow> if n < 0 then 0 else n))"

text \<open>
  The contract between the code that names a cache directory and the code that later finds whose it is: the
  naming loses neither the volume nor the generation.
\<close>

locale vfs_naming =
  fixes nameOf :: "string \<Rightarrow> int \<Rightarrow> string"
    and volumeOf :: "string \<Rightarrow> string"
    and genOf :: "string \<Rightarrow> string \<Rightarrow> int"
    and valid :: "string \<Rightarrow> bool"
    and genOk :: "int \<Rightarrow> bool"
  assumes volume_of_name: "valid v \<Longrightarrow> genOk g \<Longrightarrow> volumeOf (nameOf v g) = v"
    and gen_of_name: "valid v \<Longrightarrow> genOk g \<Longrightarrow> genOf v (nameOf v g) = g"
begin

lemma name_inj: "valid v \<Longrightarrow> valid w \<Longrightarrow> genOk g \<Longrightarrow> genOk k \<Longrightarrow> nameOf v g = nameOf w k \<longleftrightarrow> v = w \<and> g = k"
  by (metis gen_of_name volume_of_name)

text \<open>Every cache directory is attributed to exactly one volume.\<close>

lemma attribution:
  assumes "valid v" "valid w" "genOk g"
  shows "volumeOf (nameOf v g) = w \<longleftrightarrow> v = w"
  using assms volume_of_name by auto

lemma next_name_fresh: "valid v \<Longrightarrow> genOk g \<Longrightarrow> genOk (g + 1) \<Longrightarrow> nameOf v (g + 1) \<noteq> nameOf v g"
  by (simp add: name_inj)

end

lemma last_index_dotg_digits:
  assumes "list_all isDigit ds"
  shows "last_index_of ds ''.g'' = None" "last_index_of (CHR ''g'' # ds) ''.g'' = None"
proof -
  show n: "last_index_of ds ''.g'' = None" using assms
    by (induction ds) (auto dest: isDigit_not)
  show "last_index_of (CHR ''g'' # ds) ''.g'' = None" using n by simp
qed

lemma last_index_dotg:
  "list_all isDigit ds \<Longrightarrow> last_index_of (v @ ''.g'' @ ds) ''.g'' = Some (length v)"
  by (induction v) (simp_all add: last_index_dotg_digits)

lemma last_index_None: "CHR ''.'' \<notin> set v \<Longrightarrow> last_index_of v ''.g'' = None"
  by (induction v) auto

text \<open>Volume IDs are PV names, which carry no dot.\<close>

definition volumeIDok :: "string \<Rightarrow> bool" where
  "volumeIDok v = (v \<noteq> [] \<and> CHR ''.'' \<notin> set v)"

definition genOk :: "int \<Rightarrow> bool" where
  "genOk g = (0 \<le> g \<and> g < 2 ^ 63)"

lemma volumeIDOfVFSName_names:
  assumes "volumeIDok v" "genOk g"
  shows "volumeIDOfVFSName (fst (vfsNamesFor v g)) = v"
proof (cases "g > 0")
  case True
  then have s: "show_int g = show_nat (nat g)" by (simp add: show_int_def)
  have "atoi (show_nat (nat g)) = Some g"
    using parseInt_show_nat [of "nat g"] assms(2) True by (simp add: genOk_def)
  moreover have "v \<noteq> []" using assms by (simp add: volumeIDok_def)
  ultimately show ?thesis
    using True last_index_dotg [of "show_nat (nat g)" v]
    by (simp add: vfsNamesFor_def volumeIDOfVFSName_def s show_nat_digits Let_def)
next
  case False
  then show ?thesis
    using assms by (simp add: vfsNamesFor_def volumeIDOfVFSName_def volumeIDok_def last_index_None Let_def)
qed

lemma generationOfVFSName_names:
  assumes "volumeIDok v" "genOk g"
  shows "generationOfVFSName v (fst (vfsNamesFor v g)) = g"
proof (cases "g > 0")
  case True
  then have s: "show_int g = show_nat (nat g)" by (simp add: show_int_def)
  have a: "atoi (show_nat (nat g)) = Some g"
    using parseInt_show_nat [of "nat g"] assms(2) True by (simp add: genOk_def)
  have "cutPrefix (v @ ''.g'' @ show_nat (nat g)) (v @ ''.g'') = (show_nat (nat g), True)"
    using cutPrefix_append [of "v @ ''.g''"] by simp
  then show ?thesis using True a by (simp add: vfsNamesFor_def generationOfVFSName_def s Let_def)
next
  case False
  then show ?thesis using assms by (simp add: vfsNamesFor_def generationOfVFSName_def genOk_def Let_def)
qed

interpretation vfs: vfs_naming "\<lambda>v g. fst (vfsNamesFor v g)" volumeIDOfVFSName generationOfVFSName volumeIDok genOk
  by unfold_locales (simp_all add: volumeIDOfVFSName_names generationOfVFSName_names)

text \<open>
  C39: The names a volume's caches carry identify the volume and the generation: for volume IDs without a dot and
  generations that fit in an \<^verbatim>\<open>int\<close>, both are recovered from the name, so two volumes or two
  generations never share a cache directory and no directory is attributed to another volume.
\<close>

theorem vfsNames_roundtrip:
  assumes "volumeIDok v" "volumeIDok w" "genOk g" "genOk k"
  shows "volumeIDOfVFSName (fst (vfsNamesFor v g)) = v \<and>
    generationOfVFSName v (fst (vfsNamesFor v g)) = g \<and>
    (fst (vfsNamesFor v g) = fst (vfsNamesFor w k) \<longleftrightarrow> v = w \<and> g = k)"
  using assms vfs.volume_of_name vfs.gen_of_name vfs.name_inj by auto

theorem vfsNames_roundtrip_witness:
  "volumeIDOfVFSName (fst (vfsNamesFor ''pvc-1'' 12)) = ''pvc-1''
     \<and> fst (vfsNamesFor ''pvc-1'' 12) \<noteq> fst (vfsNamesFor ''pvc-2'' 12)"
  using vfsNames_roundtrip [of "''pvc-1''" "''pvc-2''" 12 12] by (simp add: volumeIDok_def genOk_def)

section \<open>Durations and sizes\<close>

text \<open>Both parsers read a decimal number with \<^verbatim>\<open>Sscanf\<close> and take the last byte as the unit.\<close>

definition unitNs :: "char \<Rightarrow> int option" where
  "unitNs c = (if c = CHR ''s'' then Some 1000000000 else if c = CHR ''m'' then Some (60 * 1000000000)
     else if c = CHR ''h'' then Some (3600 * 1000000000) else if c = CHR ''d'' then Some (86400 * 1000000000) else None)"

definition unitBytes :: "char \<Rightarrow> int option" where
  "unitBytes c = (if c \<in> {CHR ''K'', CHR ''k''} then Some 1024 else if c \<in> {CHR ''M'', CHR ''m''} then Some (1024 ^ 2)
     else if c \<in> {CHR ''G'', CHR ''g''} then Some (1024 ^ 3) else if c \<in> {CHR ''T'', CHR ''t''} then Some (1024 ^ 4) else None)"

definition parseUnit :: "(char \<Rightarrow> int option) \<Rightarrow> string \<Rightarrow> int res" where
  "parseUnit unit s0 =
     (let s = trimSpace s0
      in if length s < 2 then Inl (Err ''invalid'')
         else (case sscanf_d (butlast s) of
                 None \<Rightarrow> Inl (Err ''expected integer'')
               | Some num \<Rightarrow> (case unit (last s) of
                    None \<Rightarrow> Inl (Err ''unknown unit'')
                  | Some k \<Rightarrow> Inr (wrap64 (num * k)))))"

definition parseDurationToNs :: "string \<Rightarrow> int res" where
  "parseDurationToNs s = parseUnit unitNs s"

definition parseSizeToBytes :: "string \<Rightarrow> int res" where
  "parseSizeToBytes s = parseUnit unitBytes s"

definition durationOrDefault :: "string \<Rightarrow> int \<Rightarrow> int" where
  "durationOrDefault s defaultNs =
     (if s = [] then defaultNs
      else case parseDurationToNs s of Inr ns \<Rightarrow> if ns > 0 then ns else defaultNs | Inl _ \<Rightarrow> defaultNs)"

lemma trimSpace_id: "s \<noteq> [] \<Longrightarrow> \<not> isSpace (hd s) \<Longrightarrow> \<not> isSpace (last s) \<Longrightarrow> trimSpace s = s"
proof -
  assume a: "s \<noteq> []" "\<not> isSpace (hd s)" "\<not> isSpace (last s)"
  have "dropWhile isSpace s = s" using a by (cases s) auto
  moreover have "dropWhile isSpace (rev s) = rev s" using a by (cases s rule: rev_cases) auto
  ultimately show ?thesis by (simp add: trimSpace_def)
qed

lemma parseUnit_number:
  assumes "int n < 2 ^ 63" "unit u = Some k" "\<not> isSpace u" "rest = [] \<or> \<not> isDigit (hd rest)"
  shows "parseUnit unit (show_nat n @ rest @ [u]) = Inr (wrap64 (int n * k))"
proof -
  obtain c ds where s: "show_nat n = c # ds" "isDigit c"
    using show_nat_digits [of n] by (cases "show_nat n") auto
  let ?s = "show_nat n @ rest @ [u]"
  have t: "trimSpace ?s = ?s" by (rule trimSpace_id) (use assms(3) s isDigit_not_space in auto)
  have "butlast ?s = show_nat n @ rest" "last ?s = u" "\<not> length ?s < 2" by (simp_all add: butlast_append s(1))
  with t sscanf_d_show_nat [OF assms(1,4)] assms(2) show ?thesis by (simp add: parseUnit_def Let_def del: append_assoc)
qed

text \<open>
  A duration written as a number and one of the units s, m, h, d is read exactly whenever the result fits
  in an \<^verbatim>\<open>int64\<close>. Whatever stands between the number and the last letter is ignored: a duration in milliseconds
  is read as that many seconds, and a compound one such as 1h30m as its first number in its last unit.
\<close>

theorem parseDurationToNs_number:
  assumes "unitNs u = Some k" "int n < 2 ^ 63" "int64 (int n * k)" "rest = [] \<or> \<not> isDigit (hd rest)"
  shows "parseDurationToNs (show_nat n @ rest @ [u]) = Inr (int n * k)"
proof -
  have "\<not> isSpace u" using assms(1) by (auto simp: unitNs_def isSpace_def split: if_splits)
  with parseUnit_number [of n unitNs u k rest] assms show ?thesis by (simp add: parseDurationToNs_def)
qed

theorem parseDurationToNs_number_witness:
  "parseDurationToNs (show_nat 4 @ ''h'') = Inr (4 * 3600 * 1000000000)
   \<and> parseDurationToNs (show_nat 500 @ ''ms'') = Inr (500 * 1000000000)
   \<and> parseDurationToNs (show_nat 1 @ ''h30m'') = Inr (60 * 1000000000)"
  using parseDurationToNs_number [of "CHR ''h''" _ 4 "[]"] parseDurationToNs_number [of "CHR ''s''" _ 500 "''m''"]
    parseDurationToNs_number [of "CHR ''m''" _ 1 "''h30''"]
  by (simp add: unitNs_def int64_def isDigit_def)

section \<open>VFS options\<close>

record VFSCacheConfig =
  CacheMode :: string
  CacheMaxAge :: string
  CacheMaxSize :: string
  CachePollInterval :: string
  WriteBack :: string
  DirCacheTime :: string
  AttrTimeout :: string
  ChunkStreams :: string

definition DefaultVFSCacheConfig :: VFSCacheConfig where
  "DefaultVFSCacheConfig = \<lparr>CacheMode = ''full'', CacheMaxAge = ''4h'', CacheMaxSize = ''5G'', CachePollInterval = ''1m'',
     WriteBack = ''3s'', DirCacheTime = ''1h'', AttrTimeout = ''1h'', ChunkStreams = []\<rparr>"

definition optUnit :: "(string \<Rightarrow> int res) \<Rightarrow> string \<Rightarrow> string \<Rightarrow> (string \<times> json) list" where
  "optUnit parse key v = (if v = [] then [] else case parse v of Inl _ \<Rightarrow> [] | Inr n \<Rightarrow> [(key, JInt n)])"

definition cacheModeOpt :: "string \<Rightarrow> (string \<times> json) list" where
  "cacheModeOpt m = (if m = ''off'' then [(''CacheMode'', JInt 0)] else if m = ''minimal'' then [(''CacheMode'', JInt 1)]
     else if m = ''writes'' then [(''CacheMode'', JInt 2)] else if m = ''full'' then [(''CacheMode'', JInt 3)] else [])"

definition chunkStreamsOpt :: "string \<Rightarrow> (string \<times> json) list" where
  "chunkStreamsOpt v = (if v = [] then []
     else case atoi v of None \<Rightarrow> [] | Some n \<Rightarrow> if n \<ge> 0 then [(''ChunkStreams'', JInt n)] else [])"

definition pollNs :: "VFSCacheConfig \<Rightarrow> int" where
  "pollNs c = (if CachePollInterval c = [] then seconds 60
     else case parseDurationToNs (CachePollInterval c) of Inr ns \<Rightarrow> ns | Inl _ \<Rightarrow> seconds 60)"

definition buildVFSOpt :: "VFSCacheConfig \<Rightarrow> ('s rc_scheme, (string \<times> json) list) state" where
  "buildVFSOpt c = do {
     total \<leftarrow> gets vfsCacheSize;
     modS (\<lambda>s. s\<lparr>mountGeneration := wrap64 (mountGeneration s + 1)\<rparr>);
     g \<leftarrow> gets mountGeneration;
     ret ([(''ReadChunkSize'', JInt 33554432), (''ReadChunkSizeLimit'', JInt (- 1)), (''BufferSize'', JInt 8388608),
           (''Links'', JBool True), (''DiskSpaceTotalSize'', JInt total)]
          @ cacheModeOpt (CacheMode c)
          @ optUnit parseDurationToNs ''CacheMaxAge'' (CacheMaxAge c)
          @ optUnit parseSizeToBytes ''CacheMaxSize'' (CacheMaxSize c)
          @ optUnit parseDurationToNs ''WriteBack'' (WriteBack c)
          @ chunkStreamsOpt (ChunkStreams c)
          @ [(''CachePollInterval'', JInt (wrap64 (pollNs c + g)))])
   }"

lemma wrap64_inj: "wrap64 (a + x) = wrap64 (a + y) \<Longrightarrow> int64 x \<Longrightarrow> int64 y \<Longrightarrow> x = y"
proof -
  assume "wrap64 (a + x) = wrap64 (a + y)" and i: "int64 x" "int64 y"
  then have "(a + x + 2 ^ 63) mod 2 ^ 64 = (a + y + 2 ^ 63) mod (2 ^ 64 :: int)" by (simp add: wrap64_def)
  then have "(2 ^ 64 :: int) dvd (x - y)" by (simp add: mod_eq_dvd_iff)
  moreover have "- (2 ^ 64) < x - y" "x - y < 2 ^ 64" using i by (auto simp: int64_def)
  ultimately show "x = y" using zdvd_not_zless [of "x - y" "2 ^ 64"] zdvd_not_zless [of "y - x" "2 ^ 64"]
    by (smt (verit) dvd_minus_iff minus_diff_eq)
qed

text \<open>
  Two mounts never get the same VFS options, so rclone never reuses a leaked VFS for a new one: the poll
  interval carries a counter that every mount increments, and even with wrap-around it differs
  whenever the counter does.
\<close>

theorem buildVFSOpt_unique:
  assumes "mountGeneration s \<noteq> mountGeneration t" "int64 (mountGeneration s)" "int64 (mountGeneration t)"
  shows "fst (run_state (buildVFSOpt c) s) \<noteq> fst (run_state (buildVFSOpt c) t)"
proof
  assume "fst (run_state (buildVFSOpt c) s) = fst (run_state (buildVFSOpt c) t)"
  then have "last (fst (run_state (buildVFSOpt c) s)) = last (fst (run_state (buildVFSOpt c) t))" by (rule arg_cong)
  then have e: "wrap64 (pollNs c + wrap64 (mountGeneration s + 1)) = wrap64 (pollNs c + wrap64 (mountGeneration t + 1))"
    by (simp add: buildVFSOpt_def)
  have "wrap64 (1 + mountGeneration s) = wrap64 (1 + mountGeneration t)"
    using wrap64_inj [OF e] by (simp add: add.commute)
  from wrap64_inj [OF this] assms show False by simp
qed

theorem buildVFSOpt_unique_witness:
  "let s = \<lparr>hist = [], mountsStacks = None, mountsFlat = Map.empty, mountsReadAt = None, mountsInFlight = False,
       mountsBlockedAt = 0, mountsTakenAt = 0, initOnceDone = True, initDone = True, rpcInFlight = [], rpcSeq = 0,
       mountGeneration = 0, vfsCacheSize = 0\<rparr>;
       s' = snd (run_state (buildVFSOpt DefaultVFSCacheConfig) s)
   in fst (run_state (buildVFSOpt DefaultVFSCacheConfig) s) \<noteq> fst (run_state (buildVFSOpt DefaultVFSCacheConfig) s')"
  unfolding Let_def
  by (rule buildVFSOpt_unique) (simp_all add: buildVFSOpt_def int64_def wrap64_def)

end
