(* ===== verification/VfsCache.thy ===== *)
theory VfsCache
  imports VfsNames Luks
begin

text \<open>
  The on-disk VFS cache (\<^verbatim>\<open>vfscache.go\<close>, \<^verbatim>\<open>cachecheck.go\<close>): setting up and tearing down its encrypted
  volume, the drain-pending markers, the persisted map of VFS names, the search for writes that never
  reached S3, the sweep of abandoned directories, and the validation of cache items before a mount.
\<close>

section \<open>Constants and commands\<close>

definition VFSCacheBasePath :: string where
  "VFSCacheBasePath = ''/root/.cache/rclone''"

definition VFSCacheMapperName :: string where
  "VFSCacheMapperName = ''luks-vfs-cache''"

definition VFSCacheBackingFile :: string where
  "VFSCacheBackingFile = ''/var/lib/lukscrypt-vfs-cache/vfs-cache.luks''"

definition vfsCacheNodeIDFile :: string where
  "vfsCacheNodeIDFile = ''/var/lib/lukscrypt-vfs-cache/.node-id''"

definition vfsNameMapFile :: string where
  "vfsNameMapFile = VFSCacheBasePath @ ''/.vfs-names.json''"

definition drainPendingDir :: string where
  "drainPendingDir = VFSCacheBasePath @ ''/.drain-pending''"

definition setupLoopDevice :: "env \<Rightarrow> string \<Rightarrow> ('s os_scheme, string res) state" where
  "setupLoopDevice env backingFile = do {
     r \<leftarrow> run env (Cmd ''losetup'' [''-f'', ''--show'', backingFile] []);
     ret (case cmdErr r of Some e \<Rightarrow> Inl (WrapW ''losetup'' e) | None \<Rightarrow> Inr (trimSpace (cmdOut r)))
   }"

definition findLoopDevice :: "env \<Rightarrow> string \<Rightarrow> ('s os_scheme, string res) state" where
  "findLoopDevice env backingFile = do {
     r \<leftarrow> run env (Cmd ''losetup'' [''-j'', backingFile] []);
     ret (case cmdErr r of
            Some e \<Rightarrow> Inl e
          | None \<Rightarrow> (let line = trimSpace (cmdOut r)
                     in if line = [] then Inl (Err ''no loop device found'') else Inr (hd (split_on (CHR '':'') line))))
   }"

definition detachLoopDevice :: "env \<Rightarrow> string \<Rightarrow> ('s os_scheme, goerr option) state" where
  "detachLoopDevice env loopDevice = do {
     r \<leftarrow> run env (Cmd ''losetup'' [''-d'', loopDevice] []);
     ret (cmdErr r)
   }"

definition formatExt4 :: "env \<Rightarrow> string \<Rightarrow> ('s os_scheme, goerr option) state" where
  "formatExt4 env device = do {
     r \<leftarrow> run env (Cmd ''mkfs.ext4'' [''-F'', device] []);
     ret (cmdErr r)
   }"

definition mountFilesystem :: "env \<Rightarrow> string \<Rightarrow> string \<Rightarrow> ('s os_scheme, goerr option) state" where
  "mountFilesystem env device mountPath = do {
     d \<leftarrow> osReadFile env ''/proc/mounts'';
     let lines = split_on (CHR 0x0A) (case d of Inl _ \<Rightarrow> [] | Inr x \<Rightarrow> x);
     if \<exists>l \<in> set lines. length (strFields l) \<ge> 2 \<and> strFields l ! 1 = mountPath then ret None
     else do {
       r \<leftarrow> run env (Cmd ''mount'' [device, mountPath] []);
       ret (cmdErr r)
     }
   }"

definition unmountFilesystem :: "env \<Rightarrow> string \<Rightarrow> ('s os_scheme, goerr option) state" where
  "unmountFilesystem env mountPath = do {
     r \<leftarrow> run env (Cmd ''umount'' [mountPath] []);
     ret (cmdErr r)
   }"

definition isVFSCacheMounted :: "env \<Rightarrow> string \<Rightarrow> ('s os_scheme, bool) state" where
  "isVFSCacheMounted env mountPath = do {
     r \<leftarrow> run env (Cmd ''mountpoint'' [''-q'', mountPath] []);
     ret (cmdErr r = None)
   }"

section \<open>The encrypted volume\<close>

definition vfsCachePassphrase :: "env \<Rightarrow> string \<Rightarrow> string \<Rightarrow> ('s os_scheme, string) state" where
  "vfsCachePassphrase env basePassphrase nodeID = do {
     r \<leftarrow> osReadFile env vfsCacheNodeIDFile;
     ret (case r of
            Inl _ \<Rightarrow> basePassphrase @ ''-'' @ nodeID
          | Inr recorded \<Rightarrow>
              (let i = trimSpace recorded
               in if i \<noteq> [] \<and> i \<noteq> nodeID then basePassphrase @ ''-'' @ i else basePassphrase @ ''-'' @ nodeID))
   }"

definition recordVFSCacheNodeID :: "env \<Rightarrow> string \<Rightarrow> ('s os_scheme, unit) state" where
  "recordVFSCacheNodeID env nodeID = do {
     _ \<leftarrow> fsCall env (WriteFile vfsCacheNodeIDFile (nodeID @ [CHR 0x0A]));
     ret ()
   }"

definition verifyCacheEncryptedAt :: "env \<Rightarrow> string \<Rightarrow> ('s os_scheme, goerr option) state" where
  "verifyCacheEncryptedAt env path = do {
     c \<leftarrow> osStat env path;
     (case c of
        Inl e \<Rightarrow> ret (Some (WrapW ''stat cache dir'' (Errno e)))
      | Inr cache \<Rightarrow> do {
          p \<leftarrow> osStat env (pathDir path);
          ret (case p of
                 Inl e \<Rightarrow> Some (WrapW ''stat parent'' (Errno e))
               | Inr parent \<Rightarrow> if fi_dev cache = fi_dev parent then Some (Err ''cache NOT mounted'') else None)
        })
   }"

definition VerifyCacheEncrypted :: "env \<Rightarrow> ('s os_scheme, goerr option) state" where
  "VerifyCacheEncrypted env = verifyCacheEncryptedAt env VFSCacheBasePath"

definition pinAndVerifyCacheDir :: "env \<Rightarrow> string \<Rightarrow> ('s os_scheme, goerr option) state" where
  "pinAndVerifyCacheDir env mountPath =
     orFail (askS (\<lambda>h. setCacheDir env h mountPath) (\<lambda>_. Asked QCacheDir)) (WrapW ''pin cache dir'') (do {
       got \<leftarrow> askS (getCacheDir env) (\<lambda>_. Asked QCacheDir);
       if got \<noteq> mountPath then ret (Some (Err ''cache dir is not the encrypted volume''))
       else VerifyCacheEncrypted env
     })"

definition cleanupStaleVFSCache :: "env \<Rightarrow> string \<Rightarrow> ('s os_scheme, unit) state" where
  "cleanupStaleVFSCache env mountPath = do {
     mounted \<leftarrow> isVFSCacheMounted env mountPath;
     whenS mounted (do { _ \<leftarrow> run env (Cmd ''umount'' [''-l'', mountPath] []); ret () });
     m \<leftarrow> osStat env (GetMappedDevicePath VFSCacheMapperName);
     (case m of Inl _ \<Rightarrow> ret () | Inr _ \<Rightarrow> do { _ \<leftarrow> CloseLUKS env VFSCacheMapperName; ret () });
     b \<leftarrow> osStat env VFSCacheBackingFile;
     (case b of
        Inl _ \<Rightarrow> ret ()
      | Inr _ \<Rightarrow> do {
          l \<leftarrow> findLoopDevice env VFSCacheBackingFile;
          (case l of
             Inl _ \<Rightarrow> ret ()
           | Inr d \<Rightarrow> whenS (d \<noteq> []) (do { _ \<leftarrow> detachLoopDevice env d; ret () }))
        })
   }"

definition resizeVFSCacheIfNeeded :: "env \<Rightarrow> string \<Rightarrow> int \<Rightarrow> string \<Rightarrow> ('s os_scheme, goerr option) state" where
  "resizeVFSCacheIfNeeded env loopDevice targetSize passphrase = do {
     i \<leftarrow> osStat env VFSCacheBackingFile;
     (case i of
        Inl e \<Rightarrow> ret (Some (WrapW ''stat backing file'' (Errno e)))
      | Inr info \<Rightarrow>
          if fi_size info \<ge> targetSize then ret None
          else orFail (do { r \<leftarrow> fsCall env (Truncate VFSCacheBackingFile targetSize); ret (fsErr r) }) (WrapW ''expand'') (
               orFail (do { r \<leftarrow> run env (Cmd ''losetup'' [''-c'', loopDevice] []); ret (cmdErr r) }) (WrapV ''refresh loop'') (
               orFail (ResizeLUKS env VFSCacheMapperName passphrase) (WrapW ''resize LUKS'') (
               orFail (do { r \<leftarrow> run env (Cmd ''resize2fs'' [GetMappedDevicePath VFSCacheMapperName] []); ret (cmdErr r) })
                 (WrapV ''resize fs'') (ret None)))))
   }"

definition cacheSizeOf :: "string \<Rightarrow> int" where
  "cacheSizeOf sizeStr =
     (if sizeStr \<noteq> [] then (case parseSizeToBytes sizeStr of
         Inr parsed \<Rightarrow> if parsed > 0 then parsed else 20 * 1024 ^ 3 | Inl _ \<Rightarrow> 20 * 1024 ^ 3)
      else 20 * 1024 ^ 3)"

text \<open>
  The two ways \<^verbatim>\<open>SetupVFSCache\<close> gets an open mapper device: creating the volume (undoing each step when a
  later one fails) and opening an existing one.
\<close>

definition createCacheVolume :: "env \<Rightarrow> int \<Rightarrow> string \<Rightarrow> string \<Rightarrow> ('s os_scheme, goerr option) state" where
  "createCacheVolume env cacheSize passphrase nodeID = do {
     c \<leftarrow> fsCall env (CreateFile VFSCacheBackingFile);
     (case c of
        Some e \<Rightarrow> ret (Some (WrapW ''create backing file'' (Errno e)))
      | None \<Rightarrow> do {
          t \<leftarrow> fsCall env (Truncate VFSCacheBackingFile cacheSize);
          (case t of
             Some e \<Rightarrow> do { _ \<leftarrow> fsCall env (Remove VFSCacheBackingFile); ret (Some (WrapW ''size backing file'' (Errno e))) }
           | None \<Rightarrow> do {
               l \<leftarrow> setupLoopDevice env VFSCacheBackingFile;
               (case l of
                  Inl e \<Rightarrow> do { _ \<leftarrow> fsCall env (Remove VFSCacheBackingFile); ret (Some (WrapW ''setup loop'' e)) }
                | Inr loopDevice \<Rightarrow> do {
                    f \<leftarrow> FormatAndOpenLUKS env loopDevice VFSCacheMapperName passphrase;
                    (case f of
                       Some e \<Rightarrow> do {
                         _ \<leftarrow> detachLoopDevice env loopDevice;
                         _ \<leftarrow> fsCall env (Remove VFSCacheBackingFile);
                         ret (Some (WrapW ''format LUKS'' e))
                       }
                     | None \<Rightarrow> do {
                         x \<leftarrow> formatExt4 env (GetMappedDevicePath VFSCacheMapperName);
                         (case x of
                            Some e \<Rightarrow> do {
                              _ \<leftarrow> CloseLUKS env VFSCacheMapperName;
                              _ \<leftarrow> detachLoopDevice env loopDevice;
                              _ \<leftarrow> fsCall env (Remove VFSCacheBackingFile);
                              ret (Some (WrapW ''format fs'' e))
                            }
                          | None \<Rightarrow> do { recordVFSCacheNodeID env nodeID; ret None })
                       })
                  })
             })
        })
   }"

definition openCacheVolume :: "env \<Rightarrow> int \<Rightarrow> string \<Rightarrow> ('s os_scheme, goerr option) state" where
  "openCacheVolume env cacheSize passphrase = do {
     l \<leftarrow> setupLoopDevice env VFSCacheBackingFile;
     (case l of
        Inl e \<Rightarrow> ret (Some (WrapW ''setup loop'' e))
      | Inr loopDevice \<Rightarrow> do {
          r \<leftarrow> OpenLUKS env loopDevice VFSCacheMapperName passphrase;
          (case r of
             Some e \<Rightarrow> do { _ \<leftarrow> detachLoopDevice env loopDevice; ret (Some (WrapW ''open encrypted cache'' e)) }
           | None \<Rightarrow> do { _ \<leftarrow> resizeVFSCacheIfNeeded env loopDevice cacheSize passphrase; ret None })
        })
   }"

definition mountCacheVolume :: "env \<Rightarrow> string \<Rightarrow> ('s os_scheme, string res) state" where
  "mountCacheVolume env mountPath = do {
     m \<leftarrow> mountFilesystem env (GetMappedDevicePath VFSCacheMapperName) mountPath;
     (case m of
        Some e \<Rightarrow> do { _ \<leftarrow> CloseLUKS env VFSCacheMapperName; ret (Inl (WrapW ''mount cache'' e)) }
      | None \<Rightarrow> checkE (pinAndVerifyCacheDir env mountPath) id (ret (Inr mountPath)))
   }"

definition prepareCacheVolume :: "env \<Rightarrow> int \<Rightarrow> string \<Rightarrow> string \<Rightarrow> ('s os_scheme, string res) state" where
  "prepareCacheVolume env cacheSize passphrase nodeID = do {
     cleanupStaleVFSCache env VFSCacheBasePath;
     checkE (do { r \<leftarrow> fsCall env (MkdirAll (pathDir VFSCacheBackingFile)); ret (fsErr r) }) (WrapW ''create cache dir'') (
     checkE (do { r \<leftarrow> fsCall env (MkdirAll VFSCacheBasePath); ret (fsErr r) }) (WrapW ''create mount dir'') (do {
       b \<leftarrow> osStat env VFSCacheBackingFile;
       checkE (if b = Inl ENOENT then createCacheVolume env cacheSize passphrase nodeID
               else openCacheVolume env cacheSize passphrase) id (mountCacheVolume env VFSCacheBasePath)
     }))
   }"

definition SetupVFSCache :: "env \<Rightarrow> string \<Rightarrow> string \<Rightarrow> string \<Rightarrow> ('s rc_scheme, string res) state" where
  "SetupVFSCache env sizeStr basePassphrase nodeID = do {
     passphrase \<leftarrow> vfsCachePassphrase env basePassphrase nodeID;
     modS (\<lambda>s. s\<lparr>vfsCacheSize := cacheSizeOf sizeStr\<rparr>);
     mounted \<leftarrow> isVFSCacheMounted env VFSCacheBasePath;
     if mounted then do {
       i \<leftarrow> osStat env VFSCacheBackingFile;
       if (case i of Inr info \<Rightarrow> fi_size info < cacheSizeOf sizeStr | Inl _ \<Rightarrow> False)
       then do {
         cleanupStaleVFSCache env VFSCacheBasePath;
         prepareCacheVolume env (cacheSizeOf sizeStr) passphrase nodeID
       }
       else checkE (pinAndVerifyCacheDir env VFSCacheBasePath) id (ret (Inr VFSCacheBasePath))
     }
     else prepareCacheVolume env (cacheSizeOf sizeStr) passphrase nodeID
   }"

definition TeardownVFSCache :: "env \<Rightarrow> ('s os_scheme, goerr option) state" where
  "TeardownVFSCache env = do {
     _ \<leftarrow> unmountFilesystem env VFSCacheBasePath;
     _ \<leftarrow> CloseLUKS env VFSCacheMapperName;
     l \<leftarrow> findLoopDevice env VFSCacheBackingFile;
     (case l of
        Inl _ \<Rightarrow> ret ()
      | Inr d \<Rightarrow> whenS (d \<noteq> []) (do { _ \<leftarrow> detachLoopDevice env d; ret () }));
     ret None
   }"

section \<open>Drain markers and the name map\<close>

definition SaveDrainPending :: "env \<Rightarrow> string \<Rightarrow> ('s os_scheme, unit) state" where
  "SaveDrainPending env volumeID = do {
     r \<leftarrow> fsCall env (MkdirAll drainPendingDir);
     whenS (r = None) (do { _ \<leftarrow> fsCall env (WriteFile (pathJoin [drainPendingDir, volumeID]) []); ret () })
   }"

definition ClearDrainPending :: "env \<Rightarrow> string \<Rightarrow> ('s os_scheme, unit) state" where
  "ClearDrainPending env volumeID = do {
     _ \<leftarrow> fsCall env (Remove (pathJoin [drainPendingDir, volumeID]));
     ret ()
   }"

definition ListDrainPending :: "env \<Rightarrow> ('s os_scheme, string list) state" where
  "ListDrainPending env = do {
     r \<leftarrow> osReadDir env drainPendingDir;
     ret (case r of Inl _ \<Rightarrow> [] | Inr es \<Rightarrow> map fst (filter (\<lambda>e. \<not> snd e) es))
   }"

text \<open>
  \<^verbatim>\<open>json.Unmarshal\<close> into a \<^verbatim>\<open>map[string]string\<close>; the keys of a decoded object are distinct. A Go map is an
  association list here, in the order the iteration happens to visit it.
\<close>

definition asStringMap :: "json \<Rightarrow> (string \<times> string) list option" where
  "asStringMap j = (case j of
       JObj kvs \<Rightarrow> those (map (\<lambda>(k, v). case v of JStr x \<Rightarrow> Some (k, x) | JNull \<Rightarrow> Some (k, []) | _ \<Rightarrow> None) kvs)
     | JNull \<Rightarrow> Some []
     | _ \<Rightarrow> None)"

definition LoadVFSNameMap :: "env \<Rightarrow> ('s os_scheme, (string \<times> string) list) state" where
  "LoadVFSNameMap env = do {
     r \<leftarrow> osReadFile env vfsNameMapFile;
     ret (case r of
            Inl _ \<Rightarrow> []
          | Inr d \<Rightarrow> (case Option.bind (unmarshal env d) asStringMap of None \<Rightarrow> [] | Some m \<Rightarrow> m))
   }"

definition writeVFSNameMap :: "env \<Rightarrow> (string \<times> string) list \<Rightarrow> ('s os_scheme, unit) state" where
  "writeVFSNameMap env m = do {
     _ \<leftarrow> fsCall env (WriteFile vfsNameMapFile (marshal env (JObj (map (\<lambda>(k, v). (k, JStr v)) m))));
     ret ()
   }"

definition dropKey :: "string \<Rightarrow> (string \<times> string) list \<Rightarrow> (string \<times> string) list" where
  "dropKey k m = filter (\<lambda>e. fst e \<noteq> k) m"

definition SaveVFSName :: "env \<Rightarrow> string \<Rightarrow> string \<Rightarrow> ('s os_scheme, unit) state" where
  "SaveVFSName env volumeID vfsName = do {
     m \<leftarrow> LoadVFSNameMap env;
     writeVFSNameMap env ((volumeID, vfsName) # dropKey volumeID m)
   }"

definition RemoveVFSName :: "env \<Rightarrow> string \<Rightarrow> ('s os_scheme, unit) state" where
  "RemoveVFSName env volumeID = do {
     m \<leftarrow> LoadVFSNameMap env;
     whenS (map_of m volumeID \<noteq> None) (writeVFSNameMap env (dropKey volumeID m))
   }"

section \<open>Cache items\<close>

text \<open>
  \<^verbatim>\<open>json.Unmarshal\<close> into \<^verbatim>\<open>cacheItemInfo\<close>: a missing or null field keeps its zero value, a field of another type is
  an error. The item is its \<^verbatim>\<open>Dirty\<close> flag and its ranges (position, size).
\<close>

definition intField :: "json \<Rightarrow> string \<Rightarrow> int option" where
  "intField j k = (case jfield j k of
       None \<Rightarrow> Some 0 | Some JNull \<Rightarrow> Some 0 | Some (JInt n) \<Rightarrow> if int64 n then Some n else None | _ \<Rightarrow> None)"

definition rangeOf :: "json \<Rightarrow> (int \<times> int) option" where
  "rangeOf j = (case j of
       JObj _ \<Rightarrow> Option.bind (intField j ''Pos'') (\<lambda>p. map_option (Pair p) (intField j ''Size''))
     | JNull \<Rightarrow> Some (0, 0)
     | _ \<Rightarrow> None)"

definition rangesField :: "json \<Rightarrow> (int \<times> int) list option" where
  "rangesField j = (case jfield j ''Rs'' of
       None \<Rightarrow> Some [] | Some JNull \<Rightarrow> Some [] | Some (JArr xs) \<Rightarrow> those (map rangeOf xs) | _ \<Rightarrow> None)"

definition dirtyField :: "json \<Rightarrow> bool option" where
  "dirtyField j = (case jfield j ''Dirty'' of
       None \<Rightarrow> Some False | Some JNull \<Rightarrow> Some False | Some (JBool b) \<Rightarrow> Some b | _ \<Rightarrow> None)"

definition itemInfo :: "env \<Rightarrow> string \<Rightarrow> (bool \<times> (int \<times> int) list) option" where
  "itemInfo env raw = (case unmarshal env raw of
       None \<Rightarrow> None
     | Some j \<Rightarrow> (case j of
          JNull \<Rightarrow> Some (False, [])
        | JObj _ \<Rightarrow> Option.bind (intField j ''Size'') (\<lambda>_. Option.bind (dirtyField j) (\<lambda>d. map_option (Pair d) (rangesField j)))
        | _ \<Rightarrow> None))"

definition isCacheItemDirty :: "env \<Rightarrow> string \<Rightarrow> ('s os_scheme, bool) state" where
  "isCacheItemDirty env metaPath = do {
     r \<leftarrow> osReadFile env metaPath;
     ret (case r of
            Inl _ \<Rightarrow> True
          | Inr raw \<Rightarrow> (case itemInfo env raw of None \<Rightarrow> True | Some (d, _) \<Rightarrow> d))
   }"

text \<open>\<^verbatim>\<open>corruptReason\<close>: the empty string means healthy. The end of a range is computed in \<^verbatim>\<open>int64\<close>.\<close>

definition corruptReason :: "env \<Rightarrow> string \<Rightarrow> string \<Rightarrow> ('s os_scheme, string) state" where
  "corruptReason env metaPath dataPath = do {
     r \<leftarrow> osReadFile env metaPath;
     (case r of
        Inl _ \<Rightarrow> ret ''unreadable metadata''
      | Inr raw \<Rightarrow> (case itemInfo env raw of
           None \<Rightarrow> ret ''unparseable metadata''
         | Some (_, rs) \<Rightarrow> do {
             st \<leftarrow> osStat env dataPath;
             ret (case st of
                    Inl _ \<Rightarrow> if rs \<noteq> [] then ''data file is missing'' else []
                  | Inr i \<Rightarrow> if \<exists>(p, n) \<in> set rs. wrap64 (p + n) > fi_size i then ''range past EOF'' else [])
           }))
   }"

definition quarantineCacheItem :: "env \<Rightarrow> string \<Rightarrow> string \<Rightarrow> string \<Rightarrow> string \<Rightarrow> string \<Rightarrow> ('s os_scheme, unit) state" where
  "quarantineCacheItem env base vfsName rel metaPath dataPath = do {
     let qdir = pathJoin [base, ''quarantine'', vfsName, pathDir rel];
     r \<leftarrow> fsCall env (MkdirAll qdir);
     whenS (r = None) (do {
       t \<leftarrow> timeNow env;
       let stamp = show_int (t div 1000000000);
       _ \<leftarrow> fsCall env (Rename dataPath (pathJoin [qdir, pathBase rel @ ''.'' @ stamp @ ''.data'']));
       _ \<leftarrow> fsCall env (Rename metaPath (pathJoin [qdir, pathBase rel @ ''.'' @ stamp @ ''.meta'']));
       ret ()
     })
   }"

text \<open>The path of a walked file relative to the root of the walk, which is a prefix of it.\<close>

definition relTo :: "string \<Rightarrow> string \<Rightarrow> string" where
  "relTo root path = drop (length root + 1) path"

fun validateItems :: "env \<Rightarrow> string \<Rightarrow> string \<Rightarrow> walkItem list \<Rightarrow> ('s os_scheme, unit) state" where
  "validateItems env base vfsName [] = ret ()"
| "validateItems env base vfsName (WDir _ # ws) = validateItems env base vfsName ws"
| "validateItems env base vfsName (WErr _ _ # ws) = validateItems env base vfsName ws"
| "validateItems env base vfsName (WFile metaPath _ _ # ws) = do {
     let rel = relTo (pathJoin [base, ''vfsMeta'', vfsName]) metaPath;
     let dataPath = pathJoin [pathJoin [base, ''vfs'', vfsName], rel];
     reason \<leftarrow> corruptReason env metaPath dataPath;
     (if reason = [] then ret ()
      else do {
        dirty \<leftarrow> isCacheItemDirty env metaPath;
        if dirty then quarantineCacheItem env base vfsName rel metaPath dataPath
        else do {
          _ \<leftarrow> fsCall env (Remove metaPath);
          _ \<leftarrow> fsCall env (Remove dataPath);
          ret ()
        }
      });
     validateItems env base vfsName ws
   }"

definition validateVFSCacheAt :: "env \<Rightarrow> string \<Rightarrow> string \<Rightarrow> ('s os_scheme, unit) state" where
  "validateVFSCacheAt env base vfsName = do {
     ws \<leftarrow> walkDir env (pathJoin [base, ''vfsMeta'', vfsName]);
     validateItems env base vfsName ws
   }"

definition ValidateVFSCache :: "env \<Rightarrow> string \<Rightarrow> ('s os_scheme, unit) state" where
  "ValidateVFSCache env vfsName = validateVFSCacheAt env VFSCacheBasePath vfsName"

section \<open>Unuploaded writes\<close>

text \<open>
  The callback of \<^verbatim>\<open>hasDirtyCacheItemsAt\<close> over the walk: an entry with an error ends the walk with that error, a dirty
  file ends it with the answer.
\<close>

fun dirtyWalk :: "env \<Rightarrow> walkItem list \<Rightarrow> ('s os_scheme, errno + bool) state" where
  "dirtyWalk env [] = ret (Inr False)"
| "dirtyWalk env (WErr _ e # ws) = ret (Inl e)"
| "dirtyWalk env (WDir _ # ws) = dirtyWalk env ws"
| "dirtyWalk env (WFile p _ _ # ws) = do {
     d \<leftarrow> isCacheItemDirty env p;
     if d then ret (Inr True) else dirtyWalk env ws
   }"

definition hasDirtyCacheItemsAt :: "env \<Rightarrow> string \<Rightarrow> string \<Rightarrow> ('s os_scheme, bool) state" where
  "hasDirtyCacheItemsAt env base vfsName = do {
     ws \<leftarrow> walkDir env (pathJoin [base, ''vfsMeta'', vfsName]);
     r \<leftarrow> dirtyWalk env ws;
     ret (case r of Inl e \<Rightarrow> e \<noteq> ENOENT | Inr b \<Rightarrow> b)
   }"

fun anyDirty :: "env \<Rightarrow> string \<Rightarrow> string \<Rightarrow> (string \<times> bool) list \<Rightarrow> ('s os_scheme, bool) state" where
  "anyDirty env base volumeID [] = ret False"
| "anyDirty env base volumeID ((n, isdir) # es) =
     (if \<not> isdir \<or> volumeIDOfVFSName n \<noteq> volumeID then anyDirty env base volumeID es
      else do {
        d \<leftarrow> hasDirtyCacheItemsAt env base n;
        if d then ret True else anyDirty env base volumeID es
      })"

definition hasUnuploadedDataAt :: "env \<Rightarrow> string \<Rightarrow> string \<Rightarrow> ('s os_scheme, bool) state" where
  "hasUnuploadedDataAt env base volumeID =
     (if volumeID = [] then ret False
      else do {
        r \<leftarrow> osReadDir env (pathJoin [base, ''vfsMeta'']);
        (case r of
           Inl e \<Rightarrow> ret (e \<noteq> ENOENT)
         | Inr es \<Rightarrow> anyDirty env base volumeID es)
      })"

definition HasUnuploadedData :: "env \<Rightarrow> string \<Rightarrow> ('s os_scheme, bool) state" where
  "HasUnuploadedData env volumeID = hasUnuploadedDataAt env VFSCacheBasePath volumeID"

fun collectDirty :: "env \<Rightarrow> string \<Rightarrow> string list \<Rightarrow> (string \<times> bool) list \<Rightarrow> ('s os_scheme, string list) state" where
  "collectDirty env base out [] = ret out"
| "collectDirty env base out ((n, isdir) # es) =
     (if \<not> isdir then collectDirty env base out es
      else let v = volumeIDOfVFSName n
           in if v \<in> set out then collectDirty env base out es
              else do {
                d \<leftarrow> hasDirtyCacheItemsAt env base n;
                collectDirty env base (if d then out @ [v] else out) es
              })"

definition volumesWithUnuploadedDataAt :: "env \<Rightarrow> string \<Rightarrow> ('s os_scheme, string list) state" where
  "volumesWithUnuploadedDataAt env base = do {
     r \<leftarrow> osReadDir env (pathJoin [base, ''vfsMeta'']);
     (case r of
        Inl _ \<Rightarrow> ret []
      | Inr es \<Rightarrow> do { out \<leftarrow> collectDirty env base [] es; ret (sort out) })
   }"

definition VolumesWithUnuploadedData :: "env \<Rightarrow> ('s os_scheme, string list) state" where
  "VolumesWithUnuploadedData env = volumesWithUnuploadedDataAt env VFSCacheBasePath"

section \<open>Removing cache directories\<close>

definition removeVFSCacheDirsAt :: "env \<Rightarrow> string \<Rightarrow> string \<Rightarrow> ('s os_scheme, unit) state" where
  "removeVFSCacheDirsAt env base vfsName = do {
     _ \<leftarrow> fsCall env (RemoveAll (base @ ''/vfs/'' @ vfsName));
     _ \<leftarrow> fsCall env (RemoveAll (base @ ''/vfsMeta/'' @ vfsName));
     ret ()
   }"

fun sweepEntries :: "env \<Rightarrow> string \<Rightarrow> string list \<Rightarrow> (string \<Rightarrow> ('s os_scheme, bool) state) \<Rightarrow> (string \<times> bool) list
   \<Rightarrow> ('s os_scheme, unit) state" where
  "sweepEntries env base mapped isActive [] = ret ()"
| "sweepEntries env base mapped isActive ((vfsName, isdir) # es) = do {
     (if \<not> isdir \<or> vfsName \<in> set mapped then ret ()
      else do {
        active \<leftarrow> isActive (volumeIDOfVFSName vfsName);
        if active \<and> vfsName = volumeIDOfVFSName vfsName then ret ()
        else do {
          d \<leftarrow> hasDirtyCacheItemsAt env base vfsName;
          if d then ret () else removeVFSCacheDirsAt env base vfsName
        }
      });
     sweepEntries env base mapped isActive es
   }"

definition sweepUnmappedVFSCacheDirsAt ::
  "env \<Rightarrow> string \<Rightarrow> (string \<times> string) list \<Rightarrow> (string \<Rightarrow> ('s os_scheme, bool) state) \<Rightarrow> ('s os_scheme, unit) state" where
  "sweepUnmappedVFSCacheDirsAt env base m isActive = do {
     r \<leftarrow> osReadDir env (pathJoin [base, ''vfs'']);
     (case r of Inl _ \<Rightarrow> ret () | Inr es \<Rightarrow> sweepEntries env base (map snd m) isActive es)
   }"

fun removeInactive :: "env \<Rightarrow> (string \<Rightarrow> ('s os_scheme, bool) state) \<Rightarrow> (string \<times> string) list
   \<Rightarrow> ('s os_scheme, (string \<times> string) list) state" where
  "removeInactive env isActive [] = ret []"
| "removeInactive env isActive ((volumeID, vfsName) # m) = do {
     active \<leftarrow> isActive volumeID;
     if active then do { m' \<leftarrow> removeInactive env isActive m; ret ((volumeID, vfsName) # m') }
     else do {
       removeVFSCacheDirsAt env VFSCacheBasePath vfsName;
       removeInactive env isActive m
     }
   }"

definition CleanupOrphanedVFSCacheDirs :: "env \<Rightarrow> (string \<Rightarrow> ('s os_scheme, bool) state) \<Rightarrow> ('s os_scheme, unit) state" where
  "CleanupOrphanedVFSCacheDirs env isActive = do {
     m \<leftarrow> LoadVFSNameMap env;
     m' \<leftarrow> removeInactive env isActive m;
     whenS (m' \<noteq> m) (writeVFSNameMap env m');
     sweepUnmappedVFSCacheDirsAt env VFSCacheBasePath m' isActive
   }"

section \<open>A cache that is set up is encrypted\<close>

text \<open>
  \<open>provedEncrypted env s\<close>: the last two requests before \<open>s\<close> were the two \<^verbatim>\<open>stat\<close> calls of the verification, and
  they showed the cache directory on another device than its parent.
\<close>

definition provedEncrypted :: "env \<Rightarrow> 's os_scheme \<Rightarrow> bool" where
  "provedEncrypted env s = (\<exists>h c p.
     hist s = h @ [Asked (QStat VFSCacheBasePath), Asked (QStat (pathDir VFSCacheBasePath))] \<and>
     stat env h VFSCacheBasePath = Inr c \<and>
     stat env (h @ [Asked (QStat VFSCacheBasePath)]) (pathDir VFSCacheBasePath) = Inr p \<and> fi_dev c \<noteq> fi_dev p)"

lemma VerifyCacheEncrypted_ensures:
  "ensures (VerifyCacheEncrypted env) (\<lambda>r s. r = None \<longrightarrow> provedEncrypted env s)"
  by (rule ensuresI) (auto simp: VerifyCacheEncrypted_def verifyCacheEncryptedAt_def provedEncrypted_def
      split: sum.splits if_splits)

lemma pinAndVerify_ensures: "ensures (pinAndVerifyCacheDir env p) (\<lambda>r s. r = None \<longrightarrow> provedEncrypted env s)"
  unfolding pinAndVerifyCacheDir_def
  by (intro ensures_rules VerifyCacheEncrypted_ensures) auto

definition setupPost :: "env \<Rightarrow> string res \<Rightarrow> 's os_scheme \<Rightarrow> bool" where
  "setupPost env r s = (\<forall>p. r = Inr p \<longrightarrow> p = VFSCacheBasePath \<and> provedEncrypted env s)"

lemma setupPost_Inl [simp]: "setupPost env (Inl e) s"
  by (simp add: setupPost_def)

lemma verified_setupPost:
  "ensures (checkE (pinAndVerifyCacheDir env VFSCacheBasePath) id (ret (Inr VFSCacheBasePath))) (setupPost env)"
proof (rule ensuresI)
  fix s r s'
  assume r: "run_state (checkE (pinAndVerifyCacheDir env VFSCacheBasePath) id (ret (Inr VFSCacheBasePath))) s = (r, s')"
  obtain v s1 where v: "run_state (pinAndVerifyCacheDir env VFSCacheBasePath) s = (v, s1)" by fastforce
  from ensuresD [OF pinAndVerify_ensures v] r v show "setupPost env r s'"
    by (auto simp: setupPost_def split: option.splits)
qed

lemma mountCacheVolume_post: "ensures (mountCacheVolume env VFSCacheBasePath) (setupPost env)"
  unfolding mountCacheVolume_def
  by (intro ensures_bind ensures_case_option ensures_ret verified_setupPost) auto

lemma prepareCacheVolume_post: "ensures (prepareCacheVolume env c p n) (setupPost env)"
  unfolding prepareCacheVolume_def
  by (intro ensures_bind ensures_checkE mountCacheVolume_post) auto

lemma SetupVFSCache_post: "ensures (SetupVFSCache env sz base node) (setupPost env)"
  unfolding SetupVFSCache_def
  by (intro ensures_bind ensures_if prepareCacheVolume_post verified_setupPost)

text \<open>
  C14: Whenever \<^verbatim>\<open>SetupVFSCache\<close> succeeds, on whichever path (already mounted, resized, created or reopened), its last action
  was to prove that the cache directory is a mount of its own: the directory returned is the one rclone
  will use, and its device differs from its parent's. No success without that proof, so cached file
  contents never start out on the node's own disk in plaintext.
\<close>

theorem SetupVFSCache_encrypted:
  assumes "run_state (SetupVFSCache env sz base node) s = (Inr p, s')"
  shows "p = VFSCacheBasePath \<and> provedEncrypted env s'"
  using ensuresD [OF SetupVFSCache_post assms] by (simp add: setupPost_def)

theorem SetupVFSCache_encrypted_witness:
  "\<exists>env (s :: rc) p s'. run_state (SetupVFSCache env ''20G'' ''base'' ''node'') s = (Inr p, s') \<and> provedEncrypted env s'"
proof -
  define env where "env = quietEnv\<lparr>stat := \<lambda>_ p. Inr \<lparr>fi_size = 2 ^ 40, fi_isdir = True,
     fi_dev = (if p = VFSCacheBasePath then ''a'' else ''b'')\<rparr>, getCacheDir := \<lambda>_. VFSCacheBasePath\<rparr>"
  define s :: rc where "s = \<lparr>hist = [], mountsStacks = None, mountsFlat = Map.empty, mountsReadAt = None,
     mountsInFlight = False, mountsBlockedAt = 0, mountsTakenAt = 0, initOnceDone = True, initDone = True,
     rpcInFlight = [], rpcSeq = 0, mountGeneration = 0, vfsCacheSize = 0\<rparr>"
  have size: "\<not> 2 ^ 40 < cacheSizeOf ''20G''"
    by (simp add: cacheSizeOf_def parseSizeToBytes_def parseUnit_def trimSpace_def isSpace_def sscanf_d_def signed_val_def
        isDigit_def digits_val_def digit_val_def unitBytes_def wrap64_def int64_def)
  have dir: "pathDir VFSCacheBasePath \<noteq> VFSCacheBasePath"
    by (simp add: VFSCacheBasePath_def pathDir_def clean_def clean_step_def)
  have "\<exists>p s'. run_state (SetupVFSCache env ''20G'' ''base'' ''node'') s = (Inr p, s')"
    using size dir
    by (simp add: SetupVFSCache_def env_def quietEnv_def vfsCachePassphrase_def isVFSCacheMounted_def s_def
        pinAndVerifyCacheDir_def VerifyCacheEncrypted_def verifyCacheEncryptedAt_def)
  then obtain p s' where r: "run_state (SetupVFSCache env ''20G'' ''base'' ''node'') s = (Inr p, s')" by blast
  from SetupVFSCache_encrypted [OF this] r show ?thesis by blast
qed

section \<open>No unuploaded write is overlooked or deleted\<close>

text \<open>What the code takes as proof that an item's writes reached S3.\<close>

definition cleanAt :: "env \<Rightarrow> hist \<Rightarrow> string \<Rightarrow> bool" where
  "cleanAt env h meta = (\<exists>raw rs. readFile env h meta = Inr raw \<and> itemInfo env raw = Some (False, rs))"

lemma run_isCacheItemDirty:
  "run_state (isCacheItemDirty env m) s = (\<not> cleanAt env (hist s) m, s\<lparr>hist := hist s @ [Asked (QReadFile m)]\<rparr>)"
  by (auto simp: isCacheItemDirty_def cleanAt_def split: sum.splits option.splits)

lemma isCacheItemDirty_emits: "emits (isCacheItemDirty env m) looks"
  unfolding isCacheItemDirty_def by (intro emits_rules) auto

lemma dirtyWalk_emits: "emits (dirtyWalk env ws) looks"
  by (induction env ws rule: dirtyWalk.induct) (auto intro!: emits_rules isCacheItemDirty_emits)

lemma hasDirtyCacheItemsAt_emits: "emits (hasDirtyCacheItemsAt env base n) looks"
  unfolding hasDirtyCacheItemsAt_def by (intro emits_rules dirtyWalk_emits) auto

text \<open>A walk that ends with "clean" saw every file clean, unless an entry vanished under it.\<close>

lemma dirtyWalk_clean:
  "run_state (dirtyWalk env ws) s = (Inr False, s') \<Longrightarrow>
     (\<forall>p n t. WFile p n t \<in> set ws \<longrightarrow> (\<exists>h. cleanAt env h p)) \<and> (\<forall>p e. WErr p e \<notin> set ws)"
proof (induction env ws arbitrary: s rule: dirtyWalk.induct)
  case (4 env p n t ws)
  from "4.prems" have c: "cleanAt env (hist s) p"
    and r: "run_state (dirtyWalk env ws) (s\<lparr>hist := hist s @ [Asked (QReadFile p)]\<rparr>) = (Inr False, s')"
    by (auto simp: run_isCacheItemDirty split: if_splits)
  from "4.IH" [of False, OF _ r] c show ?case by auto
qed auto

lemma dirtyWalk_error: "run_state (dirtyWalk env ws) s = (Inl e, s') \<Longrightarrow> \<exists>p. WErr p e \<in> set ws"
  by (induction env ws arbitrary: s rule: dirtyWalk.induct) (auto simp: run_isCacheItemDirty split: if_splits)

text \<open>
  C28: When the search finds nothing unuploaded under a cache directory, every metadata file the walk listed was
  read, parsed and marked clean, or the walk hit an entry that no longer existed. Unreadable or
  unparseable metadata and every other error count as unuploaded.
\<close>

theorem hasDirtyCacheItemsAt_clean:
  assumes "run_state (hasDirtyCacheItemsAt env base n) s = (False, s')"
  shows "(\<exists>p. WErr p ENOENT \<in> set (walk env (hist s) (pathJoin [base, ''vfsMeta'', n]))) \<or>
    (\<forall>p k t. WFile p k t \<in> set (walk env (hist s) (pathJoin [base, ''vfsMeta'', n])) \<longrightarrow> (\<exists>h. cleanAt env h p))"
proof -
  let ?ws = "walk env (hist s) (pathJoin [base, ''vfsMeta'', n])"
  let ?s1 = "s\<lparr>hist := hist s @ [Asked (QWalk (pathJoin [base, ''vfsMeta'', n]))]\<rparr>"
  obtain r s2 where r: "run_state (dirtyWalk env ?ws) ?s1 = (r, s2)" by fastforce
  with assms have "r = Inl ENOENT \<or> r = Inr False"
    by (auto simp: hasDirtyCacheItemsAt_def split: sum.splits)
  with dirtyWalk_error [of env ?ws ?s1 ENOENT s2] dirtyWalk_clean [of env ?ws ?s1 s2] r show ?thesis by blast
qed

theorem hasDirtyCacheItemsAt_clean_witness:
  "\<exists>env (s :: os) s'. run_state (hasDirtyCacheItemsAt env ''/c'' ''v'') s = (False, s')
     \<and> (\<exists>h. cleanAt env h ''/c/vfsMeta/v/f'')"
proof -
  define env where "env = quietEnv\<lparr>walk := \<lambda>_ _. [WFile ''/c/vfsMeta/v/f'' 0 0], readFile := \<lambda>_ _. Inr [],
     unmarshal := \<lambda>_. Some (JObj [])\<rparr>"
  have "\<exists>s'. run_state (hasDirtyCacheItemsAt env ''/c'' ''v'') \<lparr>hist = []\<rparr> = (False, s')"
    by (simp add: hasDirtyCacheItemsAt_def env_def quietEnv_def run_isCacheItemDirty cleanAt_def itemInfo_def
        intField_def dirtyField_def rangesField_def)
  then obtain s' where r: "run_state (hasDirtyCacheItemsAt env ''/c'' ''v'') \<lparr>hist = []\<rparr> = (False, s')" by blast
  from hasDirtyCacheItemsAt_clean [OF this] have "\<exists>h. cleanAt env h ''/c/vfsMeta/v/f''" by (simp add: env_def)
  with r show ?thesis by blast
qed

text \<open>
  The exception is real. A directory that vanishes while the tree is walked ends the walk with "does not exist",
  which the search takes for an absent tree: it reports nothing unuploaded although a file it never got to is
  dirty. The comment promises to err towards dirty.
\<close>

theorem hasDirtyCacheItemsAt_vanished_entry:
  "\<exists>env. (\<exists>p. WFile p 0 0 \<in> set (walk env [] (pathJoin [''/c'', ''vfsMeta'', ''v''])) \<and> (\<forall>h. \<not> cleanAt env h p))
     \<and> fst (run_state (hasDirtyCacheItemsAt env ''/c'' ''v'') \<lparr>hist = []\<rparr>) = False"
proof -
  define env where "env = quietEnv\<lparr>walk := \<lambda>_ _. [WDir ''/c/vfsMeta/v'', WErr ''/c/vfsMeta/v/d'' ENOENT,
     WFile ''/c/vfsMeta/v/f'' 0 0]\<rparr>"
  have "\<forall>h. \<not> cleanAt env h ''/c/vfsMeta/v/f''" by (simp add: cleanAt_def env_def quietEnv_def)
  moreover have "fst (run_state (hasDirtyCacheItemsAt env ''/c'' ''v'') \<lparr>hist = []\<rparr>) = False"
    by (simp add: hasDirtyCacheItemsAt_def env_def quietEnv_def)
  moreover have "WFile ''/c/vfsMeta/v/f'' 0 0 \<in> set (walk env [] (pathJoin [''/c'', ''vfsMeta'', ''v'']))"
    by (simp add: env_def)
  ultimately show ?thesis by blast
qed

text \<open>\<open>staysDirty\<close>: whenever it is asked, the search finds something unuploaded under this VFS name.\<close>

definition staysDirty :: "env \<Rightarrow> string \<Rightarrow> string \<Rightarrow> bool" where
  "staysDirty env base n = (\<forall>h. fst (run_state (hasDirtyCacheItemsAt env base n) \<lparr>hist = h\<rparr>))"

lemma dirtyWalk_hist_only:
  "fst (run_state (dirtyWalk env ws) s) = fst (run_state (dirtyWalk env ws) \<lparr>hist = hist s\<rparr>)"
proof (induction env ws arbitrary: s rule: dirtyWalk.induct)
  case (4 env p n t ws)
  let ?h = "hist s @ [Asked (QReadFile p)]"
  have "fst (run_state (dirtyWalk env ws) (s\<lparr>hist := ?h\<rparr>)) = fst (run_state (dirtyWalk env ws) \<lparr>hist = ?h\<rparr>)"
    if "cleanAt env (hist s) p"
    using "4.IH" [of False "s\<lparr>hist := ?h\<rparr>"] by simp
  then show ?case by (simp add: run_isCacheItemDirty)
qed simp_all

lemma staysDirty_run:
  assumes "staysDirty env base n"
  shows "fst (run_state (hasDirtyCacheItemsAt env base n) s)"
proof -
  have "fst (run_state (hasDirtyCacheItemsAt env base n) s)
      = fst (run_state (hasDirtyCacheItemsAt env base n) \<lparr>hist = hist s\<rparr>)"
    by (simp add: hasDirtyCacheItemsAt_def case_prod_beta
        dirtyWalk_hist_only [of env _ "s\<lparr>hist := _\<rparr>"])
  with assms show ?thesis by (simp add: staysDirty_def)
qed

lemma anyDirty_finds:
  "(n, True) \<in> set es \<Longrightarrow> volumeIDOfVFSName n = v \<Longrightarrow> staysDirty env base n \<Longrightarrow>
     fst (run_state (anyDirty env base v es) s)"
proof (induction env base v es arbitrary: s rule: anyDirty.induct)
  case (2 env base v m isdir es)
  show ?case
  proof (cases "m = n \<and> isdir")
    case True
    then show ?thesis using "2.prems" staysDirty_run [of env base n s] by (simp add: case_prod_beta)
  next
    case False
    with "2.prems"(1) have "(n, True) \<in> set es" by auto
    then show ?thesis using "2.prems" "2.IH" by (auto simp: case_prod_beta)
  qed
qed simp

text \<open>
  Unuploaded data is found in every generation: when the metadata directory lists the cache of any generation of a
  volume and something under it is unuploaded, \<^verbatim>\<open>HasUnuploadedData\<close> answers yes, whatever else is listed.
\<close>

theorem HasUnuploadedData_all_generations:
  assumes "volumeIDok v" "genOk g"
    and "readDir env (hist s) (pathJoin [VFSCacheBasePath, ''vfsMeta'']) = Inr es"
    and "(fst (vfsNamesFor v g), True) \<in> set es"
    and "staysDirty env VFSCacheBasePath (fst (vfsNamesFor v g))"
  shows "fst (run_state (HasUnuploadedData env v) s)"
proof -
  have "v \<noteq> []" using assms(1) by (simp add: volumeIDok_def)
  moreover note anyDirty_finds [OF assms(4) vfs.volume_of_name [OF assms(1,2)] assms(5)]
  ultimately show ?thesis using assms(3) by (simp add: HasUnuploadedData_def hasUnuploadedDataAt_def)
qed

theorem HasUnuploadedData_all_generations_witness:
  "\<exists>env. fst (run_state (HasUnuploadedData env ''pvc-1'') \<lparr>hist = []\<rparr>)"
proof -
  define env where "env = quietEnv\<lparr>walk := \<lambda>_ _. [WFile ''f'' 0 0],
     readDir := \<lambda>_ _. Inr [(fst (vfsNamesFor ''pvc-1'' 3), True)]\<rparr>"
  have "staysDirty env VFSCacheBasePath n" for n
    by (simp add: staysDirty_def hasDirtyCacheItemsAt_def env_def quietEnv_def run_isCacheItemDirty cleanAt_def)
  then have "fst (run_state (HasUnuploadedData env ''pvc-1'') \<lparr>hist = []\<rparr>)"
    by (intro HasUnuploadedData_all_generations [of "''pvc-1''" 3 _ _ "[(fst (vfsNamesFor ''pvc-1'' 3), True)]"])
       (simp_all add: env_def volumeIDok_def genOk_def)
  then show ?thesis by blast
qed

text \<open>The sweep only removes directories the search found clean.\<close>

definition spares :: "string \<Rightarrow> string \<Rightarrow> event \<Rightarrow> bool" where
  "spares base n e = (\<forall>r. e \<noteq> Did (RemoveAll (base @ ''/vfs/'' @ n)) r \<and> e \<noteq> Did (RemoveAll (base @ ''/vfsMeta/'' @ n)) r)"

lemma looks_spares: "looks e \<Longrightarrow> spares base n e"
  by (cases e) (auto simp: spares_def)

lemma removeVFSCacheDirsAt_spares:
  "m \<noteq> n \<Longrightarrow> emits (removeVFSCacheDirsAt env base m) (spares base n)"
  unfolding removeVFSCacheDirsAt_def by (intro emits_rules) (auto simp: spares_def)

lemma sweepEntries_spares:
  assumes "staysDirty env base n" "\<And>v. emits (isActive v) looks"
  shows "emits (sweepEntries env base mapped isActive es) (spares base n)"
proof (induction es)
  case (Cons e es)
  obtain m isdir where e: "e = (m, isdir)" by fastforce
  have inner: "emits (do { d \<leftarrow> hasDirtyCacheItemsAt env base m;
       if d then ret () else removeVFSCacheDirsAt env base m }) (spares base n)"
  proof (intro emits_bind emits_if emits_ret emits_weaken [OF hasDirtyCacheItemsAt_emits] looks_spares)
    fix s d s'
    assume "run_state (hasDirtyCacheItemsAt env base m) s = (d, s')" "\<not> d"
    then have "m \<noteq> n" using staysDirty_run [OF assms(1), of s] by auto
    then show "emits (removeVFSCacheDirsAt env base m) (spares base n)" by (rule removeVFSCacheDirsAt_spares)
  qed
  show ?case unfolding e sweepEntries.simps
    by (intro emits_bind emits_if emits_ret inner Cons.IH emits_weaken [OF assms(2)] looks_spares)
qed (simp add: emits_ret)

text \<open>
  C17: Reclaiming abandoned cache directories never loses a write: as long as something under a VFS name is unuploaded,
  the sweep issues no removal of its data or metadata directory, whether the volume is
  active or not, mapped or not, and whatever else the directory lists. Asking whether a volume is active must only look.
\<close>

theorem sweep_spares_unuploaded:
  assumes "staysDirty env base n" and "\<And>v. emits (isActive v) looks"
    and "run_state (sweepUnmappedVFSCacheDirsAt env base m isActive) s = (u, s')"
  shows "\<exists>t. hist s' = hist s @ t \<and> (\<forall>e \<in> set t. \<forall>r.
     e \<noteq> Did (RemoveAll (base @ ''/vfs/'' @ n)) r \<and> e \<noteq> Did (RemoveAll (base @ ''/vfsMeta/'' @ n)) r)"
proof -
  have "emits (sweepUnmappedVFSCacheDirsAt env base m isActive) (spares base n)"
    unfolding sweepUnmappedVFSCacheDirsAt_def
    by (intro emits_rules sweepEntries_spares assms) (simp add: spares_def)
  from emitsD [OF this assms(3)] show ?thesis by (auto simp: spares_def list_all_iff)
qed

theorem sweep_spares_unuploaded_witness:
  "\<exists>env t. list_all (\<lambda>e. \<forall>r. e \<noteq> Did (RemoveAll (''/c'' @ ''/vfs/'' @ ''v'')) r) t \<and>
     hist (snd (run_state (sweepUnmappedVFSCacheDirsAt env ''/c'' [] (\<lambda>_. ret False)) \<lparr>hist = []\<rparr>)) = t \<and>
     Asked (QReadFile ''f'') \<in> set t"
proof -
  define env where "env = quietEnv\<lparr>walk := \<lambda>_ _. [WFile ''f'' 0 0], readDir := \<lambda>_ _. Inr [(''v'', True)]\<rparr>"
  have d: "staysDirty env ''/c'' ''v''"
    by (simp add: staysDirty_def hasDirtyCacheItemsAt_def env_def quietEnv_def run_isCacheItemDirty cleanAt_def)
  obtain u s' where r: "run_state (sweepUnmappedVFSCacheDirsAt env ''/c'' [] (\<lambda>_. ret False)) \<lparr>hist = []\<rparr> = (u, s')"
    by (metis surj_pair)
  then have "Asked (QReadFile ''f'') \<in> set (hist s')"
    by (auto simp: sweepUnmappedVFSCacheDirsAt_def env_def quietEnv_def hasDirtyCacheItemsAt_def run_isCacheItemDirty
        cleanAt_def)
  with sweep_spares_unuploaded [OF d emits_ret r] r show ?thesis
    by (intro exI [of _ env]) (auto simp: list_all_iff)
qed

text \<open>Validation before a mount: what is removed was readable, parsed and marked clean.\<close>

definition dataPathOf :: "string \<Rightarrow> string \<Rightarrow> string \<Rightarrow> string" where
  "dataPathOf base n meta = pathJoin [pathJoin [base, ''vfs'', n], relTo (pathJoin [base, ''vfsMeta'', n]) meta]"

definition removesOnlyClean :: "env \<Rightarrow> string \<Rightarrow> string \<Rightarrow> walkItem list \<Rightarrow> event \<Rightarrow> bool" where
  "removesOnlyClean env base n ws e = (case e of
       Did (Remove p) _ \<Rightarrow> (\<exists>meta k t. WFile meta k t \<in> set ws \<and> (p = meta \<or> p = dataPathOf base n meta) \<and> (\<exists>h. cleanAt env h meta))
     | Did (RemoveAll _) _ \<Rightarrow> False
     | Did (WriteFile _ _) _ \<Rightarrow> False
     | Did (Truncate _ _) _ \<Rightarrow> False
     | _ \<Rightarrow> True)"

lemma corruptReason_emits: "emits (corruptReason env m d) looks"
  unfolding corruptReason_def by (intro emits_rules) auto

lemma looks_removesOnlyClean: "looks e \<Longrightarrow> removesOnlyClean env base n ws e"
  by (cases e) (simp_all add: removesOnlyClean_def)

lemma quarantine_emits: "emits (quarantineCacheItem env base n rel m d) (removesOnlyClean env base n ws)"
  unfolding quarantineCacheItem_def Let_def by (intro emits_rules) (simp_all add: removesOnlyClean_def)

lemma validateItems_emits:
  "set ws' \<subseteq> set ws \<Longrightarrow> emits (validateItems env base n ws') (removesOnlyClean env base n ws)"
proof (induction ws')
  case (Cons w ws')
  show ?case
  proof (cases w)
    case (WFile meta k t)
    have rm: "emits (fsCall env (Remove p)) (removesOnlyClean env base n ws)"
      if "cleanAt env h meta" "p = meta \<or> p = dataPathOf base n meta" for p h
      using that Cons.prems WFile by (intro emits_host) (auto simp: removesOnlyClean_def)
    have inner: "emits (do { dirty \<leftarrow> isCacheItemDirty env meta;
            if dirty then quarantineCacheItem env base n (relTo (pathJoin [base, ''vfsMeta'', n]) meta) meta (dataPathOf base n meta)
            else do { _ \<leftarrow> fsCall env (Remove meta); _ \<leftarrow> fsCall env (Remove (dataPathOf base n meta)); ret () } })
          (removesOnlyClean env base n ws)"
      by (intro emits_bind emits_if emits_ret quarantine_emits emits_weaken [OF isCacheItemDirty_emits] looks_removesOnlyClean)
         (auto simp: run_isCacheItemDirty intro: rm)
    have reason: "emits (corruptReason env meta d) (removesOnlyClean env base n ws)" for d
      by (rule emits_weaken [OF corruptReason_emits looks_removesOnlyClean])
    show ?thesis
      unfolding WFile validateItems.simps Let_def dataPathOf_def [symmetric]
      by (rule emits_bind [OF reason], rule emits_bind, intro emits_if emits_ret inner, rule Cons.IH)
         (use Cons.prems in auto)
  qed (use Cons in auto)
qed (simp add: emits_ret)

text \<open>
  Validating a cache before a mount destroys nothing that may be the only copy of a write: every file it removes belongs
  to an item whose metadata it had read, parsed and found clean; an item that is dirty, unreadable or
  unparseable is at most renamed into the quarantine, and nothing is removed recursively, overwritten or truncated.
\<close>

theorem ValidateVFSCache_removes_only_clean:
  "\<exists>t. hist (snd (run_state (validateVFSCacheAt env base n) s)) = hist s @ t \<and>
     list_all (removesOnlyClean env base n (walk env (hist s) (pathJoin [base, ''vfsMeta'', n]))) t"
proof -
  let ?p = "pathJoin [base, ''vfsMeta'', n]" and ?ws = "walk env (hist s) (pathJoin [base, ''vfsMeta'', n])"
  obtain u s' where r: "run_state (validateItems env base n ?ws) (s\<lparr>hist := hist s @ [Asked (QWalk ?p)]\<rparr>) = (u, s')"
    by (metis surj_pair)
  from emitsD [OF validateItems_emits [of ?ws ?ws env base n] r] obtain t where
    "hist s' = hist s @ [Asked (QWalk ?p)] @ t" "list_all (removesOnlyClean env base n ?ws) t" by auto
  moreover have "removesOnlyClean env base n ?ws (Asked (QWalk ?p))" by (simp add: removesOnlyClean_def)
  ultimately show ?thesis using r by (intro exI [of _ "Asked (QWalk ?p) # t"]) (simp add: validateVFSCacheAt_def)
qed

end
