(* ===== verification/FuseSafe.thy ===== *)
theory FuseSafe
  imports Host
begin

text \<open>
  Reading a directory past Go's runtime (\<^verbatim>\<open>rclone/fusesafe.go\<close>): the records that \<^verbatim>\<open>getdents64\<close> writes into a buffer are taken apart
  through unsafe pointers. The buffer is memory, a function from offsets to bytes: what the last call wrote, before that
  what earlier calls left there, and behind its end whatever else is on the heap. The theorem at the end says that none of the
  latter matters for the records a kernel writes.
\<close>

section \<open>Records in memory\<close>

record DirEntryRaw =
  de_Name :: string
  de_IsDir :: bool
  de_IsRegular :: bool
  de_Unknown :: bool

type_synonym memory = "nat \<Rightarrow> char"

text \<open>The fields of \<^verbatim>\<open>syscall.Dirent\<close> on Linux: the record's length at offset 16, its type at 18, its name from 19.\<close>

definition Reclen :: "memory \<Rightarrow> nat \<Rightarrow> nat" where
  "Reclen mem off = of_char (mem (off + 16)) + 256 * of_char (mem (off + 17))"

definition DT_UNKNOWN :: nat where "DT_UNKNOWN = 0"
definition DT_DIR :: nat where "DT_DIR = 4"
definition DT_REG :: nat where "DT_REG = 8"

text \<open>The name ends at the first NUL of 256 bytes; without one it is empty.\<close>

definition direntName :: "memory \<Rightarrow> nat \<Rightarrow> string" where
  "direntName mem off = (case find (\<lambda>i. mem (off + 19 + i) = CHR 0x00) [0..<256] of
       None \<Rightarrow> []
     | Some i \<Rightarrow> map (\<lambda>k. mem (off + 19 + k)) [0..<i])"

definition entryAt :: "memory \<Rightarrow> nat \<Rightarrow> DirEntryRaw" where
  "entryAt mem off =
     (let t = of_char (mem (off + 18)) :: nat
      in \<lparr>de_Name = direntName mem off, de_IsDir = (t = DT_DIR), de_IsRegular = (t = DT_REG), de_Unknown = (t = DT_UNKNOWN)\<rparr>)"

text \<open>The inner loop, over the \<open>n\<close> bytes one call wrote.\<close>

function direntLoop :: "memory \<Rightarrow> nat \<Rightarrow> int \<Rightarrow> nat \<Rightarrow> DirEntryRaw list \<Rightarrow> DirEntryRaw list" where
  "direntLoop mem n limit off out =
     (if n \<le> off then out
      else let reclen = Reclen mem off
           in if reclen = 0 \<or> n < off + reclen then out
              else if direntName mem off \<in> {[], ''.'', ''..''} then direntLoop mem n limit (off + reclen) out
              else let out' = out @ [entryAt mem off]
                   in if limit \<le> int (length out') then out' else direntLoop mem n limit (off + reclen) out')"
  by pat_completeness auto
termination
  by (relation "measure (\<lambda>(_, n, _, off, _). n - off)") auto

declare direntLoop.simps [simp del]

definition fill :: "string \<Rightarrow> memory \<Rightarrow> memory" where
  "fill bytes mem = (\<lambda>i. if i < length bytes then bytes ! i else mem i)"

text \<open>The outer loop; the list are the answers of \<^verbatim>\<open>getdents64\<close>, and at its end it answers 0 bytes.\<close>

fun readDirents :: "int \<Rightarrow> memory \<Rightarrow> (errno + string) list \<Rightarrow> DirEntryRaw list \<Rightarrow> DirEntryRaw list \<times> errno option" where
  "readDirents limit mem [] out = (out, None)"
| "readDirents limit mem (Inl e # rs) out = (if int (length out) < limit then (out, Some e) else (out, None))"
| "readDirents limit mem (Inr bytes # rs) out =
     (if \<not> int (length out) < limit \<or> bytes = [] then (out, None)
      else readDirents limit (fill bytes mem) rs (direntLoop (fill bytes mem) (length bytes) limit 0 out))"

text \<open>A fresh buffer of 8192 bytes is zero.\<close>

definition readDirRawOf :: "env \<Rightarrow> hist \<Rightarrow> string \<Rightarrow> int \<Rightarrow> DirEntryRaw list \<times> errno option" where
  "readDirRawOf env h path limit = (case openDir env h path of
       Some e \<Rightarrow> ([], Some e)
     | None \<Rightarrow> readDirents limit (\<lambda>i. if i < 8192 then CHR 0x00 else behindBuffer env h i) (dirents env h path) [])"

text \<open>The whole listing is one request to the world.\<close>

definition ReadDirRaw :: "env \<Rightarrow> string \<Rightarrow> int \<Rightarrow> ('s os_scheme, DirEntryRaw list \<times> errno option) state" where
  "ReadDirRaw env path limit = askS (\<lambda>h. readDirRawOf env h path limit) (\<lambda>_. Asked (QReadDirRaw path limit))"

definition OpenProbeRaw :: "env \<Rightarrow> string \<Rightarrow> ('s os_scheme, errno option) state" where
  "OpenProbeRaw env path = do {
     r \<leftarrow> askS (\<lambda>h. openFile env h path) (\<lambda>_. Asked (QOpenFile path));
     if r \<noteq> None then ret r
     else askS (\<lambda>h. closeFile env h path) (\<lambda>_. Asked (QCloseFile path))
   }"

lemma run_ReadDirRaw [simp]:
  "run_state (ReadDirRaw env p n) s = (readDirRawOf env (hist s) p n, s\<lparr>hist := hist s @ [Asked (QReadDirRaw p n)]\<rparr>)"
  by (simp add: ReadDirRaw_def)

lemma run_OpenProbeRaw [simp]:
  "run_state (OpenProbeRaw env p) s =
     (let s1 = s\<lparr>hist := hist s @ [Asked (QOpenFile p)]\<rparr>
      in if openFile env (hist s) p \<noteq> None then (openFile env (hist s) p, s1)
         else (closeFile env (hist s1) p, s1\<lparr>hist := hist s1 @ [Asked (QCloseFile p)]\<rparr>))"
  by (simp add: OpenProbeRaw_def Let_def)

lemma raw_emits [emits_rules]:
  "P (Asked (QReadDirRaw p n)) \<Longrightarrow> emits (ReadDirRaw env p n) P"
  "P (Asked (QOpenFile p)) \<Longrightarrow> P (Asked (QCloseFile p)) \<Longrightarrow> emits (OpenProbeRaw env p) P"
  unfolding ReadDirRaw_def OpenProbeRaw_def by (intro emits_rules emits_askS; simp)+

section \<open>What the kernel writes\<close>

text \<open>
  A directory entry the way the kernel lays it out, as the bytes of its inode number and offset, its type, its name and the
  padding that aligns the next one. This is the other side of the interface: the format, not code of the driver.
\<close>

record dirent =
  d_ino :: string
  d_off :: string
  d_type :: char
  d_name :: string
  d_pad :: string

definition wfDirent :: "dirent \<Rightarrow> bool" where
  "wfDirent d = (length (d_ino d) = 8 \<and> length (d_off d) = 8 \<and> CHR 0x00 \<notin> set (d_name d) \<and> length (d_name d) \<le> 255 \<and>
     length (d_pad d) < 8)"

definition direntSize :: "dirent \<Rightarrow> nat" where
  "direntSize d = 20 + length (d_name d) + length (d_pad d)"

definition putDirent :: "dirent \<Rightarrow> string" where
  "putDirent d = d_ino d @ d_off d @ [char_of (direntSize d mod 256), char_of (direntSize d div 256), d_type d] @
     d_name d @ CHR 0x00 # d_pad d"

definition putDirents :: "dirent list \<Rightarrow> string" where
  "putDirents ds = concat (map putDirent ds)"

text \<open>The entries a caller is to see of them.\<close>

definition entryOf :: "dirent \<Rightarrow> DirEntryRaw" where
  "entryOf d = \<lparr>de_Name = d_name d, de_IsDir = (d_type d = CHR 0x04), de_IsRegular = (d_type d = CHR 0x08), de_Unknown = (d_type d = CHR 0x00)\<rparr>"

definition visibleEntries :: "dirent list \<Rightarrow> DirEntryRaw list" where
  "visibleEntries ds = map entryOf (filter (\<lambda>d. d_name d \<notin> {[], ''.'', ''..''}) ds)"

lemma visibleEntries_simps [simp]:
  "visibleEntries [] = []" "visibleEntries (ds @ es) = visibleEntries ds @ visibleEntries es"
  "visibleEntries (d # ds) = (if d_name d \<in> {[], ''.'', ''..''} then visibleEntries ds else entryOf d # visibleEntries ds)"
  by (simp_all add: visibleEntries_def)

lemma putDirents_simps [simp]: "putDirents [] = []" "putDirents (d # ds) = putDirent d @ putDirents ds"
  by (simp_all add: putDirents_def)

lemma length_putDirent: "wfDirent d \<Longrightarrow> length (putDirent d) = direntSize d"
  by (simp add: putDirent_def wfDirent_def direntSize_def)

lemma putDirents_eq_Nil: "\<forall>d\<in>set ds. wfDirent d \<Longrightarrow> putDirents ds = [] \<longleftrightarrow> ds = []"
  by (cases ds) (auto simp: putDirent_def)

text \<open>Memory that holds a string from an offset on; what is elsewhere does not matter.\<close>

primrec holdsAt :: "memory \<Rightarrow> nat \<Rightarrow> string \<Rightarrow> bool" where
  "holdsAt mem off [] = True"
| "holdsAt mem off (c # cs) = (mem off = c \<and> holdsAt mem (Suc off) cs)"

lemma holdsAt_append [simp]: "holdsAt mem off (a @ b) \<longleftrightarrow> holdsAt mem off a \<and> holdsAt mem (off + length a) b"
  by (induction a arbitrary: off) auto

lemma holdsAtD: "holdsAt mem off bytes \<Longrightarrow> i < length bytes \<Longrightarrow> mem (off + i) = bytes ! i"
proof (induction bytes arbitrary: off i)
  case (Cons c cs)
  then show ?case using Cons.IH [of "Suc off" "i - 1"] by (cases i) auto
qed simp

lemma holdsAtI: "(\<And>i. i < length bytes \<Longrightarrow> mem (off + i) = bytes ! i) \<Longrightarrow> holdsAt mem off bytes"
proof (induction bytes arbitrary: off)
  case (Cons c cs)
  have "mem off = c" using Cons.prems [of 0] by simp
  moreover have "holdsAt mem (Suc off) cs" using Cons.prems [of "Suc i" for i] by (intro Cons.IH) simp
  ultimately show ?case by simp
qed simp

lemma holdsAt_fill: "holdsAt (fill bytes mem) 0 bytes"
  by (rule holdsAtI) (simp add: fill_def)

lemma readName:
  assumes "holdsAt mem off (s @ [CHR 0x00])" "CHR 0x00 \<notin> set s" "length s \<le> 255"
  shows "find (\<lambda>i. mem (off + i) = CHR 0x00) [0..<256] = Some (length s)" "map (\<lambda>k. mem (off + k)) [0..<length s] = s"
proof -
  have m: "mem (off + i) = s ! i" if "i < length s" for i using assms(1) that by (simp add: holdsAtD)
  have z: "mem (off + length s) = CHR 0x00" using assms(1) by simp
  have "\<forall>j < length s. mem (off + j) \<noteq> CHR 0x00" using m assms(2) by (metis nth_mem)
  then show "find (\<lambda>i. mem (off + i) = CHR 0x00) [0..<256] = Some (length s)"
    using z assms(3) by (auto simp: find_Some_iff intro!: exI [of _ "length s"])
  show "map (\<lambda>k. mem (off + k)) [0..<length s] = s" by (rule nth_equalityI) (use m in simp_all)
qed

lemma readBack:
  assumes w: "wfDirent d" and h: "holdsAt mem off (putDirent d)"
  shows "Reclen mem off = direntSize d" "direntName mem off = d_name d" "entryAt mem off = entryOf d"
proof -
  have p: "length (d_ino d) = 8" "length (d_off d) = 8" "CHR 0x00 \<notin> set (d_name d)" "length (d_name d) \<le> 255"
    "direntSize d < 65536" using w by (auto simp: wfDirent_def direntSize_def)
  have s: "off + 17 = Suc (off + 16)" "off + 18 = Suc (Suc (off + 16))" "off + 19 = Suc (Suc (Suc (off + 16)))" by simp_all
  have "holdsAt mem (off + 16) ([char_of (direntSize d mod 256), char_of (direntSize d div 256), d_type d] @ d_name d @ [CHR 0x00])"
    using h p by (simp add: putDirent_def add.assoc)
  then have f: "mem (off + 16) = char_of (direntSize d mod 256)" "mem (off + 17) = char_of (direntSize d div 256)"
    "mem (off + 18) = d_type d" "holdsAt mem (off + 19) (d_name d @ [CHR 0x00])"
    unfolding s by simp_all
  show "Reclen mem off = direntSize d" using p(5) by (simp add: Reclen_def f)
  show n: "direntName mem off = d_name d"
    using readName [OF f(4) p(3,4)] by (simp add: direntName_def)
  have k: "DT_DIR = of_char (CHR 0x04)" "DT_REG = of_char (CHR 0x08)" "DT_UNKNOWN = of_char (CHR 0x00)"
    by (simp_all add: DT_DIR_def DT_REG_def DT_UNKNOWN_def)
  show "entryAt mem off = entryOf d" unfolding entryAt_def entryOf_def Let_def n f k of_char_eq_iff ..
qed

text \<open>One buffer, then all of them.\<close>

lemma direntLoop_reads:
  assumes "\<forall>d\<in>set ds. wfDirent d" "holdsAt mem off (putDirents ds)" "int (length out) < limit"
  shows "direntLoop mem (off + length (putDirents ds)) limit off out = take (nat limit) (out @ visibleEntries ds)"
  using assms
proof (induction ds arbitrary: off out)
  case (Cons d ds)
  have w: "wfDirent d" and h: "holdsAt mem off (putDirent d)" "holdsAt mem (off + direntSize d) (putDirents ds)"
    using Cons.prems by (simp_all add: length_putDirent)
  have z: "0 < direntSize d" by (simp add: direntSize_def)
  have l: "off + length (putDirents (d # ds)) = off + direntSize d + length (putDirents ds)"
    using w by (simp add: length_putDirent)
  note ih = Cons.IH [OF _ h(2)]
  show ?case unfolding l using Cons.prems z ih
    by (subst direntLoop.simps) (auto simp: readBack [OF w h(1)] Let_def take_Cons')
qed (simp add: direntLoop.simps)

lemma readDirents_reads:
  assumes "\<forall>c\<in>set chunks. c \<noteq> [] \<and> (\<forall>d\<in>set c. wfDirent d)" "length out \<le> nat limit"
  shows "readDirents limit mem (map (\<lambda>c. Inr (putDirents c)) chunks @ (case failure of None \<Rightarrow> [] | Some e \<Rightarrow> [Inl e])) out =
    (let seen = out @ visibleEntries (concat chunks)
     in if limit \<le> int (length seen) then (take (nat limit) seen, None)
        else (seen, failure))"
  using assms
proof (induction chunks arbitrary: mem out)
  case Nil
  then show ?case by (cases failure) auto
next
  case (Cons c cs)
  have c: "putDirents c \<noteq> []" "\<forall>d\<in>set c. wfDirent d" using Cons.prems putDirents_eq_Nil by auto
  show ?case
  proof (cases "int (length out) < limit")
    case True
    let ?m = "fill (putDirents c) mem"
    have "direntLoop ?m (length (putDirents c)) limit 0 out = take (nat limit) (out @ visibleEntries c)"
      using direntLoop_reads [OF c(2) holdsAt_fill, of out limit] True by simp
    moreover have "length (take (nat limit) (out @ visibleEntries c)) \<le> nat limit" by (simp del: take_append)
    note ih = Cons.IH [OF _ this, of ?m]
    ultimately show ?thesis using True c Cons.prems ih by (auto simp: Let_def min_def split: if_splits)
  next
    case False
    then show ?thesis using Cons.prems by auto
  qed
qed

text \<open>
  C31: A directory is read back as the kernel wrote it. However the kernel spreads its records over the calls, whatever earlier
  calls left in the buffer and whatever lies behind it, the listing is the visible entries in their order, with their names and
  types, up to the limit; an error of a later call is reported with what was read before it, unless the limit was reached first.
\<close>

theorem ReadDirRaw_reads:
  assumes "openDir env (hist s) path = None"
    and "dirents env (hist s) path = map (\<lambda>c. Inr (putDirents c)) chunks @ (case failure of None \<Rightarrow> [] | Some e \<Rightarrow> [Inl e])"
    and "\<forall>c\<in>set chunks. c \<noteq> [] \<and> (\<forall>d\<in>set c. wfDirent d)"
  shows "fst (run_state (ReadDirRaw env path limit) s) =
    (let seen = visibleEntries (concat chunks)
     in if limit \<le> int (length seen) then (take (nat limit) seen, None) else (seen, failure))"
  using readDirents_reads [OF assms(3), of "[]" limit] by (simp add: readDirRawOf_def assms(1,2))

text \<open>A directory with a file and a subdirectory, in two answers; the third fails, and the memory behind the buffer is full of ones.\<close>

definition fileDirent :: dirent where
  "fileDirent = \<lparr>d_ino = ''12345678'', d_off = ''12345678'', d_type = CHR 0x08, d_name = ''a.txt'', d_pad = ''1234567''\<rparr>"

definition listedEnv :: env where
  "listedEnv = quietEnv\<lparr>openDir := (\<lambda>_ _. None), behindBuffer := (\<lambda>_ _. CHR ''1''),
     dirents := (\<lambda>_ _. [Inr (putDirents [fileDirent\<lparr>d_name := ''.''\<rparr>, fileDirent]), Inr (putDirents [fileDirent\<lparr>d_type := CHR 0x04, d_name := ''d''\<rparr>]), Inl EIO])\<rparr>"

theorem ReadDirRaw_reads_witness:
  "fst (run_state (ReadDirRaw listedEnv ''/d'' 9) \<lparr>hist = []\<rparr>) =
     ([\<lparr>de_Name = ''a.txt'', de_IsDir = False, de_IsRegular = True, de_Unknown = False\<rparr>,
       \<lparr>de_Name = ''d'', de_IsDir = True, de_IsRegular = False, de_Unknown = False\<rparr>], Some EIO)"
  using ReadDirRaw_reads [of listedEnv "\<lparr>hist = []\<rparr>" "''/d''" "[[fileDirent\<lparr>d_name := ''.''\<rparr>, fileDirent], [fileDirent\<lparr>d_type := CHR 0x04, d_name := ''d''\<rparr>]]" "Some EIO" 9]
  by (simp add: listedEnv_def fileDirent_def wfDirent_def entryOf_def)

end
