(* ===== verification/Session.thy ===== *)
theory Session
  imports VfsCache FuseSafe
begin

text \<open>
  rclone sessions (\<^verbatim>\<open>rclone/session.go\<close>): every mount of a volume gets a private mountpoint, a session, and the
  staging path is only a bind of it. Listing, ending and sweeping sessions, and the bounded system
  calls they use.
\<close>

section \<open>Bounded system calls\<close>

definition SessionMountBase :: string where
  "SessionMountBase = ''/var/lib/lukscrypt-cache/sessions''"

definition bindTimeout :: int where
  "bindTimeout = seconds 30"

definition rpcMountTimeout :: int where "rpcMountTimeout = minutes 2"
definition rpcUnmountTimeout :: int where "rpcUnmountTimeout = minutes 2"
definition rpcListTimeout :: int where "rpcListTimeout = seconds 15"
definition rpcStatsTimeout :: int where "rpcStatsTimeout = minutes 2"
definition rpcStatsProbeTimeout :: int where "rpcStatsProbeTimeout = seconds 15"
definition rpcRefreshTimeout :: int where "rpcRefreshTimeout = minutes 30"

text \<open>A system call that does not return in time is the error \<open>BLOCKED\<close>, which \<^verbatim>\<open>errors.Is\<close> takes for no errno.\<close>

definition syscallBounded :: "env \<Rightarrow> string \<Rightarrow> fsop \<Rightarrow> ('s os_scheme, goerr option) state" where
  "syscallBounded env what f = do {
     r \<leftarrow> fsCall env f;
     ret (case r of None \<Rightarrow> None
          | Some e \<Rightarrow> if e = BLOCKED then Some (Err ''blocked'') else Some (WrapW what (Errno e)))
   }"

definition bindBounded :: "env \<Rightarrow> string \<Rightarrow> string \<Rightarrow> ('s os_scheme, goerr option) state" where
  "bindBounded env source target = syscallBounded env ''bind'' (BindMount source target)"

definition unmountBounded :: "env \<Rightarrow> string \<Rightarrow> bool \<Rightarrow> ('s os_scheme, goerr option) state" where
  "unmountBounded env path detach = syscallBounded env ''unmount'' (Unmount path detach)"

definition mkdirAllBounded :: "env \<Rightarrow> string \<Rightarrow> ('s os_scheme, goerr option) state" where
  "mkdirAllBounded env path = do {
     r \<leftarrow> fsCall env (MkdirAll path);
     ret (case r of None \<Rightarrow> None | Some e \<Rightarrow> if e = BLOCKED then Some (Err ''mkdir blocked'') else Some (Errno e))
   }"

definition readDirBounded :: "env \<Rightarrow> string \<Rightarrow> ('s os_scheme, goerr option) state" where
  "readDirBounded env path = do {
     r \<leftarrow> ReadDirRaw env path 1;
     ret (case snd r of None \<Rightarrow> None | Some e \<Rightarrow> if e = BLOCKED then Some (Err ''reading blocked'') else Some (Errno e))
   }"

definition removeSessionDir :: "env \<Rightarrow> string \<Rightarrow> ('s os_scheme, unit) state" where
  "removeSessionDir env path = do { _ \<leftarrow> fsCall env (Remove path); ret () }"

text \<open>
  The device serving a path, and whether the path is a mountpoint. The second \<^verbatim>\<open>stat\<close> is only made when the first
  succeeded; one budget covers both, and a call that does not return makes the whole probe fail.
\<close>

definition mountedDevice :: "env \<Rightarrow> string \<Rightarrow> ('s os_scheme, (string \<times> bool) res) state" where
  "mountedDevice env path = do {
     self \<leftarrow> osStat env path;
     (case self of
        Inl e \<Rightarrow> ret (Inl (if e = BLOCKED then Err ''stat blocked'' else Errno e))
      | Inr i \<Rightarrow> do {
          par \<leftarrow> osStat env (pathDir path);
          ret (case par of
                 Inl e \<Rightarrow> Inl (if e = BLOCKED then Err ''stat blocked'' else Errno e)
               | Inr j \<Rightarrow> Inr (fi_dev i, fi_dev i \<noteq> fi_dev j))
        })
   }"

section \<open>Sessions\<close>

text \<open>
  \<^verbatim>\<open>newSessionDir\<close> tries a directory named after the current nanosecond until one did not exist. The loop has no bound of
  its own: \<open>sessionTries\<close> rounds are modelled, and \<open>newSessionLoop_returns\<close> shows they are enough unless that many successive
  names were all taken.
\<close>

definition sessionTries :: nat where
  "sessionTries = 64"

fun newSessionLoop :: "env \<Rightarrow> string \<Rightarrow> string \<Rightarrow> nat \<Rightarrow> ('s os_scheme, string res) state" where
  "newSessionLoop env parent vfsName 0 = ret (Inl (Err ''still looking for a free name''))"
| "newSessionLoop env parent vfsName (Suc n) = do {
     t \<leftarrow> timeNow env;
     let dir = pathJoin [parent, vfsName @ ''@'' @ show_int t];
     r \<leftarrow> fsCall env (Mkdir dir);
     (case r of
        None \<Rightarrow> ret (Inr dir)
      | Some e \<Rightarrow> if e = EEXIST then newSessionLoop env parent vfsName n else ret (Inl (Errno e)))
   }"

definition newSessionDir :: "env \<Rightarrow> string \<Rightarrow> string \<Rightarrow> ('s os_scheme, string res) state" where
  "newSessionDir env volumeID vfsName = do {
     let parent = pathJoin [SessionMountBase, volumeID];
     checkE (mkdirAllBounded env parent) id (
     checkE (do { r \<leftarrow> fsCall env (Chmod SessionMountBase); ret (fsErr r) }) id (
       newSessionLoop env parent vfsName sessionTries))
   }"

definition sessionsOf :: "string \<Rightarrow> string list \<Rightarrow> string list" where
  "sessionsOf volumeID mountPoints =
     sort (filter (\<lambda>mp. hasPrefix mp (pathJoin [SessionMountBase, volumeID] @ ''/'')) mountPoints)"

text \<open>The mount points of an answer of \<^verbatim>\<open>mount/listmounts\<close>; what is not an object with a string is skipped.\<close>

definition mountPointsOf :: "json \<Rightarrow> string list" where
  "mountPointsOf out = (case jarr (jfield out ''mountPoints'') of
       None \<Rightarrow> []
     | Some es \<Rightarrow> List.map_filter (\<lambda>e. jstr (jfield e ''MountPoint'')) es)"

definition liveSessions :: "env \<Rightarrow> string \<Rightarrow> ('s rc_scheme, string list option) state" where
  "liveSessions env volumeID = do {
     r \<leftarrow> RPCWithTimeout env ''mount/listmounts'' (JObj []) rpcListTimeout;
     ret (case r of
            Inl _ \<Rightarrow> None
          | Inr None \<Rightarrow> None
          | Inr (Some out) \<Rightarrow> Some (sessionsOf volumeID (mountPointsOf out)))
   }"

definition unmountParams :: "string \<Rightarrow> json" where
  "unmountParams path = JObj [(''mountPoint'', JStr path)]"

definition unmountSession :: "env \<Rightarrow> string \<Rightarrow> ('s rc_scheme, bool) state" where
  "unmountSession env path = do {
     r \<leftarrow> RPCWithTimeout env ''mount/unmount'' (unmountParams path) rpcUnmountTimeout;
     found \<leftarrow> (case r of
        Inr _ \<Rightarrow> ret True
      | Inl e \<Rightarrow> do {
          _ \<leftarrow> unmountBounded env path True;
          ret (\<not> containsStr (errText e) ''mount not found'')
        });
     removeSessionDir env path;
     ret found
   }"

text \<open>The sessions to end: the live ones and those of \<open>known\<close> that are not among them, in order.\<close>

fun addKnown :: "string list \<Rightarrow> string list \<Rightarrow> string list" where
  "addKnown ss [] = ss"
| "addKnown ss (k # ks) = addKnown (if k \<noteq> [] \<and> k \<notin> set ss then ss @ [k] else ss) ks"

fun endSessions :: "env \<Rightarrow> string list \<Rightarrow> ('s rc_scheme, nat) state" where
  "endSessions env [] = ret 0"
| "endSessions env (p # ps) = do {
     b \<leftarrow> unmountSession env p;
     n \<leftarrow> endSessions env ps;
     ret (if b then Suc n else n)
   }"

definition ShutdownSessions :: "env \<Rightarrow> string \<Rightarrow> string list \<Rightarrow> ('s rc_scheme, nat) state" where
  "ShutdownSessions env volumeID known = do {
     live \<leftarrow> liveSessions env volumeID;
     endSessions env (addKnown (case live of None \<Rightarrow> [] | Some ss \<Rightarrow> ss) known)
   }"

fun sweepSessions :: "env \<Rightarrow> string \<Rightarrow> string list \<Rightarrow> (string \<times> bool) list \<Rightarrow> ('s os_scheme, unit) state" where
  "sweepSessions env parent live [] = ret ()"
| "sweepSessions env parent live (e # es) = do {
     let path = pathJoin [parent, fst e];
     whenS (path \<notin> set live) (do {
       _ \<leftarrow> unmountBounded env path True;
       removeSessionDir env path
     });
     sweepSessions env parent live es
   }"

definition SweepDeadSessions :: "env \<Rightarrow> string \<Rightarrow> ('s rc_scheme, unit) state" where
  "SweepDeadSessions env volumeID = do {
     l \<leftarrow> liveSessions env volumeID;
     (case l of
        None \<Rightarrow> ret ()
      | Some live \<Rightarrow> do {
          let parent = pathJoin [SessionMountBase, volumeID];
          d \<leftarrow> osReadDir env parent;
          (case d of
             Inl _ \<Rightarrow> ret ()
           | Inr es \<Rightarrow> do {
               sweepSessions env parent live es;
               _ \<leftarrow> fsCall env (Remove parent);
               ret ()
             })
        })
   }"

definition SessionVolumes :: "env \<Rightarrow> ('s os_scheme, string list) state" where
  "SessionVolumes env = do {
     d \<leftarrow> osReadDir env SessionMountBase;
     ret (case d of Inl _ \<Rightarrow> [] | Inr es \<Rightarrow> map fst (filter snd es))
   }"

fun nameTaken :: "event \<Rightarrow> bool" where
  "nameTaken (Did (Mkdir _) (Some EEXIST)) = True"
| "nameTaken _ = False"

lemma newSessionLoop_returns:
  assumes "run_state (newSessionLoop env parent vfsName n) s = (Inl (Err e), s')"
  shows "\<exists>t. hist s' = hist s @ t \<and> length (filter nameTaken t) = n"
  using assms
proof (induction n arbitrary: s)
  case (Suc n)
  let ?d = "pathJoin [parent, vfsName @ ''@'' @ show_int (now env (hist s))]"
  let ?s = "s\<lparr>hist := hist s @ [Asked QNow, Did (Mkdir ?d) (Some EEXIST)]\<rparr>"
  from Suc.prems have "run_state (newSessionLoop env parent vfsName n) ?s = (Inl (Err e), s')"
    by (auto simp: Let_def split: option.splits if_splits)
  from Suc.IH [OF this] show ?case by auto
qed simp

section \<open>Calls and effects\<close>

text \<open>What an RPC may leave in the history.\<close>

lemma callLibrclone_emits:
  assumes "P (Asked QNow)" "\<And>r. P (RpcCalled m p r)"
  shows "emits (callLibrclone env m p t) P"
  unfolding emits_def by (auto simp: run_callLibrclone Let_def assms split: rpcreply.splits)

lemma RPCWithTimeout_emits:
  assumes "P (Asked QNow)" "\<And>r. P (RpcCalled m p r)" "\<And>r. P (RpcCalled (fst optionsCall) (snd optionsCall) r)"
  shows "emits (RPCWithTimeout env m p t) P"
  unfolding RPCWithTimeout_def Initialize_def setServerModTime_def
  by (intro emits_rules emits_modS callLibrclone_emits) (use assms in simp_all)

text \<open>The calls of \<^verbatim>\<open>mount/unmount\<close> in a history, and how an RPC adds to them.\<close>

definition unmountCalls :: "hist \<Rightarrow> (string \<times> json) list" where
  "unmountCalls h = filter (\<lambda>c. fst c = ''mount/unmount'') (rpcCalls h)"

lemma unmountCalls_simps [simp]:
  "unmountCalls [] = []" "unmountCalls (h @ h') = unmountCalls h @ unmountCalls h'"
  "unmountCalls (Did f r # h) = unmountCalls h" "unmountCalls (Asked q # h) = unmountCalls h"
  by (simp_all add: unmountCalls_def)

lemma unmountCalls_RPC:
  assumes "run_state (RPCWithTimeout env m p t) s = (r, s')"
  shows "unmountCalls (hist s') = unmountCalls (hist s) @ (if m = ''mount/unmount'' then [(m, p)] else [])"
proof -
  from RPCWithTimeout_calls [of env m p t s] obtain cs where cs: "set cs \<subseteq> {optionsCall}"
    and r: "rpcCalls (hist (snd (run_state (RPCWithTimeout env m p t) s))) = rpcCalls (hist s) @ cs @ [(m, p)]" by blast
  have "fst optionsCall \<noteq> ''mount/unmount''" by simp
  with cs have "\<forall>c \<in> set cs. fst c \<noteq> ''mount/unmount''" by blast
  with r assms show ?thesis by (simp add: unmountCalls_def)
qed

lemma run_unmountBounded:
  "\<exists>r x. run_state (unmountBounded env p b) s = (x, s\<lparr>hist := hist s @ [Did (Unmount p b) r]\<rparr>)"
  by (intro exI) (simp add: unmountBounded_def syscallBounded_def)

lemma unmountSession_calls:
  assumes "run_state (unmountSession env p) s = (b, s')"
  shows "unmountCalls (hist s') = unmountCalls (hist s) @ [(''mount/unmount'', unmountParams p)]"
proof -
  obtain r s1 where r: "run_state (RPCWithTimeout env ''mount/unmount'' (unmountParams p) rpcUnmountTimeout) s = (r, s1)"
    by fastforce
  obtain x y where x: "run_state (unmountBounded env p True) s1 = (y, s1\<lparr>hist := hist s1 @ [Did (Unmount p True) x]\<rparr>)"
    using run_unmountBounded by blast
  from assms unmountCalls_RPC [OF r] show ?thesis
    by (cases r) (auto simp: unmountSession_def removeSessionDir_def r x)
qed

lemma endSessions_calls:
  "run_state (endSessions env ps) s = (n, s') \<Longrightarrow>
   unmountCalls (hist s') = unmountCalls (hist s) @ map (\<lambda>p. (''mount/unmount'', unmountParams p)) ps"
  by (induction ps arbitrary: s n) (fastforce dest: unmountSession_calls split: prod.splits)+

text \<open>
  The path an event acts on: a kernel unmount, a removal, or rclone's own unmount.
\<close>

fun actsOn :: "event \<Rightarrow> string \<Rightarrow> bool" where
  "actsOn (Did (Unmount p _) _) q = (p = q)"
| "actsOn (Did (Remove p) _) q = (p = q)"
| "actsOn (Did f _) q = True"
| "actsOn (RpcCalled m j _) q = (m = ''mount/unmount'' \<and> j = unmountParams q \<or> m = ''mount/mount'')"
| "actsOn (Ran _ _) q = True"
| "actsOn _ q = False"

lemma looks_actsOn: "looks e \<Longrightarrow> \<not> actsOn e q"
  by (cases e) auto

definition confined :: "string set \<Rightarrow> event \<Rightarrow> bool" where
  "confined A e = (\<forall>q. actsOn e q \<longrightarrow> q \<in> A)"

lemma confined_simps [simp]:
  "confined A (Asked x)" "confined A (Did (Unmount p b) r) \<longleftrightarrow> p \<in> A" "confined A (Did (Remove p) r) \<longleftrightarrow> p \<in> A"
  "confined A (RpcCalled ''mount/unmount'' (unmountParams p) y) \<longleftrightarrow> p \<in> A"
  "m \<noteq> ''mount/unmount'' \<Longrightarrow> m \<noteq> ''mount/mount'' \<Longrightarrow> confined A (RpcCalled m j y)"
  by (auto simp: confined_def unmountParams_def)

lemma unmountSession_confined: "p \<in> A \<Longrightarrow> emits (unmountSession env p) (confined A)"
  unfolding unmountSession_def unmountBounded_def syscallBounded_def removeSessionDir_def
  by (intro emits_rules RPCWithTimeout_emits) simp_all

lemma endSessions_confined: "set ps \<subseteq> A \<Longrightarrow> emits (endSessions env ps) (confined A)"
  by (induction ps) (auto intro!: emits_rules unmountSession_confined)

lemma liveSessions_confined: "emits (liveSessions env v) (confined A)"
  unfolding liveSessions_def by (intro emits_rules RPCWithTimeout_emits) simp_all

lemma liveSessions_calls:
  "run_state (liveSessions env v) s = (l, s') \<Longrightarrow> unmountCalls (hist s') = unmountCalls (hist s)"
  by (auto simp: liveSessions_def dest!: unmountCalls_RPC split: prod.splits)

definition sessionDir :: "string \<Rightarrow> string" where
  "sessionDir volumeID = pathJoin [SessionMountBase, volumeID]"

lemma liveSessions_own:
  "run_state (liveSessions env v) s = (Some live, s') \<Longrightarrow> q \<in> set live \<Longrightarrow> hasPrefix q (sessionDir v @ ''/'')"
  by (auto simp: liveSessions_def sessionsOf_def sessionDir_def split: prod.splits sum.splits option.splits)

lemma addKnown_set: "set (addKnown ss ks) = set ss \<union> {k \<in> set ks. k \<noteq> []}"
  by (induction ks arbitrary: ss) auto

lemma sessionDir_comp:
  assumes "pathComp v"
  shows "sessionDir v = SessionMountBase @ ''/'' @ v"
proof -
  let ?cs = "[''var'', ''lib'', ''lukscrypt-cache'', ''sessions'']"
  have "SessionMountBase = abspath ?cs" by (simp add: SessionMountBase_def abspath_def)
  then have "sessionDir v = abspath (?cs @ [v])"
    using assms pathJoin_abspath [of ?cs "[v]"] by (simp only: sessionDir_def) (simp add: pathComp_def)
  then show ?thesis by (simp add: SessionMountBase_def abspath_def)
qed

lemma sessionDir_disjoint:
  assumes "pathComp v" "pathComp w" "hasPrefix q (sessionDir v @ ''/'')" "hasPrefix q (sessionDir w @ ''/'')"
  shows "v = w"
proof -
  from assms(3) obtain a where a: "q = (sessionDir v @ ''/'') @ a" by (auto simp only: hasPrefix_iff)
  from assms(4) obtain b where b: "q = (sessionDir w @ ''/'') @ b" by (auto simp only: hasPrefix_iff)
  from a b have e: "v @ ''/'' @ a = w @ ''/'' @ b" by (simp add: sessionDir_comp assms(1,2))
  moreover have "cut (v @ ''/'' @ a) ''/'' = (v, a, True)" "cut (w @ ''/'' @ b) ''/'' = (w, b, True)"
    using cut_fresh [of "CHR ''/''" v "[]" a] cut_fresh [of "CHR ''/''" w "[]" b] pathComp_no_slash [OF assms(1)]
      pathComp_no_slash [OF assms(2)] by simp_all
  ultimately show ?thesis by simp
qed

text \<open>A process that has just started, and a node on which rclone lists one session.\<close>

definition initRc :: rc where
  "initRc = \<lparr>hist = [], mountsStacks = None, mountsFlat = Map.empty, mountsReadAt = None, mountsInFlight = False,
     mountsBlockedAt = 0, mountsTakenAt = 0, initOnceDone = True, initDone = True, rpcInFlight = [], rpcSeq = 0,
     mountGeneration = 0, vfsCacheSize = 0\<rparr>"

definition sweepEnv :: env where
  "sweepEnv = quietEnv\<lparr>librclone := \<lambda>_ _ _. RpcReply ''{}'' 200, unmarshal := \<lambda>_. Some (JObj [(''mountPoints'',
     JArr [JObj [(''MountPoint'', JStr ''/var/lib/lukscrypt-cache/sessions/v/a'')]])]),
     readDir := \<lambda>_ _. Inr [(''a'', True), (''b'', True)]\<rparr>"

section \<open>Ending one volume's sessions\<close>

text \<open>
  C37: Ending a volume's sessions asks rclone to unmount exactly the sessions it lists for the volume and those the caller
  knows, each once and in this order, and neither that nor the cleanup behind it ever touches a
  mountpoint of another volume: a teardown cannot reach another volume's session.
\<close>

theorem ShutdownSessions_own_volume:
  assumes "pathComp v" and "\<forall>k \<in> set known. k \<noteq> [] \<longrightarrow> hasPrefix k (sessionDir v @ ''/'')"
    and l: "run_state (liveSessions env v) s = (l, s1)" and r: "run_state (ShutdownSessions env v known) s = (n, s')"
  shows "\<exists>t. hist s' = hist s @ t \<and>
    unmountCalls t = map (\<lambda>p. (''mount/unmount'', unmountParams p)) (addKnown (case l of None \<Rightarrow> [] | Some ss \<Rightarrow> ss) known) \<and>
    list_all (\<lambda>e. \<forall>w q. pathComp w \<and> w \<noteq> v \<and> hasPrefix q (sessionDir w @ ''/'') \<longrightarrow> \<not> actsOn e q) t"
proof -
  let ?A = "{q. hasPrefix q (sessionDir v @ ''/'')}"
  let ?ps = "addKnown (case l of None \<Rightarrow> [] | Some ss \<Rightarrow> ss) known"
  from r l have e: "run_state (endSessions env ?ps) s1 = (n, s')" by (simp add: ShutdownSessions_def)
  have "set ?ps \<subseteq> ?A" using assms(2) liveSessions_own [of env v s _ s1] l
    by (auto simp: addKnown_set split: option.splits)
  from emitsD [OF endSessions_confined [OF this] e] emitsD [OF liveSessions_confined l]
  obtain t1 t2 where t: "hist s1 = hist s @ t1" "list_all (confined ?A) t1" "hist s' = hist s1 @ t2" "list_all (confined ?A) t2"
    by blast
  have "unmountCalls (t1 @ t2) = map (\<lambda>p. (''mount/unmount'', unmountParams p)) ?ps"
    using liveSessions_calls [OF l] endSessions_calls [OF e] t by simp
  moreover have "list_all (\<lambda>e. \<forall>w q. pathComp w \<and> w \<noteq> v \<and> hasPrefix q (sessionDir w @ ''/'') \<longrightarrow> \<not> actsOn e q) (t1 @ t2)"
    using t(2,4) sessionDir_disjoint [OF assms(1)] by (fastforce simp: list_all_iff confined_def)
  ultimately show ?thesis using t by (intro exI [of _ "t1 @ t2"]) simp
qed

theorem ShutdownSessions_own_volume_witness:
  "\<exists>s' n. run_state (ShutdownSessions quietEnv ''v'' []) initRc = (n, s') \<and> unmountCalls (hist s') = []"
proof -
  obtain l s1 where l: "run_state (liveSessions quietEnv ''v'') initRc = (l, s1)" by fastforce
  obtain n s' where r: "run_state (ShutdownSessions quietEnv ''v'' []) initRc = (n, s')" by fastforce
  have "run_state (liveSessions quietEnv ''v'') initRc = (Some [], s1)"
    using l by (auto simp: liveSessions_def RPCWithTimeout_def Initialize_def setServerModTime_def run_callLibrclone decodeOutput_def initRc_def quietEnv_def
        Let_def sessionsOf_def mountPointsOf_def)
  with ShutdownSessions_own_volume [of "''v''" "[]", OF _ _ l r] l have "unmountCalls (hist s') = []"
    by (auto simp: pathComp_def initRc_def)
  with r show ?thesis by blast
qed

section \<open>Sweeping spares live sessions\<close>

lemma sweepSessions_emits:
  assumes "\<And>p r. p \<notin> set live \<Longrightarrow> p \<in> (\<lambda>e. pathJoin [parent, fst e]) ` set es \<Longrightarrow> P (Did (Unmount p True) r) \<and> P (Did (Remove p) r)"
  shows "emits (sweepSessions env parent live es) P"
  using assms
  by (induction es)
     (auto simp: unmountBounded_def syscallBounded_def removeSessionDir_def Let_def intro!: emits_rules)

text \<open>
  Sweeping a volume's leftover sessions touches no session rclone holds a mount record of: when rclone cannot
  answer nothing is done at all; otherwise only mountpoints that are listed in the volume's session directory and are not live
  are detached and removed, never recursively, and at the end the directory itself if it is empty.
\<close>

theorem SweepDeadSessions_spares_live:
  assumes l: "run_state (liveSessions env v) s = (l, s1)" and r: "run_state (SweepDeadSessions env v) s = (u, s')"
  shows "\<exists>t. hist s' = hist s1 @ t \<and> (l = None \<longrightarrow> t = []) \<and>
    (\<forall>live q. l = Some live \<longrightarrow> q \<in> set live \<longrightarrow> list_all (\<lambda>e. \<not> actsOn e q) t)"
proof (cases l)
  case None
  with l r show ?thesis by (auto simp: SweepDeadSessions_def)
next
  case (Some live)
  let ?P = "\<lambda>e. \<forall>q \<in> set live. \<not> actsOn e q"
  let ?parent = "pathJoin [SessionMountBase, v]"
  have "?parent \<notin> set live"
    using liveSessions_own [of env v s live s1 ?parent] l Some by (auto simp: sessionDir_def hasPrefix_iff)
  then have P: "?P (Did (Remove ?parent) x)" for x by auto
  define k :: "('a rc_scheme, unit) state" where "k = (case l of None \<Rightarrow> ret () | Some live \<Rightarrow> do {
      d \<leftarrow> osReadDir env ?parent;
      (case d of Inl _ \<Rightarrow> ret ()
       | Inr es \<Rightarrow> do { sweepSessions env ?parent live es; _ \<leftarrow> fsCall env (Remove ?parent); ret () }) })"
  have "emits k ?P"
    unfolding k_def Some option.case by (intro emits_rules sweepSessions_emits) (use P in auto)
  moreover have "run_state k s1 = (u, s')" using l r Some by (simp add: SweepDeadSessions_def k_def Let_def)
  ultimately obtain t where "hist s' = hist s1 @ t" "list_all ?P t" by (blast dest: emitsD)
  with Some show ?thesis by (auto simp: list_all_iff)
qed

theorem SweepDeadSessions_spares_live_witness:
  "\<exists>s1 s'. run_state (liveSessions sweepEnv ''v'') initRc = (Some [''/var/lib/lukscrypt-cache/sessions/v/a''], s1)
     \<and> run_state (SweepDeadSessions sweepEnv ''v'') initRc = ((), s')
     \<and> (\<exists>t. hist s' = hist s1 @ t \<and> list_all (\<lambda>e. \<not> actsOn e ''/var/lib/lukscrypt-cache/sessions/v/a'') t)"
proof -
  have "\<exists>s1. run_state (liveSessions sweepEnv ''v'') initRc = (Some [''/var/lib/lukscrypt-cache/sessions/v/a''], s1)"
    by (simp add: liveSessions_def RPCWithTimeout_def Initialize_def setServerModTime_def run_callLibrclone decodeOutput_def initRc_def sweepEnv_def quietEnv_def
        Let_def sessionsOf_def mountPointsOf_def List.map_filter_def SessionMountBase_def) code_simp
  then obtain s1 where l: "run_state (liveSessions sweepEnv ''v'') initRc = (Some [''/var/lib/lukscrypt-cache/sessions/v/a''], s1)" by blast
  obtain s' where r: "run_state (SweepDeadSessions sweepEnv ''v'') initRc = ((), s')" by (metis surj_pair old.unit.exhaust)
  from SweepDeadSessions_spares_live [OF l r] l r show ?thesis by auto
qed

end
