(* ===== verification/MountManager.thy ===== *)
theory MountManager
  imports Session
begin

text \<open>
  The mount manager of one S3 volume (\<^verbatim>\<open>rclone/syncmanager.go\<close>): the VFS name it takes, mounting through a private session
  that is bound to the staging path, draining the write-back queue, unmounting, and evicting the
  cache. A manager is a value that the operations return updated. Loops that a deadline ends are modelled with as many
  rounds as fit into the budget, one sleep each; \<open>clockOk\<close> states what makes these enough. The goroutines
  a mount starts (cache monitor, listing warmer, refresh) only call operations that are modelled on their own.
\<close>

section \<open>The manager\<close>

record MountManager =
  mm_s3Config :: S3Config
  mm_cryptConfig :: CryptConfig
  mm_vfsConfig :: VFSCacheConfig
  mm_volumeID :: string
  mm_mountPoint :: string
  mm_sessionPath :: string
  mm_s3BasePath :: string
  mm_mounted :: bool
  mm_vfsName :: string
  mm_s3ConfigName :: string
  mm_cryptConfigName :: string
  mm_uid :: "int option"
  mm_gid :: "int option"
  mm_generation :: int
  mm_stopCacheMon :: "bool option" \<comment> \<open>the channel: \<open>None\<close> nil, \<open>Some True\<close> closed\<close>
  mm_stopMonOnce :: bool

definition maxVFSGenerations :: nat where
  "maxVFSGenerations = 16"

definition maxDrainWait :: int where
  "maxDrainWait = seconds (6 * 3600)"

definition ShortDrainWait :: int where
  "ShortDrainWait = seconds 60"

definition mountReadyTimeout :: int where
  "mountReadyTimeout = seconds 20"

definition maxStagingUnwind :: nat where
  "maxStagingUnwind = 10"

definition StopCacheMonitor :: "MountManager \<Rightarrow> MountManager" where
  "StopCacheMonitor mm =
     (if mm_stopCacheMon mm = None \<or> mm_stopMonOnce mm then mm
      else mm\<lparr>mm_stopCacheMon := Some True, mm_stopMonOnce := True\<rparr>)"

definition setGeneration :: "MountManager \<Rightarrow> int \<Rightarrow> MountManager" where
  "setGeneration mm g = (case vfsNamesFor (mm_volumeID mm) g of
     (v, s3, c) \<Rightarrow> mm\<lparr>mm_generation := g, mm_vfsName := v, mm_s3ConfigName := s3, mm_cryptConfigName := c\<rparr>)"

definition bumpGeneration :: "MountManager \<Rightarrow> MountManager" where
  "bumpGeneration mm = setGeneration mm (wrap64 (mm_generation mm + 1))"

definition NewMountManager ::
  "env \<Rightarrow> S3Config \<Rightarrow> string \<Rightarrow> string \<Rightarrow> VFSCacheConfig option \<Rightarrow> string \<Rightarrow> string \<Rightarrow> int option
   \<Rightarrow> ('s os_scheme, MountManager) state" where
  "NewMountManager env s3Config volumeID mountPoint vfsConfig s3PathPrefix luksPassphrase fsGroup = do {
     m \<leftarrow> LoadVFSNameMap env;
     let generation = generationOfVFSName volumeID (case map_of m volumeID of None \<Rightarrow> [] | Some n \<Rightarrow> n);
     ret (setGeneration \<lparr>mm_s3Config = s3Config,
       mm_cryptConfig = DeriveRcloneCryptConfig luksPassphrase (if s3PathPrefix = [] then volumeID else s3PathPrefix),
       mm_vfsConfig = (case vfsConfig of None \<Rightarrow> DefaultVFSCacheConfig | Some c \<Rightarrow> c),
       mm_volumeID = volumeID, mm_mountPoint = mountPoint, mm_sessionPath = [],
       mm_s3BasePath = (if s3PathPrefix = [] then ''volumes/'' @ volumeID @ ''/files''
                        else s3PathPrefix @ ''/volumes/'' @ volumeID @ ''/files''),
       mm_mounted = False, mm_vfsName = [], mm_s3ConfigName = [], mm_cryptConfigName = [],
       mm_uid = fsGroup, mm_gid = fsGroup, mm_generation = generation, mm_stopCacheMon = None, mm_stopMonOnce = False\<rparr> generation)
   }"

definition FSName :: "MountManager \<Rightarrow> string" where
  "FSName mm = mm_cryptConfigName mm"

definition FSNameForVolume :: "env \<Rightarrow> string \<Rightarrow> ('s os_scheme, string) state" where
  "FSNameForVolume env volumeID = do {
     m \<leftarrow> LoadVFSNameMap env;
     ret (snd (snd (vfsNamesFor volumeID (generationOfVFSName volumeID (case map_of m volumeID of None \<Rightarrow> [] | Some n \<Rightarrow> n)))))
   }"

section \<open>The VFS registry\<close>

text \<open>The fs names of an answer of \<^verbatim>\<open>vfs/list\<close>, as often as they are registered; \<^verbatim>\<open>counts[n]\<close> is \<open>count_list names n\<close>.\<close>

definition vfsNameOf :: "string \<Rightarrow> string option" where
  "vfsNameOf s = (case cut s '':'' of (name, _, found) \<Rightarrow> if found then Some name else None)"

definition registeredOf :: "json option res \<Rightarrow> string list option" where
  "registeredOf r = (case r of
       Inr (Some out) \<Rightarrow> map_option (List.map_filter (\<lambda>n. Option.bind (jstr (Some n)) vfsNameOf)) (jarr (jfield out ''vfses''))
     | _ \<Rightarrow> None)"

definition RegisteredVFSNames :: "env \<Rightarrow> ('s rc_scheme, string list option) state" where
  "RegisteredVFSNames env = do {
     r \<leftarrow> RPCWithTimeout env ''vfs/list'' (JObj []) rpcListTimeout;
     ret (registeredOf r)
   }"

definition countRegisteredVFS :: "env \<Rightarrow> MountManager \<Rightarrow> ('s rc_scheme, nat option) state" where
  "countRegisteredVFS env mm = do {
     names \<leftarrow> RegisteredVFSNames env;
     ret (map_option (\<lambda>ns. count_list ns (mm_cryptConfigName mm)) names)
   }"

function exclusiveLoop :: "env \<Rightarrow> nat \<Rightarrow> MountManager \<Rightarrow> ('s rc_scheme, goerr option \<times> MountManager) state" where
  "exclusiveLoop env bumps mm = do {
     c \<leftarrow> countRegisteredVFS env mm;
     (case c of
        None \<Rightarrow>
          if bumps > 0 then ret (None, mm)
          else exclusiveLoop env (bumps + 1) (bumpGeneration mm)
      | Some count \<Rightarrow>
          if count = 0 then ret (None, mm)
          else do {
            ended \<leftarrow> ShutdownSessions env (mm_volumeID mm) [];
            free \<leftarrow> (if ended > 0 then do {
                        sleep env (seconds 1 div 2);
                        c' \<leftarrow> countRegisteredVFS env mm;
                        ret (c' = None \<or> c' = Some 0)
                      } else ret False);
            if free then ret (None, mm)
            else if bumps \<ge> maxVFSGenerations then ret (Some (Err ''VFS instances still registered''), mm)
            else exclusiveLoop env (bumps + 1) (bumpGeneration mm)
          })
   }"
  by pat_completeness auto
termination
  by (relation "measure (\<lambda>(_, b, _). 17 - b)") (auto simp: maxVFSGenerations_def)

declare exclusiveLoop.simps [simp del]

definition ensureExclusiveVFSName :: "env \<Rightarrow> MountManager \<Rightarrow> ('s rc_scheme, goerr option \<times> MountManager) state" where
  "ensureExclusiveVFSName env mm = exclusiveLoop env 0 mm"

definition warnOnDuplicateVFS :: "env \<Rightarrow> MountManager \<Rightarrow> ('s rc_scheme, unit) state" where
  "warnOnDuplicateVFS env mm = do { _ \<leftarrow> RPCWithTimeout env ''vfs/list'' (JObj []) rpcListTimeout; ret () }"

section \<open>The staging bind\<close>

definition mmIsMountPoint :: "env \<Rightarrow> MountManager \<Rightarrow> ('s mnt_scheme, bool) state" where
  "mmIsMountPoint env mm = do {
     m \<leftarrow> HostMounts env;
     ret (m (mm_mountPoint mm) \<noteq> None)
   }"

definition IsMounted :: "env \<Rightarrow> MountManager \<Rightarrow> ('s mnt_scheme, bool) state" where
  "IsMounted env mm = (if mm_mounted mm then mmIsMountPoint env mm else ret False)"

definition mountUsable :: "env \<Rightarrow> MountManager \<Rightarrow> string \<Rightarrow> ('s mnt_scheme, goerr option) state" where
  "mountUsable env mm dev = do {
     st \<leftarrow> HostMountStacksOK env;
     (case st of
        None \<Rightarrow> ret (Some (Err ''host mount table is unreadable''))
      | Some stacks \<Rightarrow>
          (let mounts = stackOf stacks (mm_mountPoint mm)
           in if mounts = [] \<or> \<not> containsStr (mt_FSType (last mounts)) ''fuse'' then ret (Some (Err ''no FUSE mount in the host namespace''))
              else if mt_Dev (last mounts) \<noteq> dev then ret (Some (Err ''the host resolves another device''))
              else readDirBounded env (mm_mountPoint mm)))
   }"

fun exposeLoop :: "env \<Rightarrow> MountManager \<Rightarrow> string \<Rightarrow> int \<Rightarrow> nat \<Rightarrow> ('s mnt_scheme, goerr option) state" where
  "exposeLoop env mm dev deadline 0 = ret (Some (Err ''FUSE mount not ready''))"
| "exposeLoop env mm dev deadline (Suc n) = do {
     t \<leftarrow> timeNow env;
     if \<not> t < deadline then ret (Some (Err ''FUSE mount not ready''))
     else do {
       InvalidateHostMounts env;
       e \<leftarrow> mountUsable env mm dev;
       if e = None then ret None
       else do { sleep env (seconds 1 div 2); exposeLoop env mm dev deadline n }
     }
   }"

definition readyRounds :: nat where
  "readyRounds = 41"

definition expose :: "env \<Rightarrow> MountManager \<Rightarrow> string \<Rightarrow> int \<Rightarrow> ('s mnt_scheme, goerr option) state" where
  "expose env mm dev deadline =
     orFail (bindBounded env (mm_sessionPath mm) (mm_mountPoint mm)) (WrapW ''expose the session'')
       (exposeLoop env mm dev deadline readyRounds)"

fun readyLoop :: "env \<Rightarrow> MountManager \<Rightarrow> int \<Rightarrow> nat \<Rightarrow> ('s mnt_scheme, goerr option) state" where
  "readyLoop env mm deadline 0 = ret (Some (Err ''session not mounted''))"
| "readyLoop env mm deadline (Suc n) = do {
     t \<leftarrow> timeNow env;
     if \<not> t < deadline then ret (Some (Err ''session not mounted''))
     else do {
       d \<leftarrow> mountedDevice env (mm_sessionPath mm);
       (case d of
          Inr (dev, True) \<Rightarrow> expose env mm dev deadline
        | _ \<Rightarrow> do { sleep env (seconds 1 div 2); readyLoop env mm deadline n })
     }
   }"

definition waitForMountReady :: "env \<Rightarrow> MountManager \<Rightarrow> ('s mnt_scheme, goerr option) state" where
  "waitForMountReady env mm = do {
     t \<leftarrow> timeNow env;
     readyLoop env mm (t + mountReadyTimeout) readyRounds
   }"

fun unbindLoop :: "env \<Rightarrow> string \<Rightarrow> nat \<Rightarrow> ('s os_scheme, unit) state" where
  "unbindLoop env path 0 = ret ()"
| "unbindLoop env path (Suc n) = do {
     r \<leftarrow> unmountBounded env path False;
     (case r of
        None \<Rightarrow> unbindLoop env path n
      | Some e \<Rightarrow>
          if isErrno e EINVAL \<or> isErrno e ENOENT then ret ()
          else do {
            l \<leftarrow> unmountBounded env path True;
            if l \<noteq> None then ret () else unbindLoop env path n
          })
   }"

definition unbindStaging :: "env \<Rightarrow> MountManager \<Rightarrow> ('s mnt_scheme, unit) state" where
  "unbindStaging env mm = do {
     unbindLoop env (mm_mountPoint mm) maxStagingUnwind;
     InvalidateHostMounts env
   }"

definition SessionServing :: "env \<Rightarrow> MountManager \<Rightarrow> ('s rc_scheme, bool) state" where
  "SessionServing env mm =
     (if mm_sessionPath mm = [] then ret False
      else do {
        l \<leftarrow> liveSessions env (mm_volumeID mm);
        if (case l of None \<Rightarrow> True | Some live \<Rightarrow> mm_sessionPath mm \<notin> set live) then ret False
        else do {
          c \<leftarrow> countRegisteredVFS env mm;
          if c \<noteq> Some 1 then ret False
          else do {
            d \<leftarrow> mountedDevice env (mm_sessionPath mm);
            (case d of
               Inr (_, True) \<Rightarrow> do { e \<leftarrow> readDirBounded env (mm_sessionPath mm); ret (e = None) }
             | _ \<Rightarrow> ret False)
          }
        }
      })"

definition Reexpose :: "env \<Rightarrow> MountManager \<Rightarrow> ('s mnt_scheme, goerr option) state" where
  "Reexpose env mm = do {
     d \<leftarrow> mountedDevice env (mm_sessionPath mm);
     (case d of
        Inr (dev, True) \<Rightarrow> do {
          unbindStaging env mm;
          t \<leftarrow> timeNow env;
          e \<leftarrow> expose env mm dev (t + mountReadyTimeout);
          whenS (e \<noteq> None) (unbindStaging env mm);
          ret e
        }
      | _ \<Rightarrow> ret (Some (Err ''session is not mounted'')))
   }"

section \<open>The write-back queue\<close>

definition isNoVFSError :: "goerr \<Rightarrow> bool" where
  "isNoVFSError e = containsStr (errText e) ''no VFS found''"

definition isAmbiguousVFSError :: "goerr \<Rightarrow> bool" where
  "isAmbiguousVFSError e = containsStr (errText e) ''more than one VFS active''"

text \<open>The \<^verbatim>\<open>diskCache\<close> section of \<^verbatim>\<open>vfs/stats\<close>, and a counter in it. rclone's counters are integers.\<close>

definition diskCacheOf :: "json option \<Rightarrow> json option" where
  "diskCacheOf out = (case Option.bind out (\<lambda>o'. jfield o' ''diskCache'') of
     Some (JObj dc) \<Rightarrow> Some (JObj dc) | _ \<Rightarrow> None)"

definition counterOf :: "json \<Rightarrow> string \<Rightarrow> int" where
  "counterOf dc k = (case jint (jfield dc k) of None \<Rightarrow> 0 | Some v \<Rightarrow> v)"

definition fsParam :: "MountManager \<Rightarrow> string \<times> json" where
  "fsParam mm = (''fs'', JStr (mm_cryptConfigName mm @ '':''))"

definition vfsStats :: "env \<Rightarrow> MountManager \<Rightarrow> int \<Rightarrow> ('s rc_scheme, json option res) state" where
  "vfsStats env mm budget = RPCWithTimeout env ''vfs/stats'' (JObj [fsParam mm]) budget"

definition queueEmpty :: "json option \<Rightarrow> bool" where
  "queueEmpty out = (case diskCacheOf out of
       None \<Rightarrow> True
     | Some dc \<Rightarrow> counterOf dc ''uploadsInProgress'' = 0 \<and> counterOf dc ''uploadsQueued'' = 0)"

definition hasDirtyCacheOnDisk :: "env \<Rightarrow> MountManager \<Rightarrow> ('s os_scheme, bool) state" where
  "hasDirtyCacheOnDisk env mm =
     (if mm_vfsName mm = [] then ret False else hasDirtyCacheItemsAt env VFSCacheBasePath (mm_vfsName mm))"

definition pollInterval :: int where
  "pollInterval = seconds 2"

fun uploadsLoop :: "env \<Rightarrow> MountManager \<Rightarrow> int \<Rightarrow> nat \<Rightarrow> ('s rc_scheme, bool) state" where
  "uploadsLoop env mm deadline 0 = ret False"
| "uploadsLoop env mm deadline (Suc n) = do {
     t \<leftarrow> timeNow env;
     if \<not> t < deadline then ret False
     else do {
       gone \<leftarrow> (if mm_sessionPath mm = [] then do { m \<leftarrow> mmIsMountPoint env mm; ret (\<not> m) } else ret False);
       if gone then ret False
       else do {
         t' \<leftarrow> timeNow env;
         let budget = min rpcStatsTimeout (deadline - t');
         if budget \<le> 0 then ret False
         else do {
           r \<leftarrow> vfsStats env mm budget;
           (case r of
              Inl e \<Rightarrow>
                if isNoVFSError e \<or> isAmbiguousVFSError e then ret False
                else do { sleep env pollInterval; uploadsLoop env mm deadline n }
            | Inr out \<Rightarrow>
                if queueEmpty out then ret True
                else do { sleep env pollInterval; uploadsLoop env mm deadline n })
         }
       }
     }
   }"

text \<open>Go's integer division by a positive constant truncates towards zero.\<close>

definition goQuot :: "int \<Rightarrow> int \<Rightarrow> int" where
  "goQuot a b = (if a < 0 then - ((- a) div b) else a div b)"

definition flushWait :: "MountManager \<Rightarrow> int \<Rightarrow> int" where
  "flushWait mm maxWait =
     (let wb = (if WriteBack (mm_vfsConfig mm) = [] then 5
                else case parseDurationToNs (WriteBack (mm_vfsConfig mm)) of Inr ns \<Rightarrow> goQuot ns 1000000000 | Inl _ \<Rightarrow> 5)
      in min (wrap64 ((wb + 2) * 1000000000)) maxWait)"

definition uploadRounds :: "int \<Rightarrow> nat" where
  "uploadRounds maxWait = nat (maxWait div pollInterval) + 2"

definition waitForPendingUploads :: "env \<Rightarrow> MountManager \<Rightarrow> int \<Rightarrow> ('s rc_scheme, bool) state" where
  "waitForPendingUploads env mm maxWait =
     (if maxWait \<le> 0 then ret False
      else do {
        t \<leftarrow> timeNow env;
        sleep env (flushWait mm maxWait);
        uploadsLoop env mm (t + maxWait) (uploadRounds maxWait)
      })"

definition IsUploadQueueEmpty :: "env \<Rightarrow> MountManager \<Rightarrow> ('s rc_scheme, bool) state" where
  "IsUploadQueueEmpty env mm = do {
     m \<leftarrow> mmIsMountPoint env mm;
     if \<not> m then do { d \<leftarrow> hasDirtyCacheOnDisk env mm; ret (\<not> d) }
     else do {
       r \<leftarrow> vfsStats env mm rpcStatsProbeTimeout;
       (case r of
          Inl e \<Rightarrow>
            if isNoVFSError e \<or> isAmbiguousVFSError e then do { d \<leftarrow> hasDirtyCacheOnDisk env mm; ret (\<not> d) }
            else ret False
        | Inr out \<Rightarrow> ret (case diskCacheOf out of
                          None \<Rightarrow> False
                        | Some dc \<Rightarrow> counterOf dc ''uploadsInProgress'' = 0 \<and> counterOf dc ''uploadsQueued'' = 0))
     }
   }"

definition uploadQueueConfirmedEmpty :: "env \<Rightarrow> MountManager \<Rightarrow> ('s rc_scheme, bool) state" where
  "uploadQueueConfirmedEmpty env mm = do {
     m \<leftarrow> mmIsMountPoint env mm;
     if \<not> m then ret False
     else do {
       r \<leftarrow> vfsStats env mm rpcStatsTimeout;
       ret (case r of
              Inl _ \<Rightarrow> False
            | Inr out \<Rightarrow> (case diskCacheOf out of
                 None \<Rightarrow> False
               | Some dc \<Rightarrow> jint (jfield dc ''uploadsInProgress'') = Some 0 \<and> jint (jfield dc ''uploadsQueued'') = Some 0))
     }
   }"

section \<open>Unmounting\<close>

definition cacheDataDir :: "string \<Rightarrow> string" where
  "cacheDataDir vfsName = VFSCacheBasePath @ ''/vfs/'' @ vfsName"

definition cacheMetaDir :: "string \<Rightarrow> string" where
  "cacheMetaDir vfsName = VFSCacheBasePath @ ''/vfsMeta/'' @ vfsName"

definition cleanupVFSCacheDir :: "env \<Rightarrow> MountManager \<Rightarrow> ('s os_scheme, unit) state" where
  "cleanupVFSCacheDir env mm =
     (if mm_vfsName mm = [] then ret ()
      else do {
        _ \<leftarrow> fsCall env (RemoveAll (cacheDataDir (mm_vfsName mm)));
        _ \<leftarrow> fsCall env (RemoveAll (cacheMetaDir (mm_vfsName mm)));
        RemoveVFSName env (mm_volumeID mm)
      })"

text \<open>The error \<^verbatim>\<open>unmount\<close> could return is always nil; the result is whether the volume drained.\<close>

definition mmUnmount :: "env \<Rightarrow> MountManager \<Rightarrow> int \<Rightarrow> ('s rc_scheme, bool \<times> MountManager) state" where
  "mmUnmount env mm0 drainBudget = do {
     there \<leftarrow> (if mm_mounted mm0 then ret True else mmIsMountPoint env mm0);
     if \<not> there then do { d \<leftarrow> hasDirtyCacheOnDisk env mm0; ret (\<not> d, mm0) }
     else do {
       let mm = StopCacheMonitor mm0;
       q \<leftarrow> waitForPendingUploads env mm drainBudget;
       unbindStaging env mm;
       _ \<leftarrow> ShutdownSessions env (mm_volumeID mm) [mm_sessionPath mm];
       DeleteNamedConfigs env [mm_cryptConfigName mm, mm_s3ConfigName mm];
       dirty \<leftarrow> (if q then hasDirtyCacheOnDisk env mm else ret True);
       whenS (\<not> dirty) (cleanupVFSCacheDir env mm);
       ret (\<not> dirty, mm\<lparr>mm_sessionPath := [], mm_mounted := False\<rparr>)
     }
   }"

definition Unmount_mm :: "env \<Rightarrow> MountManager \<Rightarrow> ('s rc_scheme, bool \<times> MountManager) state" where
  "Unmount_mm env mm = mmUnmount env mm maxDrainWait"

definition UnmountWithin :: "env \<Rightarrow> MountManager \<Rightarrow> int \<Rightarrow> ('s rc_scheme, bool \<times> MountManager) state" where
  "UnmountWithin env mm budget = mmUnmount env mm budget"

section \<open>Mounting\<close>

fun cloexecAll :: "env \<Rightarrow> (string \<times> bool) list \<Rightarrow> ('s os_scheme, unit) state" where
  "cloexecAll env [] = ret ()"
| "cloexecAll env (e # es) = do {
     l \<leftarrow> osReadLink env (''/proc/self/fd/'' @ fst e);
     (case (l, atoi (fst e)) of
        (Inr target, Some fd) \<Rightarrow>
          whenS (target = ''/dev/fuse'') (do { _ \<leftarrow> fsCall env (SetCloexec fd); ret () })
      | _ \<Rightarrow> ret ());
     cloexecAll env es
   }"

definition setFuseFdsCloexec :: "env \<Rightarrow> ('s os_scheme, unit) state" where
  "setFuseFdsCloexec env = do {
     d \<leftarrow> osReadDir env ''/proc/self/fd'';
     (case d of Inl _ \<Rightarrow> ret () | Inr es \<Rightarrow> cloexecAll env es)
   }"

definition hasStaleVFSCache :: "env \<Rightarrow> MountManager \<Rightarrow> ('s os_scheme, bool) state" where
  "hasStaleVFSCache env mm =
     (if mm_vfsName mm = [] then ret False
      else do {
        a \<leftarrow> osStat env (cacheDataDir (mm_vfsName mm));
        b \<leftarrow> osStat env (cacheMetaDir (mm_vfsName mm));
        ret (\<not> isl a \<or> \<not> isl b)
      })"

definition refreshTree :: "env \<Rightarrow> MountManager \<Rightarrow> ('s rc_scheme, unit) state" where
  "refreshTree env mm = do {
     _ \<leftarrow> RPCWithTimeout env ''vfs/refresh'' (JObj [fsParam mm, (''dir'', JStr []), (''recursive'', JStr ''true'')]) rpcRefreshTimeout;
     ret ()
   }"

definition refreshVFS :: "env \<Rightarrow> MountManager \<Rightarrow> ('s rc_scheme, unit) state" where
  "refreshVFS env mm = do {
     _ \<leftarrow> RPCWithTimeout env ''vfs/forget'' (JObj [fsParam mm]) rpcRefreshTimeout;
     refreshTree env mm
   }"

definition idOpt :: "string \<Rightarrow> int option \<Rightarrow> (string \<times> json) list" where
  "idOpt key i = (case i of None \<Rightarrow> [] | Some n \<Rightarrow> if 0 \<le> n \<and> n < 2 ^ 32 then [(key, JInt n)] else [])"

definition mountOptOf :: "VFSCacheConfig \<Rightarrow> json" where
  "mountOptOf c = JObj [(''AllowOther'', JBool True), (''AllowNonEmpty'', JBool True),
     (''DirCacheTime'', JInt (durationOrDefault (DirCacheTime c) (seconds 3600))),
     (''AttrTimeout'', JInt (durationOrDefault (AttrTimeout c) (seconds 3600)))]"

definition mountParams :: "MountManager \<Rightarrow> string \<Rightarrow> (string \<times> json) list \<Rightarrow> json" where
  "mountParams mm session vfsOpt = JObj [fsParam mm, (''mountPoint'', JStr session), (''mountOpt'', mountOptOf (mm_vfsConfig mm)),
     (''vfsOpt'', JObj (vfsOpt @ idOpt ''UID'' (mm_uid mm) @ idOpt ''GID'' (mm_gid mm)))]"

text \<open>
  After the mount RPC succeeded. The refresh that a stale cache starts in the background is run to its end here.
\<close>

definition finishMount :: "env \<Rightarrow> MountManager \<Rightarrow> string \<Rightarrow> ('s rc_scheme, goerr option \<times> MountManager) state" where
  "finishMount env mm session = do {
     setFuseFdsCloexec env;
     SaveVFSName env (mm_volumeID mm) (mm_vfsName mm);
     warnOnDuplicateVFS env mm;
     w \<leftarrow> waitForMountReady env mm;
     (case w of
        Some e \<Rightarrow> do {
          unbindStaging env mm;
          _ \<leftarrow> unmountSession env session;
          DeleteNamedConfigs env [mm_cryptConfigName mm, mm_s3ConfigName mm];
          ret (Some (WrapW ''mount did not become usable'' e), mm)
        }
      | None \<Rightarrow> do {
          stale \<leftarrow> hasStaleVFSCache env mm;
          whenS stale (refreshVFS env mm);
          ret (None, mm\<lparr>mm_mounted := True, mm_stopCacheMon := Some False\<rparr>)
        })
   }"

text \<open>
  From the session directory on: configs, the mount RPC, and what follows it.
\<close>

definition mountSession :: "env \<Rightarrow> MountManager \<Rightarrow> string \<Rightarrow> ('s rc_scheme, goerr option \<times> MountManager) state" where
  "mountSession env mm session = do {
     c1 \<leftarrow> CreateNamedS3Config env (mm_s3ConfigName mm) (mm_s3Config mm);
     (case c1 of
        Some e \<Rightarrow> do { removeSessionDir env session; ret (Some (WrapW ''create S3 config'' e), mm) }
      | None \<Rightarrow> do {
          c2 \<leftarrow> CreateNamedCryptConfig env (mm_cryptConfigName mm)
                 (mm_s3ConfigName mm @ '':'' @ Bucket (mm_s3Config mm) @ ''/'' @ mm_s3BasePath mm) (mm_cryptConfig mm);
          (case c2 of
             Some e \<Rightarrow> do {
               DeleteNamedConfigs env [mm_s3ConfigName mm];
               removeSessionDir env session;
               ret (Some (WrapW ''create crypt config'' e), mm)
             }
           | None \<Rightarrow> do {
               vfsOpt \<leftarrow> buildVFSOpt (mm_vfsConfig mm);
               r \<leftarrow> RPCWithTimeout env ''mount/mount'' (mountParams mm session vfsOpt) rpcMountTimeout;
               (case r of
                  Inl e \<Rightarrow> do {
                    DeleteNamedConfigs env [mm_cryptConfigName mm, mm_s3ConfigName mm];
                    if IsRPCTimeout e then ret (Some (WrapW ''mount did not complete'' e), mm)
                    else do { removeSessionDir env session; ret (Some (WrapW ''failed to mount'' e), mm) }
                  }
                | Inr _ \<Rightarrow> finishMount env (mm\<lparr>mm_sessionPath := session\<rparr>) session)
             })
        })
   }"

definition Mount :: "env \<Rightarrow> MountManager \<Rightarrow> ('s rc_scheme, goerr option \<times> MountManager) state" where
  "Mount env mm0 = do {
     already \<leftarrow> IsMounted env mm0;
     if already then ret (None, mm0)
     else do {
       stale \<leftarrow> mmIsMountPoint env mm0;
       mm1 \<leftarrow> (if stale then do { r \<leftarrow> mmUnmount env mm0 ShortDrainWait; ret (snd r) } else ret mm0);
       x \<leftarrow> ensureExclusiveVFSName env mm1;
       (case x of
          (Some e, mm2) \<Rightarrow> ret (Some e, mm2)
        | (None, mm2) \<Rightarrow> do {
            ValidateVFSCache env (mm_vfsName mm2);
            k \<leftarrow> mkdirAllBounded env (mm_mountPoint mm2);
            (case k of
               Some e \<Rightarrow> ret (Some (WrapW ''create mount point'' e), mm2)
             | None \<Rightarrow> do {
                 SweepDeadSessions env (mm_volumeID mm2);
                 d \<leftarrow> newSessionDir env (mm_volumeID mm2) (mm_vfsName mm2);
                 (case d of
                    Inl e \<Rightarrow> ret (Some (WrapW ''create session mountpoint'' e), mm2)
                  | Inr session \<Rightarrow> mountSession env mm2 session)
               })
          })
     }
   }"

section \<open>Evicting the cache\<close>

definition hasActiveTransfers :: "env \<Rightarrow> ('s rc_scheme, bool) state" where
  "hasActiveTransfers env = do {
     r \<leftarrow> RPCWithTimeout env ''core/stats'' (JObj []) rpcStatsTimeout;
     ret (case r of
            Inl _ \<Rightarrow> True
          | Inr None \<Rightarrow> False
          | Inr (Some out) \<Rightarrow>
              (case jarr (jfield out ''transferring'') of Some (_ # _) \<Rightarrow> True | _ \<Rightarrow> False) \<or>
              (case jarr (jfield out ''checking'') of Some (_ # _) \<Rightarrow> True | _ \<Rightarrow> False))
   }"

text \<open>
  Whether less than a tenth of the cache file system is free. The source divides as floating point numbers; below
  \<open>2 ^ 53\<close> blocks its comparison agrees with this one.
\<close>

definition cacheFSPressed :: "env \<Rightarrow> ('s os_scheme, bool) state" where
  "cacheFSPressed env = do {
     r \<leftarrow> osStatfs env VFSCacheBasePath;
     ret (case r of Inl _ \<Rightarrow> False | Inr st \<Rightarrow> fs_blocks st \<noteq> 0 \<and> 10 * fs_bavail st < fs_blocks st)
   }"

fun openTargets :: "env \<Rightarrow> string \<Rightarrow> string \<Rightarrow> (string \<times> bool) list \<Rightarrow> ('s os_scheme, string list) state" where
  "openTargets env realRoot fdDir [] = ret []"
| "openTargets env realRoot fdDir (e # es) = do {
     l \<leftarrow> osReadLink env (pathJoin [fdDir, fst e]);
     ts \<leftarrow> openTargets env realRoot fdDir es;
     ret (case l of Inr t \<Rightarrow> if hasPrefix t realRoot then t # ts else ts | Inl _ \<Rightarrow> ts)
   }"

fun openIn :: "env \<Rightarrow> string \<Rightarrow> string list \<Rightarrow> ('s os_scheme, string list) state" where
  "openIn env realRoot [] = ret []"
| "openIn env realRoot (f # fs) = do {
     d \<leftarrow> osReadDir env f;
     ts \<leftarrow> (case d of Inl _ \<Rightarrow> ret [] | Inr es \<Rightarrow> openTargets env realRoot f es);
     us \<leftarrow> openIn env realRoot fs;
     ret (ts @ us)
   }"

text \<open>\<^verbatim>\<open>filepath.Glob\<close> only fails on a malformed pattern, so the third result of the source is always true.\<close>

definition openFilesUnder :: "env \<Rightarrow> string \<Rightarrow> ('s os_scheme, string list \<times> string) state" where
  "openFilesUnder env root = do {
     l \<leftarrow> osEvalSymlinks env root;
     let realRoot = (case l of Inl _ \<Rightarrow> root | Inr p \<Rightarrow> p);
     fds \<leftarrow> osGlob env ''/proc/*/fd'';
     ts \<leftarrow> openIn env realRoot fds;
     ret (ts, realRoot)
   }"

definition resolveUnder :: "string \<Rightarrow> string \<Rightarrow> string \<Rightarrow> string" where
  "resolveUnder root realRoot path = (if root = realRoot then path else pathJoin [realRoot, relTo root path])"

text \<open>The files of a walk with size and modification time; entries that cannot be read are skipped.\<close>

definition cachedFiles :: "walkItem list \<Rightarrow> (string \<times> int \<times> int) list" where
  "cachedFiles ws = List.map_filter (\<lambda>w. case w of WFile p sz t \<Rightarrow> Some (p, sz, t) | _ \<Rightarrow> None) ws"

definition totalSize :: "(string \<times> int \<times> int) list \<Rightarrow> int" where
  "totalSize fs = foldl (\<lambda>n f. wrap64 (n + fst (snd f))) 0 fs"

fun evictLoop :: "env \<Rightarrow> string set \<Rightarrow> (string \<Rightarrow> string) \<Rightarrow> int \<Rightarrow> (string \<times> int \<times> int) list \<Rightarrow> int
    \<Rightarrow> ('s os_scheme, string list \<times> int) state" where
  "evictLoop env open resolve maxBytes [] tot = ret ([], tot)"
| "evictLoop env open resolve maxBytes (f # fs) tot =
     (if tot \<le> maxBytes then ret ([], tot)
      else if resolve (fst f) \<in> open then evictLoop env open resolve maxBytes fs tot
      else do {
        r \<leftarrow> fsCall env (Remove (fst f));
        (case r of
           Some _ \<Rightarrow> evictLoop env open resolve maxBytes fs tot
         | None \<Rightarrow> do {
             x \<leftarrow> evictLoop env open resolve maxBytes fs (wrap64 (tot - fst (snd f)));
             ret (fst f # fst x, snd x)
           })
      })"

definition forgetKey :: "nat \<Rightarrow> string" where
  "forgetKey n = (if n > 0 then ''file'' @ show_nat (n + 1) else ''file'')"

definition forgetPerCall :: nat where
  "forgetPerCall = 500"

definition forgetFlush :: "env \<Rightarrow> MountManager \<Rightarrow> (string \<times> json) list \<Rightarrow> ('s rc_scheme, unit) state" where
  "forgetFlush env mm ps =
     (if ps = [] then ret ()
      else do { _ \<leftarrow> RPCWithTimeout env ''vfs/forget'' (JObj (fsParam mm # ps)) rpcRefreshTimeout; ret () })"

fun forgetLoop :: "env \<Rightarrow> MountManager \<Rightarrow> (string \<times> json) list \<Rightarrow> string list \<Rightarrow> ('s rc_scheme, unit) state" where
  "forgetLoop env mm ps [] = forgetFlush env mm ps"
| "forgetLoop env mm ps (r # rs) =
     (if hasPrefix r ''..'' then forgetLoop env mm ps rs
      else let ps' = ps @ [(forgetKey (length ps), JStr r)]
           in if length ps' \<ge> forgetPerCall then do { forgetFlush env mm ps'; forgetLoop env mm [] rs }
              else forgetLoop env mm ps' rs)"

definition forgetCachePaths :: "env \<Rightarrow> MountManager \<Rightarrow> string \<Rightarrow> string list \<Rightarrow> ('s rc_scheme, unit) state" where
  "forgetCachePaths env mm cacheDir paths =
     (if paths = [] then ret () else forgetLoop env mm [] (map (relTo cacheDir) paths))"

text \<open>\<^verbatim>\<open>sort.Slice\<close> by modification time; any order among equal times will do.\<close>

definition evictFiles :: "env \<Rightarrow> MountManager \<Rightarrow> string \<Rightarrow> int \<Rightarrow> (string \<times> int \<times> int) list \<Rightarrow> ('s rc_scheme, unit) state" where
  "evictFiles env mm cacheDir maxBytes files = do {
     o' \<leftarrow> openFilesUnder env cacheDir;
     x \<leftarrow> evictLoop env (set (fst o')) (resolveUnder cacheDir (snd o')) maxBytes
            (sort_key (\<lambda>f. snd (snd f)) files) (totalSize files);
     forgetCachePaths env mm cacheDir (fst x)
   }"

definition evictCacheIfNeeded :: "env \<Rightarrow> MountManager \<Rightarrow> string \<Rightarrow> int \<Rightarrow> ('s rc_scheme, unit) state" where
  "evictCacheIfNeeded env mm cacheDir maxBytes0 = do {
     busy \<leftarrow> hasActiveTransfers env;
     safe \<leftarrow> (if busy then ret False else uploadQueueConfirmedEmpty env mm);
     if \<not> safe then ret ()
     else do {
       ws \<leftarrow> walkDir env cacheDir;
       let files = cachedFiles ws;
       pressed \<leftarrow> cacheFSPressed env;
       let shed = goQuot (wrap64 (totalSize files * 7)) 10;
       let maxBytes = (if pressed \<and> shed < maxBytes0 then shed else maxBytes0);
       if totalSize files \<le> maxBytes then ret ()
       else evictFiles env mm cacheDir maxBytes files
     }
   }"

text \<open>What the monitor goroutine polls with: directory, limit and interval, or \<open>None\<close> when it ends at once.\<close>

definition cacheMonitor :: "MountManager \<Rightarrow> (string \<times> int \<times> int) option" where
  "cacheMonitor mm =
     (if mm_vfsName mm = [] \<or> CacheMaxSize (mm_vfsConfig mm) = [] then None
      else case parseSizeToBytes (CacheMaxSize (mm_vfsConfig mm)) of
        Inl _ \<Rightarrow> None
      | Inr maxBytes \<Rightarrow>
          if maxBytes \<le> 0 then None
          else Some (cacheDataDir (mm_vfsName mm), maxBytes,
            (if CachePollInterval (mm_vfsConfig mm) = [] then minutes 1
             else case parseDurationToNs (CachePollInterval (mm_vfsConfig mm)) of
               Inr ns \<Rightarrow> if ns > 0 then ns else minutes 1 | Inl _ \<Rightarrow> minutes 1)))"

text \<open>One tick of the monitor goroutine; a closed channel ends it.\<close>

definition monitorTick :: "env \<Rightarrow> MountManager \<Rightarrow> ('s rc_scheme, unit) state" where
  "monitorTick env mm = (case cacheMonitor mm of
       None \<Rightarrow> ret ()
     | Some (dir, maxBytes, _) \<Rightarrow> whenS (mm_stopCacheMon mm \<noteq> Some True) (evictCacheIfNeeded env mm dir maxBytes))"

section \<open>The listing warmer\<close>

definition minDirCacheWarmInterval :: int where
  "minDirCacheWarmInterval = minutes 1"

text \<open>\<open>warm\<close> is the floating-point product of a duration with \<^verbatim>\<open>dirCacheWarmRatio\<close>, 0.8, truncated. 0: nothing to keep warm.\<close>

definition dirCacheWarmInterval :: "(int \<Rightarrow> int) \<Rightarrow> MountManager \<Rightarrow> int" where
  "dirCacheWarmInterval warm mm =
     (if DirCacheTime (mm_vfsConfig mm) = [] then max (warm (minutes 60)) minDirCacheWarmInterval
      else case parseDurationToNs (DirCacheTime (mm_vfsConfig mm)) of
        Inl _ \<Rightarrow> 0
      | Inr ns \<Rightarrow> if ns \<le> 0 then 0 else max (warm ns) minDirCacheWarmInterval)"

definition dirCacheWarmer :: "env \<Rightarrow> (int \<Rightarrow> int) \<Rightarrow> MountManager \<Rightarrow> ('s rc_scheme, unit) state" where
  "dirCacheWarmer env warm mm =
     whenS (0 < dirCacheWarmInterval warm mm \<and> mm_stopCacheMon mm \<noteq> Some True) (do {
       m \<leftarrow> IsMounted env mm;
       whenS m (refreshTree env mm)
     })"

end
