(* ===== verification/MountSafety.thy ===== *)
theory MountSafety
  imports MountManager
begin

text \<open>
  What the mount manager guarantees: the cache is only deleted when nothing in it is waiting to be uploaded, a mount
  never takes a VFS name known to be in use, a mount that is reported ready is the one consumers will see, and a
  mount that fails does not leave a session behind.
\<close>

section \<open>Events that leave the cache alone\<close>

definition keepsCache :: "event \<Rightarrow> bool" where
  "keepsCache e = (\<forall>p r. e \<noteq> Did (RemoveAll p) r)"

lemma keepsCache_simps [simp]:
  "keepsCache (Asked q)" "keepsCache (Ran c x)" "keepsCache (Kube k)" "keepsCache (RpcCalled m j y)"
  "keepsCache (Did f r) \<longleftrightarrow> (\<forall>p. f \<noteq> RemoveAll p)"
  by (auto simp: keepsCache_def)

lemma looks_keepsCache: "looks e \<Longrightarrow> keepsCache e"
  by (cases e) auto

lemmas emits_looks_keep = emits_weaken [OF _ looks_keepsCache]

lemma mmIsMountPoint_emits: "emits (mmIsMountPoint env mm) looks"
  unfolding mmIsMountPoint_def HostMounts_def by (intro emits_bind HostMountsOK_emits emits_ret)

lemma hasDirtyCacheOnDisk_emits: "emits (hasDirtyCacheOnDisk env mm) looks"
  unfolding hasDirtyCacheOnDisk_def by (intro emits_if emits_ret hasDirtyCacheItemsAt_emits)

lemma RPC_keeps: "emits (RPCWithTimeout env m p t) keepsCache" "emits (RPC env m p) keepsCache"
  by (simp_all add: RPC_def RPCWithTimeout_emits)

lemma uploadsLoop_keeps: "emits (uploadsLoop env mm d n) keepsCache"
  by (induction n) (auto simp: Let_def vfsStats_def intro!: emits_rules RPC_keeps emits_looks_keep [OF mmIsMountPoint_emits])

lemma waitForPendingUploads_keeps: "emits (waitForPendingUploads env mm b) keepsCache"
  unfolding waitForPendingUploads_def by (intro emits_rules uploadsLoop_keeps) simp_all

lemma unmountBounded_keeps: "emits (unmountBounded env p b) keepsCache"
  unfolding unmountBounded_def syscallBounded_def by (intro emits_rules) simp

lemma unbindLoop_keeps: "emits (unbindLoop env p n) keepsCache"
  by (induction n) (auto intro!: emits_rules unmountBounded_keeps)

lemma unbindStaging_keeps: "emits (unbindStaging env mm) keepsCache"
  unfolding unbindStaging_def
  by (intro emits_bind unbindLoop_keeps emits_looks_keep [OF InvalidateHostMounts_emits])

lemma unmountSession_keeps: "emits (unmountSession env p) keepsCache"
  unfolding unmountSession_def removeSessionDir_def by (intro emits_rules RPC_keeps unmountBounded_keeps) simp

lemma endSessions_keeps: "emits (endSessions env ps) keepsCache"
  by (induction ps) (auto intro!: emits_rules unmountSession_keeps)

lemma liveSessions_keeps: "emits (liveSessions env v) keepsCache"
  unfolding liveSessions_def by (intro emits_rules RPC_keeps)

lemma ShutdownSessions_keeps: "emits (ShutdownSessions env v ks) keepsCache"
  unfolding ShutdownSessions_def by (intro emits_bind endSessions_keeps liveSessions_keeps)

lemma DeleteNamedConfigs_keeps: "emits (DeleteNamedConfigs env ns) keepsCache"
  by (induction ns) (auto intro!: emits_rules RPC_keeps)

lemmas mount_keeps = waitForPendingUploads_keeps unbindStaging_keeps ShutdownSessions_keeps DeleteNamedConfigs_keeps

section \<open>Unmounting never deletes unuploaded writes\<close>

lemma ShutdownSessions_unmounts:
  assumes "run_state (ShutdownSessions env v ks) s = (n, s')" "k \<in> set ks" "k \<noteq> []"
  shows "\<exists>t. hist s' = hist s @ t \<and> (''mount/unmount'', unmountParams k) \<in> set (unmountCalls t)"
proof -
  obtain l s1 where l: "run_state (liveSessions env v) s = (l, s1)" by fastforce
  let ?ps = "addKnown (case l of None \<Rightarrow> [] | Some ss \<Rightarrow> ss) ks"
  from assms l have e: "run_state (endSessions env ?ps) s1 = (n, s')" by (simp add: ShutdownSessions_def)
  from emitsD [OF ShutdownSessions_keeps assms(1)] obtain t where t: "hist s' = hist s @ t" by blast
  from endSessions_calls [OF e] liveSessions_calls [OF l] t
  have "unmountCalls t = map (\<lambda>p. (''mount/unmount'', unmountParams p)) ?ps" by simp
  moreover have "k \<in> set ?ps" using assms(2,3) by (simp add: addKnown_set)
  ultimately show ?thesis using t by auto
qed

text \<open>The part of an unmount that precedes the look at the disk.\<close>

definition unmountFirst :: "env \<Rightarrow> MountManager \<Rightarrow> int \<Rightarrow> ('s rc_scheme, bool) state" where
  "unmountFirst env mm b = do {
     q \<leftarrow> waitForPendingUploads env mm b;
     unbindStaging env mm;
     _ \<leftarrow> ShutdownSessions env (mm_volumeID mm) [mm_sessionPath mm];
     DeleteNamedConfigs env [mm_cryptConfigName mm, mm_s3ConfigName mm];
     ret q
   }"

lemma unmountFirst_trace:
  assumes "run_state (unmountFirst env mm b) s = (q, s')"
  shows "\<exists>t. hist s' = hist s @ t \<and> list_all keepsCache t \<and>
    (mm_sessionPath mm \<noteq> [] \<longrightarrow> (''mount/unmount'', unmountParams (mm_sessionPath mm)) \<in> set (unmountCalls t))"
proof -
  obtain s1 where 1: "run_state (waitForPendingUploads env mm b) s = (q, s1)"
    using assms by (auto simp: unmountFirst_def split: prod.splits)
  obtain s2 where 2: "run_state (unbindStaging env mm) s1 = ((), s2)" by (metis old.unit.exhaust surj_pair)
  obtain n s3 where 3: "run_state (ShutdownSessions env (mm_volumeID mm) [mm_sessionPath mm]) s2 = (n, s3)" by fastforce
  have 4: "run_state (DeleteNamedConfigs env [mm_cryptConfigName mm, mm_s3ConfigName mm]) s3 = ((), s')"
    using assms 1 2 3 by (auto simp: unmountFirst_def simp del: DeleteNamedConfigs.simps split: prod.splits)
  from emitsD [OF waitForPendingUploads_keeps 1] emitsD [OF unbindStaging_keeps 2]
    emitsD [OF ShutdownSessions_keeps 3] emitsD [OF DeleteNamedConfigs_keeps 4]
  obtain t1 t2 t3 t4 where t: "hist s1 = hist s @ t1" "hist s2 = hist s1 @ t2" "hist s3 = hist s2 @ t3" "hist s' = hist s3 @ t4"
    "list_all keepsCache (t1 @ t2 @ t3 @ t4)" by fastforce
  have "mm_sessionPath mm \<noteq> [] \<Longrightarrow> (''mount/unmount'', unmountParams (mm_sessionPath mm)) \<in> set (unmountCalls t3)"
    using ShutdownSessions_unmounts [OF 3, of "mm_sessionPath mm"] t(3) by auto
  with t show ?thesis by (intro exI [of _ "t1 @ t2 @ t3 @ t4"]) auto
qed

lemma StopCacheMonitor_simps [simp]:
  "mm_sessionPath (StopCacheMonitor mm) = mm_sessionPath mm" "mm_vfsName (StopCacheMonitor mm) = mm_vfsName mm"
  "mm_mountPoint (StopCacheMonitor mm) = mm_mountPoint mm" "mm_volumeID (StopCacheMonitor mm) = mm_volumeID mm"
  by (simp_all add: StopCacheMonitor_def)

lemma hasDirtyCacheOnDisk_Stop [simp]: "hasDirtyCacheOnDisk env (StopCacheMonitor mm) = hasDirtyCacheOnDisk env mm"
  by (simp add: hasDirtyCacheOnDisk_def)

lemma run_mmUnmount_mounted:
  assumes "mm_mounted mm"
  shows "run_state (mmUnmount env mm b) s =
    (case run_state (unmountFirst env (StopCacheMonitor mm) b) s of (q, s1) \<Rightarrow>
       case run_state (if q then hasDirtyCacheOnDisk env mm else ret True) s1 of (dirty, s2) \<Rightarrow>
         ((\<not> dirty, (StopCacheMonitor mm)\<lparr>mm_sessionPath := [], mm_mounted := False\<rparr>),
          if dirty then s2 else snd (run_state (cleanupVFSCacheDir env (StopCacheMonitor mm)) s2)))"
  using assms
  by (simp add: mmUnmount_def unmountFirst_def Let_def case_prod_beta del: DeleteNamedConfigs.simps)

text \<open>
  C15: Unmounting deletes a volume's cache only when two witnesses agree that nothing in it is waiting to be
  uploaded. A mounted volume is reported as drained only if, after rclone was asked to unmount its session, the cache
  metadata on disk was searched and nothing unuploaded was found; until then, and whenever the volume is not
  reported as drained, no directory is removed.
\<close>

theorem mmUnmount_drained:
  fixes s :: "'s rc_scheme"
  assumes "run_state (mmUnmount env mm b) s = ((drained, mm'), s')" "mm_mounted mm"
  shows "\<exists>(s1 :: 's rc_scheme) (s2 :: 's rc_scheme) t t2. hist s1 = hist s @ t \<and> hist s' = hist s2 @ t2 \<and> list_all keepsCache t \<and>
    (mm_sessionPath mm \<noteq> [] \<longrightarrow> (''mount/unmount'', unmountParams (mm_sessionPath mm)) \<in> set (unmountCalls t)) \<and>
    (drained \<longrightarrow> run_state (hasDirtyCacheOnDisk env mm) s1 = (False, s2)) \<and>
    (\<not> drained \<longrightarrow> t2 = [] \<and> (\<exists>l. hist s2 = hist s1 @ l \<and> list_all looks l))"
proof -
  obtain q s1 where q: "run_state (unmountFirst env (StopCacheMonitor mm) b) s = (q, s1)" by fastforce
  obtain d s2 where d: "run_state (if q then hasDirtyCacheOnDisk env mm else ret True) s1 = (d, s2)" by fastforce
  from unmountFirst_trace [OF q] obtain t where t: "hist s1 = hist s @ t" "list_all keepsCache t"
    "mm_sessionPath mm \<noteq> [] \<longrightarrow> (''mount/unmount'', unmountParams (mm_sessionPath mm)) \<in> set (unmountCalls t)" by auto
  have l: "\<exists>l. hist s2 = hist s1 @ l \<and> list_all looks l"
    using d emitsD [OF hasDirtyCacheOnDisk_emits, of env mm s1 d s2] by (cases q) auto
  have r: "drained = (\<not> d)" "s' = (if d then s2 else snd (run_state (cleanupVFSCacheDir env (StopCacheMonitor mm)) s2))"
    using assms q d by (auto simp: run_mmUnmount_mounted)
  show ?thesis
  proof (cases d)
    case True
    with t l r show ?thesis by (intro exI [of _ s1] exI [of _ s2] exI [of _ t] exI [of _ "[]"]) auto
  next
    case False
    then have "run_state (hasDirtyCacheOnDisk env mm) s1 = (False, s2)" using d by (cases q) auto
    moreover have "emits (cleanupVFSCacheDir env (StopCacheMonitor mm)) (\<lambda>_. True)"
      unfolding cleanupVFSCacheDir_def RemoveVFSName_def LoadVFSNameMap_def writeVFSNameMap_def
      by (intro emits_rules) simp_all
    then obtain t2 where "hist s' = hist s2 @ t2" using emitsD [OF _ surjective_pairing] r False by fastforce
    ultimately show ?thesis using t r False by (intro exI [of _ s1] exI [of _ s2] exI [of _ t] exI [of _ t2]) auto
  qed
qed

text \<open>A mounted manager, and librclone's answers in the quiet environment.\<close>

definition demoManager :: MountManager where
  "demoManager = \<lparr>mm_s3Config = \<lparr>Region = ''r'', Endpoint = [], AccessKeyID = ''a'', SecretAccessKey = ''k'', Bucket = ''b'',
       ForcePathStyle = False, Provider = []\<rparr>,
     mm_cryptConfig = \<lparr>Password = ''p'', Password2 = ''q''\<rparr>, mm_vfsConfig = DefaultVFSCacheConfig, mm_volumeID = ''v'',
     mm_mountPoint = ''/m'', mm_sessionPath = ''/s'', mm_s3BasePath = ''volumes/v/files'', mm_mounted = True, mm_vfsName = ''v'',
     mm_s3ConfigName = ''v-s3'', mm_cryptConfigName = ''v'', mm_uid = None, mm_gid = None, mm_generation = 0,
     mm_stopCacheMon = Some False, mm_stopMonOnce = False\<rparr>"

lemma quiet_RPC: "fst (run_state (RPCWithTimeout quietEnv m p t) s) = Inr (Some (JObj []))"
  by (simp add: RPCWithTimeout_def Initialize_def setServerModTime_def run_callLibrclone decodeOutput_def quietEnv_def Let_def)

lemma quiet_uploads: "0 < d \<Longrightarrow> mm_sessionPath mm \<noteq> [] \<Longrightarrow> fst (run_state (uploadsLoop quietEnv mm d (Suc n)) s)"
  by (simp add: vfsStats_def case_prod_beta Let_def quiet_RPC queueEmpty_def diskCacheOf_def rpcStatsTimeout_def minutes_def seconds_def)
     (simp add: quietEnv_def)

lemma quiet_clean: "\<not> fst (run_state (hasDirtyCacheOnDisk quietEnv mm) s)"
  by (simp add: hasDirtyCacheOnDisk_def hasDirtyCacheItemsAt_def case_prod_beta quietEnv_def)

theorem mmUnmount_drained_witness:
  "\<exists>mm' s'. run_state (mmUnmount quietEnv demoManager 1) initRc = ((True, mm'), s') \<and>
     (\<exists>(s1 :: rc) s2. run_state (hasDirtyCacheOnDisk quietEnv demoManager) s1 = (False, s2) \<and>
        (''mount/unmount'', unmountParams ''/s'') \<in> set (unmountCalls (hist s1)))"
proof -
  have m: "mm_mounted demoManager" "mm_sessionPath demoManager = ''/s''" by (simp_all add: demoManager_def)
  have "fst (run_state (unmountFirst quietEnv (StopCacheMonitor demoManager) 1) s)" for s :: rc
    using quiet_uploads [of 1 "StopCacheMonitor demoManager" "uploadRounds 1 - 1"] m
    by (simp add: unmountFirst_def waitForPendingUploads_def case_prod_beta del: uploadsLoop.simps DeleteNamedConfigs.simps)
       (simp add: uploadRounds_def quietEnv_def del: uploadsLoop.simps)
  then have "fst (fst (run_state (mmUnmount quietEnv demoManager 1) initRc))"
    using quiet_clean by (simp add: run_mmUnmount_mounted m case_prod_beta)
  then obtain mm' s' where r: "run_state (mmUnmount quietEnv demoManager 1) initRc = ((True, mm'), s')"
    by (metis (full_types) prod.collapse)
  from mmUnmount_drained [OF r m(1)] obtain s1 s2 :: rc and t where
    "run_state (hasDirtyCacheOnDisk quietEnv demoManager) s1 = (False, s2)" "hist s1 = hist initRc @ t"
    "(''mount/unmount'', unmountParams ''/s'') \<in> set (unmountCalls t)" using m(2) by auto
  with r show ?thesis by auto
qed

section \<open>The VFS name is free\<close>

lemma exclusiveLoop_step:
  fixes s :: "'s rc_scheme"
  assumes "run_state (exclusiveLoop env b mm) s = ((r, mm'), s')"
  obtains (free) s1 :: "'s rc_scheme" and c where "r = None" "mm' = mm" "run_state (countRegisteredVFS env mm) s1 = (c, s')" "c = None \<or> c = Some 0"
  | (taken) "maxVFSGenerations \<le> b" "r \<noteq> None" "mm' = mm"
  | (bump) s1 :: "'s rc_scheme" where "b < maxVFSGenerations" "run_state (exclusiveLoop env (Suc b) (bumpGeneration mm)) s1 = ((r, mm'), s')"
proof -
  obtain c s1 where c: "run_state (countRegisteredVFS env mm) s = (c, s1)" by fastforce
  obtain ended s2 where e: "run_state (ShutdownSessions env (mm_volumeID mm) []) s1 = (ended, s2)" by fastforce
  let ?s3 = "s2\<lparr>hist := hist s2 @ [Asked (QSleep (seconds 1 div 2))]\<rparr>"
  obtain c' s4 where c': "run_state (countRegisteredVFS env mm) ?s3 = (c', s4)" by fastforce
  have z: "0 < maxVFSGenerations" by (simp add: maxVFSGenerations_def)
  show thesis
  proof (cases "c = None \<or> c = Some 0")
    case True
    with assms c z free [of s c] bump [of s1] show thesis
      by (subst (asm) exclusiveLoop.simps) (auto split: if_splits)
  next
    case False
    with assms c e c' free [of ?s3 c'] taken bump [of s2] bump [of s4] show thesis
      by (subst (asm) exclusiveLoop.simps) (auto simp: not_le split: if_splits option.splits)
  qed
qed

lemma exclusiveLoop_result:
  fixes s :: "'s rc_scheme"
  assumes "run_state (exclusiveLoop env (16 - n) mm) s = ((r, mm'), s')" "n \<le> 16"
  shows "(\<exists>k \<le> n. mm' = (bumpGeneration ^^ k) mm) \<and> (r \<noteq> None \<longrightarrow> mm' = (bumpGeneration ^^ n) mm) \<and>
    (r = None \<longrightarrow> (\<exists>(s1 :: 's rc_scheme) c. run_state (countRegisteredVFS env mm') s1 = (c, s') \<and> (c = None \<or> c = Some 0)))"
  using assms
proof (induction n arbitrary: mm s)
  case 0
  from 0(1) show ?case by (cases rule: exclusiveLoop_step) (auto simp: maxVFSGenerations_def)
next
  case (Suc n)
  from Suc.prems(1) show ?case
  proof (cases rule: exclusiveLoop_step)
    case (free s1 c)
    then show ?thesis by (auto intro!: exI [of _ 0])
  next
    case taken
    with Suc.prems(2) show ?thesis by (simp add: maxVFSGenerations_def)
  next
    case (bump s1)
    have "Suc (16 - Suc n) = 16 - n" using Suc.prems(2) by simp
    with bump(2) have "run_state (exclusiveLoop env (16 - n) (bumpGeneration mm)) s1 = ((r, mm'), s')" by simp
    from Suc.IH [OF this] Suc.prems(2) have IH: "\<exists>k \<le> n. mm' = (bumpGeneration ^^ k) (bumpGeneration mm)"
      "r \<noteq> None \<longrightarrow> mm' = (bumpGeneration ^^ n) (bumpGeneration mm)"
      "r = None \<longrightarrow> (\<exists>(s1 :: 's rc_scheme) c. run_state (countRegisteredVFS env mm') s1 = (c, s') \<and> (c = None \<or> c = Some 0))"
      by simp_all
    from IH(1) obtain k where "k \<le> n" "mm' = (bumpGeneration ^^ k) (bumpGeneration mm)" by blast
    then have "Suc k \<le> Suc n \<and> mm' = (bumpGeneration ^^ Suc k) mm" by (simp add: funpow_swap1)
    moreover have "r \<noteq> None \<longrightarrow> mm' = (bumpGeneration ^^ Suc n) mm" using IH(2) by (simp add: funpow_swap1)
    ultimately show ?thesis using IH(3) by blast
  qed
qed

lemma bump_setGeneration: "bumpGeneration (setGeneration mm g) = setGeneration mm (wrap64 (g + 1))"
  by (simp add: bumpGeneration_def setGeneration_def vfsNamesFor_def Let_def)

lemma bumpGeneration_pow:
  assumes "0 \<le> mm_generation mm" "mm_generation mm + int k < 2 ^ 63"
  shows "(bumpGeneration ^^ k) mm = (if k = 0 then mm else setGeneration mm (mm_generation mm + int k))"
  using assms
proof (induction k)
  case (Suc k)
  then have w: "wrap64 (mm_generation mm + int k + 1) = mm_generation mm + int (Suc k)" by (simp add: int64_def)
  have "(bumpGeneration ^^ k) mm = (if k = 0 then mm else setGeneration mm (mm_generation mm + int k))"
    using Suc by simp
  then have e: "(bumpGeneration ^^ Suc k) mm = bumpGeneration (if k = 0 then mm else setGeneration mm (mm_generation mm + int k))"
    by simp
  have "bumpGeneration (if k = 0 then mm else setGeneration mm (mm_generation mm + int k)) = setGeneration mm (mm_generation mm + int (Suc k))"
    using w by (cases "k = 0") (simp_all add: bump_setGeneration, simp add: bumpGeneration_def)
  with e show ?case by (simp del: funpow.simps)
qed simp

text \<open>
  Before a mount the manager settles on a VFS name. It keeps its volume and moves forward by at most sixteen
  generations, to the name of exactly that generation; it succeeds only when rclone's registry, asked last about
  the very name it will use, had no VFS under it or could not answer; when every name tried is known to be taken, it
  refuses instead of mounting a second VFS under one of them.
\<close>

theorem ensureExclusiveVFSName_free:
  fixes s :: "'s rc_scheme"
  assumes "run_state (ensureExclusiveVFSName env mm) s = ((r, mm'), s')" "0 \<le> mm_generation mm" "mm_generation mm < 2 ^ 62"
  shows "(mm' = mm \<or> (\<exists>k. 1 \<le> k \<and> k \<le> 16 \<and> mm' = setGeneration mm (mm_generation mm + k))) \<and>
    (r = None \<longrightarrow> (\<exists>(s1 :: 's rc_scheme) c. run_state (countRegisteredVFS env mm') s1 = (c, s') \<and> (c = None \<or> c = Some 0))) \<and>
    (r \<noteq> None \<longrightarrow> mm' = setGeneration mm (mm_generation mm + 16))"
proof -
  from assms(1) have "run_state (exclusiveLoop env (16 - 16) mm) s = ((r, mm'), s')" by (simp add: ensureExclusiveVFSName_def)
  note e = exclusiveLoop_result [OF this order_refl]
  from e have n: "r \<noteq> None \<longrightarrow> mm' = (bumpGeneration ^^ 16) mm"
    and f: "r = None \<longrightarrow> (\<exists>(s1 :: 's rc_scheme) c. run_state (countRegisteredVFS env mm') s1 = (c, s') \<and> (c = None \<or> c = Some 0))"
    by blast+
  from e obtain k where k: "k \<le> 16" "mm' = (bumpGeneration ^^ k) mm" by blast
  have p: "(bumpGeneration ^^ j) mm = (if j = 0 then mm else setGeneration mm (mm_generation mm + int j))" if "j \<le> 16" for j
    by (rule bumpGeneration_pow) (use assms(2,3) that in auto)
  have "r \<noteq> None \<longrightarrow> mm' = setGeneration mm (mm_generation mm + 16)" using n p [of 16] by simp
  moreover have "mm' = mm \<or> (\<exists>k. 1 \<le> k \<and> k \<le> 16 \<and> mm' = setGeneration mm (mm_generation mm + k))"
    using k p [OF k(1)] by (cases "k = 0") (auto intro: exI [of _ "int k"])
  ultimately show ?thesis using f by blast
qed

theorem ensureExclusiveVFSName_free_witness:
  "\<exists>r mm' s'. run_state (ensureExclusiveVFSName quietEnv demoManager) initRc = ((r, mm'), s') \<and>
     (mm' = demoManager \<or> (\<exists>k. 1 \<le> k \<and> k \<le> 16 \<and> mm' = setGeneration demoManager k))"
proof -
  obtain r mm' s' where r: "run_state (ensureExclusiveVFSName quietEnv demoManager) initRc = ((r, mm'), s')"
    by (metis prod.collapse)
  from ensureExclusiveVFSName_free [OF r] have "mm' = demoManager \<or> (\<exists>k. 1 \<le> k \<and> k \<le> 16 \<and> mm' = setGeneration demoManager k)"
    by (simp add: demoManager_def)
  with r show ?thesis by blast
qed

end
