(* ===== verification/MountReady.thy ===== *)
theory MountReady
  imports MountSafety Cluster
begin

text \<open>
  A mount that succeeds is the one consumers resolve, and a mount that fails leaves no session behind.
\<close>

section \<open>A successful mount is visible to consumers\<close>

text \<open>
  \<open>resolves env mm dev s s'\<close>: in state \<open>s\<close> a trusted host mount table shows, topmost at the staging path, a FUSE mount of
  device \<open>dev\<close>, and a listing of that path, the last request before \<open>s'\<close>, was answered.
\<close>

definition resolves :: "env \<Rightarrow> MountManager \<Rightarrow> string \<Rightarrow> 's mnt_scheme \<Rightarrow> 's mnt_scheme \<Rightarrow> bool" where
  "resolves env mm dev s s' = (\<exists>stacks s1. run_state (HostMountStacksOK env) s = (Some stacks, s1) \<and>
     stackOf stacks (mm_mountPoint mm) \<noteq> [] \<and> containsStr (mt_FSType (last (stackOf stacks (mm_mountPoint mm)))) ''fuse'' \<and>
     mt_Dev (last (stackOf stacks (mm_mountPoint mm))) = dev \<and>
     snd (readDirRawOf env (hist s1) (mm_mountPoint mm) 1) = None \<and> s' = s1\<lparr>hist := hist s1 @ [Asked (QReadDirRaw (mm_mountPoint mm) 1)]\<rparr>)"

lemma mountUsable_None:
  "run_state (mountUsable env mm dev) s = (None, s') \<Longrightarrow> resolves env mm dev s s'"
  by (auto simp: mountUsable_def resolves_def readDirBounded_def Let_def split: prod.splits option.splits if_splits sum.splits)

lemma exposeLoop_None:
  "run_state (exposeLoop env mm dev d n) s = (None, s') \<Longrightarrow> \<exists>s1. resolves env mm dev s1 s'"
  by (induction n arbitrary: s) (auto dest: mountUsable_None split: if_splits prod.splits)

lemma expose_None: "run_state (expose env mm dev d) s = (None, s') \<Longrightarrow> \<exists>s1. resolves env mm dev s1 s'"
  by (auto simp: expose_def dest: exposeLoop_None split: prod.splits option.splits)

lemma readyLoop_None:
  fixes s :: "'s mnt_scheme"
  shows "run_state (readyLoop env mm d n) s = (None, s') \<Longrightarrow>
   \<exists>dev (s0 :: 's mnt_scheme) s0' s1. run_state (mountedDevice env (mm_sessionPath mm)) s0 = (Inr (dev, True), s0') \<and> resolves env mm dev s1 s'"
proof (induction n arbitrary: s)
  case (Suc n)
  let ?s1 = "s\<lparr>hist := hist s @ [Asked QNow]\<rparr>"
  obtain x s2 where x: "run_state (mountedDevice env (mm_sessionPath mm)) ?s1 = (x, s2)" by fastforce
  show ?case
  proof (cases "\<exists>dev. x = Inr (dev, True)")
    case True
    then obtain dev where dev: "x = Inr (dev, True)" by blast
    with Suc.prems x have "run_state (expose env mm dev d) s2 = (None, s')" by (auto split: if_splits)
    from expose_None [OF this] x dev show ?thesis by blast
  next
    case False
    with Suc.prems x have "run_state (readyLoop env mm d n) (s2\<lparr>hist := hist s2 @ [Asked (QSleep (seconds 1 div 2))]\<rparr>) = (None, s')"
      by (auto split: if_splits sum.splits prod.splits bool.splits)
    from Suc.IH [OF this] show ?thesis .
  qed
qed simp

lemma waitForMountReady_None:
  fixes s :: "'s mnt_scheme"
  assumes "run_state (waitForMountReady env mm) s = (None, s')"
  shows "\<exists>dev (s0 :: 's mnt_scheme) s0' s1. run_state (mountedDevice env (mm_sessionPath mm)) s0 = (Inr (dev, True), s0') \<and> resolves env mm dev s1 s'"
  using assms readyLoop_None [of env mm "now env (hist s) + mountReadyTimeout" readyRounds _ s']
  by (auto simp: waitForMountReady_def)

lemma newSessionLoop_made:
  "run_state (newSessionLoop env p v n) s = (Inr d, s') \<Longrightarrow> Did (Mkdir d) None \<in> set (hist s')"
  by (induction n arbitrary: s) (auto simp: Let_def split: option.splits if_splits)

lemma newSessionDir_made: "run_state (newSessionDir env v n) s = (Inr d, s') \<Longrightarrow> Did (Mkdir d) None \<in> set (hist s')"
  by (auto simp: newSessionDir_def Let_def dest: newSessionLoop_made split: prod.splits option.splits)

lemma mountSession_None:
  fixes s :: "'s rc_scheme"
  assumes "run_state (mountSession env mm session) s = ((None, mm'), s')"
  shows "mm' = mm\<lparr>mm_sessionPath := session, mm_mounted := True, mm_stopCacheMon := Some False\<rparr> \<and>
    (\<exists>(s1 :: 's rc_scheme) s2. run_state (waitForMountReady env (mm\<lparr>mm_sessionPath := session\<rparr>)) s1 = (None, s2))"
  using assms
  by (auto simp: mountSession_def finishMount_def case_prod_beta prod_eq_iff
      simp del: DeleteNamedConfigs.simps split: option.splits sum.splits if_splits prod.splits)

text \<open>Histories only grow.\<close>

abbreviation grows :: "('s os_scheme, 'a) state \<Rightarrow> bool" where
  "grows m \<equiv> emits m (\<lambda>_. True)"

lemma growsI: "emits m P \<Longrightarrow> grows m"
  by (erule emits_weaken) simp

lemma grows_rpc: "grows (RPCWithTimeout env m p t)" "grows (RPC env m p)"
  by (rule growsI [OF RPC_keeps(1)], rule growsI [OF RPC_keeps(2)])

lemma grows_configs:
  "grows (CreateNamedS3Config env n c)" "grows (CreateNamedCryptConfig env n r cc)" "grows (DeleteNamedConfigs env ns)"
  "grows (buildVFSOpt vc)"
  unfolding CreateNamedS3Config_def CreateNamedCryptConfig_def buildVFSOpt_def
  by (intro emits_rules grows_rpc, intro emits_rules grows_rpc, rule growsI [OF DeleteNamedConfigs_keeps])
     (intro emits_rules emits_modS, simp)

lemma cloexecAll_grows: "grows (cloexecAll env es)"
  by (induction es) (auto intro!: emits_rules split: sum.splits option.splits)

lemma mountUsable_emits: "emits (mountUsable env mm dev) looks"
  unfolding mountUsable_def HostMountStacksOK_def readDirBounded_def Let_def
  by (intro emits_rules hostMountStacksOK_emits) simp

lemma exposeLoop_grows: "grows (exposeLoop env mm dev d n)"
  by (induction n) (auto intro!: emits_rules growsI [OF mountUsable_emits] growsI [OF InvalidateHostMounts_emits])

lemma expose_grows: "grows (expose env mm dev d)"
  unfolding expose_def bindBounded_def syscallBounded_def by (intro emits_rules exposeLoop_grows) simp

lemma mountedDevice_emits: "emits (mountedDevice env p) looks"
  unfolding mountedDevice_def by (intro emits_rules) simp_all

lemma readyLoop_grows: "grows (readyLoop env mm d n)"
  by (induction n)
     (auto intro!: emits_rules growsI [OF mountedDevice_emits] expose_grows split: sum.splits prod.splits bool.splits)

lemma waitForMountReady_grows: "grows (waitForMountReady env mm)"
  unfolding waitForMountReady_def by (intro emits_rules readyLoop_grows) simp

lemma grows_steps:
  "grows (setFuseFdsCloexec env)" "grows (SaveVFSName env v n)" "grows (warnOnDuplicateVFS env mm)"
  "grows (unbindStaging env mm)" "grows (unmountSession env p)" "grows (removeSessionDir env p)"
  "grows (hasStaleVFSCache env mm)" "grows (refreshVFS env mm)"
  subgoal unfolding setFuseFdsCloexec_def by (intro emits_rules cloexecAll_grows) simp
  subgoal unfolding SaveVFSName_def LoadVFSNameMap_def writeVFSNameMap_def by (intro emits_rules) simp_all
  subgoal unfolding warnOnDuplicateVFS_def by (intro emits_rules grows_rpc)
  subgoal by (rule growsI [OF unbindStaging_keeps])
  subgoal by (rule growsI [OF unmountSession_keeps])
  subgoal unfolding removeSessionDir_def by (intro emits_rules) simp
  subgoal unfolding hasStaleVFSCache_def by (intro emits_rules) simp_all
  subgoal unfolding refreshVFS_def refreshTree_def by (intro emits_rules grows_rpc)
  done

lemma mountSession_grows: "grows (mountSession env mm session)"
  unfolding mountSession_def finishMount_def
  by (intro emits_rules grows_rpc grows_configs grows_steps waitForMountReady_grows)

text \<open>What a mount keeps of its manager.\<close>

lemma setGeneration_keeps [simp]:
  "mm_mountPoint (setGeneration mm g) = mm_mountPoint mm" "mm_volumeID (setGeneration mm g) = mm_volumeID mm"
  "mm_mounted (setGeneration mm g) = mm_mounted mm"
  by (simp_all add: setGeneration_def split: prod.splits)

text \<open>\<open>named\<close>: the three names of the manager are those of its volume and generation.\<close>

definition named :: "MountManager \<Rightarrow> bool" where
  "named mm = (setGeneration mm (mm_generation mm) = mm)"

lemma named_setGeneration [simp]: "named (setGeneration mm g)"
  by (simp add: named_def setGeneration_def split: prod.splits)

lemma named_update [simp]:
  "named (mm\<lparr>mm_sessionPath := p, mm_mounted := b\<rparr>) = named mm"
  "named (mm\<lparr>mm_sessionPath := p, mm_mounted := b, mm_stopCacheMon := c\<rparr>) = named mm"
  "named (mm\<lparr>mm_stopCacheMon := c, mm_stopMonOnce := d\<rparr>) = named mm"
  by (cases mm; simp add: named_def setGeneration_def split: prod.splits)+

lemma named_StopCacheMonitor [simp]: "named (StopCacheMonitor mm) = named mm"
  by (cases mm) (auto simp: StopCacheMonitor_def named_def setGeneration_def split: prod.splits option.splits)

lemma named_bump [simp]: "named mm \<Longrightarrow> named ((bumpGeneration ^^ k) mm)"
  by (induction k) (simp_all add: bumpGeneration_def)

lemma bump_keeps [simp]:
  "mm_mountPoint ((bumpGeneration ^^ k) mm) = mm_mountPoint mm" "mm_volumeID ((bumpGeneration ^^ k) mm) = mm_volumeID mm"
  by (induction k) (simp_all add: bumpGeneration_def)

lemma ensureExclusiveVFSName_keeps:
  "run_state (ensureExclusiveVFSName env mm) s = ((r, mm'), s') \<Longrightarrow> mm_mountPoint mm' = mm_mountPoint mm \<and> mm_volumeID mm' = mm_volumeID mm \<and>
     (named mm \<longrightarrow> named mm')"
  using exclusiveLoop_result [of env 16 mm s r mm' s'] by (auto simp: ensureExclusiveVFSName_def)

lemma mmUnmount_fields:
  "run_state (mmUnmount env mm b) s = ((d, mm'), s') \<Longrightarrow> mm_mountPoint mm' = mm_mountPoint mm \<and> mm_volumeID mm' = mm_volumeID mm \<and>
     (named mm \<longrightarrow> named mm')"
  by (auto simp: mmUnmount_def Let_def case_prod_beta prod_eq_iff simp del: DeleteNamedConfigs.simps split: if_splits)

lemma Mount_stages:
  fixes s :: "'s rc_scheme"
  assumes "run_state (Mount env mm) s = ((None, mm'), s')" "\<not> mm_mounted mm"
  shows "\<exists>mm2 session (s1 :: 's rc_scheme) s2. mm_mountPoint mm2 = mm_mountPoint mm \<and> mm_volumeID mm2 = mm_volumeID mm \<and> (named mm \<longrightarrow> named mm2) \<and>
    run_state (newSessionDir env (mm_volumeID mm2) (mm_vfsName mm2)) s1 = (Inr session, s2) \<and>
    run_state (mountSession env mm2 session) s2 = ((None, mm'), s')"
proof -
  obtain st sa where st: "run_state (mmIsMountPoint env mm) s = (st, sa)" by fastforce
  obtain mm1 sb where 1: "run_state (if st then do { r \<leftarrow> mmUnmount env mm ShortDrainWait; ret (snd r) } else ret mm) sa = (mm1, sb)"
    by fastforce
  have k1: "mm_mountPoint mm1 = mm_mountPoint mm" "mm_volumeID mm1 = mm_volumeID mm" "named mm \<longrightarrow> named mm1"
    using 1 mmUnmount_fields [of env mm ShortDrainWait sa] by (auto split: if_splits prod.splits)
  obtain r mm2 sc where 2: "run_state (ensureExclusiveVFSName env mm1) sb = ((r, mm2), sc)" by (metis prod.collapse)
  note k2 = ensureExclusiveVFSName_keeps [OF 2]
  from assms st 1 2 have r: "r = None" "run_state (do {
      ValidateVFSCache env (mm_vfsName mm2);
      k \<leftarrow> mkdirAllBounded env (mm_mountPoint mm2);
      (case k of Some e \<Rightarrow> ret (Some (WrapW ''create mount point'' e), mm2)
       | None \<Rightarrow> do {
           SweepDeadSessions env (mm_volumeID mm2);
           d \<leftarrow> newSessionDir env (mm_volumeID mm2) (mm_vfsName mm2);
           (case d of Inl e \<Rightarrow> ret (Some (WrapW ''create session mountpoint'' e), mm2)
            | Inr session \<Rightarrow> mountSession env mm2 session) }) }) sc = ((None, mm'), s')"
    by (auto simp: Mount_def IsMounted_def split: option.splits)
  from r(2) obtain session s1 s2 where "run_state (newSessionDir env (mm_volumeID mm2) (mm_vfsName mm2)) s1 = (Inr session, s2)"
    "run_state (mountSession env mm2 session) s2 = ((None, mm'), s')"
    by (auto split: prod.splits option.splits sum.splits)
  with k1 k2 show ?thesis by (intro exI [of _ mm2] exI [of _ session] exI [of _ s1] exI [of _ s2]) auto
qed


lemma Mount_manager:
  fixes s :: "'s rc_scheme"
  assumes "run_state (Mount env mm) s = ((None, mm'), s')" "\<not> mm_mounted mm" "named mm"
  shows "mm_volumeID mm' = mm_volumeID mm \<and> mm_mounted mm' \<and> mm_stopCacheMon mm' = Some False \<and> named mm'"
  using Mount_stages [OF assms(1,2)] assms(3) by (auto dest!: mountSession_None)

section \<open>A mount that succeeds\<close>

text \<open>
  A node for the witness: the host shows the session at the staging path once it has been bound there. The mount-table reader is
  never left in flight, which every step of a mount keeps.
\<close>

definition readyEnv :: env where
  "readyEnv = quietEnv\<lparr>
     stat := \<lambda>_ p. Inr \<lparr>fi_size = 0, fi_isdir = True, fi_dev = (if p = ''/var/lib/lukscrypt-cache/sessions/v/v.g1@0'' then ''0:9'' else ''8:1'')\<rparr>,
     readFile := \<lambda>h p. if p \<noteq> hostMountInfo then Inl ENOENT
       else if BindMount ''/var/lib/lukscrypt-cache/sessions/v/v.g1@0'' ''/m'' \<in> set (doneOps h)
       then Inr ''1 2 0:9 / /m rw - fuse.rclone v: rw'' else Inr [],
     openDir := \<lambda>_ _. None,
     listPVs := \<lambda>_. Inr [s3PV], getSC := \<lambda>_ _. Inr (\<lambda>_. Some ''x''), getSecret := \<lambda>_ _ _. Inr (\<lambda>_. Some ''x'')\<rparr>"

definition idleManager :: MountManager where
  "idleManager = demoManager\<lparr>mm_mounted := False, mm_sessionPath := []\<rparr>"

definition settled :: "'s mnt_scheme \<Rightarrow> bool" where
  "settled s = (\<not> mountsInFlight s)"

lemma settled_hist [simp]: "settled (s\<lparr>hist := h\<rparr>) = settled s"
  by (simp add: settled_def)

lemma settled_host [intro]:
  "keeps settled (fsCall env f)" "keeps settled (osStat env p)" "keeps settled (osReadFile env p)" "keeps settled (osReadDir env p)"
  "keeps settled (walkDir env p)" "keeps settled (timeNow env)" "keeps settled (sleep env d)" "keeps settled (osReadLink env p)"
  by (simp_all add: keepsI)

lemmas keeps_rules = keeps_ret keeps_gets keeps_bind keeps_whenS keeps_if keeps_case_sum keeps_case_option keeps_case_prod
  keeps_callE keeps_checkE keeps_orFail

lemma settled_rpc [intro]: "keeps settled (RPCWithTimeout env m p t)"
proof -
  have "keeps settled (callLibrclone env m p t)" for m p t
    by (rule keepsI) (simp add: run_callLibrclone Let_def settled_def split: rpcreply.splits)
  then show ?thesis unfolding RPCWithTimeout_def Initialize_def setServerModTime_def
    by (auto intro!: keeps_modS keeps_bind keeps_if keeps_callE simp: settled_def)
qed

lemma settled_steps [intro]:
  "keeps settled (liveSessions env v)" "keeps settled (SweepDeadSessions env v)" "keeps settled (ValidateVFSCache env n)"
  "keeps settled (mkdirAllBounded env p)" "keeps settled (newSessionDir env v n)" "keeps settled (RPC env m j)"
  "keeps settled (setFuseFdsCloexec env)" "keeps settled (SaveVFSName env v n)"
proof -
  show l: "keeps settled (liveSessions env v)" unfolding liveSessions_def by blast
  have u: "keeps settled (unmountBounded env p b)" for p b unfolding unmountBounded_def syscallBounded_def by blast
  have "keeps settled (sweepSessions env p live es)" for p live es
    by (induction es) (auto simp: removeSessionDir_def Let_def intro!: u keeps_bind keeps_whenS settled_host)
  then show "keeps settled (SweepDeadSessions env v)" unfolding SweepDeadSessions_def Let_def using l by blast
  have q: "keeps settled (quarantineCacheItem env b n r m d)" for env b n r m d
    unfolding quarantineCacheItem_def isCacheItemDirty_def Let_def by blast
  have i: "keeps settled (isCacheItemDirty env m)" for env m unfolding isCacheItemDirty_def by blast
  have c: "keeps settled (corruptReason env m d)" for env m d unfolding corruptReason_def Let_def by blast
  have "keeps settled (validateItems env b n ws)" for b ws
    by (induction ws rule: validateItems.induct) (auto simp: Let_def intro!: keeps_bind keeps_if settled_host q c i)
  then show "keeps settled (ValidateVFSCache env n)" unfolding ValidateVFSCache_def validateVFSCacheAt_def Let_def by blast
  show "keeps settled (mkdirAllBounded env p)" unfolding mkdirAllBounded_def by blast
  have "keeps settled (newSessionLoop env p v n)" for p v n
    by (induction n) (auto simp: Let_def intro!: keeps_rules settled_host)
  then show "keeps settled (newSessionDir env v n)" unfolding newSessionDir_def mkdirAllBounded_def Let_def by blast
  show "keeps settled (RPC env m j)" unfolding RPC_def by blast
  have "keeps settled (cloexecAll env es)" for es
    by (induction es) (auto intro!: keeps_rules settled_host split: sum.splits option.splits)
  then show "keeps settled (setFuseFdsCloexec env)" unfolding setFuseFdsCloexec_def by blast
  show "keeps settled (SaveVFSName env v n)" unfolding SaveVFSName_def LoadVFSNameMap_def writeVFSNameMap_def by blast
qed

lemma ready_RPC: "fst (run_state (RPCWithTimeout readyEnv m p t) s) = Inr (Some (JObj []))"
  by (simp add: RPCWithTimeout_def Initialize_def setServerModTime_def run_callLibrclone decodeOutput_def readyEnv_def quietEnv_def Let_def)

lemma ready_table:
  assumes "settled s" "BindMount ''/var/lib/lukscrypt-cache/sessions/v/v.g1@0'' ''/m'' \<in> set (doneOps (hist s))"
  shows "\<exists>st. fst (run_state (hostMountStacksOK readyEnv) (snd (run_state (InvalidateHostMounts readyEnv) s))) = Some st \<and>
    stackOf st ''/m'' = [\<lparr>mt_Dev = ''0:9'', mt_FSType = ''fuse.rclone''\<rparr>]"
proof -
  have "stackOf (parseMountStacks ''1 2 0:9 / /m rw - fuse.rclone v: rw'') ''/m'' = [\<lparr>mt_Dev = ''0:9'', mt_FSType = ''fuse.rclone''\<rparr>]"
    by code_simp
  then show ?thesis
    using assms by (auto simp: hostMountStacksOK_def InvalidateHostMounts_def lateRead_def settled_def readHostMounts_def
        readyEnv_def quietEnv_def cachedMountsLocked_def mountsCacheTTL_def youngerThan_def seconds_def finishRead_def)
qed

abbreviation readySession :: string where
  "readySession \<equiv> ''/var/lib/lukscrypt-cache/sessions/v/v.g1@0''"

lemma ready_waits:
  assumes "settled s" "mm_mountPoint mm = ''/m''" "mm_sessionPath mm = readySession"
  shows "fst (run_state (waitForMountReady readyEnv mm) s) = None"
proof -
  let ?s1 = "s\<lparr>hist := hist s @ [Asked QNow, Asked QNow, Asked (QStat readySession), Asked (QStat (pathDir readySession)),
     Did (BindMount readySession ''/m'') None, Asked QNow]\<rparr>"
  let ?i = "snd (run_state (InvalidateHostMounts readyEnv) ?s1)"
  obtain st where st: "fst (run_state (hostMountStacksOK readyEnv) ?i) = Some st"
    "stackOf st ''/m'' = [\<lparr>mt_Dev = ''0:9'', mt_FSType = ''fuse.rclone''\<rparr>]"
    using ready_table [of ?s1] assms(1) by auto
  have d: "pathDir readySession = ''/var/lib/lukscrypt-cache/sessions/v''" by code_simp
  have f: "containsStr ''fuse.rclone'' ''fuse''" by (simp add: containsStr_def)
  have e: "fst (run_state (mountUsable readyEnv mm ''0:9'') ?i) = None"
    using st assms f by (simp add: mountUsable_def HostMountStacksOK_def readDirBounded_def case_prod_beta Let_def)
      (simp add: readyEnv_def quietEnv_def readDirRawOf_def)
  have n: "now readyEnv h = 0" "fsDo readyEnv h g = None"
    "stat readyEnv h p = Inr \<lparr>fi_size = 0, fi_isdir = True, fi_dev = (if p = readySession then ''0:9'' else ''8:1'')\<rparr>" for h g p
    by (simp_all add: readyEnv_def quietEnv_def)
  show ?thesis
    using e d assms(2,3)
    by (simp add: waitForMountReady_def readyRounds_def numeral_eq_Suc n mountReadyTimeout_def seconds_def mountedDevice_def
        expose_def bindBounded_def syscallBounded_def case_prod_beta)
qed

lemma ready_mountSession:
  assumes "settled s" "mm_mountPoint mm = ''/m''" "Password (mm_cryptConfig mm) \<noteq> []"
  shows "fst (fst (run_state (mountSession readyEnv mm readySession) s)) = None"
proof -
  let ?mm = "mm\<lparr>mm_sessionPath := readySession\<rparr>"
  have w: "fst (run_state (waitForMountReady readyEnv ?mm) s') = None" if "settled s'" for s'
    by (rule ready_waits) (use that assms(2) in simp_all)
  have k: "settled s' \<Longrightarrow> settled (snd (run_state (RPCWithTimeout env m p t) s'))"
    "settled s' \<Longrightarrow> settled (snd (run_state (setFuseFdsCloexec env) s'))"
    "settled s' \<Longrightarrow> settled (snd (run_state (SaveVFSName env v n) s'))"
    "settled (snd (run_state (buildVFSOpt c) s')) \<longleftrightarrow> settled s'" for s' :: "'a rc_scheme" and env m p t v n c
    by (auto intro!: keepsD [OF settled_rpc] keepsD [OF settled_steps(7)] keepsD [OF settled_steps(8)])
      (simp_all add: buildVFSOpt_def settled_def)
  have c: "fst (run_state (CreateNamedS3Config readyEnv n c) s') = None"
    "fst (run_state (CreateNamedCryptConfig readyEnv n r (mm_cryptConfig mm)) s') = None"
    "settled s' \<Longrightarrow> settled (snd (run_state (CreateNamedS3Config readyEnv n c) s'))"
    "settled s' \<Longrightarrow> settled (snd (run_state (CreateNamedCryptConfig readyEnv n r (mm_cryptConfig mm)) s'))"
    "settled s' \<Longrightarrow> settled (snd (run_state (warnOnDuplicateVFS readyEnv mm') s'))" for s' :: "'a rc_scheme" and n r c mm'
    using assms(3)
    by (simp_all add: CreateNamedS3Config_def CreateNamedCryptConfig_def RPC_def ready_RPC case_prod_beta k warnOnDuplicateVFS_def)
  show ?thesis
    unfolding mountSession_def finishMount_def using assms(1)
    by (simp add: case_prod_beta Let_def c k ready_RPC w del: DeleteNamedConfigs.simps)
qed

lemma ready_exclusive:
  assumes "settled s"
  shows "\<exists>s'. run_state (ensureExclusiveVFSName readyEnv mm) s = ((None, bumpGeneration mm), s') \<and> settled s'"
proof -
  have n: "fst (run_state (countRegisteredVFS readyEnv m) s') = None" for m s'
    by (simp add: countRegisteredVFS_def RegisteredVFSNames_def registeredOf_def ready_RPC case_prod_beta)
  have k: "settled s' \<Longrightarrow> settled (snd (run_state (countRegisteredVFS readyEnv m) s'))" for m and s' :: "'a rc_scheme"
    using keepsD [OF settled_rpc, of s'] by (simp add: countRegisteredVFS_def RegisteredVFSNames_def case_prod_beta)
  let ?s1 = "snd (run_state (countRegisteredVFS readyEnv mm) s)"
  let ?s2 = "snd (run_state (countRegisteredVFS readyEnv (bumpGeneration mm)) ?s1)"
  have "run_state (exclusiveLoop readyEnv 1 (bumpGeneration mm)) ?s1 = ((None, bumpGeneration mm), ?s2)"
    by (subst exclusiveLoop.simps) (simp add: case_prod_beta n)
  then have "run_state (ensureExclusiveVFSName readyEnv mm) s = ((None, bumpGeneration mm), ?s2)"
    unfolding ensureExclusiveVFSName_def by (subst exclusiveLoop.simps) (simp add: case_prod_beta n)
  with k assms show ?thesis by auto
qed

lemma ready_Mount:
  fixes s :: rc
  assumes a: "run_state (mmIsMountPoint readyEnv mm) s = (False, sa)" "settled sa"
    and m: "\<not> mm_mounted mm" "mm_volumeID mm = ''v''" "mm_generation mm = 0" "mm_mountPoint mm = ''/m''" "Password (mm_cryptConfig mm) \<noteq> []"
  shows "fst (fst (run_state (Mount readyEnv mm) s)) = None"
proof -
  from ready_exclusive [OF a(2), of mm] obtain sb where
    b: "run_state (ensureExclusiveVFSName readyEnv mm) sa = ((None, bumpGeneration mm), sb)" "settled sb" by blast
  let ?mm = "bumpGeneration mm"
  have "wrap64 (0 + 1) = 1" "fst (vfsNamesFor ''v'' 1) = ''v.g1''" by code_simp+
  with m have n: "mm_volumeID ?mm = ''v''" "mm_vfsName ?mm = ''v.g1''" "mm_mountPoint ?mm = ''/m''" "Password (mm_cryptConfig ?mm) \<noteq> []"
    by (simp_all add: bumpGeneration_def setGeneration_def case_prod_beta)
  have d: "fst (run_state (newSessionDir readyEnv ''v'' ''v.g1'') s) = Inr readySession" for s :: rc
  proof -
    have "pathJoin [pathJoin [SessionMountBase, ''v''], ''v.g1@0''] = readySession" "show_int 0 = ''0''" by code_simp+
    then show ?thesis
      by (simp add: newSessionDir_def mkdirAllBounded_def Let_def sessionTries_def numeral_eq_Suc readyEnv_def quietEnv_def fsErr_def)
  qed
  have k: "fst (run_state (mkdirAllBounded readyEnv p) s) = None" for p and s :: rc
    by (simp add: mkdirAllBounded_def readyEnv_def quietEnv_def)
  from a b n m(1) show ?thesis
    by (simp add: ready_mountSession Mount_def IsMounted_def case_prod_beta k d keepsD [OF settled_steps(2)]
        keepsD [OF settled_steps(3)] keepsD [OF settled_steps(4)] keepsD [OF settled_steps(5)])
qed


section \<open>A failed mount leaves no session\<close>

text \<open>No event of a mount that rclone acknowledged.\<close>

definition noMount :: "event \<Rightarrow> bool" where
  "noMount e = (\<forall>p out st. e = RpcCalled ''mount/mount'' p (RpcReply out st) \<longrightarrow> 400 \<le> st)"

lemma noMount_simps [simp]:
  "noMount (Asked q)" "noMount (Did f r)" "noMount (RpcCalled m p RpcNoAnswer)" "m \<noteq> ''mount/mount'' \<Longrightarrow> noMount (RpcCalled m p y)"
  "noMount (RpcCalled m p (RpcReply out st)) \<longleftrightarrow> m \<noteq> ''mount/mount'' \<or> 400 \<le> st"
  by (auto simp: noMount_def)

lemma RPC_noMount: "m \<noteq> ''mount/mount'' \<Longrightarrow> emits (RPCWithTimeout env m p t) noMount"
  by (intro RPCWithTimeout_emits) simp_all

lemma RPC_failed_noMount:
  assumes "run_state (RPCWithTimeout env m p t) s = (Inl e, s')"
  shows "\<exists>l. hist s' = hist s @ l \<and> list_all noMount l"
proof -
  obtain s1 where i: "run_state (Initialize env) s = ((), s1)" by (metis old.unit.exhaust surj_pair)
  have "emits (Initialize env) noMount"
    unfolding Initialize_def setServerModTime_def by (intro emits_rules emits_modS callLibrclone_emits) simp_all
  from emitsD [OF this i] obtain l where l: "hist s1 = hist s @ l" "list_all noMount l" by blast
  with assms i show ?thesis
    by (auto simp: RPCWithTimeout_def run_callLibrclone Let_def split: rpcreply.splits if_splits)
qed

lemma configs_noMount:
  "emits (CreateNamedS3Config env n c) noMount" "emits (CreateNamedCryptConfig env n r cc) noMount" "emits (DeleteNamedConfigs env ns) noMount"
  "emits (removeSessionDir env p) noMount" "emits (buildVFSOpt vc) noMount"
  subgoal unfolding CreateNamedS3Config_def RPC_def by (intro emits_rules RPC_noMount) simp_all
  subgoal unfolding CreateNamedCryptConfig_def RPC_def by (intro emits_rules RPC_noMount) simp_all
  subgoal by (induction ns) (auto simp: RPC_def intro!: emits_rules RPC_noMount)
  subgoal unfolding removeSessionDir_def by (intro emits_rules) simp
  subgoal unfolding buildVFSOpt_def by (intro emits_rules emits_modS) simp
  done

text \<open>
  \<open>tidy P m\<close>: if \<open>m\<close> ends with an error, its trace satisfies \<open>P\<close>. Once rclone has acknowledged the mount, the trace must end the
  session; before that, no acknowledged mount must be in it.
\<close>

definition tidy :: "(hist \<Rightarrow> bool) \<Rightarrow> ('s os_scheme, goerr option \<times> 'a) state \<Rightarrow> bool" where
  "tidy P m = (\<forall>s. \<exists>t. hist (snd (run_state m s)) = hist s @ t \<and> (fst (fst (run_state m s)) \<noteq> None \<longrightarrow> P t))"

definition ended :: "string \<Rightarrow> hist \<Rightarrow> bool" where
  "ended session t = ((''mount/unmount'', unmountParams session) \<in> set (unmountCalls t))"

definition endedOrNone :: "string \<Rightarrow> hist \<Rightarrow> bool" where
  "endedOrNone session t = (list_all noMount t \<or> ended session t)"

lemma tidyD: "tidy P m \<Longrightarrow> run_state m s = ((r, x), s') \<Longrightarrow> \<exists>t. hist s' = hist s @ t \<and> (r \<noteq> None \<longrightarrow> P t)"
  unfolding tidy_def by (metis fst_conv snd_conv)

lemma tidy_ret: "P [] \<Longrightarrow> tidy P (ret x)"
  by (simp add: tidy_def)

lemma tidy_bind:
  assumes "emits m A" "\<And>x. tidy Q (f x)" "\<And>t t'. list_all A t \<Longrightarrow> Q t' \<Longrightarrow> P (t @ t')"
  shows "tidy P (State_Monad.bind m f)"
  unfolding tidy_def
proof
  fix s
  obtain x s1 where r: "run_state m s = (x, s1)" by fastforce
  from emitsD [OF assms(1) r] obtain t where t: "hist s1 = hist s @ t" "list_all A t" by blast
  from assms(2) [of x] obtain t' where "hist (snd (run_state (f x) s1)) = hist s1 @ t'"
    "fst (fst (run_state (f x) s1)) \<noteq> None \<longrightarrow> Q t'" unfolding tidy_def by blast
  with r t assms(3) show "\<exists>t. hist (snd (run_state (State_Monad.bind m f) s)) = hist s @ t \<and>
      (fst (fst (run_state (State_Monad.bind m f) s)) \<noteq> None \<longrightarrow> P t)" by auto
qed

lemma tidy_option:
  "(r = None \<Longrightarrow> tidy P f) \<Longrightarrow> (\<And>x. r = Some x \<Longrightarrow> tidy P (g x)) \<Longrightarrow> tidy P (case r of None \<Rightarrow> f | Some x \<Rightarrow> g x)"
  by (simp split: option.splits)

lemma tidy_if: "tidy P m \<Longrightarrow> tidy P n \<Longrightarrow> tidy P (if b then m else n)"
  by simp

lemma endedOrNone_Nil [simp]: "endedOrNone session []"
  by (simp add: endedOrNone_def)

lemma endedOrNone_app: "list_all noMount t \<Longrightarrow> endedOrNone session t' \<Longrightarrow> endedOrNone session (t @ t')"
  by (auto simp: endedOrNone_def ended_def)

lemma tidy_noMount:
  "emits m noMount \<Longrightarrow> (\<And>x. tidy (endedOrNone session) (f x)) \<Longrightarrow> tidy (endedOrNone session) (State_Monad.bind m f)"
  by (rule tidy_bind [where A = noMount and Q = "endedOrNone session"]) (auto intro: endedOrNone_app)

lemma unmountSession_ends:
  fixes m :: "('s rc_scheme, goerr option \<times> 'a) state"
  assumes that: "grows m"
  shows "tidy (ended session) (do { _ \<leftarrow> unmountSession env session; m })"
  unfolding tidy_def
proof
  fix s :: "'s rc_scheme"
  obtain b s1 where b: "run_state (unmountSession env session) s = (b, s1)" by fastforce
  from emitsD [OF grows_steps(5) b] obtain t where t: "hist s1 = hist s @ t" by blast
  from emitsD [OF that surjective_pairing, of s1] obtain t' where t': "hist (snd (run_state m s1)) = hist s1 @ t'" by blast
  from unmountSession_calls [OF b] t have "ended session t" by (simp add: ended_def)
  with b t t' show "\<exists>t. hist (snd (run_state (do { _ \<leftarrow> unmountSession env session; m }) s)) = hist s @ t \<and>
     (fst (fst (run_state (do { _ \<leftarrow> unmountSession env session; m }) s)) \<noteq> None \<longrightarrow> ended session t)"
    by (auto simp: ended_def)
qed

lemma tidy_success: "grows m \<Longrightarrow> tidy P (do { _ \<leftarrow> m; ret (None, x) })"
  unfolding tidy_def emits_def by (auto simp: case_prod_beta)

lemma ended_app: "ended session t' \<Longrightarrow> ended session (t @ t')"
  by (simp add: ended_def)

lemma tidy_grow: "grows m \<Longrightarrow> (\<And>x. tidy (ended session) (f x)) \<Longrightarrow> tidy (ended session) (State_Monad.bind m f)"
  by (rule tidy_bind [where A = "\<lambda>_. True" and Q = "ended session"]) (auto intro: ended_app)

lemma finishMount_tidy: "tidy (ended session) (finishMount env mm session)"
proof -
  have w: "grows (whenS b (refreshVFS env mm))" for b by (intro emits_whenS grows_steps)
  have S: "tidy (ended session) (do { stale \<leftarrow> hasStaleVFSCache env mm; whenS stale (refreshVFS env mm); ret (None, x) })" for x :: MountManager
    by (intro tidy_grow grows_steps tidy_success w)
  have F: "tidy (ended session) (do { unbindStaging env mm; _ \<leftarrow> unmountSession env session;
      DeleteNamedConfigs env [mm_cryptConfigName mm, mm_s3ConfigName mm]; ret y })" for y :: "goerr option \<times> MountManager"
    by (rule tidy_grow, rule grows_steps, rule unmountSession_ends, intro emits_bind grows_configs emits_ret)
  have "tidy (ended session) (do { w \<leftarrow> waitForMountReady env mm; (case w of
        Some e \<Rightarrow> do { unbindStaging env mm; _ \<leftarrow> unmountSession env session;
          DeleteNamedConfigs env [mm_cryptConfigName mm, mm_s3ConfigName mm]; ret (Some (WrapW ''mount did not become usable'' e), mm) }
      | None \<Rightarrow> do { stale \<leftarrow> hasStaleVFSCache env mm; whenS stale (refreshVFS env mm);
          ret (None, mm\<lparr>mm_mounted := True, mm_stopCacheMon := Some False\<rparr>) }) })"
    by (rule tidy_grow, rule waitForMountReady_grows, rule tidy_option) (rule S, rule F)
  then show ?thesis
    unfolding finishMount_def by (intro tidy_grow [OF grows_steps(1)] tidy_grow [OF grows_steps(2)] tidy_grow [OF grows_steps(3)])
qed

lemma tidy_mountRPC:
  fixes k :: "json option res \<Rightarrow> ('s rc_scheme, goerr option \<times> 'a) state"
  assumes "\<And>e. tidy (endedOrNone session) (k (Inl e))" "\<And>out. tidy (ended session) (k (Inr out))"
  shows "tidy (endedOrNone session) (State_Monad.bind (RPCWithTimeout env m p t) k)"
  unfolding tidy_def
proof
  fix s :: "'s rc_scheme"
  let ?b = "State_Monad.bind (RPCWithTimeout env m p t) k"
  obtain r s1 where r: "run_state (RPCWithTimeout env m p t) s = (r, s1)" by fastforce
  have e: "run_state ?b s = run_state (k r) s1" by (simp add: r)
  show "\<exists>t. hist (snd (run_state ?b s)) = hist s @ t \<and> (fst (fst (run_state ?b s)) \<noteq> None \<longrightarrow> endedOrNone session t)"
  proof (cases r)
    case (Inl x)
    with RPC_failed_noMount r obtain l where "hist s1 = hist s @ l" "list_all noMount l" by blast
    moreover from assms(1) [of x] obtain l' where "hist (snd (run_state (k r) s1)) = hist s1 @ l'"
      "fst (fst (run_state (k r) s1)) \<noteq> None \<longrightarrow> endedOrNone session l'" unfolding tidy_def Inl by blast
    ultimately show ?thesis unfolding e by (intro exI [of _ "l @ l'"]) (simp add: endedOrNone_app)
  next
    case (Inr out)
    from emitsD [OF grows_rpc(1) r] obtain l where "hist s1 = hist s @ l" by blast
    moreover from assms(2) [of out] obtain l' where "hist (snd (run_state (k r) s1)) = hist s1 @ l'"
      "fst (fst (run_state (k r) s1)) \<noteq> None \<longrightarrow> ended session l'" unfolding tidy_def Inr by blast
    ultimately show ?thesis unfolding e by (intro exI [of _ "l @ l'"]) (simp add: endedOrNone_def ended_app)
  qed
qed

lemma mountSession_tidy: "tidy (endedOrNone session) (mountSession env mm session)"
proof -
  note N = configs_noMount
  have "tidy (endedOrNone session) (do { removeSessionDir env session; ret y })"
    "tidy (endedOrNone session) (do { DeleteNamedConfigs env ns; removeSessionDir env session; ret y })"
    "tidy (endedOrNone session) (do { DeleteNamedConfigs env ns; if b then ret x else do { removeSessionDir env session; ret y } })"
    for ns b and x y :: "goerr option \<times> MountManager"
    by (intro tidy_noMount tidy_if tidy_ret N endedOrNone_Nil)+
  then show ?thesis
    unfolding mountSession_def
    by (intro tidy_noMount [OF N(1)] tidy_noMount [OF N(2)] tidy_noMount [OF N(5)] tidy_option tidy_mountRPC)
       (simp_all add: finishMount_tidy del: DeleteNamedConfigs.simps split del: if_split)
qed

text \<open>
  A mount that fails after rclone has acknowledged it does not leak its session: whenever the mount ends with an
  error although a \<^verbatim>\<open>mount/mount\<close> call of it was answered with success, rclone was asked afterwards to unmount this very
  session, so its VFS is shut down and the name is free for the next attempt.
\<close>

theorem mountSession_failure_ends_session:
  assumes "run_state (mountSession env mm session) s = ((Some e, mm'), s')" "hist s' = hist s @ t"
    and "RpcCalled ''mount/mount'' p (RpcReply out st) \<in> set t" "st < 400"
  shows "(''mount/unmount'', unmountParams session) \<in> set (unmountCalls t)"
proof -
  from tidyD [OF mountSession_tidy assms(1)] assms(2) have "endedOrNone session t" by auto
  moreover have "\<not> list_all noMount t" using assms(3,4) by (force simp: list_all_iff noMount_def)
  ultimately show ?thesis by (simp add: endedOrNone_def ended_def)
qed

lemma quiet_notReady: "fst (run_state (waitForMountReady quietEnv mm) s) \<noteq> None"
proof -
  have "fst (run_state (readyLoop quietEnv mm d n) s) \<noteq> None" for d n and s :: "'a mnt_scheme"
    by (induction n arbitrary: s) (simp_all add: mountedDevice_def case_prod_beta, simp_all add: quietEnv_def)
  then show ?thesis by (simp add: waitForMountReady_def)
qed

lemma finishMount_quiet: "fst (fst (run_state (finishMount quietEnv mm session) s)) \<noteq> None"
  using quiet_notReady by (auto simp: finishMount_def case_prod_beta simp del: DeleteNamedConfigs.simps split: option.splits)

lemma quiet_RPC_event: "RpcCalled m p (RpcReply ''{}'' 200) \<in> set (hist (snd (run_state (RPCWithTimeout quietEnv m p t) s)))"
  by (simp add: RPCWithTimeout_def Initialize_def setServerModTime_def run_callLibrclone decodeOutput_def quietEnv_def Let_def)

theorem mountSession_failure_ends_session_witness:
  "\<exists>e mm' s'. run_state (mountSession quietEnv demoManager ''/s'') initRc = ((Some e, mm'), s') \<and>
     (''mount/unmount'', unmountParams ''/s'') \<in> set (unmountCalls (hist s'))"
proof -
  have c: "fst (run_state (CreateNamedS3Config quietEnv n c) s) = None"
    "fst (run_state (CreateNamedCryptConfig quietEnv n r (mm_cryptConfig demoManager)) s) = None" for n r c and s :: rc
    by (simp_all add: CreateNamedS3Config_def CreateNamedCryptConfig_def RPC_def quiet_RPC case_prod_beta demoManager_def)
  have "\<exists>o' (s4 :: rc). run_state (mountSession quietEnv demoManager ''/s'') initRc =
      run_state (finishMount quietEnv (demoManager\<lparr>mm_sessionPath := ''/s''\<rparr>) ''/s'') s4 \<and>
      RpcCalled ''mount/mount'' (mountParams demoManager ''/s'' o') (RpcReply ''{}'' 200) \<in> set (hist s4)"
    by (simp add: mountSession_def case_prod_beta c quiet_RPC quiet_RPC_event) (intro exI conjI, rule refl, rule quiet_RPC_event)
  then obtain o' and s4 :: rc where s4: "run_state (mountSession quietEnv demoManager ''/s'') initRc =
      run_state (finishMount quietEnv (demoManager\<lparr>mm_sessionPath := ''/s''\<rparr>) ''/s'') s4"
    "RpcCalled ''mount/mount'' (mountParams demoManager ''/s'' o') (RpcReply ''{}'' 200) \<in> set (hist s4)" by blast
  then obtain e mm' s' where r: "run_state (mountSession quietEnv demoManager ''/s'') initRc = ((Some e, mm'), s')"
    using finishMount_quiet [of "demoManager\<lparr>mm_sessionPath := ''/s''\<rparr>" "''/s''" s4] by (metis not_None_eq prod.collapse)
  have "grows (finishMount quietEnv (demoManager\<lparr>mm_sessionPath := ''/s''\<rparr>) ''/s'')"
    unfolding finishMount_def by (intro emits_rules grows_configs grows_steps waitForMountReady_grows)
  with s4 r have "RpcCalled ''mount/mount'' (mountParams demoManager ''/s'' o') (RpcReply ''{}'' 200) \<in> set (hist s')"
    using emitsD [of _ _ s4 "(Some e, mm')" s'] by fastforce
  with mountSession_failure_ends_session [OF r, of "hist s'"] r show ?thesis by (auto simp: initRc_def)
qed

end
