(* ===== verification/MountCache.thy ===== *)
theory MountCache
  imports MountReady
begin

text \<open>
  Evicting the cache of a mounted volume removes only what is safe to remove, and draining ends within its budget.
\<close>

section \<open>Eviction\<close>

text \<open>\<open>evicts ws opened resolve e\<close>: if the event changes the file system, it removes one file of the walk that nobody holds open.\<close>

definition evicts :: "walkItem list \<Rightarrow> string set \<Rightarrow> (string \<Rightarrow> string) \<Rightarrow> event \<Rightarrow> bool" where
  "evicts ws opened resolve e = (\<forall>f r. e = Did f r \<longrightarrow>
     (\<exists>p sz t. f = Remove p \<and> WFile p sz t \<in> set ws \<and> resolve p \<notin> opened))"

lemma evicts_simps [simp]: "evicts ws opened resolve (Asked q)" "evicts ws opened resolve (RpcCalled m p y)"
  by (simp_all add: evicts_def)

lemma cachedFiles_set: "(p, sz, t) \<in> set (cachedFiles ws) \<longleftrightarrow> WFile p sz t \<in> set ws"
  by (induction ws) (auto simp: cachedFiles_def List.map_filter_def split: walkItem.splits)

lemma evictLoop_evicts:
  "set fs \<subseteq> set (cachedFiles ws) \<Longrightarrow> emits (evictLoop env opened resolve m fs tot) (evicts ws opened resolve)"
proof (induction fs arbitrary: tot)
  case (Cons f fs)
  obtain p sz t where f: "f = (p, sz, t)" by (cases f)
  have "WFile p sz t \<in> set ws" using Cons.prems f by (simp add: cachedFiles_set)
  then have "resolve p \<notin> opened \<Longrightarrow> evicts ws opened resolve (Did (Remove p) r)" for r by (auto simp: evicts_def)
  with Cons f show ?case by (auto intro!: emits_rules)
qed (simp add: emits_ret)

lemma forgetLoop_evicts: "emits (forgetLoop env mm ps rs) (evicts ws opened resolve)"
proof -
  have "emits (forgetFlush env mm ps) (evicts ws opened resolve)" for ps
    unfolding forgetFlush_def by (intro emits_rules RPCWithTimeout_emits) simp_all
  then show ?thesis by (induction rs arbitrary: ps) (auto simp: Let_def intro!: emits_rules)
qed

definition noOps :: "event \<Rightarrow> bool" where
  "noOps e = (\<forall>f r. e \<noteq> Did f r)"

lemma noOps_simps [simp]: "noOps (Asked q)" "noOps (RpcCalled m p y)"
  by (simp_all add: noOps_def)

lemma looks_noOps: "looks e \<Longrightarrow> noOps e"
  by (cases e) (auto simp: noOps_def)

lemma openFilesUnder_noOps: "emits (openFilesUnder env root) noOps"
proof -
  have t: "emits (openTargets env r d es) noOps" for r d es
    by (induction es) (auto intro!: emits_rules)
  have "emits (openIn env r ds) noOps" for r ds
    by (induction ds) (auto intro!: emits_rules t)
  then show ?thesis unfolding openFilesUnder_def Let_def by (intro emits_rules) simp_all
qed

lemma safe_noOps: "emits (hasActiveTransfers env) noOps" "emits (uploadQueueConfirmedEmpty env mm) noOps" "emits (cacheFSPressed env) noOps"
  subgoal unfolding hasActiveTransfers_def by (intro emits_rules RPCWithTimeout_emits) simp_all
  subgoal unfolding uploadQueueConfirmedEmpty_def vfsStats_def
    by (intro emits_rules RPCWithTimeout_emits emits_weaken [OF mmIsMountPoint_emits looks_noOps]) simp_all
  subgoal unfolding cacheFSPressed_def by (intro emits_rules) simp
  done

lemma noOps_evicts: "noOps e \<Longrightarrow> evicts ws opened resolve e"
  by (simp add: noOps_def evicts_def)

lemma evictFiles_evicts:
  fixes s :: "'s rc_scheme"
  assumes "run_state (evictFiles env mm dir maxBytes files) s = (u, s')" "set files \<subseteq> set (cachedFiles ws)"
  shows "\<exists>opened root s1 t. run_state (openFilesUnder env dir) s = ((opened, root), s1) \<and> hist s' = hist s @ t \<and>
    list_all (evicts ws (set opened) (resolveUnder dir root)) t"
proof -
  obtain opened root s1 where o: "run_state (openFilesUnder env dir) s = ((opened, root), s1)" by (metis prod.collapse)
  from emitsD [OF openFilesUnder_noOps o] obtain t1 where t1: "hist s1 = hist s @ t1" "list_all noOps t1" by blast
  let ?E = "evicts ws (set opened) (resolveUnder dir root)"
  define k :: "('s rc_scheme, unit) state" where "k = do {
    x \<leftarrow> evictLoop env (set opened) (resolveUnder dir root) maxBytes (sort_key (\<lambda>f. snd (snd f)) files) (totalSize files);
    forgetCachePaths env mm dir (fst x) }"
  have "emits k ?E" unfolding k_def forgetCachePaths_def
    using assms(2) by (intro emits_bind emits_if emits_ret evictLoop_evicts forgetLoop_evicts) simp
  moreover have "run_state k s1 = (u, s')" using assms(1) o by (simp add: evictFiles_def k_def)
  ultimately obtain t2 where "hist s' = hist s1 @ t2" "list_all ?E t2" by (rule emitsD [elim_format]) blast
  moreover have "list_all ?E t1" using t1(2) noOps_evicts by (auto simp: list_all_iff)
  ultimately show ?thesis using o t1 by auto
qed



section \<open>Draining ends within its budget\<close>

text \<open>What a clock promises: it never runs backwards, and a sleep takes at least as long as asked for.\<close>

definition clockOk :: "env \<Rightarrow> bool" where
  "clockOk env = (\<forall>h t d. now env h \<le> now env (h @ t) \<and> now env h + d \<le> now env (h @ Asked (QSleep d) # t))"

lemma uploadsLoop_enough:
  fixes s :: "'s rc_scheme"
  assumes "clockOk env" "deadline \<le> now env (hist s) + pollInterval * int n"
  shows "run_state (uploadsLoop env mm deadline (Suc n + k)) s = run_state (uploadsLoop env mm deadline (Suc n)) s"
  using assms(2)
proof (induction n arbitrary: s)
  case 0
  then show ?case by simp
next
  case (Suc n)
  let ?s1 = "s\<lparr>hist := hist s @ [Asked QNow]\<rparr>"
  let ?g = "if mm_sessionPath mm = [] then do { m \<leftarrow> mmIsMountPoint env mm; ret (\<not> m) } else ret False"
  obtain g s2 where g: "run_state ?g ?s1 = (g, s2)" by fastforce
  let ?s3 = "s2\<lparr>hist := hist s2 @ [Asked QNow]\<rparr>"
  let ?b = "min rpcStatsTimeout (deadline - now env (hist s2))"
  obtain r s4 where r: "run_state (vfsStats env mm ?b) ?s3 = (r, s4)" by fastforce
  let ?s5 = "s4\<lparr>hist := hist s4 @ [Asked (QSleep pollInterval)]\<rparr>"
  have "emits ?g looks" by (intro emits_if emits_bind mmIsMountPoint_emits emits_ret)
  from emitsD [OF this g] obtain t2 where t2: "hist s2 = hist s @ Asked QNow # t2" by auto
  have "emits (vfsStats env mm ?b) keepsCache" by (simp add: vfsStats_def RPC_keeps)
  from emitsD [OF this r] obtain t4 where t4: "hist s4 = hist s2 @ Asked QNow # t4" by auto
  have "now env (hist s) \<le> now env (hist s4)" using assms(1) t2 t4 by (simp add: clockOk_def)
  then have "now env (hist s) + pollInterval \<le> now env (hist s4) + pollInterval" by simp
  also have "\<dots> \<le> now env (hist s4 @ [Asked (QSleep pollInterval)])" using assms(1) by (simp add: clockOk_def)
  finally have "deadline \<le> now env (hist ?s5) + pollInterval * int n" using Suc.prems by (simp add: algebra_simps)
  from Suc.IH [OF this] have IH: "run_state (uploadsLoop env mm deadline (Suc (n + k))) ?s5 = run_state (uploadsLoop env mm deadline (Suc n)) ?s5"
    by simp
  have U: "run_state (uploadsLoop env mm deadline (Suc m)) s =
    (if \<not> now env (hist s) < deadline then (False, ?s1) else if g then (False, s2)
     else if ?b \<le> 0 then (False, ?s3)
     else case r of
         Inl e \<Rightarrow> if isNoVFSError e \<or> isAmbiguousVFSError e then (False, s4) else run_state (uploadsLoop env mm deadline m) ?s5
       | Inr out \<Rightarrow> if queueEmpty out then (True, s4) else run_state (uploadsLoop env mm deadline m) ?s5)" for m
    using g r by (simp add: Let_def case_prod_beta split: sum.splits)
  show ?case unfolding add_Suc U IH [simplified add_Suc] by (simp add: IH)
qed

text \<open>
  C36: Waiting for uploads ends within its budget: on a clock that sleeping advances, the loop, one sleep of two seconds per
  round, has met its deadline after the rounds the model allows it, one more than fit into the budget; allowing it any number
  of further rounds changes neither its answer nor anything it does.
\<close>

theorem waitForPendingUploads_in_budget:
  fixes s :: "'s rc_scheme"
  assumes "clockOk env" "0 < maxWait" "uploadRounds maxWait \<le> m"
  shows "run_state (waitForPendingUploads env mm maxWait) s =
    run_state (do { t \<leftarrow> timeNow env; sleep env (flushWait mm maxWait); uploadsLoop env mm (t + maxWait) m }) s"
proof -
  define n where "n = nat (maxWait div pollInterval) + 1"
  have u: "uploadRounds maxWait = Suc n" by (simp add: uploadRounds_def n_def)
  from assms(3) u have "Suc n \<le> m" by simp
  then obtain k where m: "m = Suc n + k" by (auto simp only: le_iff_add)
  let ?s = "s\<lparr>hist := hist s @ [Asked QNow, Asked (QSleep (flushWait mm maxWait))]\<rparr>"
  have "maxWait \<le> pollInterval * int n"
  proof -
    have "0 < pollInterval" by (simp add: pollInterval_def seconds_def)
    moreover from this have "0 \<le> maxWait div pollInterval" using assms(2) by (simp add: pos_imp_zdiv_nonneg_iff)
    then have "pollInterval * int n = pollInterval * (maxWait div pollInterval) + pollInterval" by (simp add: n_def distrib_left)
    ultimately show ?thesis using mult_div_mod_eq [of pollInterval maxWait] pos_mod_bound [of pollInterval maxWait] by linarith
  qed
  moreover have "now env (hist s) \<le> now env (hist ?s)" using assms(1) by (simp add: clockOk_def)
  ultimately have "now env (hist s) + maxWait \<le> now env (hist ?s) + pollInterval * int n" by simp
  from uploadsLoop_enough [OF assms(1) this, of mm k] show ?thesis
    using assms(2) by (simp add: waitForPendingUploads_def u m del: uploadsLoop.simps)
qed

text \<open>A clock that counts the sleeps of the history.\<close>

definition sleptFor :: "hist \<Rightarrow> int" where
  "sleptFor h = (\<Sum>e \<leftarrow> h. case e of Asked (QSleep d) \<Rightarrow> max d 0 | _ \<Rightarrow> 0)"

lemma sleptFor_clock: "clockOk (quietEnv\<lparr>now := sleptFor\<rparr>)"
proof -
  have "0 \<le> sleptFor t" for t
    unfolding sleptFor_def by (induction t) (auto split: event.splits query.splits)
  then show ?thesis by (auto simp: clockOk_def sleptFor_def) (smt (verit))
qed

theorem waitForPendingUploads_in_budget_witness:
  "run_state (waitForPendingUploads (quietEnv\<lparr>now := sleptFor\<rparr>) demoManager (seconds 10)) initRc =
   run_state (do { t \<leftarrow> timeNow (quietEnv\<lparr>now := sleptFor\<rparr>); sleep (quietEnv\<lparr>now := sleptFor\<rparr>) (flushWait demoManager (seconds 10));
     uploadsLoop (quietEnv\<lparr>now := sleptFor\<rparr>) demoManager (t + seconds 10) 100 }) initRc"
  by (rule waitForPendingUploads_in_budget [OF sleptFor_clock]) (simp_all add: seconds_def uploadRounds_def pollInterval_def)

section \<open>Waiting for a mount ends within its budget\<close>

text \<open>One round of a loop that sleeps half a second brings it half a second closer to its deadline.\<close>

lemma slept_half:
  assumes "clockOk env" "hist s2 = hist s @ t" "deadline \<le> now env (hist s) + seconds 1 div 2 * int (Suc n)"
  shows "deadline \<le> now env (hist s2 @ [Asked (QSleep (seconds 1 div 2))]) + seconds 1 div 2 * int n"
proof -
  have "now env (hist s) \<le> now env (hist s2)" using assms(1,2) by (simp add: clockOk_def)
  moreover have "now env (hist s2) + seconds 1 div 2 \<le> now env (hist s2 @ [Asked (QSleep (seconds 1 div 2))])"
    using assms(1) by (simp add: clockOk_def)
  ultimately show ?thesis using assms(3) by (simp add: algebra_simps)
qed

lemma exposeLoop_enough:
  fixes s :: "'s mnt_scheme"
  assumes "clockOk env" "deadline \<le> now env (hist s) + seconds 1 div 2 * int n"
  shows "run_state (exposeLoop env mm dev deadline (Suc n + k)) s = run_state (exposeLoop env mm dev deadline (Suc n)) s"
  using assms(2)
proof (induction n arbitrary: s)
  case (Suc n)
  let ?look = "do { InvalidateHostMounts env; mountUsable env mm dev }"
  obtain e s2 where e: "run_state ?look (s\<lparr>hist := hist s @ [Asked QNow]\<rparr>) = (e, s2)" by fastforce
  have "emits ?look looks" by (intro emits_bind InvalidateHostMounts_emits mountUsable_emits)
  from emitsD [OF this e] obtain t where t: "hist s2 = hist s @ Asked QNow # t" by auto
  let ?s3 = "s2\<lparr>hist := hist s2 @ [Asked (QSleep (seconds 1 div 2))]\<rparr>"
  have U: "run_state (exposeLoop env mm dev deadline (Suc m)) s =
    (if \<not> now env (hist s) < deadline then (Some (Err ''FUSE mount not ready''), s\<lparr>hist := hist s @ [Asked QNow]\<rparr>)
     else if e = None then (None, s2) else run_state (exposeLoop env mm dev deadline m) ?s3)" for m
    using e by (simp add: case_prod_beta)
  from slept_half [OF assms(1) t Suc.prems] Suc.IH [of ?s3] show ?case unfolding add_Suc U by simp
qed simp

lemma readyLoop_enough:
  fixes s :: "'s mnt_scheme"
  assumes "clockOk env" "deadline \<le> now env (hist s) + seconds 1 div 2 * int n"
  shows "run_state (readyLoop env mm deadline (Suc n + k)) s = run_state (readyLoop env mm deadline (Suc n)) s"
  using assms(2)
proof (induction n arbitrary: s)
  case (Suc n)
  let ?look = "mountedDevice env (mm_sessionPath mm)"
  obtain d s2 where d: "run_state ?look (s\<lparr>hist := hist s @ [Asked QNow]\<rparr>) = (d, s2)" by fastforce
  from emitsD [OF mountedDevice_emits d] obtain t where t: "hist s2 = hist s @ Asked QNow # t" by auto
  let ?s3 = "s2\<lparr>hist := hist s2 @ [Asked (QSleep (seconds 1 div 2))]\<rparr>"
  have U: "run_state (readyLoop env mm deadline (Suc m)) s =
    (if \<not> now env (hist s) < deadline then (Some (Err ''session not mounted''), s\<lparr>hist := hist s @ [Asked QNow]\<rparr>)
     else case d of Inr (dev, True) \<Rightarrow> run_state (expose env mm dev deadline) s2 | _ \<Rightarrow> run_state (readyLoop env mm deadline m) ?s3)" for m
    using d by (simp split: sum.splits prod.splits bool.splits)
  from slept_half [OF assms(1) t Suc.prems] Suc.IH [of ?s3] show ?case unfolding add_Suc U by (simp split: sum.splits prod.splits bool.splits)
qed simp

text \<open>
  So the rounds of the model are enough: neither loop would go on if it were allowed more of them.
\<close>

lemma mount_loops_in_budget:
  fixes s :: "'s mnt_scheme"
  assumes "clockOk env" "deadline \<le> now env (hist s) + mountReadyTimeout" "readyRounds \<le> m"
  shows "run_state (exposeLoop env mm dev deadline m) s = run_state (exposeLoop env mm dev deadline readyRounds) s"
    and "run_state (readyLoop env mm deadline m) s = run_state (readyLoop env mm deadline readyRounds) s"
proof -
  from assms(3) obtain k where m: "m = Suc 40 + k" by (auto simp: readyRounds_def le_iff_add)
  have d: "deadline \<le> now env (hist s) + seconds 1 div 2 * int 40" using assms(2) by (simp add: mountReadyTimeout_def seconds_def)
  from exposeLoop_enough [OF assms(1) d] show "run_state (exposeLoop env mm dev deadline m) s = run_state (exposeLoop env mm dev deadline readyRounds) s"
    by (simp only: m readyRounds_def) (simp only: numeral_eq_Suc pred_numeral_simps)
  from readyLoop_enough [OF assms(1) d] show "run_state (readyLoop env mm deadline m) s = run_state (readyLoop env mm deadline readyRounds) s"
    by (simp only: m readyRounds_def) (simp only: numeral_eq_Suc pred_numeral_simps)
qed

section \<open>The background goroutines of a mount\<close>

text \<open>A closed channel stops both; renewing a listing happens at most once a minute and leaves the cache's files alone.\<close>

lemma stopped_ticks:
  assumes "mm_stopCacheMon mm = Some False" "\<not> mm_stopMonOnce mm"
  shows "run_state (monitorTick env (StopCacheMonitor mm)) s = ((), s)" "run_state (dirCacheWarmer env warm (StopCacheMonitor mm)) s = ((), s)"
  using assms by (simp_all add: monitorTick_def dirCacheWarmer_def StopCacheMonitor_def split: option.splits prod.splits)

lemma warm_interval: "dirCacheWarmInterval warm mm = 0 \<or> minutes 1 \<le> dirCacheWarmInterval warm mm"
  by (auto simp: dirCacheWarmInterval_def minDirCacheWarmInterval_def split: sum.splits)

lemma dirCacheWarmer_keeps: "emits (dirCacheWarmer env warm mm) keepsCache"
  unfolding dirCacheWarmer_def IsMounted_def refreshTree_def
  by (intro emits_rules RPC_keeps emits_weaken [OF mmIsMountPoint_emits] looks_keepsCache)

end
