(* ===== verification/NodeState.thy ===== *)
theory NodeState
  imports NodeLuks MountCache
begin

text \<open>
  The state of the node service: the struct \<^verbatim>\<open>NodeServer\<close> of \<^verbatim>\<open>driver/node.go\<close> with its \<^verbatim>\<open>S3SyncManager\<close>
  (\<^verbatim>\<open>driver/node_s3.go\<close>), the single drain slot of every volume, the setup marks, and the rate limiters of repair. The state
  of the rclone package and the history are one component of it, \<open>base\<close>; \<open>rcl\<close> runs a call into that package or the host.

  The goroutines that drain a volume are kept as tasks. A task runs as one step, at any later time;
  the handlers, which hold the lock of their volume from beginning to end (\<^verbatim>\<open>lockVolume\<close>), are one step each.
\<close>

section \<open>The state\<close>

text \<open>
  The two goroutines that hold a drain slot: the one \<^verbatim>\<open>cleanupS3Sync\<close> starts, and the one
  \<^verbatim>\<open>resumeStrandedDrain\<close> starts with its mount point and volume context.
\<close>

datatype drainTask = DrainTask (taskVolume: string) | ResumeTask (taskVolume: string) string smap

record reconcileAttempt =
  ra_count :: nat
  ra_last :: int

record ns =
  base :: rc
  nodeID :: string
  driverEndpoint :: string
  driverName :: string
  driverVersion :: string
  mountManagers :: "string \<rightharpoonup> MountManager"
  volumesInSetup :: "string set"
  backgroundDrains :: "string set" \<comment> \<open>the keys; a channel is closed exactly when its key is removed\<close>
  pendingDrains :: "string set"
  drainTasks :: "drainTask list"
  mountedAt :: "string \<rightharpoonup> int"
  strandedRetry :: "string \<rightharpoonup> int"
  vfsProbesInFlight :: "string \<rightharpoonup> int"
  zombieVFSStrikes :: "string \<rightharpoonup> int"
  statfsProbesInFlight :: "string set"
  reconcileAttempts :: "string \<rightharpoonup> reconcileAttempt"
  consumerRestartTimes :: "string \<rightharpoonup> int"
  lastNodeGetInfo :: int
  registrationHealthStart :: int
  regHealthy :: bool \<comment> \<open>what the health endpoint serves\<close>
  regUnhealthy :: bool
  logStalled :: bool
  cacheUnencrypted :: bool
  kubeletRootCache :: string
  lastLibrcloneOK :: int \<comment> \<open>\<^verbatim>\<open>driver/identity.go\<close>\<close>
  probeCurrent :: bool \<comment> \<open>a \<^verbatim>\<open>core/version\<close> call is in flight\<close>

definition rcl :: "(rc, 'a) state \<Rightarrow> (ns, 'a) state" where
  "rcl m = State_Monad.State (\<lambda>s. case run_state m (base s) of (x, b) \<Rightarrow> (x, s\<lparr>base := b\<rparr>))"

lemma run_rcl [simp]: "run_state (rcl m) s = (case run_state m (base s) of (x, b) \<Rightarrow> (x, s\<lparr>base := b\<rparr>))"
  by (simp add: rcl_def)

abbreviation nhist :: "ns \<Rightarrow> hist" where
  "nhist s \<equiv> hist (base s)"

text \<open>An event of Kubernetes; the recorder is nil exactly when the client is.\<close>

definition record_event :: "env \<Rightarrow> string \<Rightarrow> string \<Rightarrow> (ns, unit) state" where
  "record_event env reason obj = whenS (hasClient env) (rcl (emit reason obj))"

section \<open>Drain slots\<close>

definition loadPendingDrains :: "env \<Rightarrow> (ns, unit) state" where
  "loadPendingDrains env = do {
     ids \<leftarrow> rcl (ListDrainPending env);
     modS (\<lambda>s. s\<lparr>pendingDrains := pendingDrains s \<union> set ids\<rparr>)
   }"

definition startBackgroundDrain :: "env \<Rightarrow> string \<Rightarrow> (ns, bool) state" where
  "startBackgroundDrain env volumeID = do {
     running \<leftarrow> gets (\<lambda>s. volumeID \<in> backgroundDrains s);
     if running then ret False
     else do {
       modS (\<lambda>s. s\<lparr>backgroundDrains := insert volumeID (backgroundDrains s)\<rparr>);
       rcl (SaveDrainPending env volumeID);
       ret True
     }
   }"

definition isBackgroundDraining :: "string \<Rightarrow> (ns, bool) state" where
  "isBackgroundDraining volumeID = gets (\<lambda>s. volumeID \<in> backgroundDrains s)"

definition hasPendingDrain :: "string \<Rightarrow> (ns, bool) state" where
  "hasPendingDrain volumeID = gets (\<lambda>s. volumeID \<in> pendingDrains s)"

definition finishBackgroundDrain :: "env \<Rightarrow> string \<Rightarrow> bool \<Rightarrow> (ns, unit) state" where
  "finishBackgroundDrain env volumeID drained = do {
     modS (\<lambda>s. s\<lparr>backgroundDrains := backgroundDrains s - {volumeID}\<rparr>);
     if \<not> drained then do {
       modS (\<lambda>s. s\<lparr>pendingDrains := insert volumeID (pendingDrains s)\<rparr>);
       rcl (SaveDrainPending env volumeID)
     }
     else do {
       modS (\<lambda>s. s\<lparr>pendingDrains := pendingDrains s - {volumeID}\<rparr>);
       rcl (ClearDrainPending env volumeID)
     }
   }"

section \<open>Setup marks\<close>

definition markVolumeSetupInProgress :: "string \<Rightarrow> (ns, unit) state" where
  "markVolumeSetupInProgress volumeID = modS (\<lambda>s. s\<lparr>volumesInSetup := insert volumeID (volumesInSetup s)\<rparr>)"

definition markVolumeSetupComplete :: "string \<Rightarrow> (ns, unit) state" where
  "markVolumeSetupComplete volumeID = modS (\<lambda>s. s\<lparr>volumesInSetup := volumesInSetup s - {volumeID}\<rparr>)"

definition isVolumeSetupInProgress :: "string \<Rightarrow> (ns, bool) state" where
  "isVolumeSetupInProgress volumeID = gets (\<lambda>s. volumeID \<in> volumesInSetup s)"

section \<open>Rate limits\<close>

definition reconcileFreeAttempts :: nat where
  "reconcileFreeAttempts = 2"

definition reconcileBackoffBase :: int where
  "reconcileBackoffBase = minutes 2"

definition reconcileBackoffMax :: int where
  "reconcileBackoffMax = minutes 15"

definition consumerRestartCooldown :: int where
  "consumerRestartCooldown = minutes 5"

definition strandedRetryInterval :: int where
  "strandedRetryInterval = minutes 5"

text \<open>The wait of \<^verbatim>\<open>reconcileAllowed\<close>: the base doubled up to three times, at most the maximum.\<close>

definition backoffWait :: "nat \<Rightarrow> int" where
  "backoffWait count = min (push_bit (min (count - reconcileFreeAttempts) 3) reconcileBackoffBase) reconcileBackoffMax"

definition reconcileAllowed :: "env \<Rightarrow> string \<Rightarrow> (ns, bool) state" where
  "reconcileAllowed env volumeID = do {
     v \<leftarrow> gets (\<lambda>s. reconcileAttempts s volumeID);
     let a = (case v of None \<Rightarrow> \<lparr>ra_count = 0, ra_last = 0\<rparr> | Some a \<Rightarrow> a);
     blocked \<leftarrow> (if ra_count a \<ge> reconcileFreeAttempts
                then do { t \<leftarrow> rcl (timeNow env); ret (t - ra_last a < backoffWait (ra_count a)) }
                else ret False);
     if blocked then ret False
     else do {
       t \<leftarrow> rcl (timeNow env);
       modS (\<lambda>s. s\<lparr>reconcileAttempts := (reconcileAttempts s)(volumeID \<mapsto> \<lparr>ra_count = ra_count a + 1, ra_last = t\<rparr>)\<rparr>);
       ret True
     }
   }"

definition reconcileSucceeded :: "string \<Rightarrow> (ns, unit) state" where
  "reconcileSucceeded volumeID = modS (\<lambda>s. s\<lparr>reconcileAttempts := (reconcileAttempts s)(volumeID := None)\<rparr>)"

definition registrationHealthy :: "(ns, bool) state" where
  "registrationHealthy = gets (\<lambda>s. \<not> regUnhealthy s)"

definition consumerRestartAllowed :: "env \<Rightarrow> string \<Rightarrow> (ns, bool) state" where
  "consumerRestartAllowed env volumeID = do {
     healthy \<leftarrow> registrationHealthy;
     if \<not> healthy then ret False
     else do {
       v \<leftarrow> gets (\<lambda>s. consumerRestartTimes s volumeID);
       cooling \<leftarrow> (case v of
          None \<Rightarrow> ret False
        | Some t \<Rightarrow> do { n \<leftarrow> rcl (timeNow env); ret (n - t < consumerRestartCooldown) });
       if cooling then ret False
       else do {
         n \<leftarrow> rcl (timeNow env);
         modS (\<lambda>s. s\<lparr>consumerRestartTimes := (consumerRestartTimes s)(volumeID \<mapsto> n)\<rparr>);
         ret True
       }
     }
   }"

section \<open>Lookups shared by the node service\<close>

definition DefaultKubeletRoot :: string where
  "DefaultKubeletRoot = ''/var/lib/kubelet''"

definition resolveKubeletRoot :: "env \<Rightarrow> (ns, string) state" where
  "resolveKubeletRoot env = do {
     c \<leftarrow> gets kubeletRootCache;
     if c \<noteq> [] then ret c
     else do {
       r \<leftarrow> rcl (runCmdBoundedOutput env ''nsenter'' [''-t'', ''1'', ''-m'', ''-u'', ''readlink'', ''-f'', DefaultKubeletRoot]);
       let resolved = (case r of
            Inr out \<Rightarrow> if trimSpace out \<noteq> [] then trimSpace out else DefaultKubeletRoot
          | Inl _ \<Rightarrow> DefaultKubeletRoot);
       modS (\<lambda>s. s\<lparr>kubeletRootCache := resolved\<rparr>);
       ret resolved
     }
   }"

text \<open>The field \<^verbatim>\<open>volumeHandle\<close> of the \<^verbatim>\<open>vol_data.json\<close> that kubelet writes, if it is a string.\<close>

definition volHandle :: "env \<Rightarrow> string \<Rightarrow> (ns, string option) state" where
  "volHandle env volumeDir = do {
     r \<leftarrow> rcl (osReadFile env (pathJoin [volumeDir, ''vol_data.json'']));
     ret (case r of
            Inl _ \<Rightarrow> None
          | Inr d \<Rightarrow> Option.bind (unmarshal env d) (\<lambda>j. jstr (jfield j ''volumeHandle'')))
   }"

definition getVolumeIDFromVolData :: "env \<Rightarrow> string \<Rightarrow> (ns, string) state" where
  "getVolumeIDFromVolData env volumeDir = do {
     h \<leftarrow> volHandle env volumeDir;
     ret (case h of None \<Rightarrow> [] | Some v \<Rightarrow> v)
   }"

definition isS3Backend :: "smap \<Rightarrow> bool" where
  "isS3Backend volumeContext = (volumeContext StorageBackendParam = Some ''s3'')"

definition getS3VolumeContext :: "env \<Rightarrow> string \<Rightarrow> (ns, smap option) state" where
  "getS3VolumeContext env volumeID =
     (if \<not> hasClient env then ret None
      else do {
        r \<leftarrow> rcl (kube (\<lambda>h. getPV env h volumeID) (KGetPV volumeID));
        ret (case r of
               Inl _ \<Rightarrow> None
             | Inr p \<Rightarrow> (case pv_csi p of
                 None \<Rightarrow> None
               | Some c \<Rightarrow> if csi_driver c \<noteq> DriverName then None
                          else (case csi_attributes c of
                                  None \<Rightarrow> None
                                | Some ctx \<Rightarrow> if isS3Backend ctx then Some ctx else None)))
      })"

definition pvcRef :: "env \<Rightarrow> string \<Rightarrow> (ns, (string \<times> string) option) state" where
  "pvcRef env volumeID =
     (if \<not> hasClient env then ret None
      else do {
        r \<leftarrow> rcl (getPVByVolumeID env volumeID);
        ret (case r of Inl _ \<Rightarrow> None | Inr p \<Rightarrow> pv_claimRef p)
      })"

text \<open>Reporting on the claim, or on the node when the claim is unknown.\<close>

definition reportOn :: "env \<Rightarrow> string \<Rightarrow> string \<Rightarrow> (ns, unit) state" where
  "reportOn env reason volumeID = whenS (hasClient env) (do {
     ref \<leftarrow> pvcRef env volumeID;
     n \<leftarrow> gets nodeID;
     rcl (emit reason (case ref of None \<Rightarrow> n | Some (namespace, name) \<Rightarrow> name))
   })"

definition reportUnuploadedData :: "env \<Rightarrow> string \<Rightarrow> (ns, unit) state" where
  "reportUnuploadedData env volumeID = reportOn env ''UnuploadedData'' volumeID"

end
