(* ===== verification/NodeProbes.thy ===== *)
theory NodeProbes
  imports NodeState
begin

text \<open>
  How the node service looks at FUSE mounts without being caught by a dead one (\<^verbatim>\<open>driver/node_s3.go\<close>): system calls with a
  budget, at most one outstanding probe per path, a read probe past the directory cache, the gate before a
  bind, and aborting FUSE connections. A system call that does not return within its budget is the answer
  \<open>BLOCKED\<close>; its goroutine stays in flight, and \<open>hasFinished\<close> asks whether it has returned since.
\<close>

section \<open>Bounded system calls\<close>

definition isMountDeadErr :: "errno \<Rightarrow> bool" where
  "isMountDeadErr e = (e = EIO \<or> e = ENOTCONN \<or> e = ESTALE)"

definition statBounded :: "env \<Rightarrow> string \<Rightarrow> (ns, finfo res) state" where
  "statBounded env path = do {
     r \<leftarrow> rcl (osStat env path);
     ret (case r of Inl e \<Rightarrow> Inl (if e = BLOCKED then Err ''stat blocked'' else Errno e) | Inr i \<Rightarrow> Inr i)
   }"

definition removeAllBounded :: "env \<Rightarrow> string \<Rightarrow> (ns, unit) state" where
  "removeAllBounded env path = do { _ \<leftarrow> rcl (fsCall env (RemoveAll path)); ret () }"

definition readFileBounded :: "env \<Rightarrow> string \<Rightarrow> (ns, string res) state" where
  "readFileBounded env path = do {
     r \<leftarrow> rcl (osReadFile env path);
     ret (case r of Inl e \<Rightarrow> Inl (if e = BLOCKED then Err ''reading blocked'' else Errno e) | Inr d \<Rightarrow> Inr d)
   }"

section \<open>One probe per path\<close>

text \<open>
  \<^verbatim>\<open>statfsBounded\<close>: the error and whether the budget ran out. A caller that finds a probe in flight awaits its
  result and issues no system call of its own.
\<close>

definition statfsLabel :: "string \<Rightarrow> string" where
  "statfsLabel path = ''statfs '' @ path"

definition awaitStatfs :: "env \<Rightarrow> string \<Rightarrow> (ns, errno + fsstat) state" where
  "awaitStatfs env path = rcl (askS (\<lambda>h. statfs env h path) (\<lambda>_. Asked (QFinished (statfsLabel path))))"

definition dropStatfsProbe :: "string \<Rightarrow> (ns, unit) state" where
  "dropStatfsProbe path = modS (\<lambda>s. s\<lparr>statfsProbesInFlight := statfsProbesInFlight s - {path}\<rparr>)"

definition probeInFlight :: "env \<Rightarrow> string \<Rightarrow> (ns, bool) state" where
  "probeInFlight env path = do {
     stored \<leftarrow> gets (\<lambda>s. path \<in> statfsProbesInFlight s);
     if \<not> stored then ret False
     else do {
       fin \<leftarrow> rcl (hasFinished env (statfsLabel path));
       whenS fin (dropStatfsProbe path);
       ret (\<not> fin)
     }
   }"

definition statfsBounded :: "env \<Rightarrow> string \<Rightarrow> (ns, errno option \<times> bool) state" where
  "statfsBounded env path = do {
     loaded \<leftarrow> probeInFlight env path;
     r \<leftarrow> (if loaded then awaitStatfs env path
          else do {
            modS (\<lambda>s. s\<lparr>statfsProbesInFlight := insert path (statfsProbesInFlight s)\<rparr>);
            rcl (osStatfs env path)
          });
     if r = Inl BLOCKED then ret (None, True)
     else do {
       dropStatfsProbe path;
       ret (case r of Inl e \<Rightarrow> Some e | Inr _ \<Rightarrow> None, False)
     }
   }"

section \<open>The read probe\<close>

text \<open>
  One level of the breadth-first walk: a dead error or an opened file ends the probe, otherwise the first eight directories
  are the next level.
\<close>

datatype probeRes = PDead errno | POpened | PBlocked | PGo "string list"

fun probeEntries :: "env \<Rightarrow> string \<Rightarrow> string list \<Rightarrow> DirEntryRaw list \<Rightarrow> ('s os_scheme, probeRes) state" where
  "probeEntries env dir nxt [] = ret (PGo nxt)"
| "probeEntries env dir nxt (e # es) = do {
     let p = pathJoin [dir, de_Name e];
     if de_IsDir e then probeEntries env dir (if length nxt < 8 then nxt @ [p] else nxt) es
     else if \<not> de_IsRegular e \<and> \<not> de_Unknown e then probeEntries env dir nxt es
     else do {
       r \<leftarrow> OpenProbeRaw env p;
       (case r of
          None \<Rightarrow> ret POpened
        | Some err \<Rightarrow>
            if err = BLOCKED then ret PBlocked
            else if isMountDeadErr err then ret (PDead err)
            else probeEntries env dir nxt es)
     }
   }"

fun probeDirs :: "env \<Rightarrow> string list \<Rightarrow> string list \<Rightarrow> ('s os_scheme, probeRes) state" where
  "probeDirs env nxt [] = ret (PGo nxt)"
| "probeDirs env nxt (dir # ds) = do {
     r \<leftarrow> ReadDirRaw env dir 512;
     if snd r = Some BLOCKED then ret PBlocked
     else if (case snd r of Some e \<Rightarrow> isMountDeadErr e | None \<Rightarrow> False) then ret (PDead (the (snd r)))
     else do {
       x \<leftarrow> probeEntries env dir nxt (fst r);
       (case x of PGo nxt' \<Rightarrow> probeDirs env nxt' ds | _ \<Rightarrow> ret x)
     }
   }"

fun probeLevels :: "env \<Rightarrow> nat \<Rightarrow> string list \<Rightarrow> ('s os_scheme, probeRes) state" where
  "probeLevels env 0 dirs = ret (PGo dirs)"
| "probeLevels env (Suc d) dirs =
     (if dirs = [] then ret (PGo [])
      else do {
        x \<leftarrow> probeDirs env [] dirs;
        (case x of PGo nxt \<Rightarrow> probeLevels env d nxt | _ \<Rightarrow> ret x)
      })"

text \<open>\<open>Blocked\<close>: some system call of the probe has not returned.\<close>

definition probeMountReads :: "env \<Rightarrow> string \<Rightarrow> ('s os_scheme, errno option outcome) state" where
  "probeMountReads env root = do {
     x \<leftarrow> probeLevels env 3 [root];
     ret (case x of PDead e \<Rightarrow> Done (Some e) | PBlocked \<Rightarrow> Blocked | _ \<Rightarrow> Done None)
   }"

definition vfsProbeStuckAfter :: int where
  "vfsProbeStuckAfter = minutes 2"

definition dropVfsProbe :: "string \<Rightarrow> (ns, unit) state" where
  "dropVfsProbe path = modS (\<lambda>s. s\<lparr>vfsProbesInFlight := (vfsProbesInFlight s)(path := None)\<rparr>)"

definition mountVFSResponsive :: "env \<Rightarrow> string \<Rightarrow> (ns, bool) state" where
  "mountVFSResponsive env path = do {
     n \<leftarrow> rcl (timeNow env);
     stored \<leftarrow> gets (\<lambda>s. vfsProbesInFlight s path);
     prev \<leftarrow> (case stored of
        None \<Rightarrow> ret None
      | Some t \<Rightarrow> do {
          fin \<leftarrow> rcl (hasFinished env (''read probe '' @ path));
          if fin then do { dropVfsProbe path; ret None } else ret (Some t)
        });
     (case prev of
        Some t \<Rightarrow> do { m \<leftarrow> rcl (timeNow env); ret (\<not> m - t > vfsProbeStuckAfter) }
      | None \<Rightarrow> do {
          modS (\<lambda>s. s\<lparr>vfsProbesInFlight := (vfsProbesInFlight s)(path \<mapsto> n)\<rparr>);
          r \<leftarrow> rcl (probeMountReads env path);
          (case r of
             Blocked \<Rightarrow> ret True
           | Done e \<Rightarrow> do { dropVfsProbe path; ret (e = None) })
        })
   }"

section \<open>The gate before a bind\<close>

definition isFUSEMountPoint :: "env \<Rightarrow> string \<Rightarrow> (ns, bool) state" where
  "isFUSEMountPoint env path = rcl (IsHostFUSEMount env path)"

definition verifyS3StagingLive :: "env \<Rightarrow> string \<Rightarrow> (ns, goerr option) state" where
  "verifyS3StagingLive env stagingPath = do {
     f \<leftarrow> rcl (HostFUSEMountState env stagingPath);
     (case f of
        None \<Rightarrow> ret (Some (Err ''the host mount table is unreadable''))
      | Some False \<Rightarrow> ret (Some (Err ''not an rclone FUSE mount''))
      | Some True \<Rightarrow> do {
          r \<leftarrow> statfsBounded env stagingPath;
          ret (if snd r then Some (Err ''the FUSE daemon is wedged'') else map_option (\<lambda>e. WrapW ''statfs failed'' (Errno e)) (fst r))
        })
   }"

section \<open>FUSE connections\<close>

definition fuseConnectionsDir :: string where
  "fuseConnectionsDir = ''/sys/fs/fuse/connections''"

definition writeFUSEAbort :: "env \<Rightarrow> string \<Rightarrow> (ns, goerr option) state" where
  "writeFUSEAbort env minor = do {
     let abortPath = fuseConnectionsDir @ ''/'' @ minor @ ''/abort'';
     r \<leftarrow> rcl (fsCall env (WriteFile abortPath ''1''));
     if r = None then ret None
     else rcl (runCmdBounded env ''nsenter'' [''-t'', ''1'', ''-m'', ''sh'', ''-c'', ''echo 1 > '' @ abortPath])
   }"

definition listFUSEConnections :: "env \<Rightarrow> (ns, string list) state" where
  "listFUSEConnections env = do {
     r \<leftarrow> rcl (osReadDir env fuseConnectionsDir);
     (case r of
        Inr (e # es) \<Rightarrow> ret (map fst (e # es))
      | _ \<Rightarrow> do {
          out \<leftarrow> rcl (runCmdBoundedOutput env ''nsenter'' [''-t'', ''1'', ''-m'', ''ls'', fuseConnectionsDir]);
          ret (case out of Inl _ \<Rightarrow> [] | Inr listing \<Rightarrow> strFields listing)
        })
   }"

fun abortLayers :: "env \<Rightarrow> HostMount list \<Rightarrow> (ns, unit) state" where
  "abortLayers env [] = ret ()"
| "abortLayers env (m # ms) = do {
     (if \<not> hasPrefix (mt_FSType m) ''fuse'' then ret ()
      else case cut (mt_Dev m) '':'' of (_, minor, found) \<Rightarrow>
        if \<not> found then ret () else do { _ \<leftarrow> writeFUSEAbort env minor; ret () });
     abortLayers env ms
   }"

definition abortFUSEConnection :: "env \<Rightarrow> string \<Rightarrow> (ns, unit) state" where
  "abortFUSEConnection env mountPoint = do {
     rcl (InvalidateHostMounts env);
     st \<leftarrow> rcl (HostMountStacksOK env);
     (case st of
        Some stacks \<Rightarrow> abortLayers env (stackOf stacks mountPoint)
      | None \<Rightarrow> do {
          d \<leftarrow> rcl (osReadFile env selfMountInfo);
          (case d of
             Inl _ \<Rightarrow> ret ()
           | Inr data \<Rightarrow> abortLayers env (stackOf (parseMountStacks data) mountPoint))
        })
   }"

text \<open>The anonymous-device minors one mount table lists, and those of every mount namespace found in \<^verbatim>\<open>/proc\<close>.\<close>

definition anonMinor :: "string \<Rightarrow> string option" where
  "anonMinor line =
     (let fs = strFields line
      in if length fs < 3 then None
         else case cut (fs ! 2) '':'' of (maj, minor, found) \<Rightarrow> if found \<and> maj = ''0'' then Some minor else None)"

definition anonMinors :: "string \<Rightarrow> string list" where
  "anonMinors data = List.map_filter anonMinor (split_on (CHR 0x0A) data)"

fun mountedMinors :: "env \<Rightarrow> string list \<Rightarrow> string list \<Rightarrow> (string \<times> bool) list \<Rightarrow> (ns, string list) state" where
  "mountedMinors env seenNS mounted [] = ret mounted"
| "mountedMinors env seenNS mounted ((name, _) # ps) =
     (if atoi name = None then mountedMinors env seenNS mounted ps
      else do {
        l \<leftarrow> rcl (osReadLink env (''/proc/'' @ name @ ''/ns/mnt''));
        (case l of
           Inl _ \<Rightarrow> mountedMinors env seenNS mounted ps
         | Inr nsLink \<Rightarrow>
             if nsLink \<in> set seenNS then mountedMinors env seenNS mounted ps
             else do {
               d \<leftarrow> rcl (osReadFile env (''/proc/'' @ name @ ''/mountinfo''));
               mountedMinors env (nsLink # seenNS) (case d of Inl _ \<Rightarrow> mounted | Inr data \<Rightarrow> mounted @ anonMinors data) ps
             })
      })"

fun abortUnmounted :: "env \<Rightarrow> string list \<Rightarrow> string list \<Rightarrow> (ns, unit) state" where
  "abortUnmounted env mounted [] = ret ()"
| "abortUnmounted env mounted (minor # ms) = do {
     whenS (minor \<notin> set mounted) (do { _ \<leftarrow> writeFUSEAbort env minor; ret () });
     abortUnmounted env mounted ms
   }"

definition abortOrphanedFUSEConnections :: "env \<Rightarrow> (ns, unit) state" where
  "abortOrphanedFUSEConnections env = do {
     conns \<leftarrow> listFUSEConnections env;
     if conns = [] then ret ()
     else do {
       ps \<leftarrow> rcl (osReadDir env ''/proc'');
       mounted \<leftarrow> mountedMinors env [] [] (case ps of Inl _ \<Rightarrow> [] | Inr es \<Rightarrow> es);
       abortUnmounted env mounted conns
     }
   }"

section \<open>I/O pressure\<close>

definition fullAvg10 :: "env \<Rightarrow> string \<Rightarrow> bool list" where
  "fullAvg10 env line =
     (if \<not> hasPrefix line ''full '' then []
      else List.map_filter (\<lambda>f. case cutPrefix f ''avg10='' of (v, ok) \<Rightarrow> if ok then psiStalled env v else None) (strFields line))"

definition parseIOPressure :: "env \<Rightarrow> string \<Rightarrow> bool" where
  "parseIOPressure env s = (case concat (map (fullAvg10 env) (split_on (CHR 0x0A) s)) of [] \<Rightarrow> False | b # _ \<Rightarrow> b)"

definition nodeIOStalled :: "env \<Rightarrow> (ns, bool) state" where
  "nodeIOStalled env = do {
     d \<leftarrow> rcl (osReadFile env ''/proc/pressure/io'');
     ret (case d of Inl _ \<Rightarrow> False | Inr s \<Rightarrow> parseIOPressure env s)
   }"

end
