(* ===== verification/NodePods.thy ===== *)
theory NodePods
  imports NodeProbes
begin

text \<open>
  Consumers of the node's volumes (\<^verbatim>\<open>driver/node_s3.go\<close>): which pods use a claim, which of them heal by mount propagation,
  the binds of consumers as the host mount table shows them, and restarting or deleting a pod.
\<close>

section \<open>Pods and claims\<close>

definition resolveVolumeRefs :: "env \<Rightarrow> string \<Rightarrow> (ns, string \<times> string \<times> string) state" where
  "resolveVolumeRefs env volumeID =
     (if \<not> hasClient env then ret ([], [], [])
      else do {
        r \<leftarrow> rcl (getPVByVolumeID env volumeID);
        ret (case r of
               Inl _ \<Rightarrow> ([], [], [])
             | Inr p \<Rightarrow> (case pv_claimRef p of None \<Rightarrow> ([], [], []) | Some (namespace, name) \<Rightarrow> (namespace, name, pv_name p)))
      })"

definition usesClaim :: "string \<Rightarrow> pod \<Rightarrow> bool" where
  "usesClaim pvcName p = list_ex (\<lambda>v. snd v = Some pvcName) (pod_volumes p)"

definition podsUsingPVC :: "env \<Rightarrow> string \<Rightarrow> string \<Rightarrow> (ns, pod list) state" where
  "podsUsingPVC env namespace pvcName =
     (if \<not> hasClient env \<or> namespace = [] \<or> pvcName = [] then ret []
      else do {
        n \<leftarrow> gets nodeID;
        r \<leftarrow> rcl (kube (\<lambda>h. listNodePods env h namespace n) (KListNodePods namespace n));
        ret (case r of Inl _ \<Rightarrow> [] | Inr ps \<Rightarrow> filter (usesClaim pvcName) ps)
      })"

fun fsGroupFromPods :: "pod list \<Rightarrow> int option" where
  "fsGroupFromPods [] = None"
| "fsGroupFromPods (p # ps) = (case pod_fsGroup p of Some g \<Rightarrow> Some g | None \<Rightarrow> fsGroupFromPods ps)"

definition hasPropagation :: "string \<Rightarrow> vmount list \<Rightarrow> bool" where
  "hasPropagation volName mounts =
     list_ex (\<lambda>m. vm_name m = volName \<and> vm_propagation m \<in> {Some HostToContainer, Some Bidirectional}) mounts"

definition podSelfHealsViaPropagation :: "pod \<Rightarrow> string \<Rightarrow> bool" where
  "podSelfHealsViaPropagation p pvcName =
     (if pvcName = [] then False
      else case find (\<lambda>v. snd v = Some pvcName) (pod_volumes p) of
        None \<Rightarrow> False
      | Some (volName, _) \<Rightarrow>
          if volName = [] then False
          else list_ex (hasPropagation volName) (pod_containers p) \<or> list_ex (hasPropagation volName) (pod_initContainers p))"

definition podByUID :: "pod list \<Rightarrow> string \<Rightarrow> pod option" where
  "podByUID ps podUID = find (\<lambda>p. pod_uid p = podUID) ps"

section \<open>Deleting pods\<close>

definition staleTerminationGrace :: int where
  "staleTerminationGrace = seconds 30"

text \<open>Go's duration arithmetic wraps around at 64 bits.\<close>

definition terminationDeadline :: "pod \<Rightarrow> int \<Rightarrow> int" where
  "terminationDeadline p deletion =
     seconds deletion + wrap64 (wrap64 (seconds (case pod_grace p of None \<Rightarrow> 0 | Some g \<Rightarrow> g)) + staleTerminationGrace)"

definition podStuckTerminating :: "env \<Rightarrow> pod \<Rightarrow> (ns, bool) state" where
  "podStuckTerminating env p = (case pod_deletion p of
       None \<Rightarrow> ret False
     | Some d \<Rightarrow> do { n \<leftarrow> rcl (timeNow env); ret (n > terminationDeadline p d) })"

definition kubeDeletePod :: "env \<Rightarrow> pod \<Rightarrow> bool \<Rightarrow> (ns, goerr option) state" where
  "kubeDeletePod env p now0 =
     rcl (askS (\<lambda>h. podDelete env h (pod_namespace p) (pod_name p) now0) (DeletedPod (pod_namespace p) (pod_name p) now0))"

definition forceDeletePod :: "env \<Rightarrow> pod \<Rightarrow> (ns, unit) state" where
  "forceDeletePod env p = do {
     record_event env ''StaleS3MountRecovery'' (pod_name p);
     _ \<leftarrow> kubeDeletePod env p True;
     ret ()
   }"

definition deletePod :: "env \<Rightarrow> pod \<Rightarrow> (ns, unit) state" where
  "deletePod env p =
     (if pod_phase p = Succeeded then ret ()
      else do {
        stuck \<leftarrow> podStuckTerminating env p;
        if stuck then (if \<not> pod_hasController p then ret () else forceDeletePod env p)
        else if pod_deletion p \<noteq> None then ret ()
        else if pod_phase p = Failed then ret ()
        else do {
          record_event env ''StaleS3MountRecovery'' (pod_name p);
          _ \<leftarrow> kubeDeletePod env p False;
          ret ()
        }
      })"

definition deletePodByUID :: "env \<Rightarrow> string \<Rightarrow> (ns, unit) state" where
  "deletePodByUID env podUID =
     (if \<not> hasClient env then ret ()
      else do {
        r \<leftarrow> rcl (kube (\<lambda>h. listPods env h []) (KListPods []));
        (case r of
           Inl _ \<Rightarrow> ret ()
         | Inr ps \<Rightarrow> (case podByUID ps podUID of None \<Rightarrow> ret () | Some p \<Rightarrow> deletePod env p))
      })"

fun usesOurVolumes :: "env \<Rightarrow> string \<Rightarrow> (string \<times> string option) list \<Rightarrow> (ns, bool) state" where
  "usesOurVolumes env namespace [] = ret False"
| "usesOurVolumes env namespace ((_, None) # vs) = usesOurVolumes env namespace vs"
| "usesOurVolumes env namespace ((_, Some claim) # vs) = do {
     c \<leftarrow> rcl (kube (\<lambda>h. getPVC env h namespace claim) (KGetPVC namespace claim));
     (case c of
        Inl _ \<Rightarrow> usesOurVolumes env namespace vs
      | Inr pvc \<Rightarrow>
          if pvc_volumeName pvc = [] then usesOurVolumes env namespace vs
          else do {
            r \<leftarrow> rcl (kube (\<lambda>h. getPV env h (pvc_volumeName pvc)) (KGetPV (pvc_volumeName pvc)));
            if (case r of Inl _ \<Rightarrow> False | Inr p \<Rightarrow> (case pv_csi p of None \<Rightarrow> False | Some c \<Rightarrow> csi_driver c = DriverName))
            then ret True
            else usesOurVolumes env namespace vs
          })
   }"

definition podUsesOurVolumes :: "env \<Rightarrow> pod \<Rightarrow> (ns, bool) state" where
  "podUsesOurVolumes env p = usesOurVolumes env (pod_namespace p) (pod_volumes p)"

fun sweepStuck :: "env \<Rightarrow> pod list \<Rightarrow> (ns, unit) state" where
  "sweepStuck env [] = ret ()"
| "sweepStuck env (p # ps) = do {
     stuck \<leftarrow> podStuckTerminating env p;
     whenS stuck (do {
       ours \<leftarrow> podUsesOurVolumes env p;
       whenS (ours \<and> pod_hasController p) (forceDeletePod env p)
     });
     sweepStuck env ps
   }"

definition sweepStuckTerminatingConsumers :: "env \<Rightarrow> (ns, unit) state" where
  "sweepStuckTerminatingConsumers env =
     (if \<not> hasClient env then ret ()
      else do {
        n \<leftarrow> gets nodeID;
        r \<leftarrow> rcl (kube (\<lambda>h. listNodePods env h [] n) (KListNodePods [] n));
        (case r of Inl _ \<Rightarrow> ret () | Inr ps \<Rightarrow> sweepStuck env ps)
      })"

section \<open>Restarting containers\<close>

definition cgroupBelongsToPod :: "string \<Rightarrow> string \<Rightarrow> bool" where
  "cgroupBelongsToPod cgroup podUID =
     (containsStr cgroup (''pod'' @ podUID) \<or> containsStr cgroup (''pod'' @ replaceAll podUID ''-'' ''_''))"

fun containerPIDs :: "env \<Rightarrow> string \<Rightarrow> (string \<times> bool) list \<Rightarrow> (ns, int list) state" where
  "containerPIDs env podUID [] = ret []"
| "containerPIDs env podUID ((name, _) # es) =
     (case atoi name of
        None \<Rightarrow> containerPIDs env podUID es
      | Some pid \<Rightarrow> do {
          c \<leftarrow> rcl (osReadFile env (''/proc/'' @ name @ ''/cgroup''));
          if (case c of Inl _ \<Rightarrow> True | Inr g \<Rightarrow> \<not> cgroupBelongsToPod g podUID) then containerPIDs env podUID es
          else do {
            m \<leftarrow> rcl (osReadFile env (''/proc/'' @ name @ ''/comm''));
            rest \<leftarrow> containerPIDs env podUID es;
            ret (if (case m of Inl _ \<Rightarrow> False | Inr comm \<Rightarrow> trimSpace comm = ''pause'') then rest else pid # rest)
          }
        })"

definition podContainerPIDs :: "env \<Rightarrow> string \<Rightarrow> (ns, int list) state" where
  "podContainerPIDs env podUID = do {
     r \<leftarrow> rcl (osReadDir env ''/proc'');
     (case r of Inl _ \<Rightarrow> ret [] | Inr es \<Rightarrow> containerPIDs env podUID es)
   }"

fun killAll :: "env \<Rightarrow> int list \<Rightarrow> (ns, bool) state" where
  "killAll env [] = ret False"
| "killAll env (pid # ps) = do {
     ok \<leftarrow> rcl (askS (\<lambda>h. killPid env h pid) (KilledPid pid));
     rest \<leftarrow> killAll env ps;
     ret (ok \<or> rest)
   }"

definition restartPodContainers :: "env \<Rightarrow> pod \<Rightarrow> (ns, bool) state" where
  "restartPodContainers env p = do {
     pids \<leftarrow> podContainerPIDs env (pod_uid p);
     if pids = [] then ret False
     else do {
       record_event env ''StaleS3MountRecovery'' (pod_name p);
       killAll env pids
     }
   }"

definition recoverConsumerPod :: "env \<Rightarrow> pod \<Rightarrow> (ns, unit) state" where
  "recoverConsumerPod env p = do {
     restarted \<leftarrow> (if pod_restartNever p then ret False else restartPodContainers env p);
     if restarted then ret () else deletePodByUID env (pod_uid p)
   }"

section \<open>Binds of consumers\<close>

record consumerBind =
  cb_path :: string
  cb_podUID :: string
  cb_pvName :: string
  cb_depth :: nat
  cb_dev :: string

definition csiSegment :: string where
  "csiSegment = ''/volumes/kubernetes.io~csi/''"

definition bindAt :: "stacks \<Rightarrow> string \<Rightarrow> string \<Rightarrow> consumerBind option" where
  "bindAt stacks kubeletRoot path =
     (let mounts = stackOf stacks path; uppermost = last mounts
      in if mounts = [] \<or> \<not> hasPrefix (mt_FSType uppermost) ''fuse'' then None
         else case cutPrefix path (kubeletRoot @ ''/pods/'') of (rest, found) \<Rightarrow>
           if \<not> found then None
           else case cut rest csiSegment of (podUID, rest2, found2) \<Rightarrow>
             if \<not> found2 \<or> podUID = [] \<or> containsStr podUID ''/'' then None
             else case cut rest2 ''/'' of (pvName, leaf, found3) \<Rightarrow>
               if \<not> found3 \<or> leaf \<noteq> ''mount'' \<or> pvName = [] then None
               else Some \<lparr>cb_path = path, cb_podUID = podUID, cb_pvName = pvName, cb_depth = length mounts, cb_dev = mt_Dev uppermost\<rparr>)"

text \<open>\<open>keys\<close> is the order in which the loops over the mount table visit it.\<close>

definition parseConsumerBinds :: "string list \<Rightarrow> stacks \<Rightarrow> string \<Rightarrow> consumerBind list" where
  "parseConsumerBinds keys stacks kubeletRoot = List.map_filter (bindAt stacks kubeletRoot) keys"

definition liveMountDevices :: "string list \<Rightarrow> stacks \<Rightarrow> string list" where
  "liveMountDevices keys stacks =
     map (\<lambda>path. mt_Dev (last (stackOf stacks path))) (filter (\<lambda>path. \<not> containsStr path ''/volume-subpaths/'') keys)"

definition rcloneFSType :: string where
  "rcloneFSType = ''fuse.rclone''"

definition strandedInMountInfo :: "string list \<Rightarrow> stacks \<Rightarrow> string list \<Rightarrow> string list" where
  "strandedInMountInfo keys stacks live =
     concat (map (\<lambda>path. map mt_Dev (filter (\<lambda>m. mt_FSType m = rcloneFSType \<and> mt_Dev m \<notin> set live) (stackOf stacks path))) keys)"

definition keysOf :: "env \<Rightarrow> stacks \<Rightarrow> (ns, string list) state" where
  "keysOf env stacks = gets (\<lambda>s. mapOrder env (nhist s) (dom stacks))"

definition consumerBinds :: "env \<Rightarrow> (ns, (consumerBind list \<times> string list) option) state" where
  "consumerBinds env = do {
     st \<leftarrow> rcl (HostMountStacksOK env);
     (case st of
        None \<Rightarrow> ret None
      | Some stacks \<Rightarrow> do {
          root \<leftarrow> resolveKubeletRoot env;
          keys \<leftarrow> keysOf env stacks;
          ret (Some (parseConsumerBinds keys stacks root, liveMountDevices keys stacks))
        })
   }"

definition addNew :: "string list \<Rightarrow> string \<Rightarrow> string list" where
  "addNew seen dev = (if dev \<in> set seen then seen else seen @ [dev])"

fun strandedOf :: "env \<Rightarrow> string list \<Rightarrow> string list \<Rightarrow> int list \<Rightarrow> (ns, string list) state" where
  "strandedOf env live stranded [] = ret stranded"
| "strandedOf env live stranded (pid # pids) = do {
     d \<leftarrow> readFileBounded env (''/proc/'' @ show_int pid @ ''/mountinfo'');
     (case d of
        Inl _ \<Rightarrow> strandedOf env live stranded pids
      | Inr data \<Rightarrow> do {
          keys \<leftarrow> keysOf env (parseMountStacks data);
          strandedOf env live (foldl addNew stranded (strandedInMountInfo keys (parseMountStacks data) live)) pids
        })
   }"

definition containerStrandedDevices :: "env \<Rightarrow> string \<Rightarrow> string list \<Rightarrow> (ns, string list) state" where
  "containerStrandedDevices env podUID live = do {
     pids \<leftarrow> podContainerPIDs env podUID;
     strandedOf env live [] pids
   }"

definition consumerPath :: "string \<Rightarrow> string \<Rightarrow> string \<Rightarrow> string" where
  "consumerPath root podUID pvName = pathJoin [root, ''pods'', podUID, ''volumes'', ''kubernetes.io~csi'', pvName, ''mount'']"

definition unbindTerminatingConsumer :: "env \<Rightarrow> string \<Rightarrow> string \<Rightarrow> (ns, unit) state" where
  "unbindTerminatingConsumer env podUID pvName =
     (if pvName = [] then ret ()
      else do {
        root \<leftarrow> resolveKubeletRoot env;
        let targetPath = consumerPath root podUID pvName;
        i \<leftarrow> rcl (osStat env (pathDir targetPath));
        (case i of Inl _ \<Rightarrow> ret () | Inr _ \<Rightarrow> do { _ \<leftarrow> rcl (unmountHostStack env targetPath); ret () })
      })"

fun sameDevice :: "env \<Rightarrow> string \<Rightarrow> string \<Rightarrow> nat \<Rightarrow> (ns, bool) state" where
  "sameDevice env mountPath want 0 = ret False"
| "sameDevice env mountPath want (Suc n) = do {
     got \<leftarrow> statBounded env mountPath;
     if (case got of Inl e \<Rightarrow> isErrno e ENOENT | Inr i \<Rightarrow> fi_dev i = want) then ret True
     else do { rcl (sleep env (seconds 1 div 4)); sameDevice env mountPath want n }
   }"

definition consumerMountHealthy :: "env \<Rightarrow> string \<Rightarrow> string \<Rightarrow> string \<Rightarrow> (ns, bool) state" where
  "consumerMountHealthy env podUID pvName globalmountPath =
     (if pvName = [] then ret False
      else do {
        root \<leftarrow> resolveKubeletRoot env;
        let mountPath = consumerPath root podUID pvName;
        d \<leftarrow> rcl (HostMountDepth env mountPath);
        if (case d of Some depth \<Rightarrow> depth > 1 | None \<Rightarrow> False) then ret False
        else do {
          want \<leftarrow> statBounded env globalmountPath;
          (case want of Inl _ \<Rightarrow> ret False | Inr i \<Rightarrow> sameDevice env mountPath (fi_dev i) 6)
        }
      })"

section \<open>Restarting every consumer of a volume\<close>

fun restartIn :: "env \<Rightarrow> string \<Rightarrow> string \<Rightarrow> string \<Rightarrow> (string \<times> bool) list \<Rightarrow> (ns, unit) state" where
  "restartIn env volumeID volumesDir podUID [] = ret ()"
| "restartIn env volumeID volumesDir podUID ((name, isdir) # es) = do {
     (if \<not> isdir then ret ()
      else do {
        handle \<leftarrow> volHandle env (pathJoin [volumesDir, name]);
        if handle \<noteq> Some volumeID then ret ()
        else do {
          let mountPath = pathJoin [volumesDir, name, ''mount''];
          l \<leftarrow> rcl (osLstat env mountPath);
          if l = Some ENOENT then ret ()
          else do {
            _ \<leftarrow> rcl (unmountHostStack env mountPath);
            deletePodByUID env podUID
          }
        }
      });
     restartIn env volumeID volumesDir podUID es
   }"

fun restartPods :: "env \<Rightarrow> string \<Rightarrow> string \<Rightarrow> (string \<times> bool) list \<Rightarrow> (ns, unit) state" where
  "restartPods env volumeID podsDir [] = ret ()"
| "restartPods env volumeID podsDir ((podUID, isdir) # es) = do {
     (if \<not> isdir then ret ()
      else do {
        let volumesDir = pathJoin [podsDir, podUID, ''volumes'', ''kubernetes.io~csi''];
        r \<leftarrow> rcl (osReadDir env volumesDir);
        (case r of Inl _ \<Rightarrow> ret () | Inr vs \<Rightarrow> restartIn env volumeID volumesDir podUID vs)
      });
     restartPods env volumeID podsDir es
   }"

definition restartPodsWithStaleS3Mount :: "env \<Rightarrow> string \<Rightarrow> (ns, unit) state" where
  "restartPodsWithStaleS3Mount env volumeID = do {
     root \<leftarrow> resolveKubeletRoot env;
     let podsDir = root @ ''/pods'';
     r \<leftarrow> rcl (osReadDir env podsDir);
     (case r of Inl _ \<Rightarrow> ret () | Inr es \<Rightarrow> restartPods env volumeID podsDir es)
   }"

end
