(* ===== verification/NodeS3.thy ===== *)
theory NodeS3
  imports NodePods
begin

text \<open>
  The life of an S3 volume on a node (\<^verbatim>\<open>driver/node_s3.go\<close>): mounting it, draining it in the background, unstaging it only once
  its writes are in S3, and resuming an upload that was left behind.
\<close>

section \<open>Configuration of a mount\<close>

definition VFSCacheModeParam :: string where "VFSCacheModeParam = ''rclone-vfs-cache-mode''"
definition VFSCacheMaxAgeParam :: string where "VFSCacheMaxAgeParam = ''rclone-vfs-cache-max-age''"
definition VFSCacheMaxSizeParam :: string where "VFSCacheMaxSizeParam = ''rclone-vfs-cache-max-size''"
definition VFSCachePollIntervalParam :: string where "VFSCachePollIntervalParam = ''rclone-vfs-cache-poll-interval''"
definition VFSWriteBackParam :: string where "VFSWriteBackParam = ''rclone-vfs-write-back''"
definition DirCacheTimeParam :: string where "DirCacheTimeParam = ''rclone-dir-cache-time''"
definition AttrTimeoutParam :: string where "AttrTimeoutParam = ''rclone-attr-timeout''"
definition ChunkStreamsParam :: string where "ChunkStreamsParam = ''rclone-vfs-read-chunk-streams''"

definition orDefault :: "smap \<Rightarrow> string \<Rightarrow> string \<Rightarrow> string" where
  "orDefault m k d = (if mget m k = [] then d else mget m k)"

definition getVFSCacheConfig :: "smap \<Rightarrow> VFSCacheConfig" where
  "getVFSCacheConfig ctx =
     (let d = DefaultVFSCacheConfig
      in \<lparr>CacheMode = orDefault ctx VFSCacheModeParam (CacheMode d),
          CacheMaxAge = orDefault ctx VFSCacheMaxAgeParam (CacheMaxAge d),
          CacheMaxSize = orDefault ctx VFSCacheMaxSizeParam (CacheMaxSize d),
          CachePollInterval = orDefault ctx VFSCachePollIntervalParam (CachePollInterval d),
          WriteBack = orDefault ctx VFSWriteBackParam (WriteBack d),
          DirCacheTime = orDefault ctx DirCacheTimeParam (DirCacheTime d),
          AttrTimeout = orDefault ctx AttrTimeoutParam (AttrTimeout d),
          ChunkStreams = orDefault ctx ChunkStreamsParam (ChunkStreams d)\<rparr>)"

definition getS3ConfigFromSecrets :: "VolumeSecrets \<Rightarrow> S3Config" where
  "getS3ConfigFromSecrets vs = \<lparr>Region = vs_region vs, Endpoint = vs_endpoint vs, AccessKeyID = vs_accessKeyID vs,
     SecretAccessKey = vs_secretAccessKey vs, Bucket = vs_bucket vs, ForcePathStyle = vs_forcePathStyle vs, Provider = []\<rparr>"

section \<open>Managers\<close>

definition managerOf :: "string \<Rightarrow> (ns, MountManager option) state" where
  "managerOf volumeID = gets (\<lambda>s. mountManagers s volumeID)"

definition dropManager :: "string \<Rightarrow> (ns, unit) state" where
  "dropManager volumeID = modS (\<lambda>s. s\<lparr>mountManagers := (mountManagers s)(volumeID := None)\<rparr>)"

definition storeManager :: "string \<Rightarrow> MountManager \<Rightarrow> (ns, unit) state" where
  "storeManager volumeID mm = modS (\<lambda>s. s\<lparr>mountManagers := (mountManagers s)(volumeID \<mapsto> mm)\<rparr>)"

definition reexposeLiveSession :: "env \<Rightarrow> string \<Rightarrow> string \<Rightarrow> (ns, bool) state" where
  "reexposeLiveSession env volumeID stagingPath = do {
     m \<leftarrow> managerOf volumeID;
     (case m of
        None \<Rightarrow> ret False
      | Some mm \<Rightarrow>
          if mm_mountPoint mm \<noteq> stagingPath then ret False
          else do {
            serving \<leftarrow> rcl (SessionServing env mm);
            if \<not> serving then ret False
            else do {
              e \<leftarrow> rcl (Reexpose env mm);
              if e \<noteq> None then ret False
              else do {
                n \<leftarrow> rcl (timeNow env);
                modS (\<lambda>s. s\<lparr>mountedAt := (mountedAt s)(volumeID \<mapsto> n)\<rparr>);
                ret True
              }
            }
          })
   }"

text \<open>The old manager's monitors are stopped; it is not referred to afterwards.\<close>

definition mountS3Volume :: "env \<Rightarrow> string \<Rightarrow> string \<Rightarrow> smap \<Rightarrow> int option \<Rightarrow> (ns, goerr option) state" where
  "mountS3Volume env volumeID stagingPath volumeContext fsGroup = do {
     p \<leftarrow> rcl (getPVByVolumeID env volumeID);
     (case p of
        Inl e \<Rightarrow> ret (Some (WrapV ''get PV'' e))
      | Inr pv \<Rightarrow> do {
          c \<leftarrow> rcl (getStorageClassParameters env (pv_storageClass pv));
          (case c of
             Inl e \<Rightarrow> ret (Some (WrapV ''get StorageClass parameters'' e))
           | Inr scParams \<Rightarrow> do {
               f \<leftarrow> rcl (FetchVolumeSecrets env (ExtractSecretParams scParams volumeContext));
               (case f of
                  Inl e \<Rightarrow> ret (Some (WrapV ''fetch secrets'' e))
                | Inr vs \<Rightarrow>
                    if Bucket (getS3ConfigFromSecrets vs) = [] then ret (Some (Err ''S3 bucket not found''))
                    else if vs_passphrase vs = [] then ret (Some (Err ''LUKS passphrase not found''))
                    else do {
                      mm \<leftarrow> rcl (NewMountManager env (getS3ConfigFromSecrets vs) volumeID stagingPath
                              (Some (getVFSCacheConfig volumeContext)) (mget volumeContext S3PathPrefixParam) (vs_passphrase vs) fsGroup);
                      r \<leftarrow> rcl (Mount env mm);
                      (case r of
                         (Some e, _) \<Rightarrow> ret (Some (WrapW ''failed to mount'' e))
                       | (None, mm') \<Rightarrow> do { storeManager volumeID mm'; ret None })
                    })
             })
        })
   }"

section \<open>Draining\<close>

definition drainMountBase :: string where
  "drainMountBase = ''/var/lib/lukscrypt-cache/drain''"

text \<open>What both goroutines do once they have a manager: unmount it, forget it, and report what is left.\<close>

definition unmountManager :: "env \<Rightarrow> string \<Rightarrow> MountManager \<Rightarrow> (ns, bool) state" where
  "unmountManager env volumeID mm = do {
     r \<leftarrow> rcl (Unmount_mm env mm);
     dropManager volumeID;
     whenS (\<not> fst r) (reportUnuploadedData env volumeID);
     ret (fst r)
   }"

definition drainBody :: "env \<Rightarrow> string \<Rightarrow> (ns, bool) state" where
  "drainBody env volumeID = do {
     m \<leftarrow> managerOf volumeID;
     (case m of None \<Rightarrow> ret False | Some mm \<Rightarrow> unmountManager env volumeID mm)
   }"

definition resumeBody :: "env \<Rightarrow> string \<Rightarrow> string \<Rightarrow> smap \<Rightarrow> (ns, bool) state" where
  "resumeBody env volumeID path volumeContext = do {
     e \<leftarrow> mountS3Volume env volumeID path volumeContext None;
     if e \<noteq> None then ret False
     else do {
       m \<leftarrow> managerOf volumeID;
       (case m of
          None \<Rightarrow> ret False
        | Some mm \<Rightarrow> do {
            drained \<leftarrow> unmountManager env volumeID mm;
            whenS (hasPrefix path (drainMountBase @ ''/'')) (do { _ \<leftarrow> rcl (fsCall env (Remove path)); ret () });
            ret drained
          })
     }
   }"

fun runTask :: "env \<Rightarrow> drainTask \<Rightarrow> (ns, unit) state" where
  "runTask env (DrainTask volumeID) = do {
     drained \<leftarrow> drainBody env volumeID;
     finishBackgroundDrain env volumeID drained
   }"
| "runTask env (ResumeTask volumeID path volumeContext) = do {
     drained \<leftarrow> resumeBody env volumeID path volumeContext;
     finishBackgroundDrain env volumeID drained
   }"

definition spawn :: "drainTask \<Rightarrow> (ns, unit) state" where
  "spawn t = modS (\<lambda>s. s\<lparr>drainTasks := drainTasks s @ [t]\<rparr>)"

text \<open>The goroutine \<open>t\<close> runs to its end; and the one that holds the slot of a volume. A goroutine is known by its volume.\<close>

fun dropTask :: "string \<Rightarrow> drainTask list \<Rightarrow> drainTask list" where
  "dropTask v [] = []"
| "dropTask v (t # ts) = (if taskVolume t = v then ts else t # dropTask v ts)"

definition taskStep :: "env \<Rightarrow> drainTask \<Rightarrow> (ns, unit) state" where
  "taskStep env t = do {
     modS (\<lambda>s. s\<lparr>drainTasks := dropTask (taskVolume t) (drainTasks s)\<rparr>);
     runTask env t
   }"

definition completeDrain :: "env \<Rightarrow> string \<Rightarrow> (ns, unit) state" where
  "completeDrain env volumeID = do {
     ts \<leftarrow> gets drainTasks;
     (case find (\<lambda>t. taskVolume t = volumeID) ts of None \<Rightarrow> ret () | Some t \<Rightarrow> taskStep env t)
   }"

text \<open>The drain ends within the timeout, or the timer fires first.\<close>

definition waitForBackgroundDrain :: "env \<Rightarrow> string \<Rightarrow> (ns, bool) state" where
  "waitForBackgroundDrain env volumeID = do {
     running \<leftarrow> isBackgroundDraining volumeID;
     if \<not> running then ret True
     else do {
       inTime \<leftarrow> rcl (hasFinished env (''drain '' @ volumeID));
       if inTime then do { completeDrain env volumeID; ret True } else ret False
     }
   }"

definition resumeStrandedDrain :: "env \<Rightarrow> string \<Rightarrow> string \<Rightarrow> (ns, unit) state" where
  "resumeStrandedDrain env volumeID stagingTargetPath =
     (if stagingTargetPath = [] then ret ()
      else do {
        c \<leftarrow> getS3VolumeContext env volumeID;
        (case c of
           None \<Rightarrow> ret ()
         | Some volumeContext \<Rightarrow> do {
             claimed \<leftarrow> startBackgroundDrain env volumeID;
             whenS claimed (do {
               reportUnuploadedData env volumeID;
               spawn (ResumeTask volumeID stagingTargetPath volumeContext)
             })
           })
      })"

section \<open>Setting up\<close>

definition setupS3Sync :: "env \<Rightarrow> string \<Rightarrow> string \<Rightarrow> smap \<Rightarrow> int option \<Rightarrow> (ns, goerr option) state" where
  "setupS3Sync env volumeID stagingPath volumeContext fsGroup = do {
     free \<leftarrow> waitForBackgroundDrain env volumeID;
     if \<not> free then ret (Some (Err ''background drain still in progress''))
     else do {
       pending \<leftarrow> hasPendingDrain volumeID;
       whenS pending (do {
         modS (\<lambda>s. s\<lparr>pendingDrains := pendingDrains s - {volumeID}\<rparr>);
         rcl (ClearDrainPending env volumeID)
       });
       reexposed \<leftarrow> reexposeLiveSession env volumeID stagingPath;
       if reexposed then ret None
       else orFail (mountS3Volume env volumeID stagingPath volumeContext fsGroup) id (do {
         n \<leftarrow> rcl (timeNow env);
         modS (\<lambda>s. s\<lparr>mountedAt := (mountedAt s)(volumeID \<mapsto> n)\<rparr>);
         ret None
       })
     }
   }"

definition setupS3Volume :: "env \<Rightarrow> StagingParameters \<Rightarrow> smap \<Rightarrow> (ns, goerr option) state" where
  "setupS3Volume env params volumeContext =
     orFail (do { r \<leftarrow> rcl (fsCall env (MkdirAll (sp_stagingTargetPath params))); ret (fsErr r) }) (WrapV ''create staging directory'') (
     orFail (setupS3Sync env (sp_volumeID params) (sp_stagingTargetPath params) volumeContext (sp_fsGroup params))
       (WrapV ''setup S3 sync'') (ret None))"

definition restoreS3VolumeStaging :: "env \<Rightarrow> string \<Rightarrow> string \<Rightarrow> smap \<Rightarrow> VolumeCapability option \<Rightarrow> (ns, goerr option) state" where
  "restoreS3VolumeStaging env volumeID stagingTargetPath volumeContext volumeCapability =
     orFail (do { r \<leftarrow> rcl (fsCall env (MkdirAll stagingTargetPath)); ret (fsErr r) }) (WrapV ''create staging directory'') (do {
       fsGroup \<leftarrow> rcl (extractFsGroup env volumeContext volumeCapability);
       orFail (setupS3Sync env volumeID stagingTargetPath volumeContext fsGroup) (WrapV ''setup S3 sync during restore'') (ret None)
     })"

definition reportMountLifetime :: "env \<Rightarrow> string \<Rightarrow> (ns, unit) state" where
  "reportMountLifetime env volumeID = do {
     v \<leftarrow> gets (\<lambda>s. mountedAt s volumeID);
     modS (\<lambda>s. s\<lparr>mountedAt := (mountedAt s)(volumeID := None)\<rparr>);
     whenS (v \<noteq> None) (do { _ \<leftarrow> rcl (timeNow env); ret () })
   }"

section \<open>Cleaning up\<close>

definition ForceUnstageAnnotation :: string where
  "ForceUnstageAnnotation = ''lukscryptwalker.io/force-unstage''"

definition forceUnstageRequested :: "env \<Rightarrow> string \<Rightarrow> (ns, bool) state" where
  "forceUnstageRequested env volumeID =
     (if \<not> hasClient env then ret False
      else do {
        r \<leftarrow> rcl (getPVByVolumeID env volumeID);
        (case r of
           Inl _ \<Rightarrow> ret False
         | Inr p \<Rightarrow>
             if mget (pv_annotations p) ForceUnstageAnnotation = ''true'' then ret True
             else (case pv_claimRef p of
                     None \<Rightarrow> ret False
                   | Some (namespace, name) \<Rightarrow> do {
                       c \<leftarrow> rcl (kube (\<lambda>h. getPVC env h namespace name) (KGetPVC namespace name));
                       ret (case c of Inl _ \<Rightarrow> False | Inr pvc \<Rightarrow> mget (pvc_annotations pvc) ForceUnstageAnnotation = ''true'')
                     }))
      })"

definition forceCleanupS3Sync :: "env \<Rightarrow> string \<Rightarrow> (ns, unit) state" where
  "forceCleanupS3Sync env volumeID = do {
     reportOn env ''ForcedUnstageWithUnuploadedData'' volumeID;
     m \<leftarrow> managerOf volumeID;
     dropManager volumeID;
     (case m of None \<Rightarrow> ret () | Some mm \<Rightarrow> do { _ \<leftarrow> rcl (UnmountWithin env mm ShortDrainWait); ret () })
   }"

abbreviation unuploaded :: goerr where
  "unuploaded \<equiv> WrapW ''refused'' (Sentinel ErrUnuploadedData)"

text \<open>
  The end of the cleanup, without a manager (the driver restarted, or never mounted the volume) and with one. Unmounting never returns
  an error, so the only error is that writes are left.
\<close>

definition unstageUnmanaged :: "env \<Rightarrow> string \<Rightarrow> string \<Rightarrow> (ns, goerr option) state" where
  "unstageUnmanaged env volumeID stagingTargetPath =
     (if stagingTargetPath = [] then ret None
      else do {
        left \<leftarrow> rcl (HasUnuploadedData env volumeID);
        if \<not> left then ret None
        else do {
          resumeStrandedDrain env volumeID stagingTargetPath;
          ret (Some unuploaded)
        }
      })"

definition unstageManaged :: "env \<Rightarrow> string \<Rightarrow> string \<Rightarrow> MountManager \<Rightarrow> (ns, goerr option) state" where
  "unstageManaged env volumeID stagingTargetPath mm = do {
     empty \<leftarrow> rcl (IsUploadQueueEmpty env mm);
     if empty then do {
       r \<leftarrow> rcl (UnmountWithin env mm ShortDrainWait);
       dropManager volumeID;
       if \<not> fst r \<and> stagingTargetPath \<noteq> [] then do {
         resumeStrandedDrain env volumeID stagingTargetPath;
         ret (Some unuploaded)
       }
       else ret None
     }
     else do {
       _ \<leftarrow> startBackgroundDrain env volumeID;
       spawn (DrainTask volumeID);
       ret (Some unuploaded)
     }
   }"

definition cleanupS3Sync :: "env \<Rightarrow> string \<Rightarrow> string \<Rightarrow> (ns, goerr option) state" where
  "cleanupS3Sync env volumeID stagingTargetPath = do {
     draining \<leftarrow> isBackgroundDraining volumeID;
     suspect \<leftarrow> (if draining then ret True else rcl (HasUnuploadedData env volumeID));
     forced \<leftarrow> (if suspect then forceUnstageRequested env volumeID else ret False);
     if forced then do { forceCleanupS3Sync env volumeID; ret None }
     else if draining then ret (Some unuploaded)
     else do {
       m \<leftarrow> managerOf volumeID;
       (case m of
          None \<Rightarrow> unstageUnmanaged env volumeID stagingTargetPath
        | Some mm \<Rightarrow> unstageManaged env volumeID stagingTargetPath mm)
     }
   }"

lemmas cleanup_defs = cleanupS3Sync_def unstageUnmanaged_def unstageManaged_def

end
