(* ===== verification/NodeRepair.thy ===== *)
theory NodeRepair
  imports NodeS3
begin

text \<open>
  The background repair of the node service (\<^verbatim>\<open>driver/node_s3.go\<close>): finding stale and missing mounts and healing them in
  place, re-pointing consumers that hold a dead mount, resuming uploads of volumes kubelet has forgotten, and the
  sweeps. Every step that restarts or deletes a consumer asks \<^verbatim>\<open>consumerRestartAllowed\<close> first.
\<close>

section \<open>Zombies\<close>

definition zombieVFSConfirmations :: int where
  "zombieVFSConfirmations = 2"

definition expectedFSName :: "env \<Rightarrow> string \<Rightarrow> (ns, string) state" where
  "expectedFSName env volumeID = do {
     m \<leftarrow> managerOf volumeID;
     (case m of Some mm \<Rightarrow> ret (FSName mm) | None \<Rightarrow> rcl (FSNameForVolume env volumeID))
   }"

definition setStrikes :: "string \<Rightarrow> int option \<Rightarrow> (ns, unit) state" where
  "setStrikes volumeID v = modS (\<lambda>s. s\<lparr>zombieVFSStrikes := (zombieVFSStrikes s)(volumeID := v)\<rparr>)"

definition vfsRegistryMissing :: "env \<Rightarrow> string \<Rightarrow> string list option \<Rightarrow> (ns, bool) state" where
  "vfsRegistryMissing env volumeDir vfsNames = (case vfsNames of
       None \<Rightarrow> ret False
     | Some names \<Rightarrow> do {
         volumeID \<leftarrow> getVolumeIDFromVolData env volumeDir;
         setup \<leftarrow> isVolumeSetupInProgress volumeID;
         draining \<leftarrow> isBackgroundDraining volumeID;
         if volumeID = [] \<or> setup \<or> draining then ret False
         else do {
           name \<leftarrow> expectedFSName env volumeID;
           if name \<in> set names then do { setStrikes volumeID None; ret False }
           else do {
             prev \<leftarrow> gets (\<lambda>s. zombieVFSStrikes s volumeID);
             let strikes = (case prev of None \<Rightarrow> 1 | Some k \<Rightarrow> k + 1);
             if strikes < zombieVFSConfirmations then do { setStrikes volumeID (Some strikes); ret False }
             else do { setStrikes volumeID None; ret True }
           }
         }
       })"

section \<open>Staged volumes\<close>

definition csiPluginPath :: "env \<Rightarrow> (ns, string) state" where
  "csiPluginPath env = do {
     root \<leftarrow> resolveKubeletRoot env;
     ret (root @ ''/plugins/kubernetes.io/csi/'' @ DriverName)
   }"

fun volumeIDsIn :: "env \<Rightarrow> string \<Rightarrow> (string \<times> bool) list \<Rightarrow> (ns, (string \<times> string) list) state" where
  "volumeIDsIn env dir [] = ret []"
| "volumeIDsIn env dir ((name, isdir) # es) =
     (if \<not> isdir then volumeIDsIn env dir es
      else do {
        v \<leftarrow> getVolumeIDFromVolData env (pathJoin [dir, name]);
        rest \<leftarrow> volumeIDsIn env dir es;
        ret (if v = [] then rest else (v, pathJoin [dir, name, ''globalmount'']) # rest)
      })"

text \<open>\<open>None\<close>: the answer is unknown.\<close>

definition stagedVolumeIDs :: "env \<Rightarrow> (ns, string list option) state" where
  "stagedVolumeIDs env = do {
     dir \<leftarrow> csiPluginPath env;
     r \<leftarrow> rcl (osReadDir env dir);
     (case r of
        Inl e \<Rightarrow> ret (if e = ENOENT then Some [] else None)
      | Inr es \<Rightarrow> do { vs \<leftarrow> volumeIDsIn env dir es; ret (Some (map fst vs)) })
   }"

record stagedVolume =
  sv_volumeID :: string
  sv_globalmountPath :: string
  sv_pvcNamespace :: string
  sv_pvcName :: string

text \<open>A later entry for the same volume replaces an earlier one, as assigning to the Go map does.\<close>

definition stagedEntry :: "(string \<times> string) list \<Rightarrow> pv \<Rightarrow> (string \<times> stagedVolume) option" where
  "stagedEntry stagingPaths p = (case pv_csi p of
       None \<Rightarrow> None
     | Some c \<Rightarrow>
         if csi_driver c \<noteq> DriverName then None
         else (case map_of (rev stagingPaths) (csi_handle c) of
                 None \<Rightarrow> None
               | Some path \<Rightarrow> Some (pv_name p,
                   case pv_claimRef p of
                     None \<Rightarrow> \<lparr>sv_volumeID = csi_handle c, sv_globalmountPath = path, sv_pvcNamespace = [], sv_pvcName = []\<rparr>
                   | Some (namespace, name) \<Rightarrow>
                       \<lparr>sv_volumeID = csi_handle c, sv_globalmountPath = path, sv_pvcNamespace = namespace, sv_pvcName = name\<rparr>)))"

definition stagedVolumesByPV :: "env \<Rightarrow> (ns, string \<rightharpoonup> stagedVolume) state" where
  "stagedVolumesByPV env = do {
     dir \<leftarrow> csiPluginPath env;
     r \<leftarrow> rcl (osReadDir env dir);
     (case r of
        Inl _ \<Rightarrow> ret Map.empty
      | Inr es \<Rightarrow>
          if \<not> hasClient env then ret Map.empty
          else do {
            stagingPaths \<leftarrow> volumeIDsIn env dir es;
            pvs \<leftarrow> rcl (kube (listPVs env) KListPVs);
            ret (case pvs of
                   Inl _ \<Rightarrow> Map.empty
                 | Inr ps \<Rightarrow> map_of (rev (List.map_filter (stagedEntry stagingPaths) ps)))
          })
   }"

section \<open>Re-binding consumers\<close>

definition ensureStagingServing :: "env \<Rightarrow> string \<Rightarrow> (ns, goerr option) state" where
  "ensureStagingServing env stagingPath = do {
     rcl (InvalidateHostMounts env);
     e \<leftarrow> verifyS3StagingLive env stagingPath;
     if e = None then ret None
     else do {
       v \<leftarrow> getVolumeIDFromVolData env (pathDir stagingPath);
       whenS (v \<noteq> []) (do { _ \<leftarrow> reexposeLiveSession env v stagingPath; ret () });
       verifyS3StagingLive env stagingPath
     }
   }"

definition rebindConsumerMount :: "env \<Rightarrow> string \<Rightarrow> string \<Rightarrow> string \<Rightarrow> (ns, bool) state" where
  "rebindConsumerMount env globalmountPath podUID pvName =
     (if pvName = [] then ret False
      else do {
        root \<leftarrow> resolveKubeletRoot env;
        let targetPath = consumerPath root podUID pvName;
        i \<leftarrow> rcl (osStat env (pathDir targetPath));
        (case i of
           Inl _ \<Rightarrow> ret True
         | Inr _ \<Rightarrow> do {
             u \<leftarrow> rcl (unmountHostStack env targetPath);
             if u \<noteq> None then ret False
             else do {
               e \<leftarrow> ensureStagingServing env globalmountPath;
               if e \<noteq> None then ret False
               else do { b \<leftarrow> rcl (bindMount env globalmountPath targetPath False); ret (b = None) }
             }
           })
      })"

section \<open>Healing one volume\<close>

definition healConsumer :: "env \<Rightarrow> string \<Rightarrow> string \<Rightarrow> string \<Rightarrow> bool \<Rightarrow> pod \<Rightarrow> (ns, unit) state" where
  "healConsumer env globalmountPath pvcName pvName restartBudget p =
     (if pod_deletion p \<noteq> None then do {
        unbindTerminatingConsumer env (pod_uid p) pvName;
        deletePodByUID env (pod_uid p)
      }
      else do {
        rebound \<leftarrow> rebindConsumerMount env globalmountPath (pod_uid p) pvName;
        healed \<leftarrow> (if podSelfHealsViaPropagation p pvcName
                  then consumerMountHealthy env (pod_uid p) pvName globalmountPath else ret False);
        if healed then ret ()
        else if \<not> restartBudget then ret ()
        else if \<not> rebound then deletePodByUID env (pod_uid p)
        else recoverConsumerPod env p
      })"

fun healConsumers :: "env \<Rightarrow> string \<Rightarrow> string \<Rightarrow> string \<Rightarrow> bool \<Rightarrow> pod list \<Rightarrow> (ns, unit) state" where
  "healConsumers env globalmountPath pvcName pvName restartBudget [] = ret ()"
| "healConsumers env globalmountPath pvcName pvName restartBudget (p # ps) = do {
     healConsumer env globalmountPath pvcName pvName restartBudget p;
     healConsumers env globalmountPath pvcName pvName restartBudget ps
   }"

definition remountFailed :: "env \<Rightarrow> string \<Rightarrow> string \<Rightarrow> (ns, unit) state" where
  "remountFailed env volumeID globalmountPath = do {
     dropManager volumeID;
     allowed \<leftarrow> consumerRestartAllowed env volumeID;
     whenS allowed (do {
       mounted \<leftarrow> rcl (IsHostMountPoint env globalmountPath);
       whenS (\<not> mounted) (removeAllBounded env globalmountPath);
       restartPodsWithStaleS3Mount env volumeID
     })
   }"

definition remountVolume :: "env \<Rightarrow> string \<Rightarrow> string \<Rightarrow> smap \<Rightarrow> (ns, unit) state" where
  "remountVolume env volumeID globalmountPath volumeContext = do {
     refs \<leftarrow> resolveVolumeRefs env volumeID;
     consumers \<leftarrow> podsUsingPVC env (fst refs) (fst (snd refs));
     old \<leftarrow> managerOf volumeID;
     dropManager volumeID;
     _ \<leftarrow> rcl (ShutdownSessions env volumeID [case old of None \<Rightarrow> [] | Some mm \<Rightarrow> mm_sessionPath mm]);
     abortFUSEConnection env globalmountPath;
     _ \<leftarrow> rcl (runCmdBounded env ''umount'' [''-l'', globalmountPath]);
     _ \<leftarrow> rcl (mkdirAllBounded env globalmountPath);
     e \<leftarrow> setupS3Sync env volumeID globalmountPath volumeContext (fsGroupFromPods consumers);
     if e \<noteq> None then remountFailed env volumeID globalmountPath
     else do {
       restartBudget \<leftarrow> consumerRestartAllowed env volumeID;
       healConsumers env globalmountPath (fst (snd refs)) (snd (snd refs)) restartBudget consumers
     }
   }"

definition reconcileS3Mount :: "env \<Rightarrow> string \<Rightarrow> string \<Rightarrow> smap \<Rightarrow> bool \<Rightarrow> (ns, unit) state" where
  "reconcileS3Mount env volumeID globalmountPath volumeContext missing = do {
     markVolumeSetupInProgress volumeID;
     reexposed \<leftarrow> (if missing then reexposeLiveSession env volumeID globalmountPath else ret False);
     whenS (\<not> reexposed) (remountVolume env volumeID globalmountPath volumeContext);
     markVolumeSetupComplete volumeID
   }"

section \<open>The checker\<close>

definition unmountStaleS3Mount :: "env \<Rightarrow> string \<Rightarrow> (ns, unit) state" where
  "unmountStaleS3Mount env mountPath = do {
     _ \<leftarrow> rcl (runCmdBounded env ''umount'' [''-l'', mountPath]);
     removeAllBounded env mountPath
   }"

datatype mountState = Absent | Healthy | Stale | Missing

definition inspectMount :: "env \<Rightarrow> string list option \<Rightarrow> string \<Rightarrow> string \<Rightarrow> (ns, mountState) state" where
  "inspectMount env vfsNames volumeDir globalmountPath = do {
     r \<leftarrow> statfsBounded env globalmountPath;
     let statErr = fst r;
     let timedOut = snd r;
     if \<not> timedOut \<and> statErr = Some ENOENT then ret Absent
     else do {
       let dead = (timedOut \<or> (case statErr of Some e \<Rightarrow> isMountDeadErr e | None \<Rightarrow> False));
       fuse \<leftarrow> (if statErr = None then isFUSEMountPoint env globalmountPath else ret True);
       let missing = (statErr = None \<and> \<not> fuse);
       zombie \<leftarrow> (if \<not> dead \<and> statErr = None \<and> \<not> missing then vfsRegistryMissing env volumeDir vfsNames else ret False);
       responsive \<leftarrow> (if \<not> dead \<and> \<not> zombie \<and> statErr = None \<and> \<not> missing then mountVFSResponsive env globalmountPath else ret True);
       ret (if dead \<or> zombie \<or> \<not> responsive then Stale else if missing then Missing else Healthy)
     }
   }"

definition checkVolume :: "env \<Rightarrow> string list option \<Rightarrow> string \<Rightarrow> (ns, unit) state" where
  "checkVolume env vfsNames volumeDir = do {
     let globalmountPath = pathJoin [volumeDir, ''globalmount''];
     st \<leftarrow> inspectMount env vfsNames volumeDir globalmountPath;
     if st = Absent then ret ()
     else do {
       volumeID \<leftarrow> getVolumeIDFromVolData env volumeDir;
       if st = Healthy then whenS (volumeID \<noteq> []) (reconcileSucceeded volumeID)
       else if volumeID = [] then whenS (st = Stale) (unmountStaleS3Mount env globalmountPath)
       else do {
         setup \<leftarrow> isVolumeSetupInProgress volumeID;
         draining \<leftarrow> isBackgroundDraining volumeID;
         if setup \<or> draining then ret ()
         else do {
           c \<leftarrow> getS3VolumeContext env volumeID;
           (case c of
              None \<Rightarrow> whenS (st = Stale) (unmountStaleS3Mount env globalmountPath)
            | Some volumeContext \<Rightarrow> do {
                needed \<leftarrow> (if st = Stale then ret True
                  else do {
                    refs \<leftarrow> resolveVolumeRefs env volumeID;
                    consumers \<leftarrow> podsUsingPVC env (fst refs) (fst (snd refs));
                    ret (consumers \<noteq> [])
                  });
                whenS needed (do {
                  reportMountLifetime env volumeID;
                  allowed \<leftarrow> reconcileAllowed env volumeID;
                  whenS allowed (reconcileS3Mount env volumeID globalmountPath volumeContext (st \<noteq> Stale))
                })
              })
         }
       }
     }
   }"

fun checkVolumes :: "env \<Rightarrow> string list option \<Rightarrow> string \<Rightarrow> (string \<times> bool) list \<Rightarrow> (ns, unit) state" where
  "checkVolumes env vfsNames dir [] = ret ()"
| "checkVolumes env vfsNames dir ((name, isdir) # es) = do {
     whenS isdir (checkVolume env vfsNames (pathJoin [dir, name]));
     checkVolumes env vfsNames dir es
   }"

definition cleanupStaleS3Mounts :: "env \<Rightarrow> (ns, unit) state" where
  "cleanupStaleS3Mounts env = do {
     stalled \<leftarrow> nodeIOStalled env;
     if stalled then ret ()
     else do {
       known \<leftarrow> rcl (HostMountsKnown env);
       if \<not> known then ret ()
       else do {
         vfsNames \<leftarrow> rcl (RegisteredVFSNames env);
         dir \<leftarrow> csiPluginPath env;
         i \<leftarrow> rcl (osStat env dir);
         if i = Inl ENOENT then ret ()
         else do {
           r \<leftarrow> rcl (osReadDir env dir);
           (case r of Inl _ \<Rightarrow> ret () | Inr es \<Rightarrow> checkVolumes env vfsNames dir es)
         }
       }
     }
   }"

section \<open>Stranded consumers\<close>

definition maxStrandedRestartsPerSweep :: nat where
  "maxStrandedRestartsPerSweep = 1"

fun strandedBinds :: "env \<Rightarrow> string list \<Rightarrow> consumerBind list \<Rightarrow> (ns, (consumerBind \<times> string list) list) state" where
  "strandedBinds env live [] = ret []"
| "strandedBinds env live (b # bs) = do {
     stranded \<leftarrow> containerStrandedDevices env (cb_podUID b) live;
     rest \<leftarrow> strandedBinds env live bs;
     ret (if cb_depth b > 1 \<or> stranded \<noteq> [] then (b, stranded) # rest else rest)
   }"

text \<open>One bind of the sweep; the result is the number of restarts so far.\<close>

definition repairBind :: "env \<Rightarrow> (string \<rightharpoonup> stagedVolume) \<Rightarrow> nat \<Rightarrow> consumerBind \<Rightarrow> string list \<Rightarrow> (ns, nat) state" where
  "repairBind env staged restarts b stranded = (case staged (cb_pvName b) of
       None \<Rightarrow> ret restarts
     | Some sv \<Rightarrow> do {
         setup \<leftarrow> isVolumeSetupInProgress (sv_volumeID sv);
         draining \<leftarrow> isBackgroundDraining (sv_volumeID sv);
         if setup \<or> draining then ret restarts
         else do {
           consumers \<leftarrow> podsUsingPVC env (sv_pvcNamespace sv) (sv_pvcName sv);
           (case podByUID consumers (cb_podUID b) of
              None \<Rightarrow> ret restarts
            | Some p \<Rightarrow>
                if pod_deletion p \<noteq> None then ret restarts
                else do {
                  rebound \<leftarrow> rebindConsumerMount env (sv_globalmountPath sv) (cb_podUID b) (cb_pvName b);
                  if \<not> rebound \<or> stranded = [] then ret restarts
                  else do {
                    rcl (InvalidateHostMounts env);
                    cb \<leftarrow> consumerBinds env;
                    healed \<leftarrow> (case cb of
                        None \<Rightarrow> ret False
                      | Some (_, live2) \<Rightarrow> do { l \<leftarrow> containerStrandedDevices env (cb_podUID b) live2; ret (l = []) });
                    if healed then ret restarts
                    else if restarts \<ge> maxStrandedRestartsPerSweep then ret restarts
                    else do {
                      allowed \<leftarrow> consumerRestartAllowed env (sv_volumeID sv);
                      if \<not> allowed then ret restarts
                      else do { recoverConsumerPod env p; ret (restarts + 1) }
                    }
                  }
                })
         }
       })"

fun repairBinds :: "env \<Rightarrow> (string \<rightharpoonup> stagedVolume) \<Rightarrow> nat \<Rightarrow> (consumerBind \<times> string list) list \<Rightarrow> (ns, nat) state" where
  "repairBinds env staged restarts [] = ret restarts"
| "repairBinds env staged restarts (t # ts) = do {
     k \<leftarrow> repairBind env staged restarts (fst t) (snd t);
     repairBinds env staged k ts
   }"

definition repairStrandedConsumers :: "env \<Rightarrow> (ns, unit) state" where
  "repairStrandedConsumers env = do {
     cb \<leftarrow> consumerBinds env;
     (case cb of
        None \<Rightarrow> ret ()
      | Some (binds, live) \<Rightarrow> do {
          todo \<leftarrow> strandedBinds env live binds;
          whenS (todo \<noteq> []) (do {
            staged \<leftarrow> stagedVolumesByPV env;
            _ \<leftarrow> repairBinds env staged 0 todo;
            ret ()
          })
        })
   }"

section \<open>Stranded uploads and sweeps\<close>

definition recoverVolume :: "env \<Rightarrow> string list \<Rightarrow> string \<Rightarrow> (ns, unit) state" where
  "recoverVolume env staged volumeID = do {
     setup \<leftarrow> isVolumeSetupInProgress volumeID;
     draining \<leftarrow> isBackgroundDraining volumeID;
     m \<leftarrow> managerOf volumeID;
     if volumeID \<in> set staged \<or> setup \<or> draining \<or> m \<noteq> None then ret ()
     else do {
       prev \<leftarrow> gets (\<lambda>s. strandedRetry s volumeID);
       early \<leftarrow> (case prev of
           None \<Rightarrow> ret False
         | Some t \<Rightarrow> do { n \<leftarrow> rcl (timeNow env); ret (n - t < strandedRetryInterval) });
       if early then ret ()
       else do {
         forced \<leftarrow> forceUnstageRequested env volumeID;
         if forced then ret ()
         else do {
           n \<leftarrow> rcl (timeNow env);
           modS (\<lambda>s. s\<lparr>strandedRetry := (strandedRetry s)(volumeID \<mapsto> n)\<rparr>);
           resumeStrandedDrain env volumeID (pathJoin [drainMountBase, volumeID])
         }
       }
     }
   }"

fun recoverStranded :: "env \<Rightarrow> string list \<Rightarrow> string list \<Rightarrow> (ns, unit) state" where
  "recoverStranded env staged [] = ret ()"
| "recoverStranded env staged (volumeID # vs) = do {
     recoverVolume env staged volumeID;
     recoverStranded env staged vs
   }"

definition recoverStrandedVolumes :: "env \<Rightarrow> (ns, unit) state" where
  "recoverStrandedVolumes env = do {
     stranded \<leftarrow> rcl (VolumesWithUnuploadedData env);
     if stranded = [] then ret ()
     else do {
       staged \<leftarrow> stagedVolumeIDs env;
       (case staged of None \<Rightarrow> ret () | Some ids \<Rightarrow> recoverStranded env ids stranded)
     }
   }"

fun sweepVolumes :: "env \<Rightarrow> string list \<Rightarrow> (ns, unit) state" where
  "sweepVolumes env [] = ret ()"
| "sweepVolumes env (v # vs) = do {
     draining \<leftarrow> isBackgroundDraining v;
     whenS (\<not> draining) (rcl (SweepDeadSessions env v));
     sweepVolumes env vs
   }"

definition sweepDeadSessions :: "env \<Rightarrow> (ns, unit) state" where
  "sweepDeadSessions env = do {
     vs \<leftarrow> rcl (SessionVolumes env);
     sweepVolumes env vs
   }"

end
