(* ===== verification/RateLimit.thy ===== *)
theory RateLimit
  imports Main
begin

text \<open>
  The contract of a rate limiter, shared by the limiters of the node service and by the host watchdog.
\<close>

text \<open>
  The times at which a limiter said yes in a sequence of requests, and times that lie at least \<open>d\<close> apart.
\<close>

fun grantTimes :: "('e \<Rightarrow> 's \<Rightarrow> bool \<times> 's) \<Rightarrow> ('s \<Rightarrow> int option) \<Rightarrow> 'e list \<Rightarrow> 's \<Rightarrow> int list" where
  "grantTimes ask lastGrant [] s = []"
| "grantTimes ask lastGrant (e # es) s =
     (case ask e s of (b, s') \<Rightarrow> (if b then [the (lastGrant s')] else []) @ grantTimes ask lastGrant es s')"

fun spaced :: "int \<Rightarrow> int list \<Rightarrow> bool" where
  "spaced d (t # u # ts) = (t + d \<le> u \<and> spaced d (u # ts))"
| "spaced d ts = True"

lemma spaced_last: "spaced d ts \<Longrightarrow> ts \<noteq> [] \<Longrightarrow> hd ts + d * int (length ts - 1) \<le> last ts"
  by (induction d ts rule: spaced.induct) (auto simp: algebra_simps)

text \<open>
  A limiter is asked again and again, while other things happen in between. It remembers when it last said yes
  (\<open>lastGrant\<close>), forgets nothing when it says no, and once it is \<open>limited\<close> a yes comes at least \<open>gap\<close> after the last. \<open>sound\<close> is
  what a request brings along.
\<close>

locale rate_limiter =
  fixes ask :: "'e \<Rightarrow> 's \<Rightarrow> bool \<times> 's"
    and lastGrant :: "'s \<Rightarrow> int option"
    and gap :: "'s \<Rightarrow> int"
    and limited :: "'s \<Rightarrow> bool"
    and sound :: "'e \<Rightarrow> bool"
  assumes refused: "sound e \<Longrightarrow> ask e s = (False, s') \<Longrightarrow> lastGrant s' = lastGrant s"
    and granted: "sound e \<Longrightarrow> ask e s = (True, s') \<Longrightarrow> \<exists>t. lastGrant s' = Some t \<and> (\<forall>t0. limited s \<longrightarrow> lastGrant s = Some t0 \<longrightarrow> t0 + gap s \<le> t)"
    and gap_grows: "sound e \<Longrightarrow> ask e s = (b, s') \<Longrightarrow> gap s \<le> gap s'"
    and stays_limited: "sound e \<Longrightarrow> ask e s = (b, s') \<Longrightarrow> limited s \<Longrightarrow> limited s'"
begin

lemma grants_from: "list_all sound es \<Longrightarrow> limited s \<Longrightarrow> d \<le> gap s \<Longrightarrow> lastGrant s = Some t0 \<Longrightarrow> spaced d (t0 # grantTimes ask lastGrant es s)"
proof (induction es arbitrary: s t0)
  case (Cons e es)
  obtain b s' where a: "ask e s = (b, s')" by fastforce
  then have g: "d \<le> gap s'" "limited s'" using gap_grows [of e s b s'] stays_limited [of e s b s'] Cons.prems by auto
  show ?case
  proof (cases b)
    case True
    with granted [of e s s'] a Cons.prems obtain t where "lastGrant s' = Some t" "t0 + gap s \<le> t" by auto
    with Cons.IH [OF _ g(2,1)] Cons.prems a True show ?thesis by auto
  next
    case False
    with refused [of e s s'] a Cons.prems Cons.IH [OF _ g(2,1)] show ?thesis by auto
  qed
qed simp

lemma grants_spaced: "list_all sound es \<Longrightarrow> limited s \<Longrightarrow> d \<le> gap s \<Longrightarrow> spaced d (grantTimes ask lastGrant es s)"
proof (induction es arbitrary: s)
  case (Cons e es)
  obtain b s' where a: "ask e s = (b, s')" by fastforce
  then have g: "d \<le> gap s'" "limited s'" using gap_grows [of e s b s'] stays_limited [of e s b s'] Cons.prems by auto
  show ?case
  proof (cases b)
    case True
    with granted [of e s s'] a Cons.prems obtain t where "lastGrant s' = Some t" by auto
    with grants_from [OF _ g(2,1) this] Cons.prems a True show ?thesis by auto
  next
    case False
    with a Cons.prems Cons.IH [OF _ g(2,1)] show ?thesis by auto
  qed
qed simp

end

end
