(* ===== verification/Watchdog.thy ===== *)
theory Watchdog
  imports NodeState RateLimit
begin

text \<open>
  The host watchdog (\<^verbatim>\<open>driver/watchdog.go\<close>): the driver installs a script and a timer on the host, which run while no driver
  does, and reports afterwards what the script did. The script is modelled as well: one run of it is a step on the
  counters it keeps under \<^verbatim>\<open>/run/lukscrypt-watchdog\<close>.
\<close>

section \<open>Installing\<close>

text \<open>The output of the command and its error, if any; a timeout keeps the output so far.\<close>

definition runHostSh :: "env \<Rightarrow> string \<Rightarrow> string \<Rightarrow> ('s os_scheme, string \<times> goerr option) state" where
  "runHostSh env command stdin = do {
     r \<leftarrow> run env (Cmd ''nsenter'' [''-t'', ''1'', ''-m'', ''sh'', ''-c'', command] stdin);
     ret (cmdOut r, cmdErr r)
   }"

fun installSteps :: "env \<Rightarrow> (string \<times> string) list \<Rightarrow> ('s os_scheme, unit) state" where
  "installSteps env [] = ret ()"
| "installSteps env ((content, c) # ss) = do {
     r \<leftarrow> runHostSh env c content;
     if snd r \<noteq> None then ret () else installSteps env ss
   }"

definition watchdogTimer :: string where
  "watchdogTimer = ''[Unit]'' @ [CHR 0x0A] @ ''Description=Run lukscryptwalker-csi self-heal watchdog every minute'' @ [CHR 0x0A, CHR 0x0A] @
     ''[Timer]'' @ [CHR 0x0A] @ ''OnBootSec=120'' @ [CHR 0x0A] @ ''OnUnitActiveSec=60'' @ [CHR 0x0A, CHR 0x0A] @
     ''[Install]'' @ [CHR 0x0A] @ ''WantedBy=timers.target'' @ [CHR 0x0A]"

definition watchdogService :: string where
  "watchdogService = ''[Unit]'' @ [CHR 0x0A] @ ''Description=lukscryptwalker-csi self-heal watchdog (container-scoped)'' @ [CHR 0x0A, CHR 0x0A] @
     ''[Service]'' @ [CHR 0x0A] @ ''Type=oneshot'' @ [CHR 0x0A] @ ''ExecStart=/var/lib/lukscrypt-watchdog/watchdog.sh'' @ [CHR 0x0A] @
     ''TimeoutStartSec=180'' @ [CHR 0x0A]"

text \<open>\<open>script\<close> is the text of the script, whose behaviour is the subject of the next section.\<close>

definition InstallHostWatchdog :: "env \<Rightarrow> string \<Rightarrow> ('s os_scheme, unit) state" where
  "InstallHostWatchdog env script =
     (if getenv env ''HOST_WATCHDOG'' = ''false'' then do {
        _ \<leftarrow> runHostSh env ''systemctl disable --now lukscrypt-watchdog.timer 2>/dev/null; true'' [];
        ret ()
      }
      else installSteps env
        [([], ''rm -f /var/lib/lukscrypt-watchdog/unhealthy-count /var/lib/lukscrypt-watchdog/last-reboot; true''),
         (script, ''mkdir -p /var/lib/lukscrypt-watchdog && cat > /var/lib/lukscrypt-watchdog/watchdog.sh && chmod 755 /var/lib/lukscrypt-watchdog/watchdog.sh''),
         (watchdogService, ''cat > /etc/systemd/system/lukscrypt-watchdog.service''),
         (watchdogTimer, ''cat > /etc/systemd/system/lukscrypt-watchdog.timer''),
         ([], ''systemctl daemon-reload && systemctl enable --now lukscrypt-watchdog.timer'')])"

definition drainCmd :: string where
  "drainCmd = joinStr [CHR 0x0A]
     [''L=/var/lib/lukscrypt-watchdog/actions.log'', ''cat '' @ [CHR 0x22] @ ''$L'' @ [CHR 0x22] @ '' 2>/dev/null'',
      ''cat '' @ [CHR 0x22] @ ''$L'' @ [CHR 0x22] @ '' >> /var/lib/lukscrypt-watchdog/actions-archive.log 2>/dev/null'',
      '': > '' @ [CHR 0x22] @ ''$L'' @ [CHR 0x22] @ '' 2>/dev/null'', ''true'']"

fun emitLines :: "env \<Rightarrow> string list \<Rightarrow> (ns, unit) state" where
  "emitLines env [] = ret ()"
| "emitLines env (l # ls) = do {
     n \<leftarrow> gets nodeID;
     record_event env ''HostWatchdogRecovery'' n;
     emitLines env ls
   }"

definition reportWatchdogActions :: "env \<Rightarrow> (ns, unit) state" where
  "reportWatchdogActions env = do {
     r \<leftarrow> rcl (runHostSh env drainCmd []);
     if snd r \<noteq> None \<or> trimSpace (fst r) = [] then ret ()
     else emitLines env (split_on (CHR 0x0A) (trimSpace (fst r)))
   }"

section \<open>The script\<close>

text \<open>
  What one run sees: whether a driver process exists, whether a runtime answers, whether it claims the driver's container to be
  running, the time in seconds, the driver's sandbox and container, the FUSE connections with whether aborting them succeeds, and
  whether the sandbox could be removed.
\<close>

record wdObs =
  driverAlive :: bool
  runtimeFound :: bool
  claimedRunning :: bool
  wdNow :: int
  wdSandbox :: string
  wdContainer :: string
  wdConnections :: "(string \<times> bool) list"
  wdRemoved :: bool

text \<open>The files under \<^verbatim>\<open>/run\<close>; a missing file reads as 0.\<close>

record wdState =
  zombieCount :: nat
  lastKill :: int
  lastNoRuntime :: int

datatype wdAction = CannotHeal | AbortConn string | Capture string | RemoveSandbox string bool

definition report_no_runtime :: "wdObs \<Rightarrow> wdState \<Rightarrow> wdAction list \<times> wdState" where
  "report_no_runtime obs st =
     (if wdNow obs - lastNoRuntime st < 3600 then ([], st) else ([CannotHeal], st\<lparr>lastNoRuntime := wdNow obs\<rparr>))"

text \<open>From the point where the script has decided to act: the stamp is written before the sandbox is looked up.\<close>

definition cure :: "wdObs \<Rightarrow> wdAction list" where
  "cure obs =
     (if wdSandbox obs = [] then []
      else map (\<lambda>(c, _). AbortConn c) (filter snd (wdConnections obs)) @
        (if wdContainer obs = [] then [] else [Capture (wdContainer obs)]) @
        [RemoveSandbox (wdSandbox obs) (wdRemoved obs)])"

text \<open>One run; the flag tells whether it went as far as the cure.\<close>

definition wdTick :: "wdObs \<Rightarrow> wdState \<Rightarrow> (wdAction list \<times> bool) \<times> wdState" where
  "wdTick obs st =
     (if driverAlive obs then (([], False), st\<lparr>zombieCount := 0\<rparr>)
      else if \<not> runtimeFound obs then (case report_no_runtime obs st of (as, st') \<Rightarrow> ((as, False), st'))
      else if \<not> claimedRunning obs then (([], False), st\<lparr>zombieCount := 0\<rparr>)
      else
        let n = zombieCount st + 1; st1 = st\<lparr>zombieCount := n\<rparr>
        in if n < 3 then (([], False), st1)
           else if wdNow obs - lastKill st1 < 900 then (([], False), st1)
           else ((cure obs, True), st1\<lparr>lastKill := wdNow obs, zombieCount := 0\<rparr>))"

fun wdRun :: "wdObs list \<Rightarrow> wdState \<Rightarrow> wdState" where
  "wdRun [] st = st"
| "wdRun (x # xs) st = wdRun xs (snd (wdTick x st))"

lemma wdRun_snoc [simp]: "wdRun (xs @ [x]) st = snd (wdTick x (wdRun xs st))"
  by (induction xs arbitrary: st) simp_all

definition bootState :: wdState where
  "bootState = \<lparr>zombieCount = 0, lastKill = 0, lastNoRuntime = 0\<rparr>"

section \<open>It acts only on the signature\<close>

definition zombie :: "wdObs \<Rightarrow> bool" where
  "zombie obs = (\<not> driverAlive obs \<and> runtimeFound obs \<and> claimedRunning obs)"

definition clears :: "wdObs \<Rightarrow> bool" where
  "clears obs = (driverAlive obs \<or> runtimeFound obs \<and> \<not> claimedRunning obs)"

text \<open>The runs since the driver was last seen alive or rightly absent, the latest first.\<close>

definition sinceClear :: "wdObs list \<Rightarrow> wdObs list" where
  "sinceClear xs = takeWhile (\<lambda>x. \<not> clears x) (rev xs)"

lemma sinceClear_snoc: "sinceClear (xs @ [x]) = (if clears x then [] else x # sinceClear xs)"
  by (simp add: sinceClear_def)

lemma zombieCount_bound: "zombieCount (wdRun xs bootState) \<le> length (filter zombie (sinceClear xs))"
proof (induction xs rule: rev_induct)
  case (snoc x xs)
  then show ?case
    by (auto simp: sinceClear_snoc wdTick_def report_no_runtime_def zombie_def clears_def Let_def)
qed (simp add: bootState_def)

interpretation watchdog: rate_limiter "\<lambda>x st. (snd (fst (wdTick x st)), snd (wdTick x st))" "\<lambda>st. Some (lastKill st)" "\<lambda>_. 900"
  "\<lambda>_. True" "\<lambda>_. True"
  by unfold_locales (auto simp: wdTick_def report_no_runtime_def Let_def split: if_splits prod.splits)

text \<open>
  C25: The watchdog removes the driver's sandbox only on the signature of a zombie, and rarely. If a run removes a sandbox, the
  runtime claimed the driver to be running while no process existed, in this run and in at least two earlier ones, and no
  run since then saw the driver alive or its container not running; and over any sequence of runs the cures
  lie at least fifteen minutes apart.
\<close>

theorem watchdog_acts_on_zombies:
  assumes "RemoveSandbox p ok \<in> set (fst (fst (wdTick x (wdRun xs bootState))))"
  shows "zombie x \<and> p = wdSandbox x \<and> p \<noteq> [] \<and> 3 \<le> length (filter zombie (sinceClear (xs @ [x]))) \<and>
    spaced 900 (grantTimes (\<lambda>x st. (snd (fst (wdTick x st)), snd (wdTick x st))) (\<lambda>st. Some (lastKill st)) (xs @ [x]) bootState)"
proof -
  from assms have z: "zombie x" "2 \<le> zombieCount (wdRun xs bootState)" "p = wdSandbox x" "p \<noteq> []"
    by (auto simp: wdTick_def report_no_runtime_def cure_def zombie_def Let_def split: if_splits)
  moreover from z(1) have "\<not> clears x" by (auto simp: zombie_def clears_def)
  moreover have "spaced 900 (grantTimes (\<lambda>x st. (snd (fst (wdTick x st)), snd (wdTick x st))) (\<lambda>st. Some (lastKill st)) (xs @ [x]) bootState)"
    by (rule watchdog.grants_spaced) (simp_all add: list_all_iff)
  ultimately show ?thesis using zombieCount_bound [of xs] by (simp add: sinceClear_snoc)
qed

definition zombieObs :: "int \<Rightarrow> wdObs" where
  "zombieObs t = \<lparr>driverAlive = False, runtimeFound = True, claimedRunning = True, wdNow = t, wdSandbox = ''pod'', wdContainer = ''c'',
     wdConnections = [(''42'', True)], wdRemoved = True\<rparr>"

theorem watchdog_acts_on_zombies_witness:
  "RemoveSandbox ''pod'' True \<in> set (fst (fst (wdTick (zombieObs 1120) (wdRun [zombieObs 1000, zombieObs 1060] bootState)))) \<and>
   3 \<le> length (filter zombie (sinceClear ([zombieObs 1000, zombieObs 1060] @ [zombieObs 1120])))"
proof -
  have r: "RemoveSandbox ''pod'' True \<in> set (fst (fst (wdTick (zombieObs 1120) (wdRun [zombieObs 1000, zombieObs 1060] bootState))))"
    by code_simp
  from watchdog_acts_on_zombies [OF r] r show ?thesis by blast
qed

end
