(* ===== verification/NodeService.thy ===== *)
theory NodeService
  imports NodeRepair Watchdog
begin

text \<open>
  The CSI node service (\<^verbatim>\<open>driver/node.go\<close>): the handlers, the reclaim of volumes whose PV is gone, and the tick of the
  background checker.
\<close>

section \<open>Requests\<close>

record StageRequest =
  sr_volumeID :: string
  sr_stagingTargetPath :: string
  sr_capability :: "VolumeCapability option"
  sr_context :: smap

record PublishRequest =
  pr_volumeID :: string
  pr_stagingTargetPath :: string
  pr_targetPath :: string
  pr_capability :: "VolumeCapability option"
  pr_context :: smap
  pr_readonly :: bool

definition validateStageVolumeRequest :: "StageRequest \<Rightarrow> status option" where
  "validateStageVolumeRequest req =
     (if sr_volumeID req = [] then Some (Status InvalidArgument (Err ''Volume ID missing''))
      else if sr_stagingTargetPath req = [] then Some (Status InvalidArgument (Err ''Staging target path missing''))
      else if sr_capability req = None then Some (Status InvalidArgument (Err ''Volume capability missing''))
      else None)"

definition validateUnstageVolumeRequest :: "string \<Rightarrow> string \<Rightarrow> status option" where
  "validateUnstageVolumeRequest volumeID stagingTargetPath =
     (if volumeID = [] then Some (Status InvalidArgument (Err ''Volume ID missing''))
      else if stagingTargetPath = [] then Some (Status InvalidArgument (Err ''Staging target path missing''))
      else None)"

definition validatePublishVolumeRequest :: "PublishRequest \<Rightarrow> status option" where
  "validatePublishVolumeRequest req =
     (if pr_volumeID req = [] then Some (Status InvalidArgument (Err ''Volume ID missing''))
      else if pr_stagingTargetPath req = [] then Some (Status InvalidArgument (Err ''Staging target path missing''))
      else if pr_targetPath req = [] then Some (Status InvalidArgument (Err ''Target path missing''))
      else None)"

section \<open>Staging\<close>

definition prepareVolumeStaging :: "env \<Rightarrow> StageRequest \<Rightarrow> (ns, StagingParameters res) state" where
  "prepareVolumeStaging env req = do {
     fsGroup \<leftarrow> rcl (extractFsGroup env (sr_context req) (sr_capability req));
     let params = \<lparr>sp_volumeID = sr_volumeID req, sp_stagingTargetPath = sr_stagingTargetPath req, sp_localPath = [],
       sp_backingFile = [], sp_passphrase = [], sp_mapperName = [], sp_mappedDevice = [], sp_fsGroup = fsGroup,
       sp_fsMode = extractFsMode (sr_context req), sp_volumeCapability = sr_capability req\<rparr>;
     if isS3Backend (sr_context req) then ret (Inr params)
     else do {
       let localPath = GetLocalPath env (sr_volumeID req);
       let backingFile = GenerateBackingFilePath localPath (sr_volumeID req);
       n \<leftarrow> gets nodeID;
       checkE (do { r \<leftarrow> rcl (fsCall env (MkdirAll localPath)); ret (fsErr r) }) (WrapV ''create local path'') (
       checkE (rcl (ensureBackingFileExists env n (sr_context req) backingFile)) (WrapV ''ensure backing file'') (
       callE (rcl (getPassphraseFromRequest env (sr_volumeID req) (sr_context req))) (WrapV ''get passphrase'') (\<lambda>passphrase.
         ret (Inr (params\<lparr>sp_localPath := localPath, sp_backingFile := backingFile, sp_passphrase := passphrase,
           sp_mapperName := GenerateMapperName (sr_volumeID req),
           sp_mappedDevice := GetMappedDevicePath (GenerateMapperName (sr_volumeID req))\<rparr>)))))
     }
   }"

text \<open>\<open>Inl\<close>: whether the volume is staged could not be established.\<close>

definition isAlreadyStaged :: "env \<Rightarrow> string \<Rightarrow> string \<Rightarrow> smap \<Rightarrow> (ns, bool res) state" where
  "isAlreadyStaged env volumeID stagingTargetPath volumeContext =
     (if \<not> isS3Backend volumeContext then do { b \<leftarrow> rcl (isVolumeStaged env volumeID stagingTargetPath); ret (Inr b) }
      else do {
        e \<leftarrow> verifyS3StagingLive env stagingTargetPath;
        (case e of
           None \<Rightarrow> ret (Inr True)
         | Some err \<Rightarrow> do {
             known \<leftarrow> rcl (HostMountsKnown env);
             ret (if \<not> known then Inl (WrapV ''cannot verify the staging mount'' err) else Inr False)
           })
      })"

text \<open>The two marks around the work of a handler on an S3 volume; they are set back on every path.\<close>

definition duringSetup :: "string \<Rightarrow> (ns, 'a) state \<Rightarrow> (ns, 'a) state" where
  "duringSetup volumeID m = do {
     markVolumeSetupInProgress volumeID;
     r \<leftarrow> m;
     markVolumeSetupComplete volumeID;
     ret r
   }"

definition stageLUKS :: "env \<Rightarrow> StagingParameters \<Rightarrow> (ns, unit rpc) state" where
  "stageLUKS env params =
     checkE (rcl (setupLUKSDevice env params)) (\<lambda>e. Status Internal (WrapV ''setup LUKS device'' e)) (do {
       m \<leftarrow> rcl (mountAndConfigureVolume env params);
       (case m of
          None \<Rightarrow> ret (Inr ())
        | Some e \<Rightarrow> do {
            _ \<leftarrow> rcl (CloseLUKS env (sp_mapperName params));
            ret (Inl (Status Internal (WrapV ''mount and configure volume'' e)))
          })
     })"

definition NodeStageVolume :: "env \<Rightarrow> StageRequest \<Rightarrow> (ns, unit rpc) state" where
  "NodeStageVolume env req = (case validateStageVolumeRequest req of
       Some st \<Rightarrow> ret (Inl st)
     | None \<Rightarrow>
         callE (isAlreadyStaged env (sr_volumeID req) (sr_stagingTargetPath req) (sr_context req)) (Status Aborted) (\<lambda>staged.
           if staged then ret (Inr ())
           else callE (prepareVolumeStaging env req) (\<lambda>e. Status Internal (WrapV ''prepare volume staging'' e)) (\<lambda>params.
             if isS3Backend (sr_context req) then
               duringSetup (sr_volumeID req)
                 (checkE (setupS3Volume env params (sr_context req)) (\<lambda>e. Status Internal (WrapV ''setup S3 volume'' e)) (ret (Inr ())))
             else stageLUKS env params)))"

definition NodeUnstageVolume :: "env \<Rightarrow> string \<Rightarrow> string \<Rightarrow> (ns, unit rpc) state" where
  "NodeUnstageVolume env volumeID stagingTargetPath = (case validateUnstageVolumeRequest volumeID stagingTargetPath of
       Some st \<Rightarrow> ret (Inl st)
     | None \<Rightarrow> do {
         e \<leftarrow> cleanupS3Sync env volumeID stagingTargetPath;
         (case e of
            Some err \<Rightarrow>
              if errorsIs err ErrUnuploadedData then ret (Inl (Status FailedPrecondition (WrapV ''refusing to unstage'' err)))
              else checkE (rcl (cleanupVolumeStaging env volumeID stagingTargetPath))
                     (\<lambda>x. Status Internal (WrapV ''cleanup volume staging'' x)) (ret (Inr ()))
          | None \<Rightarrow> checkE (rcl (cleanupVolumeStaging env volumeID stagingTargetPath))
                     (\<lambda>x. Status Internal (WrapV ''cleanup volume staging'' x)) (ret (Inr ())))
       })"

section \<open>Publishing\<close>

definition ensureVolumeStaged :: "env \<Rightarrow> PublishRequest \<Rightarrow> (ns, goerr option) state" where
  "ensureVolumeStaged env req =
     (if isS3Backend (pr_context req) then do {
        e \<leftarrow> verifyS3StagingLive env (pr_stagingTargetPath req);
        (case e of
           None \<Rightarrow> ret None
         | Some err \<Rightarrow> do {
             known \<leftarrow> rcl (HostMountsKnown env);
             if \<not> known then ret (Some (WrapV ''cannot verify the staging mount'' err))
             else restoreS3VolumeStaging env (pr_volumeID req) (pr_stagingTargetPath req) (pr_context req) (pr_capability req)
           })
      }
      else do {
        staged \<leftarrow> rcl (isVolumeStaged env (pr_volumeID req) (pr_stagingTargetPath req));
        if \<not> staged then rcl (restoreLUKSVolumeStaging env (pr_volumeID req) (pr_stagingTargetPath req) (pr_context req))
        else ret None
      })"

definition publish :: "env \<Rightarrow> PublishRequest \<Rightarrow> int option \<Rightarrow> (ns, unit rpc) state" where
  "publish env req fsGroup =
     checkE (ensureVolumeStaged env req) (\<lambda>e. Status Internal (WrapV ''ensure volume staged'' e)) (
     checkE (if isS3Backend (pr_context req) then verifyS3StagingLive env (pr_stagingTargetPath req) else ret None)
       (\<lambda>e. Status FailedPrecondition (WrapV ''refusing to publish'' e)) (do {
       (case fsGroup of
          Some g \<Rightarrow> if isS3Backend (pr_context req) then ret ()
                   else do { _ \<leftarrow> rcl (applyFsGroupPermissions env (pr_stagingTargetPath req) g (extractFsMode (pr_context req))); ret () }
        | None \<Rightarrow> ret ());
       checkE (rcl (bindMount env (pr_stagingTargetPath req) (pr_targetPath req) (pr_readonly req)))
         (\<lambda>e. Status Internal (WrapV ''bind mount'' e)) (ret (Inr ()))
     }))"

definition NodePublishVolume :: "env \<Rightarrow> PublishRequest \<Rightarrow> (ns, unit rpc) state" where
  "NodePublishVolume env req = (case validatePublishVolumeRequest req of
       Some st \<Rightarrow> ret (Inl st)
     | None \<Rightarrow> do {
         fsGroup \<leftarrow> rcl (extractFsGroup env (pr_context req) (pr_capability req));
         if isS3Backend (pr_context req) then duringSetup (pr_volumeID req) (publish env req fsGroup)
         else publish env req fsGroup
       })"

definition NodeUnpublishVolume :: "env \<Rightarrow> string \<Rightarrow> (ns, unit rpc) state" where
  "NodeUnpublishVolume env targetPath =
     (if targetPath = [] then ret (Inl (Status InvalidArgument (Err ''Target path missing'')))
      else checkE (rcl (unmountPath env targetPath)) (\<lambda>e. Status Internal (WrapV ''unmount target path'' e)) (ret (Inr ())))"

section \<open>Information\<close>

datatype nodeCapability = STAGE_UNSTAGE_VOLUME | NODE_EXPAND_VOLUME

definition NodeGetCapabilities :: "nodeCapability list" where
  "NodeGetCapabilities = [STAGE_UNSTAGE_VOLUME, NODE_EXPAND_VOLUME]"

definition NodeGetInfo :: "env \<Rightarrow> (ns, string \<times> smap) state" where
  "NodeGetInfo env = do {
     n \<leftarrow> rcl (timeNow env);
     modS (\<lambda>s. s\<lparr>lastNodeGetInfo := n\<rparr>);
     i \<leftarrow> gets nodeID;
     ret (i, [TopologyKeyNode \<mapsto> i])
   }"

definition NodeGetVolumeStats :: "unit rpc" where
  "NodeGetVolumeStats = Inl (Status Unimplemented (Err ''NodeGetVolumeStats''))"

section \<open>Volumes whose PV is gone\<close>

definition reclaimOrphanedVolume :: "env \<Rightarrow> string \<Rightarrow> string \<Rightarrow> (ns, unit) state" where
  "reclaimOrphanedVolume env volumeID volumeDir = do {
     _ \<leftarrow> cleanupS3Sync env volumeID [];
     rcl (releaseVolumeMounts env volumeID);
     e \<leftarrow> rcl (cleanupVolumeStaging env volumeID []);
     whenS (e = None) (do { _ \<leftarrow> rcl (fsCall env (RemoveAll volumeDir)); ret () })
   }"

definition reclaimEntry :: "env \<Rightarrow> string \<Rightarrow> string \<times> bool \<Rightarrow> (ns, unit) state" where
  "reclaimEntry env localPath entry =
     (let volumeID = fst entry; volumeDir = pathJoin [localPath, volumeID]
      in if \<not> snd entry \<or> \<not> hasPrefix volumeID ''pvc-'' then ret ()
         else do {
           b \<leftarrow> rcl (osStat env (GenerateBackingFilePath volumeDir volumeID));
           if b = Inl ENOENT then ret ()
           else do {
             r \<leftarrow> rcl (kube (\<lambda>h. getPV env h volumeID) (KGetPV volumeID));
             (case r of
                Inr _ \<Rightarrow> ret ()
              | Inl e \<Rightarrow> whenS (errorsIs e K8sNotFound) (reclaimOrphanedVolume env volumeID volumeDir))
           }
         })"

fun reclaimOrphans :: "env \<Rightarrow> string \<Rightarrow> (string \<times> bool) list \<Rightarrow> (ns, unit) state" where
  "reclaimOrphans env localPath [] = ret ()"
| "reclaimOrphans env localPath (e # es) = do {
     reclaimEntry env localPath e;
     reclaimOrphans env localPath es
   }"

definition cleanupOrphanedVolumes :: "env \<Rightarrow> (ns, unit) state" where
  "cleanupOrphanedVolumes env =
     (if \<not> hasClient env then ret ()
      else do {
        let localPath = (if getenv env ''CSI_LOCAL_PATH'' = [] then DefaultLocalPath else getenv env ''CSI_LOCAL_PATH'');
        r \<leftarrow> rcl (osReadDir env localPath);
        (case r of Inl _ \<Rightarrow> ret () | Inr es \<Rightarrow> reclaimOrphans env localPath es)
      })"

text \<open>
  Whether the PV of a volume exists, asked once per sweep: the map \<^verbatim>\<open>memo\<close> lives as long as the sweep. An error other than
  "not found" counts as active.
\<close>

record rcMemo = rc +
  activeMemo :: "string \<rightharpoonup> bool"

definition isActive :: "env \<Rightarrow> string \<Rightarrow> (rcMemo, bool) state" where
  "isActive env volumeID = do {
     m \<leftarrow> gets (\<lambda>s. activeMemo s volumeID);
     (case m of
        Some b \<Rightarrow> ret b
      | None \<Rightarrow> do {
          r \<leftarrow> kube (\<lambda>h. getPV env h volumeID) (KGetPV volumeID);
          let active = (case r of Inl e \<Rightarrow> \<not> errorsIs e K8sNotFound | Inr _ \<Rightarrow> True);
          modS (\<lambda>s. s\<lparr>activeMemo := (activeMemo s)(volumeID \<mapsto> active)\<rparr>);
          ret active
        })
   }"

definition withMemo :: "(rcMemo, 'a) state \<Rightarrow> (ns, 'a) state" where
  "withMemo m = State_Monad.State (\<lambda>s.
     case run_state m (rc.extend (base s) (rcMemo.fields Map.empty)) of (x, b) \<Rightarrow> (x, s\<lparr>base := rc.truncate b\<rparr>))"

definition cleanupOrphanedVFSCacheDirs :: "env \<Rightarrow> (ns, unit) state" where
  "cleanupOrphanedVFSCacheDirs env =
     (if \<not> hasClient env then ret () else withMemo (CleanupOrphanedVFSCacheDirs env (isActive env)))"

section \<open>The background checker\<close>

definition checkerTickStuckAfter :: int where
  "checkerTickStuckAfter = minutes 3"

definition checkerTickFatalAfter :: int where
  "checkerTickFatalAfter = minutes 15"

text \<open>
  \<^verbatim>\<open>runWatched\<close>: how it ends when the work takes \<open>took\<close> (\<open>None\<close>: forever) and writing the dump takes \<open>dump\<close>. In the ticks
  below the work itself stands in its place: work that returns does so with or without a report.
\<close>

datatype watchEnd = Completed | CompletedLate | ExitProcess

definition runWatched :: "int option \<Rightarrow> int \<Rightarrow> watchEnd" where
  "runWatched took dump = (case took of
       None \<Rightarrow> ExitProcess
     | Some d \<Rightarrow>
         if d \<le> checkerTickStuckAfter then Completed
         else if d \<le> checkerTickStuckAfter + dump + (checkerTickFatalAfter - checkerTickStuckAfter) then CompletedLate
         else ExitProcess)"

text \<open>The process is ended only over work that exceeds its fatal budget, and at the latest one dump later.\<close>

lemma runWatched_exits:
  assumes "0 \<le> dump" "dump \<le> seconds 10"
  shows "runWatched (Some d) dump = ExitProcess \<Longrightarrow> checkerTickFatalAfter < d"
    and "checkerTickFatalAfter + seconds 10 < d \<Longrightarrow> runWatched (Some d) dump = ExitProcess"
  using assms by (auto simp: runWatched_def checkerTickStuckAfter_def checkerTickFatalAfter_def minutes_def seconds_def split: if_splits)

text \<open>One tick of \<^verbatim>\<open>runStaleS3MountChecker\<close>; every tenth tick sweeps as well.\<close>

definition sweepTick :: "env \<Rightarrow> (ns, unit) state" where
  "sweepTick env = do {
     abortOrphanedFUSEConnections env;
     sweepStuckTerminatingConsumers env;
     repairStrandedConsumers env;
     cleanupOrphanedVolumes env;
     cleanupOrphanedVFSCacheDirs env
   }"

definition checkerTick :: "env \<Rightarrow> nat \<Rightarrow> (ns, unit) state" where
  "checkerTick env tick = do {
     whenS (tick mod 10 = 0) (sweepTick env);
     cleanupStaleS3Mounts env;
     recoverStrandedVolumes env
   }"

text \<open>The goroutine that \<^verbatim>\<open>NewNodeServer\<close> starts, before it turns to the checker; \<open>script\<close> is the text of the watchdog's script.\<close>

definition startupCleanup :: "env \<Rightarrow> string \<Rightarrow> (ns, unit) state" where
  "startupCleanup env script = do {
     reportWatchdogActions env;
     rcl (InstallHostWatchdog env script);
     abortOrphanedFUSEConnections env;
     sweepDeadSessions env;
     cleanupStaleS3Mounts env;
     cleanupOrphanedVFSCacheDirs env;
     cleanupOrphanedVolumes env
   }"

end
