(* ===== verification/NodeSlots.thy ===== *)
theory NodeSlots
  imports NodeService
begin

text \<open>
  The drain slots: a volume is drained by at most one goroutine at a time, and a slot is held exactly while its goroutine
  exists. The operations that touch neither slots nor managers are shown to leave them alone; those that claim and release a slot
  are shown to keep this invariant.
\<close>

lemma keeps_case_list: "(xs = [] \<Longrightarrow> keeps I f) \<Longrightarrow> (\<And>y ys. xs = y # ys \<Longrightarrow> keeps I (g y ys)) \<Longrightarrow> keeps I (case xs of [] \<Rightarrow> f | y # ys \<Rightarrow> g y ys)"
  by (simp split: list.splits)

lemma keeps_case_outcome:
  "(\<And>x. r = Done x \<Longrightarrow> keeps I (f x)) \<Longrightarrow> (r = Blocked \<Longrightarrow> keeps I g) \<Longrightarrow> keeps I (case r of Done x \<Rightarrow> f x | Blocked \<Rightarrow> g)"
  by (simp split: outcome.splits)

lemma keeps_case_bool: "keeps I f \<Longrightarrow> keeps I g \<Longrightarrow> keeps I (case b of True \<Rightarrow> f | False \<Rightarrow> g)"
  by (cases b) simp_all

lemmas keeps_rules = keeps_ret keeps_gets keeps_getS keeps_bind keeps_if keeps_whenS keeps_case_option keeps_case_sum keeps_case_prod
  keeps_callE keeps_checkE keeps_orFail keeps_case_list keeps_case_outcome keeps_case_bool

section \<open>What leaves the slots and the managers alone\<close>

text \<open>
  Most operations touch neither the drain slots nor the managers and the pending drains: any predicate of these four
  survives them.
\<close>

definition onCore :: "(string set \<Rightarrow> drainTask list \<Rightarrow> (string \<rightharpoonup> MountManager) \<Rightarrow> string set \<Rightarrow> bool) \<Rightarrow> ns \<Rightarrow> bool" where
  "onCore I s = I (backgroundDrains s) (drainTasks s) (mountManagers s) (pendingDrains s)"

abbreviation onSlots :: "(string set \<Rightarrow> drainTask list \<Rightarrow> bool) \<Rightarrow> ns \<Rightarrow> bool" where
  "onSlots I \<equiv> onCore (\<lambda>D T _ _. I D T)"

abbreviation onManagers :: "((string \<rightharpoonup> MountManager) \<Rightarrow> bool) \<Rightarrow> ns \<Rightarrow> bool" where
  "onManagers I \<equiv> onCore (\<lambda>_ _ M _. I M)"

named_theorems core \<open>operations that leave the slots, the managers and the pending drains alone\<close>
named_theorems slots \<open>operations that leave the drain slots alone\<close>

lemma core_modS:
  "(\<And>s. backgroundDrains (f s) = backgroundDrains s \<and> drainTasks (f s) = drainTasks s \<and> mountManagers (f s) = mountManagers s \<and>
     pendingDrains (f s) = pendingDrains s) \<Longrightarrow> keeps (onCore I) (modS f)"
  by (rule keeps_modS) (simp add: onCore_def)

lemma core_rcl [core]: "keeps (onCore I) (rcl m)"
  by (rule keepsI) (auto simp: onCore_def split: prod.splits)

lemma core_state [core]:
  "keeps (onCore I) (isBackgroundDraining v)" "keeps (onCore I) (hasPendingDrain v)" "keeps (onCore I) (isVolumeSetupInProgress v)"
  "keeps (onCore I) registrationHealthy" "keeps (onCore I) (managerOf v)" "keeps (onCore I) (keysOf env st)"
  by (simp_all add: isBackgroundDraining_def hasPendingDrain_def isVolumeSetupInProgress_def registrationHealthy_def managerOf_def keysOf_def)

lemma core_updates [core]:
  "keeps (onCore I) (markVolumeSetupInProgress v)" "keeps (onCore I) (markVolumeSetupComplete v)" "keeps (onCore I) (reconcileSucceeded v)"
  "keeps (onCore I) (dropStatfsProbe p)"
  "keeps (onCore I) (dropVfsProbe p)" "keeps (onCore I) (setStrikes v k)"
  unfolding markVolumeSetupInProgress_def markVolumeSetupComplete_def reconcileSucceeded_def
    dropStatfsProbe_def dropVfsProbe_def setStrikes_def
  by (rule core_modS, simp)+

lemma core_withMemo [core]: "keeps (onCore I) (withMemo m)"
  by (rule keepsI) (auto simp: onCore_def withMemo_def split: prod.splits)

lemma core_lookups [core]:
  "keeps (onCore I) (record_event env a b)" "keeps (onCore I) (resolveKubeletRoot env)" "keeps (onCore I) (volHandle env d)"
  "keeps (onCore I) (getS3VolumeContext env v)" "keeps (onCore I) (pvcRef env v)" "keeps (onCore I) (resolveVolumeRefs env v)"
  "keeps (onCore I) (podsUsingPVC env n c)" "keeps (onCore I) (forceUnstageRequested env v)"
  unfolding record_event_def resolveKubeletRoot_def volHandle_def getS3VolumeContext_def pvcRef_def resolveVolumeRefs_def
    podsUsingPVC_def forceUnstageRequested_def Let_def
  by (intro keeps_rules core core_modS; simp)+

lemma core_more [core]:
  "keeps (onCore I) (getVolumeIDFromVolData env d)" "keeps (onCore I) (reportOn env r v)" "keeps (onCore I) (reportUnuploadedData env v)"
  unfolding getVolumeIDFromVolData_def reportUnuploadedData_def reportOn_def by (intro keeps_rules core)+

lemma core_limits [core]:
  "keeps (onCore I) (reconcileAllowed env v)" "keeps (onCore I) (consumerRestartAllowed env v)"
  unfolding reconcileAllowed_def consumerRestartAllowed_def Let_def by (intro keeps_rules core core_modS; simp)+

lemma core_probes [core]:
  "keeps (onCore I) (statBounded env p)" "keeps (onCore I) (removeAllBounded env p)" "keeps (onCore I) (readFileBounded env p)"
  "keeps (onCore I) (awaitStatfs env p)" "keeps (onCore I) (probeInFlight env p)" "keeps (onCore I) (isFUSEMountPoint env p)"
  "keeps (onCore I) (nodeIOStalled env)" "keeps (onCore I) (writeFUSEAbort env k)" "keeps (onCore I) (listFUSEConnections env)"
  unfolding statBounded_def removeAllBounded_def readFileBounded_def awaitStatfs_def probeInFlight_def isFUSEMountPoint_def
    nodeIOStalled_def writeFUSEAbort_def listFUSEConnections_def Let_def
  by (intro keeps_rules core)+

lemma core_gates [core]:
  "keeps (onCore I) (statfsBounded env p)" "keeps (onCore I) (mountVFSResponsive env p)"
  unfolding statfsBounded_def mountVFSResponsive_def
  by (intro keeps_rules core core_modS; simp)+

lemma core_abort [core]:
  "keeps (onCore I) (abortLayers env ms)" "keeps (onCore I) (mountedMinors env seen m ps)" "keeps (onCore I) (abortUnmounted env m cs)"
proof -
  show "keeps (onCore I) (abortLayers env ms)" by (induction ms) (simp, simp only: abortLayers.simps, intro keeps_rules core)
  show "keeps (onCore I) (mountedMinors env seen m ps)"
    by (induction env seen m ps rule: mountedMinors.induct) (simp, simp only: mountedMinors.simps, intro keeps_rules core)
  show "keeps (onCore I) (abortUnmounted env m cs)"
    by (induction cs) (simp, simp only: abortUnmounted.simps, intro keeps_rules core)
qed

lemma core_fuse [core]:
  "keeps (onCore I) (verifyS3StagingLive env p)" "keeps (onCore I) (abortFUSEConnection env p)"
  "keeps (onCore I) (abortOrphanedFUSEConnections env)"
  unfolding verifyS3StagingLive_def abortFUSEConnection_def abortOrphanedFUSEConnections_def
  by (intro keeps_rules core)+

lemma core_pods [core]:
  "keeps (onCore I) (podStuckTerminating env p)" "keeps (onCore I) (kubeDeletePod env p b)" "keeps (onCore I) (forceDeletePod env p)"
  "keeps (onCore I) (deletePod env p)" "keeps (onCore I) (deletePodByUID env u)"
  unfolding deletePodByUID_def deletePod_def forceDeletePod_def kubeDeletePod_def podStuckTerminating_def
  by (intro keeps_rules core)+

lemma core_pod_loops [core]:
  "keeps (onCore I) (usesOurVolumes env n vs)" "keeps (onCore I) (containerPIDs env u es)" "keeps (onCore I) (killAll env pids)"
  "keeps (onCore I) (strandedOf env live st pids)" "keeps (onCore I) (sameDevice env p w k)"
proof -
  show "keeps (onCore I) (usesOurVolumes env n vs)"
    by (induction env n vs rule: usesOurVolumes.induct) (simp, simp, simp only: usesOurVolumes.simps, intro keeps_rules core)
  show "keeps (onCore I) (containerPIDs env u es)"
    by (induction env u es rule: containerPIDs.induct) (simp, simp only: containerPIDs.simps, intro keeps_rules core)
  show "keeps (onCore I) (killAll env pids)" by (induction pids) (simp, simp only: killAll.simps, intro keeps_rules core)
  show "keeps (onCore I) (strandedOf env live st pids)"
    by (induction pids arbitrary: st) (simp, simp only: strandedOf.simps, intro keeps_rules core)
  show "keeps (onCore I) (sameDevice env p w k)" by (induction k) (simp, simp only: sameDevice.simps, intro keeps_rules core)
qed

lemma core_consumers [core]:
  "keeps (onCore I) (podUsesOurVolumes env p)" "keeps (onCore I) (podContainerPIDs env u)" "keeps (onCore I) (restartPodContainers env p)"
  "keeps (onCore I) (recoverConsumerPod env p)" "keeps (onCore I) (consumerBinds env)" "keeps (onCore I) (containerStrandedDevices env u live)"
  "keeps (onCore I) (unbindTerminatingConsumer env u n)" "keeps (onCore I) (consumerMountHealthy env u n g)"
  unfolding podUsesOurVolumes_def podContainerPIDs_def recoverConsumerPod_def restartPodContainers_def consumerBinds_def
    containerStrandedDevices_def unbindTerminatingConsumer_def consumerMountHealthy_def Let_def
  by (intro keeps_rules core)+

lemma core_sweeps [core]:
  "keeps (onCore I) (sweepStuck env ps)" "keeps (onCore I) (restartIn env v d u es)" "keeps (onCore I) (restartPods env v d es)"
  "keeps (onCore I) (volumeIDsIn env d es)" "keeps (onCore I) (strandedBinds env live bs)" "keeps (onCore I) (sweepVolumes env vs)"
proof -
  show "keeps (onCore I) (sweepStuck env ps)" by (induction ps) (simp, simp only: sweepStuck.simps, intro keeps_rules core)
  have r: "keeps (onCore I) (restartIn env v d u es)" for env v d u es
    by (induction env v d u es rule: restartIn.induct) (simp, simp only: restartIn.simps Let_def, intro keeps_rules core)
  then show "keeps (onCore I) (restartIn env v d u es)" .
  show "keeps (onCore I) (restartPods env v d es)"
    by (induction env v d es rule: restartPods.induct) (simp, simp only: restartPods.simps Let_def, intro keeps_rules core r)
  show "keeps (onCore I) (volumeIDsIn env d es)"
    by (induction env d es rule: volumeIDsIn.induct) (simp, simp only: volumeIDsIn.simps, intro keeps_rules core)
  show "keeps (onCore I) (strandedBinds env live bs)"
    by (induction bs) (simp, simp only: strandedBinds.simps, intro keeps_rules core)
  show "keeps (onCore I) (sweepVolumes env vs)" by (induction vs) (simp, simp only: sweepVolumes.simps, intro keeps_rules core)
qed

lemma core_scans [core]:
  "keeps (onCore I) (sweepStuckTerminatingConsumers env)" "keeps (onCore I) (restartPodsWithStaleS3Mount env v)"
  "keeps (onCore I) (expectedFSName env v)" "keeps (onCore I) (csiPluginPath env)" "keeps (onCore I) (stagedVolumeIDs env)"
  "keeps (onCore I) (stagedVolumesByPV env)" "keeps (onCore I) (sweepDeadSessions env)" "keeps (onCore I) (unmountStaleS3Mount env p)"
  "keeps (onCore I) (reportMountLifetime env v)" "keeps (onCore I) (cleanupOrphanedVFSCacheDirs env)"
  unfolding sweepStuckTerminatingConsumers_def restartPodsWithStaleS3Mount_def expectedFSName_def csiPluginPath_def stagedVolumeIDs_def
    stagedVolumesByPV_def sweepDeadSessions_def unmountStaleS3Mount_def reportMountLifetime_def cleanupOrphanedVFSCacheDirs_def Let_def
  by (intro keeps_rules core core_modS; simp)+

lemma core_repair [core]:
  "keeps (onCore I) (vfsRegistryMissing env d ns)" "keeps (onCore I) (inspectMount env ns d g)"
  "keeps (onCore I) (reexposeLiveSession env v p)" "keeps (onCore I) (ensureStagingServing env p)"
  "keeps (onCore I) (rebindConsumerMount env g u n)" "keeps (onCore I) (healConsumer env g c n b pod)"
  "keeps (onCore I) (repairBind env st k cb ds)"
proof -
  show v: "keeps (onCore I) (vfsRegistryMissing env d ns)"
    unfolding vfsRegistryMissing_def Let_def by (intro keeps_rules core)
  then show "keeps (onCore I) (inspectMount env ns d g)"
    unfolding inspectMount_def Let_def by (intro keeps_rules core)
  show x: "keeps (onCore I) (reexposeLiveSession env v p)" for v p
    unfolding reexposeLiveSession_def by (intro keeps_rules core core_modS; simp)
  show e: "keeps (onCore I) (ensureStagingServing env p)" for p
    unfolding ensureStagingServing_def by (intro keeps_rules core x)
  show r: "keeps (onCore I) (rebindConsumerMount env g u n)" for g u n
    unfolding rebindConsumerMount_def Let_def by (intro keeps_rules core e)
  show "keeps (onCore I) (healConsumer env g c n b pod)" unfolding healConsumer_def by (intro keeps_rules core r)
  show "keeps (onCore I) (repairBind env st k cb ds)" unfolding repairBind_def by (intro keeps_rules core r)
qed

lemma core_repair_all [core]:
  "keeps (onCore I) (healConsumers env g c n b ps)" "keeps (onCore I) (repairBinds env st k ts)" "keeps (onCore I) (repairStrandedConsumers env)"
proof -
  show "keeps (onCore I) (healConsumers env g c n b ps)" by (induction ps) (simp, simp only: healConsumers.simps, intro keeps_rules core)
  have r: "keeps (onCore I) (repairBinds env st k ts)" for st k ts
    by (induction ts arbitrary: k) (simp, simp only: repairBinds.simps, intro keeps_rules core)
  then show "keeps (onCore I) (repairBinds env st k ts)" .
  show "keeps (onCore I) (repairStrandedConsumers env)" unfolding repairStrandedConsumers_def by (intro keeps_rules core r)
qed

lemma core_watchdog [core]: "keeps (onCore I) (reportWatchdogActions env)"
proof -
  have "keeps (onCore I) (emitLines env ls)" for ls by (induction ls) (simp, simp only: emitLines.simps, intro keeps_rules core)
  then show ?thesis unfolding reportWatchdogActions_def by (intro keeps_rules core)
qed

section \<open>Claiming, holding and releasing a slot\<close>

text \<open>
  \<open>slotOK\<close>: the goroutines that drain are exactly the holders of a slot, one each. \<open>owed v\<close>: the same but for \<open>v\<close>, whose slot is
  held by code that is running now.
\<close>

definition slotOK :: "string set \<Rightarrow> drainTask list \<Rightarrow> bool" where
  "slotOK D T = (distinct (map taskVolume T) \<and> set (map taskVolume T) = D)"

definition owed :: "string \<Rightarrow> string set \<Rightarrow> drainTask list \<Rightarrow> bool" where
  "owed v D T = (v \<in> D \<and> slotOK (D - {v}) T)"

lemma slots_managers [slots]: "keeps (onSlots I) (dropManager v)" "keeps (onSlots I) (storeManager v mm)"
  unfolding dropManager_def storeManager_def by (rule keeps_modS, simp add: onCore_def)+

lemma slots_mount [slots]:
  "keeps (onSlots I) (mountS3Volume env v p c g)" "keeps (onSlots I) (unmountManager env v mm)"
  unfolding mountS3Volume_def unmountManager_def by (intro keeps_rules core slots)+

lemma slots_bodies [slots]:
  "keeps (onSlots I) (drainBody env v)" "keeps (onSlots I) (resumeBody env v p c)"
  "keeps (onSlots I) (forceCleanupS3Sync env v)"
  unfolding drainBody_def resumeBody_def forceCleanupS3Sync_def by (intro keeps_rules core slots)+

lemma triple_keeps_bind: "keeps J m \<Longrightarrow> (\<And>x. triple J (f x) Q) \<Longrightarrow> triple J (State_Monad.bind m f) Q"
  unfolding keeps_def by (rule triple_bind)

lemma triple_keeps: "keeps J m \<Longrightarrow> (\<And>s. J s \<Longrightarrow> Q s) \<Longrightarrow> triple J m (\<lambda>_. Q)"
  unfolding keeps_def by (erule triple_weaken_post)

lemma startBackgroundDrain_slot:
  "triple (onSlots slotOK) (startBackgroundDrain env v) (\<lambda>claimed. onSlots (if claimed then owed v else slotOK))"
  by (auto simp: triple_def startBackgroundDrain_def onCore_def owed_def case_prod_beta)

lemma startBackgroundDrain_free:
  "triple (onSlots (\<lambda>D T. slotOK D T \<and> v \<notin> D)) (startBackgroundDrain env v) (\<lambda>_. onSlots (owed v))"
  by (auto simp: triple_def startBackgroundDrain_def onCore_def owed_def case_prod_beta)

lemma spawn_slot: "taskVolume t = v \<Longrightarrow> triple (onSlots (owed v)) (spawn t) (\<lambda>_. onSlots slotOK)"
  by (auto simp: triple_def spawn_def onCore_def owed_def slotOK_def)

lemma finishBackgroundDrain_slot: "triple (onSlots (owed v)) (finishBackgroundDrain env v d) (\<lambda>_. onSlots slotOK)"
  by (auto simp: triple_def finishBackgroundDrain_def onCore_def owed_def case_prod_beta)

lemma runTask_slot: "triple (onSlots (owed (taskVolume t))) (runTask env t) (\<lambda>_. onSlots slotOK)"
  by (cases t) (auto intro!: triple_keeps_bind slots finishBackgroundDrain_slot)

lemma dropTask_volumes [simp]: "map taskVolume (dropTask v T) = remove1 v (map taskVolume T)"
  by (induction T) auto

lemma slotOK_dropTask: "slotOK D T \<Longrightarrow> t \<in> set T \<Longrightarrow> owed (taskVolume t) D (dropTask (taskVolume t) T)"
  by (simp only: slotOK_def owed_def dropTask_volumes) (auto simp: set_remove1_eq)

lemma taskStep_slot: "triple (\<lambda>s. onSlots slotOK s \<and> t \<in> set (drainTasks s)) (taskStep env t) (\<lambda>_. onSlots slotOK)"
  unfolding taskStep_def
proof (rule triple_bind [where R = "\<lambda>_. onSlots (owed (taskVolume t))"])
  show "triple (\<lambda>s. onSlots slotOK s \<and> t \<in> set (drainTasks s)) (modS (\<lambda>s. s\<lparr>drainTasks := dropTask (taskVolume t) (drainTasks s)\<rparr>))
     (\<lambda>_. onSlots (owed (taskVolume t)))"
    by (auto simp: triple_def onCore_def slotOK_dropTask)
qed (rule runTask_slot)

lemma completeDrain_slot: "keeps (onSlots slotOK) (completeDrain env v)"
proof (rule keepsI)
  fix s assume s: "onSlots slotOK s"
  show "onSlots slotOK (snd (run_state (completeDrain env v) s))"
  proof (cases "find (\<lambda>t. taskVolume t = v) (drainTasks s)")
    case None
    with s show ?thesis by (simp add: completeDrain_def)
  next
    case (Some t)
    then have "t \<in> set (drainTasks s)" by (auto simp: find_Some_iff)
    with s Some taskStep_slot [of t env] show ?thesis by (simp add: completeDrain_def triple_def case_prod_beta)
  qed
qed

lemma keeps_resumeStrandedDrain: "keeps (onSlots slotOK) (resumeStrandedDrain env v p)"
proof -
  have c: "keeps (onSlots slotOK) (do {
      claimed \<leftarrow> startBackgroundDrain env v;
      whenS claimed (do { reportUnuploadedData env v; spawn (ResumeTask v p ctx) })
    })" for ctx
    unfolding keeps_def
  proof (rule triple_bind [OF startBackgroundDrain_slot])
    fix claimed
    show "triple (onSlots (if claimed then owed v else slotOK)) (whenS claimed (do { reportUnuploadedData env v; spawn (ResumeTask v p ctx) }))
       (\<lambda>_. onSlots slotOK)"
      by (cases claimed) (auto simp: whenS_def triple_def [of _ "ret ()"] intro!: triple_keeps_bind core spawn_slot)
  qed
  show ?thesis unfolding resumeStrandedDrain_def by (intro keeps_rules core c)
qed

lemma startAndSpawn_slot:
  "triple (onSlots (\<lambda>D T. slotOK D T \<and> v \<notin> D)) (do { _ \<leftarrow> startBackgroundDrain env v; spawn (DrainTask v); ret x }) (\<lambda>_. onSlots slotOK)"
  by (rule triple_bind [OF startBackgroundDrain_free])
     (rule triple_bind [OF spawn_slot], auto simp: triple_def)

lemma triple_case_option:
  "(r = None \<Longrightarrow> triple P f Q) \<Longrightarrow> (\<And>x. r = Some x \<Longrightarrow> triple P (g x) Q) \<Longrightarrow> triple P (case r of None \<Rightarrow> f | Some x \<Rightarrow> g x) Q"
  by (simp split: option.splits)

lemma keeps_cleanupS3Sync: "keeps (onSlots slotOK) (cleanupS3Sync env v p)"
proof -
  let ?J = "\<lambda>draining. onSlots (\<lambda>D T. slotOK D T \<and> (draining \<longleftrightarrow> v \<in> D))"
  have leaf: "triple (?J d) (ret x) (\<lambda>_. onSlots slotOK)" for d and x :: "goerr option"
    by (simp add: triple_def onCore_def)
  have weak: "keeps (onSlots slotOK) m \<Longrightarrow> triple (?J d) m (\<lambda>_. onSlots slotOK)" for d and m :: "(ns, goerr option) state"
    unfolding keeps_def by (erule triple_conseq) (auto simp: onCore_def)
  have resume: "keeps (onSlots slotOK) (do { resumeStrandedDrain env v p; ret x })" for x :: "goerr option"
    by (intro keeps_rules keeps_resumeStrandedDrain)
  have force: "keeps (onSlots slotOK) (do { forceCleanupS3Sync env v; ret x })" for x :: "goerr option"
    by (intro keeps_rules slots)
  have start: "\<not> d \<Longrightarrow> triple (?J d) (do { _ \<leftarrow> startBackgroundDrain env v; spawn (DrainTask v); ret x }) (\<lambda>_. onSlots slotOK)"
    for d and x :: "goerr option"
    by (rule triple_conseq [OF startAndSpawn_slot]) (auto simp: onCore_def)
  show ?thesis unfolding keeps_def cleanup_defs
  proof (rule triple_bind [where R = ?J])
    show "triple (onSlots slotOK) (isBackgroundDraining v) ?J" by (simp add: triple_def isBackgroundDraining_def onCore_def)
  qed (intro triple_keeps_bind triple_if triple_case_option leaf weak [OF resume] weak [OF force] start
      keeps_rules core slots; assumption)
qed

end
