(* ===== verification/Registration.thy ===== *)
theory Registration
  imports NodeState
begin

text \<open>
  Whether kubelet knows the driver (\<^verbatim>\<open>driver/registration.go\<close>): the start time of the kubelet process read from
  \<^verbatim>\<open>/proc\<close>, the check of the CSINode object and of the NodeGetInfo handshake, and the events raised when the answer changes.
  \<open>healthz\<close> is the status the health endpoint serves; a server
  that listens and then ends is one round of its loop.
\<close>

section \<open>Reading /proc\<close>

definition hexDigit :: "char \<Rightarrow> nat option" where
  "hexDigit c =
     (let n = of_char c :: nat
      in if 48 \<le> n \<and> n \<le> 57 then Some (n - 48)
         else if 97 \<le> n \<and> n \<le> 102 then Some (n - 87)
         else if 65 \<le> n \<and> n \<le> 70 then Some (n - 55) else None)"

text \<open>\<^verbatim>\<open>strconv.ParseUint(s, 16, 16)\<close>.\<close>

definition parseHex16 :: "string \<Rightarrow> nat option" where
  "parseHex16 s =
     (if s = [] \<or> list_ex (\<lambda>c. hexDigit c = None) s then None
      else let v = foldl (\<lambda>n c. 16 * n + the (hexDigit c)) 0 s in if v < 65536 then Some v else None)"

definition listeningInode :: "nat \<Rightarrow> string \<Rightarrow> string option" where
  "listeningInode port line =
     (let fs = strFields line
      in if length fs < 10 \<or> fs ! 3 \<noteq> ''0A'' then None
         else case last_index_of (fs ! 1) '':'' of
           None \<Rightarrow> None
         | Some i \<Rightarrow> if parseHex16 (drop (i + 1) (fs ! 1)) = Some port then Some (''socket:['' @ fs ! 9 @ '']'') else None)"

definition collectListeningInodes :: "env \<Rightarrow> nat \<Rightarrow> string \<Rightarrow> (ns, string list) state" where
  "collectListeningInodes env port file = do {
     r \<leftarrow> rcl (osReadFile env file);
     ret (case r of Inl _ \<Rightarrow> [] | Inr d \<Rightarrow> List.map_filter (listeningInode port) (tl (split_on (CHR 0x0A) d)))
   }"

definition digitFirst :: "string \<Rightarrow> bool" where
  "digitFirst name = (case name of [] \<Rightarrow> False | c # _ \<Rightarrow> isDigit c)"

fun holdsSocket :: "env \<Rightarrow> string \<Rightarrow> string list \<Rightarrow> (string \<times> bool) list \<Rightarrow> (ns, bool) state" where
  "holdsSocket env pid inodes [] = ret False"
| "holdsSocket env pid inodes ((fd, _) # fds) = do {
     l \<leftarrow> rcl (osReadLink env (''/proc/'' @ pid @ ''/fd/'' @ fd));
     if (case l of Inl _ \<Rightarrow> False | Inr link \<Rightarrow> link \<in> set inodes) then ret True else holdsSocket env pid inodes fds
   }"

fun findHolder :: "env \<Rightarrow> string list \<Rightarrow> (string \<times> bool) list \<Rightarrow> (ns, string option) state" where
  "findHolder env inodes [] = ret None"
| "findHolder env inodes ((pid, _) # ps) =
     (if \<not> digitFirst pid then findHolder env inodes ps
      else do {
        r \<leftarrow> rcl (osReadDir env (''/proc/'' @ pid @ ''/fd''));
        (case r of
           Inl _ \<Rightarrow> findHolder env inodes ps
         | Inr fds \<Rightarrow> do {
             h \<leftarrow> holdsSocket env pid inodes fds;
             if h then ret (Some pid) else findHolder env inodes ps
           })
      })"

definition pidListeningOn :: "env \<Rightarrow> nat \<Rightarrow> (ns, string option) state" where
  "pidListeningOn env port = do {
     a \<leftarrow> collectListeningInodes env port ''/proc/net/tcp'';
     b \<leftarrow> collectListeningInodes env port ''/proc/net/tcp6'';
     if a @ b = [] then ret None
     else do {
       r \<leftarrow> rcl (osReadDir env ''/proc'');
       (case r of Inl _ \<Rightarrow> ret None | Inr ps \<Rightarrow> findHolder env (a @ b) ps)
     }
   }"

text \<open>Field 22 of \<^verbatim>\<open>/proc/<pid>/stat\<close>: the fields resume after the last closing parenthesis.\<close>

definition parseStartTicks :: "string \<Rightarrow> int option" where
  "parseStartTicks d = (case last_index_of d '')'' of
       None \<Rightarrow> None
     | Some i \<Rightarrow> let fs = strFields (drop (i + 1) d) in if length fs < 20 then None else parseInt (fs ! 19))"

definition processStartTicks :: "env \<Rightarrow> string \<Rightarrow> (ns, int option) state" where
  "processStartTicks env pid = do {
     r \<leftarrow> rcl (osReadFile env (''/proc/'' @ pid @ ''/stat''));
     ret (case r of Inl _ \<Rightarrow> None | Inr d \<Rightarrow> parseStartTicks d)
   }"

fun parseBootTime :: "string list \<Rightarrow> int option" where
  "parseBootTime [] = None"
| "parseBootTime (line # ls) =
     (case cutPrefix line ''btime '' of (rest, found) \<Rightarrow>
        if found then map_option seconds (parseInt (trimSpace rest)) else parseBootTime ls)"

definition hostBootTime :: "env \<Rightarrow> (ns, int option) state" where
  "hostBootTime env = do {
     r \<leftarrow> rcl (osReadFile env ''/proc/stat'');
     ret (case r of Inl _ \<Rightarrow> None | Inr d \<Rightarrow> parseBootTime (split_on (CHR 0x0A) d))
   }"

text \<open>A tick is a hundredth of a second; the product wraps around at 64 bits.\<close>

definition startTimeFromTicks :: "int \<Rightarrow> int \<Rightarrow> int" where
  "startTimeFromTicks bootTime ticks = bootTime + wrap64 (ticks * 10000000)"

definition isKubeletCmdline :: "string list \<Rightarrow> bool" where
  "isKubeletCmdline args = (case args of
       [] \<Rightarrow> False
     | a # rest \<Rightarrow>
         if a = [] then False
         else if pathBase a \<in> {''kubelet'', ''kubelite''} then True
         else if pathBase a \<in> {''k3s'', ''k3s-server'', ''k3s-agent'', ''rke2'', ''rke2-server'', ''rke2-agent''}
         then (case rest of [] \<Rightarrow> False | b # _ \<Rightarrow> b = ''server'' \<or> b = ''agent'')
         else False)"

text \<open>The zero \<^verbatim>\<open>time.Time\<close>, in nanoseconds since the epoch.\<close>

definition zeroTime :: int where
  "zeroTime = seconds (- 62135596800)"

fun newestKubelet :: "env \<Rightarrow> int \<Rightarrow> int \<Rightarrow> (string \<times> bool) list \<Rightarrow> (ns, int) state" where
  "newestKubelet env bootTime newest [] = ret newest"
| "newestKubelet env bootTime newest ((pid, _) # ps) =
     (if \<not> digitFirst pid then newestKubelet env bootTime newest ps
      else do {
        c \<leftarrow> rcl (osReadFile env (''/proc/'' @ pid @ ''/cmdline''));
        if (case c of Inl _ \<Rightarrow> True | Inr d \<Rightarrow> \<not> isKubeletCmdline (split_on (CHR 0x00) d)) then newestKubelet env bootTime newest ps
        else do {
          t \<leftarrow> processStartTicks env pid;
          newestKubelet env bootTime
            (case t of None \<Rightarrow> newest | Some ticks \<Rightarrow> max newest (startTimeFromTicks bootTime ticks)) ps
        }
      })"

definition kubeletPort :: nat where
  "kubeletPort = 10250"

definition kubeletProcessStart :: "env \<Rightarrow> (ns, int option) state" where
  "kubeletProcessStart env = do {
     b \<leftarrow> hostBootTime env;
     (case b of
        None \<Rightarrow> ret None
      | Some bootTime \<Rightarrow> do {
          p \<leftarrow> pidListeningOn env kubeletPort;
          t \<leftarrow> (case p of None \<Rightarrow> ret None | Some pid \<Rightarrow> processStartTicks env pid);
          (case t of
             Some ticks \<Rightarrow> ret (Some (startTimeFromTicks bootTime ticks))
           | None \<Rightarrow> do {
               r \<leftarrow> rcl (osReadDir env ''/proc'');
               (case r of
                  Inl _ \<Rightarrow> ret None
                | Inr ps \<Rightarrow> do {
                    newest \<leftarrow> newestKubelet env bootTime zeroTime ps;
                    ret (if newest = zeroTime then None else Some newest)
                  })
             })
        })
   }"

section \<open>The check\<close>

definition registrationStartupGrace :: int where
  "registrationStartupGrace = seconds 90"

definition kubeletRehandshakeGrace :: int where
  "kubeletRehandshakeGrace = seconds 90"

definition endpointAddr :: "env \<Rightarrow> string \<Rightarrow> string" where
  "endpointAddr env endpoint = (case parseURL env endpoint of
       None \<Rightarrow> []
     | Some (host, path) \<Rightarrow> if host = [] then path else pathJoin [host, path])"

definition csiSocketAccepting :: "env \<Rightarrow> (ns, bool) state" where
  "csiSocketAccepting env = do {
     e \<leftarrow> gets driverEndpoint;
     let addr = endpointAddr env e;
     if addr = [] then ret True else rcl (dial env addr)
   }"

definition kubeletHandshakeCurrent :: "env \<Rightarrow> (ns, bool) state" where
  "kubeletHandshakeCurrent env = do {
     k \<leftarrow> kubeletProcessStart env;
     (case k of
        None \<Rightarrow> ret True
      | Some kubeletStart \<Rightarrow> do {
          n \<leftarrow> rcl (timeNow env);
          if n - kubeletStart < kubeletRehandshakeGrace then ret True
          else do {
            nanos \<leftarrow> gets lastNodeGetInfo;
            ret (nanos > 0 \<and> nanos > kubeletStart)
          }
        })
   }"

definition isDriverRegistered :: "env \<Rightarrow> (ns, bool) state" where
  "isDriverRegistered env = do {
     n \<leftarrow> rcl (timeNow env);
     start \<leftarrow> gets registrationHealthStart;
     node \<leftarrow> gets nodeID;
     if n - start < registrationStartupGrace then ret True
     else if \<not> hasClient env \<or> node = [] then ret True
     else do {
       r \<leftarrow> rcl (kube (\<lambda>h. csiNodeDrivers env h node) (KGetCSINode node));
       (case r of
          Inl _ \<Rightarrow> ret True
        | Inr drivers \<Rightarrow>
            if DriverName \<notin> set drivers then do {
              accepting \<leftarrow> csiSocketAccepting env;
              ret (\<not> accepting)
            }
            else kubeletHandshakeCurrent env)
     }
   }"

definition recordRegistrationTransition :: "env \<Rightarrow> bool \<Rightarrow> (ns, unit) state" where
  "recordRegistrationTransition env healthy = do {
     was \<leftarrow> gets regUnhealthy;
     modS (\<lambda>s. s\<lparr>regUnhealthy := \<not> healthy\<rparr>);
     node \<leftarrow> gets nodeID;
     if \<not> hasClient env \<or> was = (\<not> healthy) then ret ()
     else rcl (emit (if healthy then ''CSIRegistrationRecovered'' else ''CSIRegistrationLost'') node)
   }"

text \<open>One round of the refresher, and the status of the endpoint.\<close>

definition refreshRegistration :: "env \<Rightarrow> (ns, unit) state" where
  "refreshRegistration env = do {
     healthy \<leftarrow> isDriverRegistered env;
     recordRegistrationTransition env healthy;
     modS (\<lambda>s. s\<lparr>regHealthy := healthy\<rparr>)
   }"

definition healthz :: "ns \<Rightarrow> int" where
  "healthz s = (if regHealthy s then 200 else 503)"

section \<open>The listener of the health endpoint\<close>

definition bindFailureEventThreshold :: nat where
  "bindFailureEventThreshold = 3"

text \<open>\<open>splitPort\<close> is the port of \<^verbatim>\<open>net.SplitHostPort\<close>; a negative port, like 65536, is no port of a socket.\<close>

definition portHolderDescription :: "env \<Rightarrow> (string \<Rightarrow> string option) \<Rightarrow> string \<Rightarrow> (ns, string) state" where
  "portHolderDescription env splitPort addr = (case splitPort addr of
       None \<Rightarrow> ret ''could not parse the address to identify the holder''
     | Some portStr \<Rightarrow> (case atoi portStr of
         None \<Rightarrow> ret ''could not parse the port to identify the holder''
       | Some port \<Rightarrow> do {
           p \<leftarrow> pidListeningOn env (if port < 0 then 65536 else nat port);
           (case p of
              None \<Rightarrow> ret ''no process on this host holds a listening socket on it''
            | Some pid \<Rightarrow> do {
                c \<leftarrow> rcl (osReadFile env (''/proc/'' @ pid @ ''/cmdline''));
                let name = (case c of Inl _ \<Rightarrow> ''unknown'' | Inr cmdline \<Rightarrow> trimSpace (replaceAll cmdline [CHR 0x00] '' ''));
                ret (''it is held by pid '' @ pid @ '' ('' @ name @ '')'')
              })
         }))"

text \<open>
  One round of the loop: the server listened until it ended with an error, or without one. The result is the new
  count of failures.
\<close>

definition serveRound :: "env \<Rightarrow> (string \<Rightarrow> string option) \<Rightarrow> string \<Rightarrow> nat \<Rightarrow> goerr option \<Rightarrow> (ns, nat) state" where
  "serveRound env splitPort addr failures err =
     (if err = None then ret 0
      else do {
        whenS (failures + 1 = bindFailureEventThreshold) (do {
          _ \<leftarrow> portHolderDescription env splitPort addr;
          n \<leftarrow> gets nodeID;
          record_event env ''RegistrationHealthPortUnavailable'' n
        });
        rcl (sleep env (seconds 10));
        ret (failures + 1)
      })"

fun serveRounds :: "env \<Rightarrow> (string \<Rightarrow> string option) \<Rightarrow> string \<Rightarrow> nat \<Rightarrow> goerr option list \<Rightarrow> (ns, nat) state" where
  "serveRounds env splitPort addr failures [] = ret failures"
| "serveRounds env splitPort addr failures (e # es) = do {
     k \<leftarrow> serveRound env splitPort addr failures e;
     serveRounds env splitPort addr k es
   }"

text \<open>The start of \<^verbatim>\<open>RunRegistrationHealthServer\<close>: the endpoint reports healthy until the first check.\<close>

definition RunRegistrationHealthServer :: "env \<Rightarrow> (ns, unit) state" where
  "RunRegistrationHealthServer env = do {
     n \<leftarrow> rcl (timeNow env);
     modS (\<lambda>s. s\<lparr>registrationHealthStart := n, regHealthy := True\<rparr>)
   }"

end
