(* ===== verification/Identity.thy ===== *)
theory Identity
  imports Registration
begin

text \<open>
  The identity service and its liveness probe (\<^verbatim>\<open>driver/identity.go\<close>), and the self monitor (\<^verbatim>\<open>driver/selfmonitor.go\<close>).
\<close>

section \<open>Identity\<close>

definition GetPluginInfo :: "(ns, (string \<times> string) rpc) state" where
  "GetPluginInfo = do {
     n \<leftarrow> gets driverName;
     v \<leftarrow> gets driverVersion;
     ret (if n = [] then Inl (Status Unavailable (Err ''Driver name not configured''))
          else if v = [] then Inl (Status Unavailable (Err ''Driver version not configured''))
          else Inr (n, v))
   }"

datatype pluginCapability = CONTROLLER_SERVICE | VOLUME_ACCESSIBILITY_CONSTRAINTS

definition GetPluginCapabilities :: "pluginCapability list" where
  "GetPluginCapabilities = [CONTROLLER_SERVICE, VOLUME_ACCESSIBILITY_CONSTRAINTS]"

section \<open>The liveness probe\<close>

definition librcloneHangThreshold :: int where
  "librcloneHangThreshold = minutes 2"

text \<open>
  Start a \<^verbatim>\<open>core/version\<close> call unless one is in flight; an earlier one may have returned since. The call's entry in the history is
  made when it answers.
\<close>

definition startOrJoinLibrcloneProbe :: "env \<Rightarrow> (ns, unit) state" where
  "startOrJoinLibrcloneProbe env = do {
     running \<leftarrow> gets probeCurrent;
     whenS running (do {
       fin \<leftarrow> rcl (hasFinished env ''abandoned core/version'');
       whenS fin (modS (\<lambda>s. s\<lparr>probeCurrent := False\<rparr>))
     });
     modS (\<lambda>s. s\<lparr>probeCurrent := True\<rparr>)
   }"

definition silentFor :: "env \<Rightarrow> (ns, int) state" where
  "silentFor env = do {
     n \<leftarrow> rcl (timeNow env);
     l \<leftarrow> gets lastLibrcloneOK;
     ret (n - l)
   }"

definition judgeSilence :: "env \<Rightarrow> goerr \<Rightarrow> (ns, unit rpc) state" where
  "judgeSilence env reason = do {
     silent \<leftarrow> silentFor env;
     ret (if silent < librcloneHangThreshold then Inr () else Inl (Status FailedPrecondition reason))
   }"

definition Probe :: "env \<Rightarrow> (ns, unit rpc) state" where
  "Probe env = do {
     startOrJoinLibrcloneProbe env;
     answered \<leftarrow> rcl (hasFinished env ''core/version'');
     if answered then do {
       r \<leftarrow> rcl (RPC env ''core/version'' (JObj []));
       modS (\<lambda>s. s\<lparr>probeCurrent := False\<rparr>);
       (case r of
          Inr _ \<Rightarrow> do {
            n \<leftarrow> rcl (timeNow env);
            modS (\<lambda>s. s\<lparr>lastLibrcloneOK := n\<rparr>);
            ret (Inr ())
          }
        | Inl e \<Rightarrow> judgeSilence env (WrapV ''librclone unhealthy'' e))
     }
     else do {
       cancelled \<leftarrow> rcl (hasFinished env ''context'');
       if cancelled then ret (Inl (Status Canceled (Err ''context'')))
       else judgeSilence env (Err ''librclone did not answer within 5s'')
     }
   }"

section \<open>The self monitor\<close>

definition logStallEventThreshold :: int where
  "logStallEventThreshold = seconds 60"

definition verifyCacheStillEncrypted :: "env \<Rightarrow> (ns, unit) state" where
  "verifyCacheStillEncrypted env = do {
     err \<leftarrow> rcl (VerifyCacheEncrypted env);
     wasBroken \<leftarrow> gets cacheUnencrypted;
     modS (\<lambda>s. s\<lparr>cacheUnencrypted := (err \<noteq> None)\<rparr>);
     node \<leftarrow> gets nodeID;
     if err = None then whenS (wasBroken \<and> hasClient env) (rcl (emit ''VFSCacheEncryptionRestored'' node))
     else if wasBroken \<or> \<not> hasClient env then ret ()
     else rcl (emit ''VFSCacheNotEncrypted'' node)
   }"

text \<open>\<open>stalled\<close> is what \<^verbatim>\<open>asynclog.DefaultStalledFor\<close> answers.\<close>

definition reportLogStall :: "env \<Rightarrow> int \<Rightarrow> (ns, unit) state" where
  "reportLogStall env stalled = do {
     wasStalled \<leftarrow> gets logStalled;
     modS (\<lambda>s. s\<lparr>logStalled := (stalled \<ge> logStallEventThreshold)\<rparr>);
     node \<leftarrow> gets nodeID;
     if stalled < logStallEventThreshold then whenS (wasStalled \<and> hasClient env) (rcl (emit ''DriverLogOutputRecovered'' node))
     else if wasStalled \<or> \<not> hasClient env then ret ()
     else rcl (emit ''DriverLogOutputStalled'' node)
   }"

fun statusField :: "string \<Rightarrow> string list \<Rightarrow> int" where
  "statusField name [] = - 1"
| "statusField name (line # ls) =
     (if \<not> hasPrefix line (name @ '':'') then statusField name ls
      else case strFields line of
        _ # v # _ \<Rightarrow> (case atoi v of None \<Rightarrow> - 1 | Some i \<Rightarrow> i)
      | _ \<Rightarrow> - 1)"

definition procStatusField :: "env \<Rightarrow> string \<Rightarrow> (ns, int) state" where
  "procStatusField env name = do {
     r \<leftarrow> rcl (osReadFile env ''/proc/self/status'');
     ret (case r of Inl _ \<Rightarrow> - 1 | Inr d \<Rightarrow> statusField name (split_on (CHR 0x0A) d))
   }"

definition countOpenFDs :: "env \<Rightarrow> (ns, int) state" where
  "countOpenFDs env = do {
     r \<leftarrow> rcl (osReadDir env ''/proc/self/fd'');
     ret (case r of Inl _ \<Rightarrow> - 1 | Inr es \<Rightarrow> int (length es))
   }"

definition threadWarnThreshold :: int where "threadWarnThreshold = 2000"
definition goroutineWarnThreshold :: int where "goroutineWarnThreshold = 10000"
definition rssWarnKB :: int where "rssWarnKB = 1024 * 1024"

text \<open>
  One minute of \<^verbatim>\<open>runSelfMonitor\<close>: given the number of goroutines and the state of the log, the new peaks of threads and
  resident memory, and whether a dump is written.
\<close>

definition selfMonitorRound :: "env \<Rightarrow> int \<Rightarrow> int \<Rightarrow> int \<times> int \<Rightarrow> (ns, (int \<times> int) \<times> bool) state" where
  "selfMonitorRound env goroutines stalled peaks = do {
     reportLogStall env stalled;
     verifyCacheStillEncrypted env;
     threads \<leftarrow> procStatusField env ''Threads'';
     rssKB \<leftarrow> procStatusField env ''VmRSS'';
     _ \<leftarrow> countOpenFDs env;
     ret ((max (fst peaks) threads, max (snd peaks) rssKB),
          threads \<ge> threadWarnThreshold \<or> goroutines \<ge> goroutineWarnThreshold \<or> rssKB \<ge> rssWarnKB)
   }"

section \<open>Events on the edge\<close>

text \<open>\<open>alternating b xs\<close>: the list changes at every element, starting from \<open>b\<close>.\<close>

fun alternating :: "bool \<Rightarrow> bool list \<Rightarrow> bool" where
  "alternating b [] = True"
| "alternating b (x # xs) = (x \<noteq> b \<and> alternating x xs)"

text \<open>
  Three conditions are reported on the Node object: registration, encryption of the cache, and log output. Each remembers
  whether it was broken and raises an event exactly when that changes. The locale states this
  contract once: \<open>observe\<close> is told whether the condition is broken now, \<open>broken\<close> is what it remembers, \<open>raised\<close> the events of this
  condition so far (\<open>True\<close> for broken).
\<close>

locale edge_reporter =
  fixes observe :: "'o \<Rightarrow> 's \<Rightarrow> 's"
    and verdict :: "'o \<Rightarrow> 's \<Rightarrow> bool"
    and broken :: "'s \<Rightarrow> bool"
    and raised :: "'s \<Rightarrow> bool list"
    and reporting :: "'o \<Rightarrow> bool"
  assumes remembers: "broken (observe x s) = verdict x s"
    and raises: "reporting x \<Longrightarrow> raised (observe x s) = raised s @ (if broken s = verdict x s then [] else [verdict x s])"
begin

text \<open>Whatever is observed, the events raised alternate, and the last one is what is remembered.\<close>

lemma observed_alternates:
  "list_all reporting xs \<Longrightarrow> \<exists>new. raised (fold observe xs s) = raised s @ new \<and> alternating (broken s) new \<and>
     broken (fold observe xs s) = last (broken s # new) \<and> length new \<le> length xs"
proof (induction xs arbitrary: s)
  case (Cons x xs)
  then obtain new where IH: "raised (fold observe xs (observe x s)) = raised (observe x s) @ new" "alternating (broken (observe x s)) new"
    "broken (fold observe xs (observe x s)) = last (broken (observe x s) # new)" "length new \<le> length xs" by fastforce
  from Cons.prems have "reporting x" by simp
  from raises [OF this, of s] remembers [of x s] IH show ?case
    by (intro exI [of _ "(if broken s = verdict x s then [] else [verdict x s]) @ new"]) auto
qed simp

end

text \<open>The events of one condition in a history: \<open>True\<close> for the reason \<open>bad\<close>, \<open>False\<close> for \<open>good\<close>.\<close>

definition edges :: "string \<Rightarrow> string \<Rightarrow> hist \<Rightarrow> bool list" where
  "edges bad good h = concat (map (\<lambda>e. case e of
       Emitted r _ \<Rightarrow> if r = bad then [True] else if r = good then [False] else []
     | _ \<Rightarrow> []) h)"

lemma edges_simps [simp]:
  "edges bad good [] = []" "edges bad good (h @ h') = edges bad good h @ edges bad good h'"
  "edges bad good (Emitted r n # h) = (if r = bad then [True] else if r = good then [False] else []) @ edges bad good h"
  "edges bad good (Asked q # h) = edges bad good h" "edges bad good (Ran c x # h) = edges bad good h"
  by (simp_all add: edges_def)

definition regEdges :: "ns \<Rightarrow> bool list" where
  "regEdges s = edges ''CSIRegistrationLost'' ''CSIRegistrationRecovered'' (nhist s)"

definition cacheEdges :: "ns \<Rightarrow> bool list" where
  "cacheEdges s = edges ''VFSCacheNotEncrypted'' ''VFSCacheEncryptionRestored'' (nhist s)"

definition logEdges :: "ns \<Rightarrow> bool list" where
  "logEdges s = edges ''DriverLogOutputStalled'' ''DriverLogOutputRecovered'' (nhist s)"

interpretation registration: edge_reporter
  "\<lambda>(env, healthy) s. snd (run_state (recordRegistrationTransition env healthy) s)" "\<lambda>(env, healthy) s. \<not> healthy"
  regUnhealthy regEdges "\<lambda>(env, healthy). hasClient env"
  by unfold_locales (auto simp: recordRegistrationTransition_def regEdges_def split: if_splits)

interpretation log_output: edge_reporter
  "\<lambda>(env, stalled) s. snd (run_state (reportLogStall env stalled) s)" "\<lambda>(env, stalled) s. stalled \<ge> logStallEventThreshold"
  logStalled logEdges "\<lambda>(env, stalled). hasClient env"
  by unfold_locales (auto simp: reportLogStall_def logEdges_def split: if_splits)

lemma VerifyCacheEncrypted_edges: "edges bad good (hist (snd (run_state (VerifyCacheEncrypted env) s))) = edges bad good (hist s)"
  by (auto simp: VerifyCacheEncrypted_def verifyCacheEncryptedAt_def split: sum.splits)

interpretation cache: edge_reporter
  "\<lambda>env s. snd (run_state (verifyCacheStillEncrypted env) s)" "\<lambda>env s. fst (run_state (VerifyCacheEncrypted env) (base s)) \<noteq> None"
  cacheUnencrypted cacheEdges hasClient
  by unfold_locales (auto simp: verifyCacheStillEncrypted_def cacheEdges_def VerifyCacheEncrypted_edges case_prod_beta split: if_splits)

end
