(* ===== verification/NodeSystem.thy ===== *)
theory NodeSystem
  imports NodeSlots Identity
begin

text \<open>
  The node plugin as a transition system. A step is one handler, one round of a background loop, or the run of one
  draining goroutine; steps interleave in any order, against any behaviour of the host and the cluster. The invariants of the
  reachable states are proved by rule induction over the steps.
\<close>

section \<open>Steps\<close>

inductive nodeStep :: "ns \<Rightarrow> ns \<Rightarrow> bool" where
  stage: "run_state (NodeStageVolume env req) s = (r, s') \<Longrightarrow> nodeStep s s'"
| unstage: "run_state (NodeUnstageVolume env volumeID path) s = (r, s') \<Longrightarrow> nodeStep s s'"
| publish: "run_state (NodePublishVolume env preq) s = (r, s') \<Longrightarrow> nodeStep s s'"
| unpublish: "run_state (NodeUnpublishVolume env path) s = (r, s') \<Longrightarrow> nodeStep s s'"
| info: "run_state (NodeGetInfo env) s = (i, s') \<Longrightarrow> nodeStep s s'"
| probe: "run_state (Probe env) s = (r, s') \<Longrightarrow> nodeStep s s'"
| startup: "run_state (startupCleanup env script) s = (u, s') \<Longrightarrow> nodeStep s s'"
| tick: "run_state (checkerTick env n) s = (u, s') \<Longrightarrow> nodeStep s s'"
| registration: "run_state (refreshRegistration env) s = (u, s') \<Longrightarrow> nodeStep s s'"
| monitor: "run_state (selfMonitorRound env goroutines stalled peaks) s = (m, s') \<Longrightarrow> nodeStep s s'"
| expand: "run_state (rcl (NodeExpandVolume env volumeID path capacity)) s = (r, s') \<Longrightarrow> nodeStep s s'"
| health: "run_state (RunRegistrationHealthServer env) s = (u, s') \<Longrightarrow> nodeStep s s'"
| listen: "run_state (serveRound env splitPort addr failures err) s = (k, s') \<Longrightarrow> nodeStep s s'"
| evict: "run_state (rcl (monitorTick env mm)) s = (u, s') \<Longrightarrow> nodeStep s s'"
| warm: "run_state (rcl (dirCacheWarmer env ratio mm)) s = (u, s') \<Longrightarrow> nodeStep s s'"
| drain: "t \<in> set (drainTasks s) \<Longrightarrow> run_state (taskStep env t) s = (u, s') \<Longrightarrow> nodeStep s s'"

text \<open>
  The state \<^verbatim>\<open>NewDriver\<close> builds: \<^verbatim>\<open>NewS3SyncManager\<close> makes empty maps and reads the drains that a previous
  process left pending; \<open>b\<close> is the state of the rclone package, \<open>started\<close> when the process did.
\<close>

definition emptyNs :: "string \<Rightarrow> string \<Rightarrow> string \<Rightarrow> int \<Rightarrow> rc \<Rightarrow> ns" where
  "emptyNs endpoint node ver started b = \<lparr>base = b, nodeID = node, driverEndpoint = endpoint, driverName = DriverName, driverVersion = ver,
     mountManagers = Map.empty, volumesInSetup = {}, backgroundDrains = {}, pendingDrains = {}, drainTasks = [],
     mountedAt = Map.empty, strandedRetry = Map.empty, vfsProbesInFlight = Map.empty, zombieVFSStrikes = Map.empty,
     statfsProbesInFlight = {}, reconcileAttempts = Map.empty, consumerRestartTimes = Map.empty, lastNodeGetInfo = 0,
     registrationHealthStart = started, regHealthy = True, regUnhealthy = False, logStalled = False, cacheUnencrypted = False,
     kubeletRootCache = [], lastLibrcloneOK = started, probeCurrent = False\<rparr>"

definition NewNodeServer :: "env \<Rightarrow> string \<Rightarrow> string \<Rightarrow> string \<Rightarrow> int \<Rightarrow> rc \<Rightarrow> ns" where
  "NewNodeServer env endpoint node ver started b = snd (run_state (loadPendingDrains env) (emptyNs endpoint node ver started b))"

inductive reachable :: "ns \<Rightarrow> bool" where
  start: "reachable (NewNodeServer env endpoint node ver started b)"
| step: "reachable s \<Longrightarrow> nodeStep s s' \<Longrightarrow> reachable s'"

lemma NewNodeServer_core [simp]:
  "mountManagers (NewNodeServer env e n v t b) = Map.empty" "backgroundDrains (NewNodeServer env e n v t b) = {}"
  "drainTasks (NewNodeServer env e n v t b) = []"
  by (simp_all add: NewNodeServer_def emptyNs_def loadPendingDrains_def split: prod.splits)

section \<open>The other services leave the slots alone\<close>

lemma core_loops_registration [core]:
  "keeps (onCore I) (holdsSocket env pid inodes fds)" "keeps (onCore I) (findHolder env inodes ps)" "keeps (onCore I) (newestKubelet env b n ps)"
proof -
  have h: "keeps (onCore I) (holdsSocket env pid inodes fds)" for env pid inodes fds
    by (induction fds) (simp, case_tac a, simp only: holdsSocket.simps, intro keeps_rules core)
  then show "keeps (onCore I) (holdsSocket env pid inodes fds)" .
  show "keeps (onCore I) (findHolder env inodes ps)"
    by (induction env inodes ps rule: findHolder.induct) (simp, simp only: findHolder.simps, intro keeps_rules core h)
  show "keeps (onCore I) (newestKubelet env b n ps)"
    by (induction env b n ps rule: newestKubelet.induct)
       (simp, simp only: newestKubelet.simps processStartTicks_def, intro keeps_rules core)
qed

lemma core_registration [core]: "keeps (onCore I) (refreshRegistration env)"
  unfolding refreshRegistration_def isDriverRegistered_def recordRegistrationTransition_def kubeletHandshakeCurrent_def
    csiSocketAccepting_def kubeletProcessStart_def hostBootTime_def pidListeningOn_def collectListeningInodes_def
    processStartTicks_def Let_def
  by (intro keeps_rules core core_modS; simp)

lemma core_health [core]: "keeps (onCore I) (RunRegistrationHealthServer env)" "keeps (onCore I) (serveRound env sp addr k e)"
  unfolding RunRegistrationHealthServer_def serveRound_def portHolderDescription_def pidListeningOn_def collectListeningInodes_def Let_def
  by (intro keeps_rules core core_modS; simp)+

lemma core_identity [core]: "keeps (onCore I) (Probe env)"
  unfolding Probe_def startOrJoinLibrcloneProbe_def judgeSilence_def silentFor_def
  by (intro keeps_rules core core_modS; simp)

lemma core_monitor [core]: "keeps (onCore I) (selfMonitorRound env g st peaks)"
  unfolding selfMonitorRound_def verifyCacheStillEncrypted_def reportLogStall_def procStatusField_def countOpenFDs_def
  by (intro keeps_rules core core_modS; simp)

lemma keeps_run: "keeps I m \<Longrightarrow> run_state m s = (r, s') \<Longrightarrow> I s \<Longrightarrow> I s'"
  by (drule keepsD) auto

section \<open>Invariants of the core state\<close>

text \<open>
  A predicate of the slots, the goroutines and the managers that survives the few operations which change them survives every
  handler and every background loop. The first locale has the operations that take a manager away and the goroutines; the
  second adds what the handlers need, that setting up a volume and picking up a stranded upload keep the predicate. The lemmas follow
  the code. A predicate that no mount and no claim of a slot can break, wherever it happens, is one of them.
\<close>

named_theorems slot_ops \<open>operations that keep an invariant of the core state\<close>

locale core_tasks =
  fixes J :: "string set \<Rightarrow> drainTask list \<Rightarrow> (string \<rightharpoonup> MountManager) \<Rightarrow> string set \<Rightarrow> bool"
  assumes drops: "keeps (onCore J) (dropManager v)"
    and cleans: "keeps (onCore J) (cleanupS3Sync env v path)"
    and task: "onCore J s \<Longrightarrow> t \<in> set (drainTasks s) \<Longrightarrow> run_state (taskStep env t) s = (u, s') \<Longrightarrow> onCore J s'"
    and unpends: "keeps (onCore J) (modS (\<lambda>s. s\<lparr>pendingDrains := pendingDrains s - {v}\<rparr>))"
begin

lemmas [slot_ops] = drops cleans unpends

lemma keeps_completeDrain [slot_ops]: "keeps (onCore J) (completeDrain env v)"
proof (rule keepsI)
  fix s assume s: "onCore J s"
  show "onCore J (snd (run_state (completeDrain env v) s))"
  proof (cases "find (\<lambda>t. taskVolume t = v) (drainTasks s)")
    case None
    with s show ?thesis by (simp add: completeDrain_def)
  next
    case (Some t)
    then have "t \<in> set (drainTasks s)" by (auto simp: find_Some_iff)
    with s Some task [of s t env] show ?thesis by (cases "run_state (taskStep env t) s") (simp add: completeDrain_def)
  qed
qed

lemma keeps_unmounts [slot_ops]:
  "keeps (onCore J) (unmountManager env v mm)" "keeps (onCore J) (forceCleanupS3Sync env v)"
  unfolding unmountManager_def forceCleanupS3Sync_def by (intro keeps_rules core slot_ops)+

lemma slot_wait [slot_ops]: "keeps (onCore J) (waitForBackgroundDrain env v)"
  unfolding waitForBackgroundDrain_def by (intro keeps_rules core slot_ops)

end

locale core_invariant = core_tasks +
  assumes setups: "keeps (onCore J) (setupS3Sync env v path ctx g)"
    and recovers: "keeps (onCore J) (recoverStranded env staged vs)"
begin

lemmas [slot_ops] = setups recovers

lemma slot_setup [slot_ops]:
  "keeps (onCore J) (setupS3Volume env params c)" "keeps (onCore J) (restoreS3VolumeStaging env v p c cap)"
  unfolding setupS3Volume_def restoreS3VolumeStaging_def by (intro keeps_rules core slot_ops)+

lemma slot_repair [slot_ops]:
  "keeps (onCore J) (reconcileS3Mount env v p c b)" "keeps (onCore J) (checkVolume env ns d)"
proof -
  have f: "keeps (onCore J) (remountFailed env v p)" for v p unfolding remountFailed_def by (intro keeps_rules core slot_ops)
  have m: "keeps (onCore J) (remountVolume env v p c)" for v p c
    unfolding remountVolume_def by (intro keeps_rules core slot_ops f)
  show r: "keeps (onCore J) (reconcileS3Mount env v p c b)" for v p c b
    unfolding reconcileS3Mount_def by (intro keeps_rules core slot_ops m)
  show "keeps (onCore J) (checkVolume env ns d)"
    unfolding checkVolume_def Let_def by (intro keeps_rules core slot_ops r)
qed

lemma slot_checker [slot_ops]:
  "keeps (onCore J) (cleanupStaleS3Mounts env)" "keeps (onCore J) (recoverStrandedVolumes env)"
proof -
  have "keeps (onCore J) (checkVolumes env ns d es)" for env ns d es
    by (induction env ns d es rule: checkVolumes.induct) (simp, simp only: checkVolumes.simps, intro keeps_rules core slot_ops)
  then show "keeps (onCore J) (cleanupStaleS3Mounts env)"
    unfolding cleanupStaleS3Mounts_def by (intro keeps_rules core slot_ops)
  show "keeps (onCore J) (recoverStrandedVolumes env)"
    unfolding recoverStrandedVolumes_def by (intro keeps_rules core slot_ops)
qed

lemma slot_service [slot_ops]:
  "keeps (onCore J) (NodeStageVolume env req)" "keeps (onCore J) (NodeUnstageVolume env v p)"
  "keeps (onCore J) (NodePublishVolume env preq)" "keeps (onCore J) (NodeUnpublishVolume env t)"
  "keeps (onCore J) (NodeGetInfo env)" "keeps (onCore J) (cleanupOrphanedVolumes env)"
proof -
  show "keeps (onCore J) (NodeStageVolume env req)"
    unfolding NodeStageVolume_def isAlreadyStaged_def prepareVolumeStaging_def duringSetup_def stageLUKS_def Let_def
    by (intro keeps_rules core slot_ops)
  show "keeps (onCore J) (NodeUnstageVolume env v p)"
    unfolding NodeUnstageVolume_def by (intro keeps_rules core slot_ops)
  show "keeps (onCore J) (NodePublishVolume env preq)"
    unfolding NodePublishVolume_def publish_def ensureVolumeStaged_def duringSetup_def by (intro keeps_rules core slot_ops)
  show "keeps (onCore J) (NodeUnpublishVolume env t)"
    unfolding NodeUnpublishVolume_def by (intro keeps_rules core slot_ops)
  show "keeps (onCore J) (NodeGetInfo env)"
    unfolding NodeGetInfo_def by (intro keeps_rules core slot_ops core_modS; simp)
  have "keeps (onCore J) (reclaimOrphans env lp es)" for env lp es
    by (induction env lp es rule: reclaimOrphans.induct)
       (simp, simp only: reclaimOrphans.simps reclaimEntry_def reclaimOrphanedVolume_def Let_def, intro keeps_rules core slot_ops)
  then show "keeps (onCore J) (cleanupOrphanedVolumes env)"
    unfolding cleanupOrphanedVolumes_def Let_def by (intro keeps_rules core slot_ops)
qed

lemma slot_ticks [slot_ops]: "keeps (onCore J) (checkerTick env n)" "keeps (onCore J) (startupCleanup env script)"
  unfolding checkerTick_def sweepTick_def startupCleanup_def by (intro keeps_rules core slot_ops)+

lemma nodeStep_keeps: "nodeStep s s' \<Longrightarrow> onCore J s \<Longrightarrow> onCore J s'"
proof (induction rule: nodeStep.induct)
  case (drain t s env u s')
  then show ?case by (blast intro: task)
qed (erule (1) keeps_run [rotated], intro core slot_ops)+

lemma reachable_keeps:
  assumes "reachable s" "\<And>env e n v t b. onCore J (NewNodeServer env e n v t b)"
  shows "onCore J s"
  using assms by (induction rule: reachable.induct) (auto intro: nodeStep_keeps)

end

locale core_unconditional = core_tasks +
  assumes mounts: "keeps (onCore J) (mountS3Volume env v path ctx g)"
    and resumes: "keeps (onCore J) (resumeStrandedDrain env v path)"
begin

lemma setup_keeps: "keeps (onCore J) (setupS3Sync env v path ctx g)"
  unfolding setupS3Sync_def by (intro keeps_rules core slot_ops mounts core_modS; simp)

lemma recover_keeps: "keeps (onCore J) (recoverStranded env staged vs)"
proof (induction vs)
  case (Cons v vs)
  then show ?case unfolding recoverStranded.simps recoverVolume_def by (intro keeps_rules core resumes core_modS; simp)
qed simp

end

sublocale core_unconditional \<subseteq> core_invariant
  by unfold_locales (rule setup_keeps recover_keeps)+

section \<open>The managers in the map\<close>

text \<open>
  A manager is stored only after its mount succeeded, under its own volume, with its cache monitor running and with the names of
  its generation; it leaves the map before or with its unmount.
\<close>

definition wellManaged :: "(string \<rightharpoonup> MountManager) \<Rightarrow> bool" where
  "wellManaged M = (\<forall>v mm. M v = Some mm \<longrightarrow> mm_volumeID mm = v \<and> mm_mounted mm \<and> mm_stopCacheMon mm = Some False \<and> named mm)"

named_theorems managed \<open>operations that keep the managers in order\<close>

lemma managed_basic [managed]:
  "keeps (onManagers wellManaged) (dropManager v)" "keeps (onManagers wellManaged) (spawn t)"
  "keeps (onManagers wellManaged) (startBackgroundDrain env v)" "keeps (onManagers wellManaged) (finishBackgroundDrain env v d)"
  unfolding dropManager_def spawn_def
  by (rule keeps_modS, simp add: onCore_def wellManaged_def)+
     (auto simp: keeps_def triple_def startBackgroundDrain_def finishBackgroundDrain_def onCore_def case_prod_beta)

lemma managed_mountThen:
  assumes "mm_volumeID mm = v" "\<not> mm_mounted mm" "named mm"
  shows "keeps (onManagers wellManaged) (do {
    r \<leftarrow> rcl (Mount env mm);
    (case r of (Some e, _) \<Rightarrow> ret (Some (f e)) | (None, mm') \<Rightarrow> do { storeManager v mm'; ret None })
  })"
  using Mount_manager [OF _ assms(2,3)] assms(1)
  by (auto simp: keeps_def triple_def onCore_def wellManaged_def storeManager_def split: prod.splits option.splits)

lemma NewMountManager_fresh:
  "run_state (NewMountManager env c v p vc pre pw g) s = (mm, s') \<Longrightarrow> mm_volumeID mm = v \<and> \<not> mm_mounted mm \<and> named mm"
  by (auto simp: NewMountManager_def Let_def split: prod.splits)

lemma managed_mount [managed]: "keeps (onManagers wellManaged) (mountS3Volume env v p c g)"
proof -
  have "keeps (onManagers wellManaged) (do {
      mm \<leftarrow> rcl (NewMountManager env sc v p vc pre pw g);
      r \<leftarrow> rcl (Mount env mm);
      (case r of (Some e, _) \<Rightarrow> ret (Some (WrapW ''failed to mount'' e)) | (None, mm') \<Rightarrow> do { storeManager v mm'; ret None })
    })" (is "keeps ?I (State_Monad.bind ?new ?k)") for sc vc pre pw
  proof (rule keepsI)
    fix s assume s: "?I s"
    obtain mm s1 where 1: "run_state ?new s = (mm, s1)" by fastforce
    then have "mm_volumeID mm = v \<and> \<not> mm_mounted mm \<and> named mm" by (auto dest: NewMountManager_fresh split: prod.splits)
    moreover have "?I s1" using keeps_run [OF core_rcl 1] s .
    ultimately show "?I (snd (run_state (State_Monad.bind ?new ?k) s))"
      using keepsD [OF managed_mountThen [of mm v env "\<lambda>e. WrapW ''failed to mount'' e"]] 1 by auto
  qed
  note new = this
  show ?thesis unfolding mountS3Volume_def
    by (rule keeps_bind [OF core_rcl], rule keeps_case_sum, rule keeps_ret, rule keeps_bind [OF core_rcl], rule keeps_case_sum,
        rule keeps_ret, rule keeps_bind [OF core_rcl], rule keeps_case_sum, rule keeps_ret, intro keeps_if keeps_ret new)
qed

lemma managed_tasks [managed]:
  "keeps (onManagers wellManaged) (resumeStrandedDrain env v p)" "keeps (onManagers wellManaged) (cleanupS3Sync env v p)"
  "keeps (onManagers wellManaged) (unmountManager env v mm)" "keeps (onManagers wellManaged) (drainBody env v)"
  "keeps (onManagers wellManaged) (resumeBody env v p c)"
  unfolding cleanup_defs resumeStrandedDrain_def forceCleanupS3Sync_def drainBody_def resumeBody_def unmountManager_def
  by (intro keeps_rules core managed)+

lemma managed_taskStep: "keeps (onManagers wellManaged) (taskStep env t)"
  unfolding taskStep_def
proof (rule keeps_bind)
  show "keeps (onManagers wellManaged) (modS (\<lambda>s. s\<lparr>drainTasks := dropTask (taskVolume t) (drainTasks s)\<rparr>))"
    by (rule keeps_modS) (simp add: onCore_def)
  show "keeps (onManagers wellManaged) (runTask env t)"
    by (cases t) (simp_all only: runTask.simps, (intro keeps_rules core managed)+)
qed

interpretation slots: core_unconditional "\<lambda>D T _ _. slotOK D T"
proof unfold_locales
  fix s t env u s'
  assume "onSlots slotOK s" "t \<in> set (drainTasks s)" "run_state (taskStep env t) s = (u, s')"
  with taskStep_slot [of t env] show "onSlots slotOK s'" by (auto simp: triple_def)
qed (rule slots keeps_cleanupS3Sync keeps_resumeStrandedDrain, rule slots keeps_cleanupS3Sync keeps_resumeStrandedDrain,
    rule keeps_modS, simp add: onCore_def, (rule slots keeps_resumeStrandedDrain)+)

interpretation managers: core_unconditional "\<lambda>_ _ M _. wellManaged M"
proof unfold_locales
  fix s t env u s'
  assume "onManagers wellManaged s" "run_state (taskStep env t) s = (u, s')"
  then show "onManagers wellManaged s'" using keeps_run [OF managed_taskStep] by blast
qed (rule managed, rule managed, rule keeps_modS, simp add: onCore_def, rule managed, rule managed)

section \<open>The invariants\<close>



section \<open>A drain that waits\<close>

text \<open>
  A node for the witness: nothing of the cache can be read, which counts as unuploaded, and the PV of the volume is there. Unstaging
  is refused and leaves a goroutine that holds the slot.
\<close>

definition strandedEnv :: env where
  "strandedEnv = quietEnv\<lparr>readDir := \<lambda>_ _. Inl EIO, getPV := \<lambda>_ _. Inr s3PV, listPVs := \<lambda>_. Inr [s3PV]\<rparr>"

lemma strandedEnv_simps [simp]:
  "hasClient strandedEnv" "getPV strandedEnv h n = Inr s3PV" "listPVs strandedEnv h = Inr [s3PV]" "fsDo strandedEnv h f = None"
  "getPVC strandedEnv h a n = Inl (Sentinel K8sNotFound)" "readDir strandedEnv h p = Inl EIO"
  by (simp_all add: strandedEnv_def quietEnv_def)

lemma s3PV_simps [simp]:
  "ofVolume ''v'' s3PV" "pv_claimRef s3PV = Some (''ns'', ''claim'')" "pv_annotations s3PV = Map.empty" "pv_storageClass s3PV = ''sc''"
  "pv_csi s3PV = Some \<lparr>csi_driver = DriverName, csi_handle = ''v'', csi_attributes = Some s3Context\<rparr>" "isS3Backend s3Context"
  by (simp_all add: s3PV_def ofVolume_def isS3Backend_def s3Context_def)

lemma stranded_dirty [simp]:
  "run_state (HasUnuploadedData strandedEnv ''v'') s = (True, s\<lparr>hist := hist s @ [Asked (QReadDir (pathJoin [VFSCacheBasePath, ''vfsMeta'']))]\<rparr>)"
  by (simp add: HasUnuploadedData_def hasUnuploadedDataAt_def)

lemma stranded_refuses:
  "\<exists>s r. reachable s \<and> drainTasks s = [ResumeTask ''v'' ''/m'' s3Context] \<and>
     run_state (NodeUnstageVolume strandedEnv ''v'' ''/m'') (NewNodeServer strandedEnv [] ''n'' ''1'' 0 initRc) = (r, s) \<and>
     (\<exists>e. r = Inl (Status FailedPrecondition e))"
proof -
  let ?s0 = "NewNodeServer strandedEnv [] ''n'' ''1'' 0 initRc"
  obtain r s where r: "run_state (NodeUnstageVolume strandedEnv ''v'' ''/m'') ?s0 = (r, s)" by fastforce
  then have "drainTasks s = [ResumeTask ''v'' ''/m'' s3Context] \<and> (\<exists>e. r = Inl (Status FailedPrecondition e))"
    by (auto simp: NodeUnstageVolume_def validateUnstageVolumeRequest_def cleanup_defs isBackgroundDraining_def case_prod_beta
      managerOf_def resumeStrandedDrain_def getS3VolumeContext_def startBackgroundDrain_def spawn_def
      reportUnuploadedData_def reportOn_def pvcRef_def forceUnstageRequested_def getPVByVolumeID_def
      SaveDrainPending_def)
  moreover have "reachable s" by (rule reachable.step [OF reachable.start]) (rule nodeStep.unstage [OF r])
  ultimately show ?thesis using r by blast
qed


section \<open>A volume that is staged\<close>

text \<open>A state of the node of \<^const>\<open>readyEnv\<close> in which nothing is mounted yet, and a request to stage its volume.\<close>

definition bare :: "rc \<Rightarrow> bool" where
  "bare s = (\<not> mountsInFlight s \<and> (mountsStacks s \<noteq> None \<longrightarrow> mountsFlat s = Map.empty) \<and> BindMount readySession ''/m'' \<notin> set (doneOps (hist s)))"

definition readyRequest :: StageRequest where
  "readyRequest = \<lparr>sr_volumeID = ''v'', sr_stagingTargetPath = ''/m'',
     sr_capability = Some \<lparr>cap_mount = None, cap_mode = SINGLE_NODE_WRITER\<rparr>, sr_context = s3Context\<rparr>"

lemma readyEnv_simps [simp]:
  "hasClient readyEnv" "listPVs readyEnv h = Inr [s3PV]" "fsDo readyEnv h f = None" "now readyEnv h = 0"
  "getSC readyEnv h c = Inr (\<lambda>_. Some ''x'')" "getSecret readyEnv h a b = Inr (\<lambda>_. Some ''x'')"
  by (simp_all add: readyEnv_def quietEnv_def)

lemma bare_HostMountsOK: "bare s \<Longrightarrow> \<exists>s'. run_state (HostMountsOK readyEnv) s = (Some Map.empty, s') \<and> bare s'"
  by (auto simp: bare_def HostMountsOK_def hostMountStacksOK_def lateRead_def readHostMounts_def cachedMountsLocked_def
      readyEnv_def quietEnv_def finishRead_def parseMountStacks_Nil flattenMountStacks_def split: if_splits)

lemma bare_hist [simp]: "bare (s\<lparr>hist := hist s @ [Asked q]\<rparr>) = bare s" "bare (s\<lparr>hist := hist s @ [Kube k]\<rparr>) = bare s"
  "bare (s\<lparr>hist := hist s @ [Did (MkdirAll p) r]\<rparr>) = bare s"
  by (simp_all add: bare_def)

lemma ready_secrets:
  "\<exists>vs q. vs_passphrase vs = ''x'' \<and> vs_bucket vs = ''x'' \<and>
     run_state (FetchVolumeSecrets readyEnv (ExtractSecretParams (\<lambda>_. Some ''x'') s3Context)) b =
       (Inr vs, b\<lparr>hist := hist b @ [Kube q] @ [Kube q]\<rparr>)"
  by (auto simp: FetchVolumeSecrets_def fetchPassphrase_def fetchS3Config_def requireKey_def ExtractSecretParams_def pickParam_def
      s3Context_def secretKeys StorageBackendParam_def)

lemma ready_manager:
  "\<exists>mm q. run_state (NewMountManager readyEnv c ''v'' ''/m'' vc pre ''x'' None) b = (mm, b\<lparr>hist := hist b @ [Asked q]\<rparr>) \<and>
     \<not> mm_mounted mm \<and> mm_volumeID mm = ''v'' \<and> mm_generation mm = 0 \<and> mm_mountPoint mm = ''/m'' \<and> Password (mm_cryptConfig mm) \<noteq> []"
proof -
  have "generationOfVFSName ''v'' [] = 0" by code_simp
  then show ?thesis
    by (auto simp: NewMountManager_def LoadVFSNameMap_def readyEnv_def quietEnv_def setGeneration_def DeriveRcloneCryptConfig_def case_prod_beta Let_def)
qed

lemma ready_mounts:
  assumes "bare (base s)"
  shows "\<exists>mm s'. run_state (mountS3Volume readyEnv ''v'' ''/m'' s3Context None) s = (None, s') \<and> mountManagers s' ''v'' = Some mm"
proof -
  let ?b = "base s\<lparr>hist := nhist s @ [Kube KListPVs] @ [Kube (KGetSC ''sc'')]\<rparr>"
  obtain vs q where vs: "vs_passphrase vs = ''x''" "vs_bucket vs = ''x''"
    "run_state (FetchVolumeSecrets readyEnv (ExtractSecretParams (\<lambda>_. Some ''x'') s3Context)) ?b = (Inr vs, ?b\<lparr>hist := hist ?b @ [Kube q] @ [Kube q]\<rparr>)"
    using ready_secrets by blast
  let ?c = "?b\<lparr>hist := hist ?b @ [Kube q] @ [Kube q]\<rparr>"
  obtain mm q' where mm: "run_state (NewMountManager readyEnv (getS3ConfigFromSecrets vs) ''v'' ''/m'' (Some (getVFSCacheConfig s3Context))
      (mget s3Context S3PathPrefixParam) ''x'' None) ?c = (mm, ?c\<lparr>hist := hist ?c @ [Asked q']\<rparr>)" "\<not> mm_mounted mm" "mm_volumeID mm = ''v''"
    "mm_generation mm = 0" "mm_mountPoint mm = ''/m''" "Password (mm_cryptConfig mm) \<noteq> []" using ready_manager by blast
  let ?d = "?c\<lparr>hist := hist ?c @ [Asked q']\<rparr>"
  have "bare ?d" using assms by (simp add: bare_def)
  then obtain sa where "run_state (HostMountsOK readyEnv) ?d = (Some Map.empty, sa)" "bare sa" using bare_HostMountsOK by blast
  then have a: "run_state (mmIsMountPoint readyEnv mm) ?d = (False, sa)" "settled sa"
    by (simp_all add: mmIsMountPoint_def HostMounts_def settled_def bare_def)
  obtain mm' sb where m: "run_state (Mount readyEnv mm) ?d = ((None, mm'), sb)" using ready_Mount [OF a mm(2-)] by (metis prod.collapse)
  from vs mm(1) m show ?thesis
    by (simp add: mountS3Volume_def getPVByVolumeID_def getStorageClassParameters_def getS3ConfigFromSecrets_def storeManager_def)
qed

lemma ready_stages:
  "\<exists>s mm. reachable s \<and> mountManagers s ''v'' = Some mm \<and>
     run_state (NodeStageVolume readyEnv readyRequest) (NewNodeServer readyEnv [] ''n'' ''1'' 0 initRc) = (Inr (), s)"
proof -
  let ?s0 = "NewNodeServer readyEnv [] ''n'' ''1'' 0 initRc"
  have b0: "bare (base ?s0)"
    by (simp add: NewNodeServer_def loadPendingDrains_def emptyNs_def ListDrainPending_def bare_def initRc_def split: prod.splits sum.splits)
  then obtain b1 where b1: "run_state (HostMountsOK readyEnv) (base ?s0) = (Some Map.empty, b1)" "bare b1" using bare_HostMountsOK by blast
  have v: "run_state (verifyS3StagingLive readyEnv ''/m'') ?s0 = (Some (Err ''not an rclone FUSE mount''), ?s0\<lparr>base := b1\<rparr>)"
    using b1 by (simp add: verifyS3StagingLive_def HostFUSEMountState_def)
  from bare_HostMountsOK [OF b1(2)] obtain b2 where b2: "run_state (HostMountsOK readyEnv) b1 = (Some Map.empty, b2)" "bare b2" by blast
  have x: "run_state (extractFsGroup readyEnv s3Context (Some \<lparr>cap_mount = None, cap_mode = m\<rparr>)) b = (None, b)" for m b
    by (simp add: extractFsGroup_def extractFsGroupFromPod_def s3Context_def StorageBackendParam_def)
  have p: "pendingDrains ?s0 = {}"
    by (simp add: NewNodeServer_def loadPendingDrains_def emptyNs_def ListDrainPending_def readyEnv_def quietEnv_def)
  let ?s1 = "?s0\<lparr>base := b2, volumesInSetup := insert ''v'' (volumesInSetup ?s0)\<rparr>"
  let ?s2 = "?s1\<lparr>base := b2\<lparr>hist := hist b2 @ [Did (MkdirAll ''/m'') None]\<rparr>\<rparr>"
  have "bare (base ?s2)" using b2 by simp
  then obtain mm s3 where m: "run_state (mountS3Volume readyEnv ''v'' ''/m'' s3Context None) ?s2 = (None, s3)" "mountManagers s3 ''v'' = Some mm"
    using ready_mounts [of ?s2] by auto
  obtain r s where r: "run_state (NodeStageVolume readyEnv readyRequest) ?s0 = (r, s)" by fastforce
  then have "r = Inr () \<and> mountManagers s ''v'' = Some mm"
    using b1(1) b2(1) v p m
    by (auto simp: x NodeStageVolume_def validateStageVolumeRequest_def readyRequest_def isAlreadyStaged_def HostMountsKnown_def
      prepareVolumeStaging_def duringSetup_def setupS3Volume_def setupS3Sync_def waitForBackgroundDrain_def isBackgroundDraining_def
      hasPendingDrain_def reexposeLiveSession_def managerOf_def markVolumeSetupInProgress_def markVolumeSetupComplete_def fsErr_def)
  moreover have "reachable s" by (rule reachable.step [OF reachable.start]) (rule nodeStep.stage [OF r])
  ultimately show ?thesis using r by blast
qed


end
