(* ===== verification/NodeSafety.thy ===== *)
theory NodeSafety
  imports NodeSystem
begin

text \<open>
  What a caller of the node service may rely on: an S3 volume is reported as unstaged only once its writes are known to be in S3
  (or an operator gave them up), it is published only while its mount answers, and what refuses says so and
  keeps the upload going.
\<close>

section \<open>Histories of the node service\<close>

text \<open>\<open>within s s' a b\<close>: the states \<open>a\<close> and \<open>b\<close> of the rclone package lie, in this order, between \<open>s\<close> and \<open>s'\<close>.\<close>

definition within :: "ns \<Rightarrow> ns \<Rightarrow> rc \<Rightarrow> rc \<Rightarrow> bool" where
  "within s s' a b = (\<exists>t1 t2 t3. hist a = nhist s @ t1 \<and> hist b = hist a @ t2 \<and> nhist s' = hist b @ t3)"

text \<open>\<open>emitsN m P\<close>: the operation only adds events to the history, and each of them satisfies \<open>P\<close>.\<close>

definition emitsN :: "(ns, 'a) state \<Rightarrow> (event \<Rightarrow> bool) \<Rightarrow> bool" where
  "emitsN m P = (\<forall>s. \<exists>t. nhist (snd (run_state m s)) = nhist s @ t \<and> list_all P t)"

abbreviation growsN :: "(ns, 'a) state \<Rightarrow> bool" where
  "growsN m \<equiv> emitsN m (\<lambda>_. True)"

lemma emitsN_rcl: "emits m P \<Longrightarrow> emitsN (rcl m) P"
  by (auto simp: emitsN_def emits_def case_prod_beta)

lemma growsN_rcl: "emits m P \<Longrightarrow> growsN (rcl m)"
  by (rule emitsN_rcl) (erule emits_weaken, simp)

lemma emitsN_keep: "(\<And>s. base (snd (run_state m s)) = base s) \<Longrightarrow> emitsN m P"
  by (simp add: emitsN_def)

lemma emitsN_bind: "emitsN m P \<Longrightarrow> (\<And>x. emitsN (f x) P) \<Longrightarrow> emitsN (State_Monad.bind m f) P"
  unfolding emitsN_def by (simp add: case_prod_beta) (metis append.assoc list_all_append)

lemma emitsN_if: "(b \<Longrightarrow> emitsN m P) \<Longrightarrow> (\<not> b \<Longrightarrow> emitsN n P) \<Longrightarrow> emitsN (if b then m else n) P"
  by simp

lemma emitsN_ret: "emitsN (ret x) P" "emitsN (gets f) P"
  by (simp_all add: emitsN_def)

lemma emitsN_case:
  "emitsN f P \<Longrightarrow> (\<And>x. emitsN (g x) P) \<Longrightarrow> emitsN (case r of None \<Rightarrow> f | Some x \<Rightarrow> g x) P"
  "(\<And>e. emitsN (h e) P) \<Longrightarrow> (\<And>x. emitsN (g' x) P) \<Longrightarrow> emitsN (case q of Inl e \<Rightarrow> h e | Inr x \<Rightarrow> g' x) P"
  "(\<And>x y. emitsN (k x y) P) \<Longrightarrow> emitsN (case p of (x, y) \<Rightarrow> k x y) P"
  by (simp_all split: option.splits sum.splits prod.splits)

lemmas emitsN_rules = emitsN_ret emitsN_bind emitsN_if emitsN_case

lemma emitsND: "emitsN m P \<Longrightarrow> run_state m s = (r, s') \<Longrightarrow> \<exists>t. nhist s' = nhist s @ t \<and> list_all P t"
  unfolding emitsN_def by (metis snd_conv)

lemma growsND: "growsN m \<Longrightarrow> run_state m s = (r, s') \<Longrightarrow> \<exists>t. nhist s' = nhist s @ t"
  by (drule (1) emitsND) blast

lemma growsN_forceUnstageRequested: "growsN (forceUnstageRequested env v)"
  unfolding forceUnstageRequested_def by (intro emitsN_rules growsN_rcl [OF getPVByVolumeID_looks] growsN_rcl [OF emits_kube]) simp_all

lemma unmountPath_umounts: "emits (unmountPath env p) (umounts p)"
proof -
  have c: "emits (unmountHostOnce env p b) (umounts p)" for b
    unfolding unmountHostOnce_def runCmdBounded_def runCmdBoundedOutput_def by (intro emits_rules) (simp_all add: umounts_def)
  note l = emits_weaken [OF HostMountDepth_emits looks_umounts] emits_weaken [OF InvalidateHostMounts_emits looks_umounts]
  have "emits (unwindLoop env p b n) (umounts p)" for b n by (induction n arbitrary: b) (auto intro!: emits_rules c l)
  then show ?thesis unfolding unmountPath_def unmountHostStack_def by (intro emits_rules c l)
qed

lemma node_grows:
  "grows (runCmdBounded env c args)" "grows (CloseLUKS env n)" "grows (detachLoopDevicesFor env f)" "grows (unmountPath env p)"
proof -
  show c: "grows (runCmdBounded env c args)" for c args
    unfolding runCmdBounded_def runCmdBoundedOutput_def by (intro emits_rules) simp
  show "grows (CloseLUKS env n)"
    unfolding CloseLUKS_def IsLUKSOpened_def runCryptsetup_def runBounded_def by (intro emits_rules) simp_all
  have "grows (detachAll env ds)" for ds by (induction ds) (auto intro!: emits_rules c)
  then show "grows (detachLoopDevicesFor env f)"
    unfolding detachLoopDevicesFor_def loopDevicesFor_def runCmdBoundedOutput_def by (intro emits_rules) simp_all
  show "grows (unmountPath env p)" by (rule growsI [OF unmountPath_umounts])
qed

lemma cleanupVolumeStaging_grows: "grows (cleanupVolumeStaging env v p)"
  unfolding cleanupVolumeStaging_def releaseStaging_def isMountPoint_def
  by (intro emits_rules node_grows growsI [OF mount_queries_emit(2)]) simp_all

lemma HasUnuploadedData_looks: "emits (HasUnuploadedData env v) looks"
proof -
  have "emits (anyDirty env b v es) looks" for b es
    by (induction env b v es rule: anyDirty.induct) (auto intro!: emits_rules hasDirtyCacheItemsAt_emits)
  then show ?thesis unfolding HasUnuploadedData_def hasUnuploadedDataAt_def by (intro emits_rules) simp_all
qed

lemma IsUploadQueueEmpty_grows: "grows (IsUploadQueueEmpty env mm)"
  unfolding IsUploadQueueEmpty_def vfsStats_def
  by (intro emits_rules growsI [OF mmIsMountPoint_emits] growsI [OF hasDirtyCacheOnDisk_emits] grows_rpc)

lemma cleanupVFSCacheDir_grows: "grows (cleanupVFSCacheDir env mm)"
  unfolding cleanupVFSCacheDir_def RemoveVFSName_def LoadVFSNameMap_def writeVFSNameMap_def by (intro emits_rules) simp_all

lemma UnmountWithin_grows: "grows (UnmountWithin env mm b)"
  unfolding UnmountWithin_def mmUnmount_def Let_def
  by (intro emits_rules growsI [OF mmIsMountPoint_emits] growsI [OF hasDirtyCacheOnDisk_emits] growsI [OF mount_keeps(1)]
      growsI [OF mount_keeps(2)] growsI [OF mount_keeps(3)] growsI [OF mount_keeps(4)] cleanupVFSCacheDir_grows)

lemma growsN_reportOn: "growsN (reportOn env r v)"
  unfolding reportOn_def pvcRef_def whenS_def
  by (intro emitsN_rules growsN_rcl [OF getPVByVolumeID_looks] growsN_rcl [where P = "\<lambda>_. True"] emits_host) simp_all

lemma growsN_slots: "growsN (dropManager v)" "growsN (spawn t)" "growsN (startBackgroundDrain env v)"
proof -
  show "growsN (dropManager v)" "growsN (spawn t)" by (rule emitsN_keep, simp add: dropManager_def spawn_def)+
  have "growsN (modS (\<lambda>s. s\<lparr>backgroundDrains := D s\<rparr>))" for D by (rule emitsN_keep) simp
  then show "growsN (startBackgroundDrain env v)"
    unfolding startBackgroundDrain_def SaveDrainPending_def by (intro emitsN_rules growsN_rcl [where P = "\<lambda>_. True"] emits_rules) simp_all
qed

lemma growsN_forceCleanup: "growsN (forceCleanupS3Sync env v)"
  unfolding forceCleanupS3Sync_def managerOf_def by (intro emitsN_rules growsN_reportOn growsN_slots growsN_rcl [OF UnmountWithin_grows])

lemma growsN_getS3VolumeContext: "growsN (getS3VolumeContext env v)"
  unfolding getS3VolumeContext_def by (intro emitsN_rules growsN_rcl [OF emits_kube]) simp

lemma growsN_resumeStrandedDrain: "growsN (resumeStrandedDrain env v p)"
  unfolding resumeStrandedDrain_def whenS_def reportUnuploadedData_def
  by (intro emitsN_rules growsN_getS3VolumeContext growsN_slots growsN_reportOn)

section \<open>Unstaging\<close>

lemma keeps_managers: "keeps (onManagers (\<lambda>M. M = M0)) m \<Longrightarrow> run_state m s = (r, s') \<Longrightarrow> mountManagers s = M0 \<Longrightarrow> mountManagers s' = M0"
  by (drule (1) keeps_run) (simp_all add: onCore_def)

lemma keeps_drains: "keeps (onSlots (\<lambda>D _. D = D0)) m \<Longrightarrow> run_state m s = (r, s') \<Longrightarrow> backgroundDrains s = D0 \<Longrightarrow> backgroundDrains s' = D0"
  by (drule (1) keeps_run) (simp_all add: onCore_def)

text \<open>The opening of the cleanup, which decides whether it is forced, only looks.\<close>

lemma cleanup_opening:
  assumes 1: "run_state (if v \<in> backgroundDrains s then ret True else rcl (HasUnuploadedData env v)) s = (x, s1)"
    and 2: "run_state (if x then forceUnstageRequested env v else ret False) s1 = (f, s2)"
  shows "\<exists>t. nhist s1 = nhist s @ t" "\<exists>t. nhist s2 = nhist s1 @ t" "mountManagers s2 = mountManagers s" "backgroundDrains s2 = backgroundDrains s"
proof -
  show "\<exists>t. nhist s1 = nhist s @ t" using growsND [OF _ 1] by (simp add: emitsN_ret growsN_rcl [OF HasUnuploadedData_looks])
  show "\<exists>t. nhist s2 = nhist s1 @ t" using growsND [OF _ 2] by (simp add: emitsN_ret growsN_forceUnstageRequested)
  have "mountManagers s1 = mountManagers s" using keeps_managers [OF _ 1] by (simp add: keeps_if core)
  then show "mountManagers s2 = mountManagers s" using keeps_managers [OF _ 2] by (simp add: keeps_if core)
  have "backgroundDrains s1 = backgroundDrains s" using keeps_drains [OF _ 1] by (simp add: keeps_if core)
  then show "backgroundDrains s2 = backgroundDrains s" using keeps_drains [OF _ 2] by (simp add: keeps_if core)
qed

text \<open>An unmount that reports the volume as drained looked at the disk after the session was told to end.\<close>

lemma UnmountWithin_drained:
  fixes s :: rc
  assumes "run_state (UnmountWithin env mm b) s = ((True, mm'), s')" "mm_mounted mm"
  shows "\<exists>(a :: rc) (b :: rc) t1 t2. hist a = hist s @ t1 \<and> run_state (hasDirtyCacheOnDisk env mm) a = (False, b) \<and> hist s' = hist b @ t2 \<and>
    (mm_sessionPath mm \<noteq> [] \<longrightarrow> (''mount/unmount'', unmountParams (mm_sessionPath mm)) \<in> set (unmountCalls t1))"
proof -
  obtain q s1 where q: "run_state (unmountFirst env (StopCacheMonitor mm) b) s = (q, s1)" by fastforce
  obtain d s2 where d: "run_state (if q then hasDirtyCacheOnDisk env mm else ret True) s1 = (d, s2)" by fastforce
  from assms q d have r: "\<not> d" "s' = snd (run_state (cleanupVFSCacheDir env (StopCacheMonitor mm)) s2)"
    by (auto simp: run_mmUnmount_mounted UnmountWithin_def)
  obtain t2 where t2: "hist s' = hist s2 @ t2" using emitsD [OF cleanupVFSCacheDir_grows surjective_pairing] r(2) by fastforce
  from r(1) d have "run_state (hasDirtyCacheOnDisk env mm) s1 = (False, s2)" by (cases q) auto
  with unmountFirst_trace [OF q] t2 show ?thesis by auto
qed

definition drainedBy :: "env \<Rightarrow> string \<Rightarrow> ns \<Rightarrow> ns \<Rightarrow> bool" where
  "drainedBy env volumeID s s' = (case mountManagers s volumeID of
       None \<Rightarrow> \<exists>a b. within s s' a b \<and> run_state (HasUnuploadedData env volumeID) a = (False, b)
     | Some mm \<Rightarrow> \<exists>a b. within s s' a b \<and> run_state (hasDirtyCacheOnDisk env mm) a = (False, b) \<and>
         (mm_sessionPath mm \<noteq> [] \<longrightarrow> (''mount/unmount'', unmountParams (mm_sessionPath mm)) \<in> set (unmountCalls (drop (length (nhist s)) (hist a)))))"

definition forcedBy :: "env \<Rightarrow> string \<Rightarrow> ns \<Rightarrow> ns \<Rightarrow> bool" where
  "forcedBy env volumeID s s' =
     (\<exists>a b. within s s' (base a) (base b) \<and> run_state (forceUnstageRequested env volumeID) a = (True, b))"

text \<open>How the cleanup goes on after its opening.\<close>

lemma cleanupS3Sync_cases:
  assumes r: "run_state (cleanupS3Sync env v p) s = (r, s')"
  obtains (forced) "r = None" "forcedBy env v s s'"
  | (draining) "v \<in> backgroundDrains s" "r = Some unuploaded" "v \<in> backgroundDrains s'"
  | (unmanaged) s2 t where "v \<notin> backgroundDrains s" "nhist s2 = nhist s @ t" "mountManagers s v = None"
      "run_state (unstageUnmanaged env v p) s2 = (r, s')"
  | (managed) s2 t mm where "v \<notin> backgroundDrains s" "nhist s2 = nhist s @ t" "mountManagers s v = Some mm"
      "run_state (unstageManaged env v p mm) s2 = (r, s')"
proof -
  obtain x s1 where 1: "run_state (if v \<in> backgroundDrains s then ret True else rcl (HasUnuploadedData env v)) s = (x, s1)" by fastforce
  obtain f s2 where 2: "run_state (if x then forceUnstageRequested env v else ret False) s1 = (f, s2)" by fastforce
  note op = cleanup_opening [OF 1 2]
  from op(1,2) obtain t where t: "nhist s2 = nhist s @ t" by auto
  show thesis
  proof (cases f)
    case True
    obtain u s3 where 3: "run_state (forceCleanupS3Sync env v) s2 = (u, s3)" by (metis surj_pair)
    from r 1 2 True 3 have "r = None" "s3 = s'" by (simp_all add: cleanupS3Sync_def isBackgroundDraining_def)
    moreover from op(1,2) growsND [OF growsN_forceCleanup 3] have "within s s3 (base s1) (base s2)" by (auto simp: within_def)
    moreover from 2 True have "run_state (forceUnstageRequested env v) s1 = (True, s2)" by (auto split: if_splits)
    ultimately show thesis using forced by (auto simp: forcedBy_def)
  next
    case False
    show thesis
    proof (cases "v \<in> backgroundDrains s")
      case True
      with r 1 2 False op(4) draining show thesis by (simp add: cleanupS3Sync_def isBackgroundDraining_def)
    next
      case free: False
      with r 1 2 False op(3) have "run_state (case mountManagers s v of
          None \<Rightarrow> unstageUnmanaged env v p | Some mm \<Rightarrow> unstageManaged env v p mm) s2 = (r, s')"
        by (simp add: cleanupS3Sync_def isBackgroundDraining_def managerOf_def)
      with free t unmanaged managed show thesis by (cases "mountManagers s v") auto
    qed
  qed
qed

lemma unstageUnmanaged_clean:
  assumes "run_state (unstageUnmanaged env v p) s2 = (None, s')" "p \<noteq> []" "nhist s2 = nhist s @ t"
  shows "\<exists>a b. within s s' a b \<and> run_state (HasUnuploadedData env v) a = (False, b)"
proof -
  obtain l b where l: "run_state (HasUnuploadedData env v) (base s2) = (l, b)" by fastforce
  with assms have "\<not> l" "s' = s2\<lparr>base := b\<rparr>" by (auto simp: unstageUnmanaged_def split: if_splits prod.splits)
  moreover from this assms(3) emitsD [OF HasUnuploadedData_looks l] have "within s s' (base s2) b" by (auto simp: within_def)
  ultimately show ?thesis using l by auto
qed

lemma unstageManaged_clean:
  assumes "run_state (unstageManaged env v p mm) s2 = (None, s')" "p \<noteq> []" "nhist s2 = nhist s @ t" "mm_mounted mm"
  shows "\<exists>a b. within s s' a b \<and> run_state (hasDirtyCacheOnDisk env mm) a = (False, b) \<and>
    (mm_sessionPath mm \<noteq> [] \<longrightarrow> (''mount/unmount'', unmountParams (mm_sessionPath mm)) \<in> set (unmountCalls (drop (length (nhist s)) (hist a))))"
proof -
  obtain e b where e: "run_state (IsUploadQueueEmpty env mm) (base s2) = (e, b)" by fastforce
  obtain d mm' b' where u: "run_state (UnmountWithin env mm ShortDrainWait) b = ((d, mm'), b')" by (metis surj_pair)
  from assms(1,2) e u have d: "d" "base s' = b'" by (auto simp: unstageManaged_def dropManager_def split: if_splits prod.splits)
  have "run_state (UnmountWithin env mm ShortDrainWait) b = ((True, mm'), b')" using u d(1) by simp
  from UnmountWithin_drained [OF this assms(4)] obtain a c :: rc and t1 t2 where
    a: "hist a = hist b @ t1" "run_state (hasDirtyCacheOnDisk env mm) a = (False, c)" "hist b' = hist c @ t2"
      "mm_sessionPath mm \<noteq> [] \<longrightarrow> (''mount/unmount'', unmountParams (mm_sessionPath mm)) \<in> set (unmountCalls t1)" by blast
  obtain t0 where t0: "hist b = nhist s @ t0" using emitsD [OF IsUploadQueueEmpty_grows e] assms(3) by auto
  have "within s s' a c" using a t0 d(2) emitsD [OF hasDirtyCacheOnDisk_emits a(2)] by (auto simp: within_def)
  moreover have "drop (length (nhist s)) (hist a) = t0 @ t1" using a(1) t0 by simp
  ultimately show ?thesis using a by (intro exI [of _ a] exI [of _ c]) auto
qed

lemma cleanupS3Sync_drained:
  assumes r: "run_state (cleanupS3Sync env v p) s = (None, s')" and m: "onManagers wellManaged s" and p: "p \<noteq> []"
  shows "forcedBy env v s s' \<or> v \<notin> backgroundDrains s \<and> drainedBy env v s s'"
  using r
proof (cases rule: cleanupS3Sync_cases)
  case (unmanaged s2 t)
  with unstageUnmanaged_clean [OF unmanaged(4) p unmanaged(2)] show ?thesis by (simp add: drainedBy_def)
next
  case (managed s2 t mm)
  have "mm_mounted mm" using m managed(3) by (auto simp: onCore_def wellManaged_def)
  with unstageManaged_clean [OF managed(4) p managed(2)] managed(1,3) show ?thesis by (simp add: drainedBy_def)
qed simp_all

lemma within_later: "within s s' a b \<Longrightarrow> nhist s'' = nhist s' @ t \<Longrightarrow> within s s'' a b"
  by (auto simp: within_def)

lemma drainedBy_later: "drainedBy env v s s' \<Longrightarrow> nhist s'' = nhist s' @ t \<Longrightarrow> drainedBy env v s s''"
  by (auto simp: drainedBy_def split: option.splits intro: within_later)

lemma forcedBy_later: "forcedBy env v s s' \<Longrightarrow> nhist s'' = nhist s' @ t \<Longrightarrow> forcedBy env v s s''"
  by (auto simp: forcedBy_def intro: within_later)

text \<open>
  C1: A volume is reported as unstaged only once its writes are accounted for. If unstaging succeeds, then
  within this very call either an operator's annotation on the PV or its claim gave the writes up, or no drain was
  running and the cache metadata on disk was searched and nothing unuploaded was found: in every generation of the volume
  when no manager was left, and in the cache of the manager otherwise, after rclone had been told to end its session.
\<close>

theorem NodeUnstageVolume_safe:
  assumes "reachable s" "run_state (NodeUnstageVolume env volumeID path) s = (Inr (), s')"
  shows "forcedBy env volumeID s s' \<or> volumeID \<notin> backgroundDrains s \<and> drainedBy env volumeID s s'"
proof -
  obtain e s1 where 1: "run_state (cleanupS3Sync env volumeID path) s = (e, s1)" by fastforce
  obtain x b where 2: "run_state (cleanupVolumeStaging env volumeID path) (base s1) = (x, b)" by fastforce
  from assms(2) 1 2 have v: "path \<noteq> []" and s': "s' = s1\<lparr>base := b\<rparr>" and e: "e = None \<or> (\<exists>y. e = Some y \<and> \<not> errorsIs y ErrUnuploadedData)"
    by (auto simp: NodeUnstageVolume_def validateUnstageVolumeRequest_def split: if_splits option.splits)
  have "e = None \<or> e = Some unuploaded" using 1
    by (auto simp: cleanup_defs case_prod_beta split: if_splits option.splits)
  with e have n: "e = None" by auto
  from emitsD [OF cleanupVolumeStaging_grows 2] s' obtain t where t: "nhist s' = nhist s1 @ t" by auto
  have "onManagers wellManaged s" using managers.reachable_keeps [OF assms(1)] by (simp add: onCore_def wellManaged_def)
  from cleanupS3Sync_drained [OF 1 [unfolded n] this v] drainedBy_later [OF _ t] forcedBy_later [OF _ t] show ?thesis by blast
qed

theorem NodeUnstageVolume_safe_witness:
  "\<exists>s s'. reachable s \<and> run_state (NodeUnstageVolume quietEnv ''v'' ''/m'') s = (Inr (), s') \<and>
     (forcedBy quietEnv ''v'' s s' \<or> drainedBy quietEnv ''v'' s s')"
proof -
  let ?s = "NewNodeServer quietEnv [] ''n'' ''1'' 0 initRc"
  have r: "reachable ?s" by (rule reachable.start)
  have "fst (run_state (NodeUnstageVolume quietEnv ''v'' ''/m'') ?s) = Inr ()"
    by code_simp
  then obtain s' where u: "run_state (NodeUnstageVolume quietEnv ''v'' ''/m'') ?s = (Inr (), s')" by (metis prod.collapse)
  from NodeUnstageVolume_safe [OF r u] r u show ?thesis by blast
qed

text \<open>What a refusal leaves behind.\<close>

lemma startBackgroundDrain_claims: "run_state (startBackgroundDrain env v) s = (c, s') \<Longrightarrow> v \<in> backgroundDrains s'"
  by (auto simp: startBackgroundDrain_def split: if_splits prod.splits)

lemma resumeStrandedDrain_claims:
  assumes "run_state (resumeStrandedDrain env v p) s = (u, s')" "p \<noteq> []"
  shows "v \<in> backgroundDrains s' \<or> run_state (getS3VolumeContext env v) s = (None, s')"
proof -
  obtain c s1 where c: "run_state (getS3VolumeContext env v) s = (c, s1)" by fastforce
  show ?thesis
  proof (cases c)
    case None
    with assms c show ?thesis by (simp add: resumeStrandedDrain_def)
  next
    case (Some ctx)
    obtain d s2 where d: "run_state (startBackgroundDrain env v) s1 = (d, s2)" by fastforce
    obtain w s3 where w: "run_state (reportUnuploadedData env v) s2 = (w, s3)" by (metis surj_pair)
    have "v \<in> backgroundDrains s2" using startBackgroundDrain_claims [OF d] .
    moreover from this have "v \<in> backgroundDrains s3" using keeps_drains [OF core_more(3) w refl] by simp
    ultimately show ?thesis using assms c Some d w by (auto simp: resumeStrandedDrain_def spawn_def split: if_splits)
  qed
qed

definition pvUnreadable :: "env \<Rightarrow> string \<Rightarrow> ns \<Rightarrow> ns \<Rightarrow> bool" where
  "pvUnreadable env volumeID s s' = (\<exists>a b. within s s' (base a) (base b) \<and> run_state (getS3VolumeContext env volumeID) a = (None, b))"

lemma resume_refuses:
  assumes "run_state (resumeStrandedDrain env v p) s1 = (u, s')" "p \<noteq> []" "nhist s1 = nhist s @ t"
  shows "v \<in> backgroundDrains s' \<or> pvUnreadable env v s s'"
  using resumeStrandedDrain_claims [OF assms(1,2)] growsND [OF growsN_getS3VolumeContext] assms(3)
  unfolding pvUnreadable_def within_def by (metis append.right_neutral)

lemma unstageManaged_refuses:
  assumes r: "run_state (unstageManaged env v p mm) s2 = (Some e, s')" and p: "p \<noteq> []" and t: "nhist s2 = nhist s @ t"
  shows "v \<in> backgroundDrains s' \<or> pvUnreadable env v s s'"
proof -
  obtain q b where q: "run_state (IsUploadQueueEmpty env mm) (base s2) = (q, b)" by fastforce
  show ?thesis
  proof (cases q)
    case True
    obtain d mm' b' where m: "run_state (UnmountWithin env mm ShortDrainWait) b = ((d, mm'), b')" by (metis surj_pair)
    let ?s3 = "s2\<lparr>base := b', mountManagers := (mountManagers s2)(v := None)\<rparr>"
    obtain u s4 where u: "run_state (resumeStrandedDrain env v p) ?s3 = (u, s4)" by (metis surj_pair)
    have "s4 = s'" using r q True m u p by (auto simp: unstageManaged_def dropManager_def split: if_splits)
    moreover obtain t' where "nhist ?s3 = nhist s @ t'"
      using t emitsD [OF IsUploadQueueEmpty_grows q] emitsD [OF UnmountWithin_grows m] by auto
    ultimately show ?thesis using resume_refuses [OF u p] by blast
  next
    case False
    obtain c s3 where c: "run_state (startBackgroundDrain env v) (s2\<lparr>base := b\<rparr>) = (c, s3)" by fastforce
    from startBackgroundDrain_claims [OF c] r q False c show ?thesis by (auto simp: unstageManaged_def spawn_def)
  qed
qed

lemma unstageUnmanaged_refuses:
  assumes r: "run_state (unstageUnmanaged env v p) s2 = (Some e, s')" and t: "nhist s2 = nhist s @ t"
  shows "v \<in> backgroundDrains s' \<or> pvUnreadable env v s s'" "\<exists>a b. within s s' a b \<and> run_state (HasUnuploadedData env v) a = (True, b)"
proof -
  have p: "p \<noteq> []" using r by (auto simp: unstageUnmanaged_def)
  obtain l b where l: "run_state (HasUnuploadedData env v) (base s2) = (l, b)" by fastforce
  obtain u s3 where u: "run_state (resumeStrandedDrain env v p) (s2\<lparr>base := b\<rparr>) = (u, s3)" by (metis surj_pair)
  have e: "s3 = s'" "l" using r l u p by (auto simp: unstageUnmanaged_def split: if_splits)
  with resume_refuses [OF u p] t emitsD [OF HasUnuploadedData_looks l] show "v \<in> backgroundDrains s' \<or> pvUnreadable env v s s'" by auto
  have "within s s3 (base s2) b"
    using t emitsD [OF HasUnuploadedData_looks l] growsND [OF growsN_resumeStrandedDrain u] by (auto simp: within_def)
  with l e show "\<exists>a b. within s s' a b \<and> run_state (HasUnuploadedData env v) a = (True, b)" by auto
qed

lemma cleanupS3Sync_refuses:
  assumes r: "run_state (cleanupS3Sync env v p) s = (Some e, s')" and p: "p \<noteq> []"
  shows "v \<in> backgroundDrains s' \<or> pvUnreadable env v s s'"
  using r
proof (cases rule: cleanupS3Sync_cases)
  case (unmanaged s2 t)
  with unstageUnmanaged_refuses(1) show ?thesis by blast
next
  case (managed s2 t mm)
  with unstageManaged_refuses [OF _ p] show ?thesis by blast
qed simp_all

text \<open>
  C21: A refusal to unstage is an answer kubelet retries, and it leaves the upload going: when the status is
  \<^verbatim>\<open>FailedPrecondition\<close>, a drain of the volume holds its slot, unless the PV of the volume could not be read as an S3
  volume of this driver during the call.
\<close>

theorem NodeUnstageVolume_refusal:
  assumes "run_state (NodeUnstageVolume env volumeID path) s = (Inl (Status FailedPrecondition e), s')"
  shows "volumeID \<in> backgroundDrains s' \<or> pvUnreadable env volumeID s s'"
proof -
  obtain x s1 where 1: "run_state (cleanupS3Sync env volumeID path) s = (x, s1)" by fastforce
  from assms 1 have "path \<noteq> []" "\<exists>y. x = Some y" "s' = s1"
    by (auto simp: NodeUnstageVolume_def validateUnstageVolumeRequest_def split: if_splits option.splits prod.splits)
  with cleanupS3Sync_refuses [of env volumeID path s] 1 show ?thesis by auto
qed

theorem NodeUnstageVolume_refusal_witness:
  "\<exists>e s'. run_state (NodeUnstageVolume strandedEnv ''v'' ''/m'') (NewNodeServer strandedEnv [] ''n'' ''1'' 0 initRc) =
       (Inl (Status FailedPrecondition e), s') \<and>
     (''v'' \<in> backgroundDrains s' \<or> pvUnreadable strandedEnv ''v'' (NewNodeServer strandedEnv [] ''n'' ''1'' 0 initRc) s')"
proof -
  from stranded_refuses obtain s e where r: "run_state (NodeUnstageVolume strandedEnv ''v'' ''/m'')
      (NewNodeServer strandedEnv [] ''n'' ''1'' 0 initRc) = (Inl (Status FailedPrecondition e), s)" by blast
  from NodeUnstageVolume_refusal [OF r] r show ?thesis by blast
qed

section \<open>Publishing\<close>

lemma verifyS3StagingLive_None:
  assumes "run_state (verifyS3StagingLive env p) s = (None, s')"
  shows "\<exists>b. run_state (HostFUSEMountState env p) (base s) = (Some True, b) \<and> run_state (statfsBounded env p) (s\<lparr>base := b\<rparr>) = ((None, False), s')"
  using assms by (auto simp: verifyS3StagingLive_def prod_eq_iff split: prod.splits option.splits bool.splits if_splits)

text \<open>
  C3: An S3 volume is never published over a dead mount. If publishing succeeds, the bind into the pod was made directly
  after the gate: a host mount table that could be trusted showed a FUSE mount at the staging path, and \<^verbatim>\<open>statfs\<close> on
  it answered without error and without running into its budget. The bind is the next thing done, so the pod does
  not get the empty directory below or a mount whose daemon is gone.
\<close>

theorem NodePublishVolume_live:
  assumes "run_state (NodePublishVolume env req) s = (Inr (), s')" "isS3Backend (pr_context req)"
  shows "\<exists>a m b. run_state (HostFUSEMountState env (pr_stagingTargetPath req)) (base a) = (Some True, m) \<and>
    run_state (statfsBounded env (pr_stagingTargetPath req)) (a\<lparr>base := m\<rparr>) = ((None, False), b) \<and>
    run_state (bindMount env (pr_stagingTargetPath req) (pr_targetPath req) (pr_readonly req)) (base b) = (None, base s')"
proof -
  from assms obtain g s1 s2 where "run_state (publish env req g) s1 = (Inr (), s2)" "base s' = base s2"
    by (auto simp: NodePublishVolume_def duringSetup_def markVolumeSetupInProgress_def markVolumeSetupComplete_def
        split: option.splits prod.splits)
  moreover obtain e s3 where e: "run_state (ensureVolumeStaged env req) s1 = (e, s3)" by fastforce
  moreover obtain v s4 where v: "run_state (verifyS3StagingLive env (pr_stagingTargetPath req)) s3 = (v, s4)" by fastforce
  ultimately have "v = None" "run_state (bindMount env (pr_stagingTargetPath req) (pr_targetPath req) (pr_readonly req)) (base s4) = (None, base s')"
    using assms(2) by (auto simp: publish_def split: option.splits prod.splits)
  with verifyS3StagingLive_None [of env _ s3 s4] v show ?thesis by blast
qed

definition servedEnv :: env where
  "servedEnv = quietEnv\<lparr>readFile := \<lambda>_ _. Inr ''1 2 0:9 / /m rw - fuse.rclone v: rw'',
     statfs := \<lambda>_ _. Inr \<lparr>fs_bavail = 1, fs_bsize = 1, fs_blocks = 1\<rparr>\<rparr>"

definition publishRequest :: PublishRequest where
  "publishRequest = \<lparr>pr_volumeID = ''v'', pr_stagingTargetPath = ''/m'', pr_targetPath = ''/pod'', pr_capability = None,
     pr_context = s3Context, pr_readonly = False\<rparr>"

theorem NodePublishVolume_live_witness:
  "\<exists>s'. run_state (NodePublishVolume servedEnv publishRequest) (NewNodeServer servedEnv [] ''n'' ''1'' 0 initRc) = (Inr (), s') \<and>
     (\<exists>(a :: ns) m. run_state (HostFUSEMountState servedEnv ''/m'') (base a) = (Some True, m))"
proof -
  have "fst (run_state (NodePublishVolume servedEnv publishRequest) (NewNodeServer servedEnv [] ''n'' ''1'' 0 initRc)) = Inr ()" by code_simp
  then obtain s' where r: "run_state (NodePublishVolume servedEnv publishRequest) (NewNodeServer servedEnv [] ''n'' ''1'' 0 initRc) = (Inr (), s')"
    by (metis prod.collapse)
  have "isS3Backend (pr_context publishRequest)" "pr_stagingTargetPath publishRequest = ''/m''" by (simp_all add: publishRequest_def)
  with NodePublishVolume_live [OF r] r show ?thesis by auto
qed

section \<open>An older generation\<close>

text \<open>
  A node whose volume is mounted as generation 1 while the cache of generation 0, which an earlier mount left behind, holds a
  dirty file.
\<close>

definition olderEnv :: env where
  "olderEnv = quietEnv\<lparr>readDir := \<lambda>_ _. Inr [(''v'', True)],
     walk := \<lambda>_ p. if p = pathJoin [VFSCacheBasePath, ''vfsMeta'', ''v''] then [WFile ''f'' 0 0] else [WErr p ENOENT]\<rparr>"

definition olderNs :: ns where
  "olderNs = (emptyNs [] ''n'' ''1'' 0 initRc)\<lparr>mountManagers := [''v'' \<mapsto> setGeneration demoManager 1]\<rparr>"


end
