(* ===== verification/NodeDrains.thy ===== *)
theory NodeDrains
  imports NodeSafety
begin

text \<open>
  Uploads that outlive their mount. A goroutine that resumes an upload mounts the volume a second time; the invariant here is that
  it is then the only mount the driver has of it. It gives that a volume whose writes have reached S3 can always be
  unstaged, and what a drain leaves on record is shown to be true.
\<close>

section \<open>One mount of a volume\<close>

fun resumes :: "drainTask \<Rightarrow> bool" where
  "resumes (DrainTask _) = False"
| "resumes (ResumeTask _ _ _) = True"

definition soleMounts :: "string set \<Rightarrow> drainTask list \<Rightarrow> (string \<rightharpoonup> MountManager) \<Rightarrow> bool" where
  "soleMounts D T M = (slotOK D T \<and> (\<forall>t\<in>set T. resumes t \<longrightarrow> M (taskVolume t) = None))"

abbreviation onSole :: "ns \<Rightarrow> bool" where
  "onSole \<equiv> onCore (\<lambda>D T M _. soleMounts D T M)"

text \<open>
  \<open>aside v\<close>: the same while code runs that may mount \<open>v\<close>, which no goroutine is waiting to do then; \<open>b\<close> says whether
  that code holds the slot of \<open>v\<close>.
\<close>

definition aside :: "bool \<Rightarrow> string \<Rightarrow> string set \<Rightarrow> drainTask list \<Rightarrow> (string \<rightharpoonup> MountManager) \<Rightarrow> bool" where
  "aside b v D T M = ((v \<in> D \<longleftrightarrow> b) \<and> v \<notin> taskVolume ` set T \<and> soleMounts (D - {v}) T M)"

abbreviation onAside :: "bool \<Rightarrow> string \<Rightarrow> ns \<Rightarrow> bool" where
  "onAside b v \<equiv> onCore (\<lambda>D T M _. aside b v D T M)"

lemma aside_managers: "aside b v D T (M(v := x)) = aside b v D T M"
  by (auto simp: aside_def soleMounts_def)

lemma aside_free: "aside False v D T M \<longleftrightarrow> soleMounts D T M \<and> v \<notin> D"
  by (auto simp: aside_def soleMounts_def slotOK_def)

named_theorems aside_ops \<open>operations that mount and unmount one volume\<close>

lemma aside_basic [aside_ops]: "keeps (onAside b v) (dropManager v)" "keeps (onAside b v) (storeManager v mm)"
  unfolding dropManager_def storeManager_def by (rule keeps_modS, simp add: onCore_def aside_managers)+

lemma aside_mount [aside_ops]: "keeps (onAside b v) (mountS3Volume env v p c g)" "keeps (onAside b v) (unmountManager env v mm)"
  unfolding mountS3Volume_def unmountManager_def by (intro keeps_rules core aside_ops)+

lemma aside_bodies [aside_ops]: "keeps (onAside b v) (drainBody env v)" "keeps (onAside b v) (resumeBody env v p c)"
  unfolding drainBody_def resumeBody_def by (intro keeps_rules core aside_ops)+

text \<open>A goroutine steps aside, works, and gives the slot back.\<close>

lemma finishBackgroundDrain_sole: "triple (onAside True v) (finishBackgroundDrain env v d) (\<lambda>_. onAside False v)"
  by (auto simp: triple_def finishBackgroundDrain_def onCore_def aside_def case_prod_beta)

lemma soleMounts_dropTask: "soleMounts D T M \<Longrightarrow> t \<in> set T \<Longrightarrow> aside True (taskVolume t) D (dropTask (taskVolume t) T) M"
proof -
  assume *: "soleMounts D T M" "t \<in> set T"
  have "set (dropTask v T) \<subseteq> set T" for v by (induction T) auto
  moreover have "taskVolume t \<notin> set (map taskVolume (dropTask (taskVolume t) T))"
    using * unfolding dropTask_volumes by (simp add: soleMounts_def slotOK_def)
  then have "taskVolume t \<notin> taskVolume ` set (dropTask (taskVolume t) T)" unfolding set_map .
  ultimately show ?thesis
    using * slotOK_dropTask [of D T t] unfolding aside_def soleMounts_def owed_def by blast
qed

lemma taskStep_sole:
  "triple (\<lambda>s. onSole s \<and> t \<in> set (drainTasks s)) (taskStep env t) (\<lambda>_. onAside False (taskVolume t))"
  unfolding taskStep_def
proof (rule triple_bind [where R = "\<lambda>_. onAside True (taskVolume t)"])
  show "triple (\<lambda>s. onSole s \<and> t \<in> set (drainTasks s)) (modS (\<lambda>s. s\<lparr>drainTasks := dropTask (taskVolume t) (drainTasks s)\<rparr>))
     (\<lambda>_. onAside True (taskVolume t))"
    by (auto simp: triple_def onCore_def soleMounts_dropTask)
  show "triple (onAside True (taskVolume t)) (runTask env t) (\<lambda>_. onAside False (taskVolume t))"
    by (cases t) (auto intro!: triple_keeps_bind aside_ops finishBackgroundDrain_sole)
qed

lemma aside_sole: "onAside False v s \<Longrightarrow> onSole s"
  by (simp add: onCore_def aside_free)

text \<open>Claiming a slot for a volume without a manager.\<close>

lemma resumeStrandedDrain_sole:
  "triple (onCore (\<lambda>D T M _. soleMounts D T M \<and> M v = None)) (resumeStrandedDrain env v p) (\<lambda>_. onSole)"
proof -
  let ?I = "onCore (\<lambda>D T M _. soleMounts D T M \<and> M v = None)"
  have s: "triple ?I (startBackgroundDrain env v) (\<lambda>claimed. onCore (\<lambda>D T M _. if claimed then aside True v D T M \<and> M v = None else soleMounts D T M))"
    by (auto simp: triple_def startBackgroundDrain_def onCore_def aside_def soleMounts_def slotOK_def case_prod_beta)
  have c: "triple ?I (do {
      claimed \<leftarrow> startBackgroundDrain env v;
      whenS claimed (do { reportUnuploadedData env v; spawn (ResumeTask v p ctx) })
    }) (\<lambda>_. onSole)" for ctx
  proof (rule triple_bind [OF s])
    fix claimed
    have "triple (onCore (\<lambda>D T M _. aside True v D T M \<and> M v = None)) (spawn (ResumeTask v p ctx)) (\<lambda>_. onSole)"
      by (auto simp: triple_def spawn_def onCore_def aside_def soleMounts_def slotOK_def)
    then show "triple (onCore (\<lambda>D T M _. if claimed then aside True v D T M \<and> M v = None else soleMounts D T M))
        (whenS claimed (do { reportUnuploadedData env v; spawn (ResumeTask v p ctx) })) (\<lambda>_. onSole)"
      by (cases claimed) (auto simp: whenS_def triple_def [of _ "ret ()"] intro!: triple_keeps_bind core)
  qed
  have r: "triple ?I (ret ()) (\<lambda>_. onSole)" by (simp add: triple_def onCore_def)
  show ?thesis unfolding resumeStrandedDrain_def
    by (rule triple_if [OF r], rule triple_keeps_bind [OF core_lookups(4)], rule triple_case_option, rule r, rule c)
qed

lemma triple_sole_keeps: "keeps onSole m \<Longrightarrow> (\<And>s. P s \<Longrightarrow> onSole s) \<Longrightarrow> triple P m (\<lambda>_. onSole)"
  unfolding keeps_def by (rule triple_conseq)

lemma sole_basic:
  "keeps onSole (dropManager v)" "keeps onSole (modS (\<lambda>s. s\<lparr>pendingDrains := P s\<rparr>))" "keeps onSole (forceCleanupS3Sync env v)"
proof -
  show d: "keeps onSole (dropManager v)" for v
    unfolding dropManager_def by (rule keeps_modS) (auto simp: onCore_def soleMounts_def)
  show "keeps onSole (modS (\<lambda>s. s\<lparr>pendingDrains := P s\<rparr>))" by (rule keeps_modS) (simp add: onCore_def)
  show "keeps onSole (forceCleanupS3Sync env v)" unfolding forceCleanupS3Sync_def by (intro keeps_rules core d)
qed

text \<open>Unstaging claims a slot only for a volume that has no manager or whose manager it has just dropped.\<close>

lemma drop_then_resume: "triple onSole (do { dropManager v; if b then do { resumeStrandedDrain env v p; ret x } else ret y }) (\<lambda>_. onSole)"
proof (rule triple_bind)
  let ?I = "onCore (\<lambda>D T M _. soleMounts D T M \<and> M v = None)"
  show "triple onSole (dropManager v) (\<lambda>_. ?I)"
    by (auto simp: triple_def dropManager_def onCore_def soleMounts_def)
  show "triple ?I (if b then do { resumeStrandedDrain env v p; ret x } else ret y) (\<lambda>_. onSole)"
    by (rule triple_if, rule triple_bind [OF resumeStrandedDrain_sole]) (simp_all add: triple_def onCore_def)
qed

lemma startAndSpawn_sole:
  "triple (onAside False v) (do { _ \<leftarrow> startBackgroundDrain env v; spawn (DrainTask v); ret x }) (\<lambda>_. onSole)"
  by (auto simp: triple_def startBackgroundDrain_def spawn_def onCore_def aside_free soleMounts_def slotOK_def case_prod_beta)

lemma cleanupS3Sync_sole: "keeps onSole (cleanupS3Sync env v p)"
proof -
  let ?J = "\<lambda>draining. onCore (\<lambda>D T M _. soleMounts D T M \<and> (draining \<longleftrightarrow> v \<in> D))"
  let ?K = "\<lambda>draining m. onCore (\<lambda>D T M _. soleMounts D T M \<and> (draining \<longleftrightarrow> v \<in> D) \<and> M v = m)"
  have ret: "triple (?J d) (ret x) (\<lambda>_. onSole)" "triple (?K d m) (ret x) (\<lambda>_. onSole)" for d m and x :: "goerr option"
    by (simp_all add: triple_def onCore_def)
  have force: "triple (?J d) (do { forceCleanupS3Sync env v; ret x }) (\<lambda>_. onSole)" for d and x :: "goerr option"
    by (rule triple_sole_keeps) (intro keeps_rules sole_basic, simp add: onCore_def)
  have read: "triple (?J d) (managerOf v) (?K d)" for d by (simp add: triple_def managerOf_def onCore_def)
  have resume: "triple (?K d None) (do { resumeStrandedDrain env v p; ret x }) (\<lambda>_. onSole)" for d and x :: "goerr option"
    by (rule triple_conseq [OF triple_bind [OF resumeStrandedDrain_sole]]) (auto simp: triple_def onCore_def)
  have drop: "triple (?K d m) (do { dropManager v; if b then do { resumeStrandedDrain env v p; ret x } else ret y }) (\<lambda>_. onSole)"
    for d m b and x y :: "goerr option"
    by (rule triple_conseq [OF drop_then_resume]) (simp_all add: onCore_def)
  have start: "\<not> d \<Longrightarrow> triple (?K d m) (do { _ \<leftarrow> startBackgroundDrain env v; spawn (DrainTask v); ret x }) (\<lambda>_. onSole)"
    for d m and x :: "goerr option"
    by (rule triple_conseq [OF startAndSpawn_sole]) (auto simp: onCore_def aside_free)
  have none: "triple (?K d m) (if p = [] then ret x else do { l \<leftarrow> rcl q; if \<not> l then ret x else do { resumeStrandedDrain env v p; ret y } }) (\<lambda>_. onSole)"
    if "m = None" for d m q and x y :: "goerr option"
    unfolding that by (intro triple_if triple_keeps_bind [OF core_rcl] ret resume)
  show ?thesis unfolding keeps_def cleanup_defs
  proof (rule triple_bind [where R = ?J])
    show "triple onSole (isBackgroundDraining v) ?J" by (simp add: triple_def isBackgroundDraining_def onCore_def)
  qed (rule triple_keeps_bind, intro keeps_rules core, rule triple_keeps_bind, intro keeps_rules core,
      rule triple_if [OF force], rule triple_if [OF ret(1)], rule triple_bind [OF read], rule triple_case_option, erule none,
      rule triple_keeps_bind [OF core_rcl], rule triple_if, rule triple_keeps_bind [OF core_rcl], rule drop, erule start)
qed

text \<open>Setting up waits until no goroutine owns the volume, so its mount is the first.\<close>

lemma completeDrain_sole: "triple (onCore (\<lambda>D T M _. soleMounts D T M \<and> v \<in> D)) (completeDrain env v) (\<lambda>_. onAside False v)"
  unfolding triple_def
proof (intro allI impI)
  fix s assume s: "onCore (\<lambda>D T M _. soleMounts D T M \<and> v \<in> D) s"
  then have "v \<in> taskVolume ` set (drainTasks s)" by (simp add: onCore_def soleMounts_def slotOK_def)
  then obtain t where "t \<in> set (drainTasks s)" "taskVolume t = v" by blast
  then obtain t where t: "find (\<lambda>t. taskVolume t = v) (drainTasks s) = Some t"
    by (cases "find (\<lambda>t. taskVolume t = v) (drainTasks s)") (auto simp: find_None_iff)
  then have "t \<in> set (drainTasks s)" "taskVolume t = v" by (auto simp: find_Some_iff)
  with s t taskStep_sole [of t env]
  show "case run_state (completeDrain env v) s of (x, s') \<Rightarrow> onAside False v s'"
    by (auto simp: completeDrain_def triple_def onCore_def split: prod.splits)
qed

lemma waitForBackgroundDrain_sole:
  "triple onSole (waitForBackgroundDrain env v) (\<lambda>free. if free then onAside False v else onSole)"
  unfolding waitForBackgroundDrain_def
proof (rule triple_bind [where R = "\<lambda>r. onCore (\<lambda>D T M _. soleMounts D T M \<and> (r \<longleftrightarrow> v \<in> D))"])
  let ?J = "\<lambda>r. onCore (\<lambda>D T M _. soleMounts D T M \<and> (r \<longleftrightarrow> v \<in> D))"
  show "triple onSole (isBackgroundDraining v) ?J" by (simp add: triple_def isBackgroundDraining_def onCore_def)
  fix r
  have "triple (?J True) (do { completeDrain env v; ret True }) (\<lambda>free. if free then onAside False v else onSole)"
    by (rule triple_bind [where R = "\<lambda>_. onAside False v"]) (use completeDrain_sole in \<open>simp_all add: triple_def\<close>)
  moreover have "triple (?J r) (ret r') (\<lambda>free. if free then onAside False v else onSole)" if "r' \<longrightarrow> \<not> r" for r'
    using that by (auto simp: triple_def onCore_def aside_free)
  ultimately show "triple (?J r) (if \<not> r then ret True else do {
      inTime \<leftarrow> rcl (hasFinished env (''drain '' @ v));
      if inTime then do { completeDrain env v; ret True } else ret False
    }) (\<lambda>free. if free then onAside False v else onSole)"
    by (cases r) (simp_all, intro triple_if triple_keeps_bind [OF core_rcl], simp_all)
qed

lemma setupS3Sync_sole: "keeps onSole (setupS3Sync env v p c g)"
  unfolding keeps_def setupS3Sync_def
proof (rule triple_bind [OF waitForBackgroundDrain_sole])
  fix free
  have u: "keeps (onAside False v) (modS (\<lambda>s. s\<lparr>pendingDrains := P s\<rparr>))" for P by (rule keeps_modS) (simp add: onCore_def)
  let ?rest = "do {
       pending \<leftarrow> hasPendingDrain v;
       whenS pending (do { modS (\<lambda>s. s\<lparr>pendingDrains := pendingDrains s - {v}\<rparr>); rcl (ClearDrainPending env v) });
       reexposed \<leftarrow> reexposeLiveSession env v p;
       if reexposed then ret None
       else orFail (mountS3Volume env v p c g) id (do {
         n \<leftarrow> rcl (timeNow env);
         modS (\<lambda>s. s\<lparr>mountedAt := (mountedAt s)(v \<mapsto> n)\<rparr>);
         ret None
       })
     }"
  have "keeps (onAside False v) ?rest"
    by (intro keeps_rules core aside_ops u core_modS; simp)
  then have "triple (onAside False v) ?rest (\<lambda>_. onSole)" unfolding keeps_def by (rule triple_weaken_post) (rule aside_sole)
  then show "triple (if free then onAside False v else onSole)
      (if \<not> free then ret (Some (Err ''background drain still in progress'')) else ?rest) (\<lambda>_. onSole)"
    by (cases free) (simp_all add: triple_def)
qed

lemma recoverStranded_sole: "keeps onSole (recoverStranded env staged vs)"
proof (induction vs)
  case (Cons v vs)
  let ?K = "\<lambda>m. onCore (\<lambda>D T M _. soleMounts D T M \<and> M v = m)"
  have read: "triple onSole (managerOf v) ?K" by (simp add: triple_def managerOf_def onCore_def)
  have k: "keeps (?K m) (modS (\<lambda>s. s\<lparr>strandedRetry := R s\<rparr>))" for m R by (rule keeps_modS) (simp add: onCore_def)
  have r: "triple (?K m) (ret ()) (\<lambda>_. onSole)" for m by (simp add: triple_def onCore_def)
  have res: "m = None \<Longrightarrow> triple (?K m) (resumeStrandedDrain env v q) (\<lambda>_. onSole)" for m q using resumeStrandedDrain_sole by simp
  have "keeps onSole (recoverVolume env staged v)" unfolding keeps_def recoverVolume_def
    by (rule triple_keeps_bind, rule core, rule triple_keeps_bind, rule core, rule triple_bind [OF read], rule triple_if, rule r,
        rule triple_keeps_bind, rule keeps_gets, rule triple_keeps_bind, (intro keeps_rules core), rule triple_if, rule r,
        rule triple_keeps_bind, rule core, rule triple_if, rule r, rule triple_keeps_bind, rule core, rule triple_keeps_bind, rule k,
        rule res, blast)
  then show ?case unfolding recoverStranded.simps by (intro keeps_rules Cons.IH)
qed simp

interpretation sole: core_invariant "\<lambda>D T M _. soleMounts D T M"
proof unfold_locales
  fix s t env u s'
  assume "onSole s" "t \<in> set (drainTasks s)" "run_state (taskStep env t) s = (u, s')"
  with taskStep_sole [of t env] have "onAside False (taskVolume t) s'" by (auto simp: triple_def)
  then show "onSole s'" by (rule aside_sole)
qed (rule sole_basic cleanupS3Sync_sole setupS3Sync_sole recoverStranded_sole)+



section \<open>After a drain\<close>

lemma mountS3Volume_fails: "run_state (mountS3Volume env v p c g) s = (Some e, s') \<Longrightarrow> mountManagers s' = mountManagers s"
  by (auto simp: mountS3Volume_def storeManager_def split: prod.splits sum.splits option.splits if_splits)

lemma unmountManager_drops: "run_state (unmountManager env v mm) s = (d, s') \<Longrightarrow> mountManagers s' v = None"
proof -
  assume r: "run_state (unmountManager env v mm) s = (d, s')"
  obtain x b where x: "run_state (Unmount_mm env mm) (base s) = (x, b)" by fastforce
  let ?s1 = "s\<lparr>base := b, mountManagers := (mountManagers s)(v := None)\<rparr>"
  obtain w s2 where w: "run_state (reportUnuploadedData env v) ?s1 = (w, s2)" by (metis surj_pair)
  have "mountManagers s2 = mountManagers ?s1" using keeps_managers [OF core_more(3) w refl] .
  with r x w show ?thesis by (auto simp: unmountManager_def dropManager_def whenS_def split: if_splits)
qed

lemma runTask_drops:
  assumes "run_state (runTask env t) s = (u, s')" "resumes t \<longrightarrow> mountManagers s (taskVolume t) = None"
  shows "mountManagers s' (taskVolume t) = None"
proof -
  have f: "run_state (finishBackgroundDrain env v d) s1 = ((), s2) \<Longrightarrow> mountManagers s2 = mountManagers s1" for v d s1 s2
    by (auto simp: finishBackgroundDrain_def split: if_splits prod.splits)
  show ?thesis
  proof (cases t)
    case (DrainTask v)
    obtain d s1 where d: "run_state (drainBody env v) s = (d, s1)" by fastforce
    then have "mountManagers s1 v = None" by (auto simp: drainBody_def managerOf_def dest: unmountManager_drops split: option.splits)
    with assms DrainTask d f show ?thesis by auto
  next
    case (ResumeTask v p c)
    obtain e s1 where e: "run_state (mountS3Volume env v p c None) s = (e, s1)" by fastforce
    obtain d s2 where d: "run_state (resumeBody env v p c) s = (d, s2)" by fastforce
    have "mountManagers s2 v = None"
    proof (cases "e = None")
      case True
      with d e show ?thesis
        by (auto simp: resumeBody_def managerOf_def whenS_def dest: unmountManager_drops split: option.splits prod.splits if_splits)
    next
      case False
      with d e assms(2) ResumeTask mountS3Volume_fails [of env v p c None s] show ?thesis by (auto simp: resumeBody_def)
    qed
    with assms(1) ResumeTask d f show ?thesis by auto
  qed
qed

text \<open>Without a drain and without a manager, unstaging refuses only over what it finds on disk.\<close>

lemma cleanupS3Sync_finds:
  assumes r: "run_state (cleanupS3Sync env v p) s = (Some e, s')" and "v \<notin> backgroundDrains s" "mountManagers s v = None"
  shows "\<exists>a b. within s s' a b \<and> run_state (HasUnuploadedData env v) a = (True, b)"
  using r
proof (cases rule: cleanupS3Sync_cases)
  case (unmanaged s2 t)
  with unstageUnmanaged_refuses(2) show ?thesis by blast
qed (use assms in simp_all)

lemma growsN_cleanupS3Sync: "growsN (cleanupS3Sync env v p)"
  unfolding cleanup_defs isBackgroundDraining_def managerOf_def
  by (intro emitsN_rules growsN_forceUnstageRequested growsN_forceCleanup growsN_slots growsN_resumeStrandedDrain
      growsN_rcl [OF HasUnuploadedData_looks] growsN_rcl [OF IsUploadQueueEmpty_grows] growsN_rcl [OF UnmountWithin_grows])

text \<open>
  C5: No volume is stuck for ever. Whatever the host and the cluster answered while a drain ran, when it ends the next call to unstage
  the volume, under any later behaviour, succeeds, or it finds unuploaded data on disk during that very call, or releasing the
  mount, the LUKS device or the loop device of the volume failed.
\<close>

theorem unstage_after_drain:
  assumes "reachable s" "t \<in> set (drainTasks s)" "run_state (taskStep env t) s = (u, s1)"
    and "run_state (NodeUnstageVolume env' (taskVolume t) path) s1 = (r, s2)" "taskVolume t \<noteq> []" "path \<noteq> []"
  shows "r = Inr () \<or> (\<exists>a b. within s1 s2 a b \<and> run_state (HasUnuploadedData env' (taskVolume t)) a = (True, b)) \<or>
    (\<exists>a b e. within s1 s2 a b \<and> run_state (cleanupVolumeStaging env' (taskVolume t) path) a = (Some e, b))"
proof -
  let ?v = "taskVolume t"
  have s: "onSole s" using sole.reachable_keeps [OF assms(1)] by (simp add: onCore_def soleMounts_def slotOK_def)
  with taskStep_sole [of t env] assms(2,3) have "onAside False ?v s1" by (auto simp: triple_def)
  then have d: "?v \<notin> backgroundDrains s1" by (simp add: onCore_def aside_free)
  from s assms(2) have "resumes t \<longrightarrow> mountManagers (s\<lparr>drainTasks := ts\<rparr>) ?v = None" for ts by (simp add: onCore_def soleMounts_def)
  with assms(3) runTask_drops [of env t _ u s1] have m: "mountManagers s1 ?v = None" by (auto simp: taskStep_def)
  obtain e s3 where e: "run_state (cleanupS3Sync env' ?v path) s1 = (e, s3)" by fastforce
  obtain x b where x: "run_state (cleanupVolumeStaging env' ?v path) (base s3) = (x, b)" by fastforce
  show ?thesis
  proof (cases e)
    case None
    with assms(4-) e x have "r = Inr () \<or> (\<exists>z. x = Some z)" "s2 = s3\<lparr>base := b\<rparr>"
      by (auto simp: NodeUnstageVolume_def validateUnstageVolumeRequest_def split: option.splits)
    moreover have "within s1 (s3\<lparr>base := b\<rparr>) (base s3) b"
      using growsND [OF growsN_cleanupS3Sync e] emitsD [OF cleanupVolumeStaging_grows x] by (auto simp: within_def)
    ultimately show ?thesis using x by blast
  next
    case (Some y)
    from e [unfolded Some] have "y = unuploaded"
      by (auto simp: cleanup_defs case_prod_beta split: if_splits option.splits)
    with assms(4-) e Some have "s3 = s2" by (auto simp: NodeUnstageVolume_def validateUnstageVolumeRequest_def)
    with cleanupS3Sync_finds [OF e [unfolded Some] d m] show ?thesis by blast
  qed
qed

theorem unstage_after_drain_witness:
  "\<exists>s t s1 r s2. reachable s \<and> t \<in> set (drainTasks s) \<and> taskVolume t = ''v'' \<and> run_state (taskStep strandedEnv t) s = ((), s1) \<and>
     run_state (NodeUnstageVolume quietEnv ''v'' ''/m'') s1 = (r, s2) \<and>
     (r = Inr () \<or> (\<exists>a b. within s1 s2 a b \<and> run_state (HasUnuploadedData quietEnv ''v'') a = (True, b)) \<or>
      (\<exists>a b e. within s1 s2 a b \<and> run_state (cleanupVolumeStaging quietEnv ''v'' ''/m'') a = (Some e, b)))"
proof -
  let ?t = "ResumeTask ''v'' ''/m'' s3Context"
  from stranded_refuses obtain s where s: "reachable s" "drainTasks s = [?t]" by blast
  obtain s1 where 1: "run_state (taskStep strandedEnv ?t) s = ((), s1)" by (metis old.unit.exhaust surj_pair)
  obtain r s2 where 2: "run_state (NodeUnstageVolume quietEnv (taskVolume ?t) ''/m'') s1 = (r, s2)" by fastforce
  from s have "?t \<in> set (drainTasks s)" by simp
  from unstage_after_drain [OF s(1) this 1 2] s 1 2 show ?thesis by (intro exI [of _ s] exI [of _ ?t] exI [of _ s1] exI [of _ r] exI [of _ s2]) simp
qed

section \<open>The record of a drain\<close>

lemma unmountManager_clean:
  assumes "run_state (unmountManager env v mm) s = (True, s')" "mm_mounted mm"
  shows "\<exists>a b. within s s' a b \<and> run_state (hasDirtyCacheOnDisk env mm) a = (False, b)"
proof -
  obtain d mm' c where u: "run_state (UnmountWithin env mm maxDrainWait) (base s) = ((d, mm'), c)" by (metis surj_pair)
  from assms(1) u have d: "d" "base s' = c" by (auto simp: unmountManager_def Unmount_mm_def UnmountWithin_def dropManager_def split: if_splits prod.splits)
  from UnmountWithin_drained [OF u [unfolded d(1) [THEN eqTrueI]] assms(2)] obtain a b :: rc and t1 t2 where
    a: "hist a = nhist s @ t1" "run_state (hasDirtyCacheOnDisk env mm) a = (False, b)" "hist c = hist b @ t2" by blast
  moreover have "within s s' a b" using a d(2) emitsD [OF hasDirtyCacheOnDisk_emits a(2)] by (auto simp: within_def)
  ultimately show ?thesis by blast
qed

text \<open>Mounting only adds to the history.\<close>

lemma exclusiveLoop_grows: "grows (exclusiveLoop env n mm)"
proof (induction env n mm rule: exclusiveLoop.induct)
  case (1 env n mm)
  have "grows (countRegisteredVFS env mm)" unfolding countRegisteredVFS_def RegisteredVFSNames_def by (intro emits_rules grows_rpc)
  with 1 show ?case by (subst exclusiveLoop.simps) (auto intro!: emits_rules growsI [OF ShutdownSessions_keeps] split: option.splits)
qed

lemma newSessionDir_grows: "grows (newSessionDir env v n)"
proof -
  have "grows (newSessionLoop env p w k)" for p w k by (induction k) (auto simp: Let_def intro!: emits_rules)
  then show ?thesis unfolding newSessionDir_def mkdirAllBounded_def Let_def by (intro emits_rules) simp_all
qed

lemma SweepDeadSessions_grows: "grows (SweepDeadSessions env v)"
proof -
  have "grows (sweepSessions env p live es)" for p live es
    by (induction es) (auto simp: Let_def intro!: emits_rules grows_steps growsI [OF unmountBounded_keeps])
  then show ?thesis unfolding SweepDeadSessions_def Let_def by (intro emits_rules growsI [OF liveSessions_keeps]) simp_all
qed

lemma ValidateVFSCache_grows: "grows (ValidateVFSCache env n)"
  unfolding ValidateVFSCache_def validateVFSCacheAt_def by (intro emits_rules growsI [OF validateItems_emits [OF subset_refl]]) simp_all

lemma Mount_grows: "grows (Mount env mm)"
  unfolding Mount_def IsMounted_def ensureExclusiveVFSName_def mkdirAllBounded_def
  by (intro emits_rules growsI [OF mmIsMountPoint_emits] UnmountWithin_grows [unfolded UnmountWithin_def] exclusiveLoop_grows
      ValidateVFSCache_grows SweepDeadSessions_grows newSessionDir_grows mountSession_grows) simp_all

lemma fetch_grows: "grows (FetchVolumeSecrets env q)" "grows (NewMountManager env a v p b d e g)"
  subgoal unfolding FetchVolumeSecrets_def fetchPassphrase_def fetchS3Config_def Let_def by (intro emits_rules; simp)
  subgoal unfolding NewMountManager_def LoadVFSNameMap_def Let_def by (intro emits_rules) simp_all
  done

lemma growsN_mountS3Volume: "growsN (mountS3Volume env v p c g)"
proof -
  have "growsN (storeManager v mm)" for mm by (rule emitsN_keep) (simp add: storeManager_def)
  then show ?thesis unfolding mountS3Volume_def
    by (intro emitsN_rules growsN_rcl [OF getPVByVolumeID_looks] growsN_rcl [OF getStorageClassParameters_looks]
        growsN_rcl [OF fetch_grows(1)] growsN_rcl [OF fetch_grows(2)] growsN_rcl [OF Mount_grows])
qed

lemma growsN_finish: "growsN (finishBackgroundDrain env v d)"
proof -
  have "growsN (modS (\<lambda>s. s\<lparr>backgroundDrains := D s\<rparr>))" "growsN (modS (\<lambda>s. s\<lparr>pendingDrains := D s\<rparr>))" for D
    by (rule emitsN_keep, simp)+
  then show ?thesis unfolding finishBackgroundDrain_def SaveDrainPending_def ClearDrainPending_def
    by (intro emitsN_rules growsN_rcl [where P = "\<lambda>_. True"] emits_rules) simp_all
qed

text \<open>Between two states, the cache of a manager of the volume was searched and nothing was found.\<close>

definition searchedClean :: "env \<Rightarrow> string \<Rightarrow> ns \<Rightarrow> ns \<Rightarrow> bool" where
  "searchedClean env v s s' = (\<exists>mm a b. mm_volumeID mm = v \<and> within s s' a b \<and> run_state (hasDirtyCacheOnDisk env mm) a = (False, b))"

lemma body_clean:
  assumes "onManagers wellManaged s"
  shows "run_state (drainBody env v) s = (True, s') \<Longrightarrow> searchedClean env v s s'"
    and "run_state (resumeBody env v p c) s = (True, s') \<Longrightarrow> searchedClean env v s s'"
proof -
  have found: "mm_volumeID mm = v \<and> mm_mounted mm" if "onManagers wellManaged s0" "mountManagers s0 v = Some mm" for s0 mm
    using that by (simp add: onCore_def wellManaged_def)
  {
    assume "run_state (drainBody env v) s = (True, s')"
    then obtain mm where "mountManagers s v = Some mm" "run_state (unmountManager env v mm) s = (True, s')"
      by (auto simp: drainBody_def managerOf_def split: option.splits)
    with found [OF assms] unmountManager_clean show "searchedClean env v s s'" unfolding searchedClean_def by blast
  next
    assume r: "run_state (resumeBody env v p c) s = (True, s')"
    obtain e s1 where 1: "run_state (mountS3Volume env v p c None) s = (e, s1)" by fastforce
    with r obtain mm s2 where mm: "mountManagers s1 v = Some mm" "run_state (unmountManager env v mm) s1 = (True, s2)" "\<exists>t. nhist s' = nhist s2 @ t"
      by (auto simp: resumeBody_def managerOf_def whenS_def split: if_splits option.splits prod.splits)
    have "onManagers wellManaged s1" using keeps_run [OF managed_mount 1 assms] .
    from found [OF this mm(1)] have f: "mm_volumeID mm = v" "mm_mounted mm" by simp_all
    from unmountManager_clean [OF mm(2) f(2)] obtain a b where
      "within s1 s2 a b" "run_state (hasDirtyCacheOnDisk env mm) a = (False, b)" by blast
    moreover from this(1) have "within s s' a b" using growsND [OF growsN_mountS3Volume 1] mm(3) by (auto simp: within_def)
    ultimately show "searchedClean env v s s'" using f unfolding searchedClean_def by blast
  }
qed

lemma runTask_ends:
  assumes "onManagers wellManaged s" "run_state (runTask env t) s = (u, s')"
  shows "\<exists>d s1. run_state (finishBackgroundDrain env (taskVolume t) d) s1 = ((), s') \<and>
    (d \<longrightarrow> searchedClean env (taskVolume t) s s1)"
proof (cases t)
  case (DrainTask v)
  obtain d s1 where "run_state (drainBody env v) s = (d, s1)" by fastforce
  with assms(2) body_clean(1) [OF assms(1), of env v] DrainTask show ?thesis by (intro exI [of _ d] exI [of _ s1]) auto
next
  case (ResumeTask v p c)
  obtain d s1 where "run_state (resumeBody env v p c) s = (d, s1)" by fastforce
  with assms(2) body_clean(2) [OF assms(1), of env v p c] ResumeTask show ?thesis by (intro exI [of _ d] exI [of _ s1]) auto
qed



end
