(* ===== verification/NodeRecovery.thy ===== *)
theory NodeRecovery
  imports NodeSafety
begin

text \<open>
  The sweep over stranded volumes (\<^verbatim>\<open>recoverStrandedVolumes\<close> of \<^verbatim>\<open>driver/node_s3.go\<close>): every upload that the cache still
  holds and nobody attends to gets a drain.
\<close>

section \<open>Uploads nobody owns\<close>

text \<open>What the sweep leaves alone: the marks, the managers, the claimed slots, and the retry times of the other volumes.\<close>

definition leaves :: "string set \<Rightarrow> ns \<Rightarrow> ns \<Rightarrow> bool" where
  "leaves V s s' = (volumesInSetup s' = volumesInSetup s \<and> mountManagers s' = mountManagers s \<and> (\<forall>v\<in>V. strandedRetry s' v = strandedRetry s v) \<and>
     backgroundDrains s \<subseteq> backgroundDrains s')"

named_theorems leaving \<open>operations of the sweep\<close>

lemma leaves_basic [leaving]:
  "keeps (leaves V s) (rcl m)" "keeps (leaves V s) (spawn t)" "keeps (leaves V s) (startBackgroundDrain env w)"
  "keeps (leaves V s) (isVolumeSetupInProgress w)" "keeps (leaves V s) (isBackgroundDraining w)" "keeps (leaves V s) (managerOf w)"
  by (auto simp: keeps_def triple_def leaves_def spawn_def startBackgroundDrain_def isVolumeSetupInProgress_def isBackgroundDraining_def
      managerOf_def split: prod.splits)

lemma leaves_lookups [leaving]:
  "keeps (leaves V s) (getS3VolumeContext env w)" "keeps (leaves V s) (forceUnstageRequested env w)" "keeps (leaves V s) (reportUnuploadedData env w)"
  unfolding getS3VolumeContext_def forceUnstageRequested_def reportUnuploadedData_def reportOn_def pvcRef_def
  by (intro keeps_rules leaving)+

lemma leaves_resume [leaving]: "keeps (leaves V s) (resumeStrandedDrain env w p)"
  unfolding resumeStrandedDrain_def by (intro keeps_rules leaving)

lemma leaves_recover: "w \<notin> V \<Longrightarrow> keeps (leaves V s) (recoverVolume env staged w)"
proof -
  assume "w \<notin> V"
  then have "keeps (leaves V s) (modS (\<lambda>s. s\<lparr>strandedRetry := (strandedRetry s)(w \<mapsto> n)\<rparr>))" for n
    by (intro keeps_modS) (auto simp: leaves_def)
  then show ?thesis unfolding recoverVolume_def by (intro keeps_rules leaving)
qed

lemma leaves_recoverStranded: "set vs \<inter> V = {} \<Longrightarrow> keeps (leaves V s) (recoverStranded env staged vs)"
proof (induction vs)
  case (Cons w vs)
  then show ?case unfolding recoverStranded.simps by (intro keeps_rules leaves_recover) auto
qed simp

lemma leavesD: "keeps (leaves V s) m \<Longrightarrow> run_state m s = (r, s') \<Longrightarrow> leaves V s s'"
  by (erule (1) keeps_run) (simp add: leaves_def)

lemma growsN_recover: "growsN (recoverVolume env staged v)" "growsN (recoverStranded env staged vs)"
proof -
  have "growsN (modS (\<lambda>s. s\<lparr>strandedRetry := R s\<rparr>))" for R by (rule emitsN_keep) simp
  then show r: "growsN (recoverVolume env staged v)" for v
    unfolding recoverVolume_def isVolumeSetupInProgress_def isBackgroundDraining_def managerOf_def
    by (intro emitsN_rules growsN_forceUnstageRequested growsN_resumeStrandedDrain growsN_rcl [where P = "\<lambda>_. True"] emits_rules) simp_all
  show "growsN (recoverStranded env staged vs)"
    by (induction vs) (simp add: emitsN_ret, simp only: recoverStranded.simps, intro emitsN_rules r)
qed

text \<open>
  Why a volume may be left alone: kubelet stages it, a handler is at it, it has a manager, it was tried lately, its data was given
  up, or its PV cannot be read; otherwise a drain has its slot.
\<close>

definition triedLately :: "env \<Rightarrow> string \<Rightarrow> ns \<Rightarrow> ns \<Rightarrow> bool" where
  "triedLately env v s s' = (\<exists>t a n b. strandedRetry s v = Some t \<and> within s s' a b \<and> run_state (timeNow env) a = (n, b) \<and> n - t < strandedRetryInterval)"

definition attended :: "env \<Rightarrow> string list \<Rightarrow> string \<Rightarrow> ns \<Rightarrow> ns \<Rightarrow> bool" where
  "attended env staged v s s' = (v \<in> backgroundDrains s' \<or> v \<in> set staged \<or> v \<in> volumesInSetup s \<or> mountManagers s v \<noteq> None \<or>
     triedLately env v s s' \<or> forcedBy env v s s' \<or> pvUnreadable env v s s')"

lemma attended_later:
  "attended env staged v s s' \<Longrightarrow> nhist s'' = nhist s' @ t \<Longrightarrow> backgroundDrains s' \<subseteq> backgroundDrains s'' \<Longrightarrow> attended env staged v s s''"
  unfolding attended_def triedLately_def pvUnreadable_def by (meson forcedBy_later subsetD within_later)

lemma recoverVolume_attends:
  assumes r: "run_state (recoverVolume env staged v) a = (u, s')" and l: "leaves {v} s a" and t: "nhist a = nhist s @ t"
  shows "attended env staged v s s'"
proof (cases "v \<in> set staged \<or> v \<in> volumesInSetup a \<or> v \<in> backgroundDrains a \<or> mountManagers a v \<noteq> None")
  case True
  with r have "s' = a" by (auto simp: recoverVolume_def isVolumeSetupInProgress_def isBackgroundDraining_def managerOf_def)
  with True l show ?thesis by (auto simp: attended_def leaves_def)
next
  case False
  let ?early = "case strandedRetry a v of None \<Rightarrow> ret False | Some t \<Rightarrow> do { n \<leftarrow> rcl (timeNow env); ret (n - t < strandedRetryInterval) }"
  obtain e s1 where e: "run_state ?early a = (e, s1)" by fastforce
  have g1: "\<exists>t'. nhist s1 = nhist a @ t'"
    by (rule growsND [OF _ e]) (intro emitsN_rules growsN_rcl [where P = "\<lambda>_. True"] emits_rules, simp)
  obtain f s2 where f: "run_state (forceUnstageRequested env v) s1 = (f, s2)" by fastforce
  obtain n b where n: "run_state (timeNow env) (base s2) = (n, b)" by fastforce
  let ?s3 = "s2\<lparr>base := b, strandedRetry := (strandedRetry s2)(v \<mapsto> n)\<rparr>"
  obtain w s4 where w: "run_state (resumeStrandedDrain env v (pathJoin [drainMountBase, v])) ?s3 = (w, s4)" by (metis surj_pair)
  have s': "s' = (if e then s1 else if f then s2 else s4)"
    using r False e f n w by (auto simp: recoverVolume_def isVolumeSetupInProgress_def isBackgroundDraining_def managerOf_def split: if_splits)
  have g2: "\<exists>t'. nhist s2 = nhist s1 @ t'" using growsND [OF growsN_forceUnstageRequested f] .
  show ?thesis
  proof (cases e)
    case True
    then obtain t0 where "strandedRetry a v = Some t0" "run_state (timeNow env) (base a) = (now env (nhist a), base s1)" "now env (nhist a) - t0 < strandedRetryInterval"
      using e by (auto split: option.splits)
    moreover have "within s s1 (base a) (base s1)" "strandedRetry s v = strandedRetry a v" using t g1 l by (auto simp: within_def leaves_def)
    ultimately show ?thesis using s' True by (auto simp: attended_def triedLately_def simp del: run_host)
  next
    case ne: False
    show ?thesis
    proof (cases f)
      case True
      moreover have "within s s2 (base s1) (base s2)" using t g1 g2 by (auto simp: within_def)
      ultimately show ?thesis using s' ne f by (auto simp: attended_def forcedBy_def)
    next
      case False
      have "\<exists>t'. nhist ?s3 = nhist s @ t'" using t g1 g2 n by auto
      with resume_refuses [OF w] have "v \<in> backgroundDrains s4 \<or> pvUnreadable env v s s4" by (auto simp: drainMountBase_def pathJoin_ne)
      with s' ne False show ?thesis by (auto simp: attended_def)
    qed
  qed
qed

lemma recoverStranded_attends:
  assumes "run_state (recoverStranded env staged vs) a = (u, s')" "leaves {v} s a" "nhist a = nhist s @ t" "v \<in> set vs"
  shows "attended env staged v s s'"
  using assms
proof (induction vs arbitrary: a t)
  case (Cons w vs)
  obtain x b where b: "run_state (recoverVolume env staged w) a = (x, b)" by (metis surj_pair)
  from Cons.prems(1) b have r: "run_state (recoverStranded env staged vs) b = (u, s')" by simp
  show ?case
  proof (cases "w = v")
    case True
    have "backgroundDrains b \<subseteq> backgroundDrains s'" using leavesD [OF leaves_recoverStranded r, of "{}"] by (simp add: leaves_def)
    with growsND [OF growsN_recover(2) r] recoverVolume_attends [OF b [unfolded True] Cons.prems(2,3)] show ?thesis
      by (auto intro: attended_later)
  next
    case False
    then have "leaves {v} s b" using keeps_run [OF leaves_recover b Cons.prems(2)] by simp
    moreover obtain t' where "nhist b = nhist s @ t'" using growsND [OF growsN_recover(1) b] Cons.prems(3) by auto
    ultimately show ?thesis using Cons.IH [OF r] Cons.prems(4) False by auto
  qed
qed simp

lemma VolumesWithUnuploadedData_looks: "emits (VolumesWithUnuploadedData env) looks"
proof -
  have "emits (collectDirty env b acc es) looks" for b acc es
    by (induction env b acc es rule: collectDirty.induct) (auto simp: Let_def intro!: emits_rules hasDirtyCacheItemsAt_emits)
  then show ?thesis unfolding VolumesWithUnuploadedData_def volumesWithUnuploadedDataAt_def by (intro emits_rules) simp_all
qed

lemma stagedVolumeIDs_scan: "growsN (stagedVolumeIDs env)" "keeps (leaves V s) (stagedVolumeIDs env)"
proof -
  have "growsN (modS (\<lambda>s. s\<lparr>kubeletRootCache := R s\<rparr>))" for R by (rule emitsN_keep) simp
  then have g: "growsN (csiPluginPath env)" unfolding csiPluginPath_def resolveKubeletRoot_def runCmdBoundedOutput_def Let_def
    by (intro emitsN_rules growsN_rcl [where P = "\<lambda>_. True"] emits_rules) simp_all
  have "growsN (getVolumeIDFromVolData env d)" for d unfolding getVolumeIDFromVolData_def volHandle_def
    by (intro emitsN_rules growsN_rcl [where P = "\<lambda>_. True"] emits_rules) simp_all
  then have gi: "growsN (volumeIDsIn env d es)" for d es by (induction es) (auto intro!: emitsN_rules)
  show "growsN (stagedVolumeIDs env)" unfolding stagedVolumeIDs_def
    by (intro emitsN_rules g gi growsN_rcl [where P = "\<lambda>_. True"] emits_rules) simp_all
  have "keeps (leaves V s) (modS (\<lambda>s. s\<lparr>kubeletRootCache := R s\<rparr>))" for R by (rule keeps_modS) (simp add: leaves_def)
  then have k: "keeps (leaves V s) (csiPluginPath env)" unfolding csiPluginPath_def resolveKubeletRoot_def Let_def
    by (intro keeps_rules leaving)
  have "keeps (leaves V s) (getVolumeIDFromVolData env d)" for d
    unfolding getVolumeIDFromVolData_def volHandle_def by (intro keeps_rules leaving)
  then have ki: "keeps (leaves V s) (volumeIDsIn env d es)" for d es by (induction es) (auto intro!: keeps_rules)
  show "keeps (leaves V s) (stagedVolumeIDs env)" unfolding stagedVolumeIDs_def by (intro keeps_rules leaving k ki)
qed


text \<open>A node on which kubelet stages nothing, with one volume in the cache.\<close>

definition leftEnv :: env where
  "leftEnv = quietEnv\<lparr>readDir := \<lambda>_ p. if p = pathJoin [VFSCacheBasePath, ''vfsMeta''] then Inr [(''v'', True)] else Inl ENOENT,
     walk := \<lambda>_ _. [WFile ''f'' 0 0], getPV := \<lambda>_ _. Inr s3PV, listPVs := \<lambda>_. Inr [s3PV]\<rparr>"


end
