(* ===== verification/Obligations.thy ===== *)
theory Obligations
  imports NodeSafety
begin

text \<open>
  Requests that need a reason. Some requests are only right after another one has been answered in a certain way: a
  tree is deleted after the API server said that its volume is gone, a device is formatted after a probe found nothing on it.
  Such a rule is an obligation on every event of a history, which may look at the events before it in the same call.
  The locale gives the composition of operations that keep an obligation; it is instantiated for the reclaim of orphaned volumes and for
  the staging of local volumes.
\<close>

text \<open>\<open>stepsFrom P h t1 t\<close>: after the history \<open>h\<close> and the events \<open>t1\<close> of the running call, each event of \<open>t\<close> is allowed.\<close>

primrec stepsFrom :: "(hist \<Rightarrow> hist \<Rightarrow> event \<Rightarrow> bool) \<Rightarrow> hist \<Rightarrow> hist \<Rightarrow> hist \<Rightarrow> bool" where
  "stepsFrom P h t1 [] = True"
| "stepsFrom P h t1 (e # t) = (P h t1 e \<and> stepsFrom P h (t1 @ [e]) t)"

abbreviation everyStep :: "(hist \<Rightarrow> hist \<Rightarrow> event \<Rightarrow> bool) \<Rightarrow> hist \<Rightarrow> hist \<Rightarrow> bool" where
  "everyStep P h t \<equiv> stepsFrom P h [] t"

lemma stepsFrom_append: "stepsFrom P h t1 (t @ t') = (stepsFrom P h t1 t \<and> stepsFrom P h (t1 @ t) t')"
  by (induction t arbitrary: t1) simp_all

text \<open>The obligation at any place of the history.\<close>

lemma stepsFromD: "stepsFrom P h t1 (u @ e # w) \<Longrightarrow> P h (t1 @ u) e"
  by (simp add: stepsFrom_append)

text \<open>
  An obligation that holds stays true when the call has done more before: with events of this call that the
  obligation took for the history before it, and with further events in between.
\<close>

locale obligation =
  fixes P :: "hist \<Rightarrow> hist \<Rightarrow> event \<Rightarrow> bool"
  assumes earlier: "P (h @ t) t' e \<Longrightarrow> P h (t @ t') e"
    and later: "P h t e \<Longrightarrow> P h (t @ t') e"
begin

lemma steps_earlier: "stepsFrom P (h @ t1) t2 t \<Longrightarrow> stepsFrom P h (t1 @ t2) t"
  by (induction t arbitrary: t2) (simp_all add: earlier)

lemma steps_settled: "list_all (P h t1) t \<Longrightarrow> stepsFrom P h t1 t"
proof (induction t arbitrary: t1)
  case (Cons e t)
  then have "list_all (P h (t1 @ [e])) t" by (auto simp: list_all_iff intro: later)
  with Cons show ?case by simp
qed simp

lemma steps_join: "everyStep P h t \<Longrightarrow> everyStep P (h @ t) t' \<Longrightarrow> everyStep P h (t @ t')"
  using steps_earlier [of h t "[]" t'] by (simp add: stepsFrom_append)

text \<open>An operation keeps the obligation; \<open>g\<close> reads the history of its state.\<close>

definition upholds :: "('s \<Rightarrow> hist) \<Rightarrow> ('s, 'a) state \<Rightarrow> bool" where
  "upholds g m = (\<forall>s. \<exists>t. g (snd (run_state m s)) = g s @ t \<and> everyStep P (g s) t)"

lemma upholdsD: "upholds g m \<Longrightarrow> run_state m s = (r, s') \<Longrightarrow> \<exists>t. g s' = g s @ t \<and> everyStep P (g s) t"
  unfolding upholds_def by (metis snd_conv)

lemma upholdsI: "(\<And>s r s'. run_state m s = (r, s') \<Longrightarrow> \<exists>t. g s' = g s @ t \<and> everyStep P (g s) t) \<Longrightarrow> upholds g m"
  unfolding upholds_def by (metis prod.collapse)

lemma upholds_quiet: "(\<And>s. g (snd (run_state m s)) = g s) \<Longrightarrow> upholds g m"
  by (simp add: upholds_def)

lemma upholds_bind: "upholds g m \<Longrightarrow> (\<And>s x s'. run_state m s = (x, s') \<Longrightarrow> upholds g (f x)) \<Longrightarrow> upholds g (State_Monad.bind m f)"
  unfolding upholds_def by (simp add: case_prod_beta) (metis append.assoc prod.collapse steps_join)

lemma upholds_if: "(b \<Longrightarrow> upholds g m) \<Longrightarrow> (\<not> b \<Longrightarrow> upholds g n) \<Longrightarrow> upholds g (if b then m else n)"
  by simp

lemma upholds_ret: "upholds g (ret x)" "upholds g (gets q)"
  by (simp_all add: upholds_def)

lemma upholds_case:
  "(r = None \<Longrightarrow> upholds g f) \<Longrightarrow> (\<And>x. r = Some x \<Longrightarrow> upholds g (k x)) \<Longrightarrow> upholds g (case r of None \<Rightarrow> f | Some x \<Rightarrow> k x)"
  "(\<And>e. q = Inl e \<Longrightarrow> upholds g (l e)) \<Longrightarrow> (\<And>x. q = Inr x \<Longrightarrow> upholds g (n x)) \<Longrightarrow> upholds g (case q of Inl e \<Rightarrow> l e | Inr x \<Rightarrow> n x)"
  by (simp_all split: option.splits sum.splits)

lemma upholds_orFail: "upholds g m \<Longrightarrow> upholds g k \<Longrightarrow> upholds g (orFail m w k)"
  unfolding orFail_def by (intro upholds_bind upholds_case upholds_ret)

lemma upholds_checkE: "upholds g m \<Longrightarrow> upholds g n \<Longrightarrow> upholds g (checkE m w n)"
  unfolding checkE_def by (intro upholds_bind upholds_case upholds_ret)

lemma upholds_callE: "upholds g m \<Longrightarrow> (\<And>s x s'. run_state m s = (Inr x, s') \<Longrightarrow> upholds g (k x)) \<Longrightarrow> upholds g (callE m w k)"
  unfolding callE_def by (rule upholds_bind) (auto intro!: upholds_ret split: sum.split)

lemmas upholds_rules = upholds_ret upholds_if upholds_case upholds_orFail upholds_checkE upholds_callE upholds_bind

text \<open>Operations whose events need no reason, and operations of the parts below on the state of the node.\<close>

lemma upholds_emits: "emits m Q \<Longrightarrow> (\<And>h t e. Q e \<Longrightarrow> P h t e) \<Longrightarrow> upholds hist m"
proof (rule upholdsI)
  fix s r s' assume "emits m Q" and q: "\<And>h t e. Q e \<Longrightarrow> P h t e" and "run_state m s = (r, s')"
  then obtain t where "hist s' = hist s @ t" "list_all Q t" by (blast dest: emitsD)
  with q show "\<exists>t. hist s' = hist s @ t \<and> everyStep P (hist s) t" by (auto simp: list_all_iff intro!: steps_settled)
qed

lemma upholds_rcl: "upholds hist m \<Longrightarrow> upholds nhist (rcl m)"
  by (auto simp: upholds_def case_prod_beta)

end

end
