(* ===== verification/NodeTeardown.thy ===== *)
theory NodeTeardown
  imports Obligations
begin

text \<open>
  Taking a local volume down (\<^verbatim>\<open>driver/node_luks.go\<close>, \<^verbatim>\<open>driver/node.go\<close>): the order in which its mount, its LUKS
  mapping, its loop devices and its directories are released.
\<close>

section \<open>The staging mount goes first\<close>

definition releasing :: "string \<Rightarrow> event \<Rightarrow> bool" where
  "releasing p e = (umounts p e \<or> (\<exists>args r. e = Ran (Cmd ''sync'' args []) r))"

lemma releasing_looks: "list_all looks t \<Longrightarrow> list_all (releasing p) t"
  by (auto simp: releasing_def looks_umounts intro: list.pred_mono_strong)

lemma releasing_umounts: "list_all (umounts p) t \<Longrightarrow> list_all (releasing p) t"
  by (auto simp: releasing_def intro: list.pred_mono_strong)

text \<open>Between two histories a query could not get a mount table it trusts.\<close>

definition tableUnreadable :: "env \<Rightarrow> 's mnt_scheme \<Rightarrow> 's mnt_scheme \<Rightarrow> bool" where
  "tableUnreadable env s s' = (\<exists>(b :: 's mnt_scheme) c t1 t2 t3. run_state (hostMountStacksOK env) b = (None, c) \<and>
     hist b = hist s @ t1 \<and> hist c = hist b @ t2 \<and> hist s' = hist c @ t3)"

definition emptyAt :: "env \<Rightarrow> 's mnt_scheme \<Rightarrow> string \<Rightarrow> bool" where
  "emptyAt env s p = (\<exists>st. served env s st \<and> stackOf st p = [])"

lemma unmountPath_releases:
  fixes s :: "'s mnt_scheme"
  assumes r: "run_state (unmountPath env p) s = (r, s')" and c: "mountsCoherent s"
  shows "(\<exists>t. hist s' = hist s @ t \<and> list_all (umounts p) t) \<and> (r = None \<longrightarrow> tableUnreadable env s s' \<or> emptyAt env s' p)"
proof -
  obtain q s1 where q: "run_state (hostMountStacksOK env) s = (q, s1)" by fastforce
  then have d: "run_state (HostMountDepth env p) s = (map_option (\<lambda>st. length (stackOf st p)) q, s1)" by (simp add: HostMountDepth_def)
  from emitsD [OF HostMountDepth_emits d] obtain t1 where t1: "hist s1 = hist s @ t1" "list_all (umounts p) t1"
    by (auto intro: looks_umounts list.pred_mono_strong)
  show ?thesis
  proof (cases q)
    case None
    from unmountHostOnce_hist [of env p True s1] obtain t2 where
      t2: "hist (snd (run_state (unmountHostOnce env p True) s1)) = hist s1 @ t2" "list_all (umounts p) t2" by auto
    have s': "s' = snd (run_state (unmountHostOnce env p True) s1)" using r d None by (auto simp: unmountPath_def split: prod.splits)
    have "tableUnreadable env s s'" using q None t1 t2 s' unfolding tableUnreadable_def by (intro exI [of _ s] exI [of _ s1]) auto
    with t1 t2 s' show ?thesis by auto
  next
    case (Some st)
    note sv = hostMountStacksOK_result(1,3) [OF q c]
    show ?thesis
    proof (cases "stackOf st p = []")
      case True
      with r d Some have "s' = s1" by (auto simp: unmountPath_def)
      with sv Some True t1 show ?thesis by (auto simp: emptyAt_def)
    next
      case False
      obtain x s2 where x: "run_state (unmountHostStack env p) s1 = (x, s2)" by fastforce
      with r d Some False have "s' = s2" "r = None \<longrightarrow> x = None" by (auto simp: unmountPath_def split: option.splits)
      with unwindLoop_result [OF x [unfolded unmountHostStack_def] sv(1)] t1 show ?thesis by (auto simp: emptyAt_def)
    qed
  qed
qed

lemma tableUnreadable_widen:
  fixes s s' a b :: "'s mnt_scheme"
  shows "tableUnreadable env a b \<Longrightarrow> hist a = hist s @ t \<Longrightarrow> hist s' = hist b @ t' \<Longrightarrow> tableUnreadable env s s'"
  unfolding tableUnreadable_def by (auto, metis append.assoc)

lemma releaseStaging_releases:
  fixes s :: "'s mnt_scheme"
  assumes r: "run_state (releaseStaging env p) s = (r, s')" and c: "mountsCoherent s" and p: "p \<noteq> []"
  shows "(\<exists>t. hist s' = hist s @ t \<and> list_all (releasing p) t) \<and> (r = None \<longrightarrow> tableUnreadable env s s' \<or> emptyAt env s' p)"
proof -
  obtain q s1 where q: "run_state (hostMountStacksOK env) s = (q, s1)" by fastforce
  from emitsD [OF hostMountStacksOK_emits q] obtain t1 where t1: "hist s1 = hist s @ t1" "list_all (releasing p) t1"
    by (auto intro: releasing_looks)
  have m: "run_state (isMountPoint env p) s = (q \<noteq> None \<and> mountsFlat s1 p \<noteq> None, s1)"
    using q by (simp add: isMountPoint_def IsHostMountPoint_def HostMounts_def HostMountsOK_def split: option.splits)
  show ?thesis
  proof (cases q)
    case None
    with r m p have "s' = s1" "r = None" by (auto simp: releaseStaging_def)
    moreover have "tableUnreadable env s s1" using q None t1 unfolding tableUnreadable_def by (intro exI [of _ s] exI [of _ s1]) auto
    ultimately show ?thesis using t1 by auto
  next
    case (Some st)
    note sv = hostMountStacksOK_result(1,3) [OF q c]
    show ?thesis
    proof (cases "mountsFlat s1 p")
      case None
      with r m p have "s' = s1" by (auto simp: releaseStaging_def)
      moreover have "emptyAt env s1 p" using sv Some depth_zero_iff [OF sv(1)] None by (auto simp: emptyAt_def served_def)
      ultimately show ?thesis using t1 by auto
    next
      case mounted: (Some fs)
      define y where "y = exec env (hist s1) (Cmd ''sync'' [''-f'', p] [])"
      define s2 where "s2 = s1\<lparr>hist := hist s1 @ [Ran (Cmd ''sync'' [''-f'', p] []) y]\<rparr>"
      define s3 where "s3 = (if cmdErr y \<noteq> None then s2\<lparr>hist := hist s2 @ [Ran (Cmd ''sync'' [] []) (exec env (hist s2) (Cmd ''sync'' [] []))]\<rparr> else s2)"
      have u: "run_state (unmountPath env p) s3 = (r, s')"
        using r m p Some mounted by (auto simp: releaseStaging_def whenS_def s3_def s2_def y_def split: if_splits)
      have "mountsCoherent s3" using sv(1) by (simp add: s3_def s2_def)
      note x = unmountPath_releases [OF u this]
      obtain t2 where t2: "hist s3 = hist s1 @ t2" "list_all (releasing p) t2"
        by (cases "cmdErr y = None") (simp_all add: s3_def s2_def releasing_def)
      from x obtain t3 where t3: "hist s' = hist s3 @ t3" "list_all (releasing p) t3" using releasing_umounts by blast
      have "r = None \<longrightarrow> tableUnreadable env s s' \<or> emptyAt env s' p"
        using x t1 t2 tableUnreadable_widen [of env s3 s' s "t1 @ t2" s' "[]"] by auto
      with t1 t2 t3 show ?thesis by auto
    qed
  qed
qed



section \<open>Volumes whose PV is gone\<close>

text \<open>Events that delete no tree, other than the cache of a VFS.\<close>

definition cacheOnly :: "event \<Rightarrow> bool" where
  "cacheOnly e = (\<forall>d r. e = Did (RemoveAll d) r \<longrightarrow> (\<exists>n. d = cacheDataDir n \<or> d = cacheMetaDir n))"

lemma cacheOnly_simps [simp]:
  "cacheOnly (Asked q)" "cacheOnly (Ran c x)" "cacheOnly (Kube k)" "cacheOnly (RpcCalled m j y)" "cacheOnly (Emitted a b)"
  "cacheOnly (Did f r) \<longleftrightarrow> (\<forall>d. f = RemoveAll d \<longrightarrow> (\<exists>n. d = cacheDataDir n \<or> d = cacheMetaDir n))"
  by (auto simp: cacheOnly_def)

lemma keepsCache_only: "keepsCache e \<Longrightarrow> cacheOnly e"
  by (simp add: keepsCache_def cacheOnly_def)

lemma looks_only: "looks e \<Longrightarrow> cacheOnly e"
  by (simp add: looks_keepsCache keepsCache_only)

lemmas only_keeps = emits_weaken [OF _ keepsCache_only]
lemmas only_looks = emits_weaken [OF _ looks_only]

lemma UnmountWithin_only: "emits (UnmountWithin env mm b) cacheOnly"
proof -
  have "emits (cleanupVFSCacheDir env mm') cacheOnly" for mm'
    unfolding cleanupVFSCacheDir_def RemoveVFSName_def LoadVFSNameMap_def writeVFSNameMap_def by (intro emits_rules) auto
  then show ?thesis unfolding UnmountWithin_def mmUnmount_def Let_def
    by (intro emits_rules only_looks [OF mmIsMountPoint_emits] only_looks [OF hasDirtyCacheOnDisk_emits] only_keeps [OF mount_keeps(1)]
        only_keeps [OF mount_keeps(2)] only_keeps [OF mount_keeps(3)] only_keeps [OF mount_keeps(4)])
qed

lemma IsUploadQueueEmpty_only: "emits (IsUploadQueueEmpty env mm) cacheOnly"
  unfolding IsUploadQueueEmpty_def vfsStats_def
  by (intro emits_rules only_looks [OF mmIsMountPoint_emits] only_looks [OF hasDirtyCacheOnDisk_emits] only_keeps [OF RPC_keeps(1)])

lemma reporting_only: "emitsN (reportOn env r v) cacheOnly" "emitsN (forceUnstageRequested env v) cacheOnly"
  "emitsN (getS3VolumeContext env v) cacheOnly"
  unfolding reportOn_def pvcRef_def whenS_def forceUnstageRequested_def getS3VolumeContext_def
  by (intro emitsN_rules emitsN_rcl only_looks [OF getPVByVolumeID_looks] emits_host; simp)+

lemma slots_only: "emitsN (dropManager v) cacheOnly" "emitsN (spawn t) cacheOnly" "emitsN (startBackgroundDrain env v) cacheOnly"
proof -
  show "emitsN (dropManager v) cacheOnly" "emitsN (spawn t) cacheOnly" by (rule emitsN_keep, simp add: dropManager_def spawn_def)+
  have "emitsN (modS (\<lambda>s. s\<lparr>backgroundDrains := D s\<rparr>)) cacheOnly" for D by (rule emitsN_keep) simp
  then show "emitsN (startBackgroundDrain env v) cacheOnly"
    unfolding startBackgroundDrain_def SaveDrainPending_def by (intro emitsN_rules emitsN_rcl emits_rules) simp_all
qed

lemma cleanupS3Sync_only: "emitsN (cleanupS3Sync env v p) cacheOnly"
proof -
  have "emitsN (forceCleanupS3Sync env v) cacheOnly" unfolding forceCleanupS3Sync_def managerOf_def
    by (intro emitsN_rules reporting_only slots_only emitsN_rcl [OF UnmountWithin_only])
  moreover have "emitsN (resumeStrandedDrain env v p) cacheOnly" unfolding resumeStrandedDrain_def whenS_def reportUnuploadedData_def
    by (intro emitsN_rules reporting_only slots_only)
  ultimately show ?thesis unfolding cleanup_defs isBackgroundDraining_def managerOf_def
    by (intro emitsN_rules reporting_only slots_only emitsN_rcl [OF only_looks [OF HasUnuploadedData_looks]]
        emitsN_rcl [OF IsUploadQueueEmpty_only] emitsN_rcl [OF UnmountWithin_only])
qed

lemma command_only: "emits (runCmdBounded env n args) cacheOnly" "emits (CloseLUKS env m) cacheOnly"
  unfolding runCmdBounded_def runCmdBoundedOutput_def CloseLUKS_def IsLUKSOpened_def runCryptsetup_def runBounded_def
  by (intro emits_rules; simp)+

lemma detach_only: "emits (detachLoopDevicesFor env f) cacheOnly"
proof -
  have "emits (detachAll env ds) cacheOnly" for ds by (induction ds) (auto intro!: emits_rules command_only)
  then show ?thesis unfolding detachLoopDevicesFor_def loopDevicesFor_def runCmdBoundedOutput_def by (intro emits_rules) simp_all
qed

lemma release_only:
  "emits (releaseVolumeMounts env v) cacheOnly" "emits (cleanupVolumeStaging env v []) cacheOnly"
proof -
  have "emits (releaseAll env ts) cacheOnly" for ts by (induction ts) (auto intro!: emits_rules command_only)
  then show "emits (releaseVolumeMounts env v) cacheOnly"
    unfolding releaseVolumeMounts_def mountsBackedBy_def runCmdBoundedOutput_def by (intro emits_rules) simp_all
  show "emits (cleanupVolumeStaging env v []) cacheOnly"
    unfolding cleanupVolumeStaging_def releaseStaging_def whenS_def by (simp, intro emits_rules detach_only command_only)
qed

text \<open>
  The obligation: the deletion of another tree follows, in the same call, the API server's answer that the PV does not exist.
\<close>

definition gone :: "env \<Rightarrow> string \<Rightarrow> hist \<Rightarrow> hist \<Rightarrow> string \<Rightarrow> bool" where
  "gone env localPath h t d = (\<exists>v t1 t2 e. hasPrefix v ''pvc-'' \<and> d = pathJoin [localPath, v] \<and> t = t1 @ Kube (KGetPV v) # t2 \<and>
     getPV env (h @ t1) v = Inl e \<and> errorsIs e K8sNotFound)"

definition confirmed :: "env \<Rightarrow> string \<Rightarrow> hist \<Rightarrow> hist \<Rightarrow> event \<Rightarrow> bool" where
  "confirmed env localPath h t e = (cacheOnly e \<or> (\<exists>d r. e = Did (RemoveAll d) r \<and> gone env localPath h t d))"

lemma gone_earlier: "gone env lp (h @ t) t' d \<Longrightarrow> gone env lp h (t @ t') d"
  unfolding gone_def by (metis append.assoc append_Cons)

lemma gone_later: "gone env lp h t d \<Longrightarrow> gone env lp h (t @ t') d"
  unfolding gone_def by (metis append.assoc append_Cons)

interpretation orphan: obligation "confirmed env lp" for env lp
  by unfold_locales (auto simp: confirmed_def intro: gone_earlier gone_later)

lemma reclaimOrphanedVolume_events:
  assumes "run_state (reclaimOrphanedVolume env v d) s = (u, s')"
  shows "\<exists>t. nhist s' = nhist s @ t \<and> list_all (\<lambda>e. cacheOnly e \<or> (\<exists>r. e = Did (RemoveAll d) r)) t"
proof -
  let ?Q = "\<lambda>e. cacheOnly e \<or> (\<exists>r. e = Did (RemoveAll d) r)"
  have w: "emitsN m cacheOnly \<Longrightarrow> emitsN m ?Q" for m :: "(ns, 'a) state"
    unfolding emitsN_def by (metis (no_types, lifting) list.pred_mono_strong)
  have "emitsN (reclaimOrphanedVolume env v d) ?Q" unfolding reclaimOrphanedVolume_def whenS_def
    by (intro emitsN_rules w cleanupS3Sync_only emitsN_rcl [OF release_only(1)] emitsN_rcl [OF release_only(2)] emitsN_rcl emits_host) simp
  from emitsND [OF this assms] show ?thesis .
qed

lemma reclaimEntry_upholds: "orphan.upholds env lp nhist (reclaimEntry env lp e)"
proof (rule orphan.upholdsI)
  fix s u s' assume r: "run_state (reclaimEntry env lp e) s = (u, s')"
  let ?v = "fst e" and ?d = "pathJoin [lp, fst e]"
  let ?a = "[Asked (QStat (GenerateBackingFilePath ?d ?v))]"
  let ?b = "?a @ [Kube (KGetPV ?v)]"
  let ?s = "s\<lparr>base := base s\<lparr>hist := nhist s @ ?b\<rparr>\<rparr>"
  have ab: "everyStep (confirmed env lp) (nhist s) ?a" "everyStep (confirmed env lp) (nhist s) ?b" by (simp_all add: confirmed_def)
  consider (skip) "s' = s" | (absent) "nhist s' = nhist s @ ?a" | (kept) "nhist s' = nhist s @ ?b"
    | (gone) x where "hasPrefix ?v ''pvc-''" "getPV env (nhist s @ ?a) ?v = Inl x" "errorsIs x K8sNotFound" "run_state (reclaimOrphanedVolume env ?v ?d) ?s = (u, s')"
    using r by (auto simp: reclaimEntry_def Let_def whenS_def split: if_splits sum.splits)
  then show "\<exists>t. nhist s' = nhist s @ t \<and> everyStep (confirmed env lp) (nhist s) t"
  proof cases
    case (gone x)
    from reclaimOrphanedVolume_events [OF gone(4)] obtain t where
      t: "nhist s' = (nhist s @ ?b) @ t" "list_all (\<lambda>e. cacheOnly e \<or> (\<exists>r. e = Did (RemoveAll ?d) r)) t" by auto
    have "gone env lp (nhist s) ?b ?d" unfolding gone_def
      using gone(1-3) by (intro exI [of _ ?v] exI [of _ ?a] exI [of _ "[]"] exI [of _ x]) simp
    with t(2) have "list_all (confirmed env lp (nhist s) ?b) t" by (auto simp: list_all_iff confirmed_def)
    from orphan.steps_settled [OF this] ab(2) have "everyStep (confirmed env lp) (nhist s) (?b @ t)" by (simp add: stepsFrom_append)
    with t(1) show ?thesis by auto
  qed (use ab in auto)
qed

lemma reclaimOrphans_upholds: "orphan.upholds env lp nhist (reclaimOrphans env lp es)"
  by (induction es) (simp_all add: orphan.upholds_ret orphan.upholds_bind reclaimEntry_upholds)

text \<open>
  C9: A local volume is destroyed only when the API server says that its PV is gone. Whatever the reclaim of orphaned volumes finds, every tree
  it deletes is either a VFS cache or the directory of a volume named \<^verbatim>\<open>pvc-\<close> under the local path, and before it the API server was asked
  for the PV of that very volume and answered that there is none; no other error counts.
\<close>

theorem cleanupOrphanedVolumes_confirmed:
  assumes "run_state (cleanupOrphanedVolumes env) s = (u, s')"
  shows "\<exists>t. nhist s' = nhist s @ t \<and>
    everyStep (confirmed env (if getenv env ''CSI_LOCAL_PATH'' = [] then DefaultLocalPath else getenv env ''CSI_LOCAL_PATH'')) (nhist s) t"
proof -
  let ?lp = "if getenv env ''CSI_LOCAL_PATH'' = [] then DefaultLocalPath else getenv env ''CSI_LOCAL_PATH''"
  have "emits (osReadDir env ?lp) (\<lambda>e. cacheOnly e)" by (intro emits_rules) simp
  then have "orphan.upholds env ?lp hist (osReadDir env ?lp)" by (rule orphan.upholds_emits) (simp add: confirmed_def)
  then have "orphan.upholds env ?lp nhist (cleanupOrphanedVolumes env)" unfolding cleanupOrphanedVolumes_def Let_def
    by (intro orphan.upholds_rules orphan.upholds_rcl reclaimOrphans_upholds)
  from orphan.upholdsD [OF this assms] show ?thesis .
qed

text \<open>A node with one volume directory whose PV is gone.\<close>

definition orphanEnv :: env where
  "orphanEnv = quietEnv\<lparr>readDir := \<lambda>_ p. if p = DefaultLocalPath then Inr [(''pvc-1'', True)] else Inl ENOENT,
     stat := \<lambda>_ p. if hasSuffix p ''.img'' then Inr \<lparr>fi_size = 1, fi_isdir = False, fi_dev = []\<rparr> else Inl ENOENT\<rparr>"

theorem cleanupOrphanedVolumes_confirmed_witness:
  "\<exists>s s' t. run_state (cleanupOrphanedVolumes orphanEnv) s = ((), s') \<and> nhist s' = nhist s @ t \<and>
     Did (RemoveAll (pathJoin [DefaultLocalPath, ''pvc-1''])) None \<in> set t \<and> everyStep (confirmed orphanEnv DefaultLocalPath) (nhist s) t"
proof -
  let ?s = "emptyNs [] ''n'' ''1'' 0 initRc"
  obtain s' where r: "run_state (cleanupOrphanedVolumes orphanEnv) ?s = ((), s')" by (metis old.unit.exhaust surj_pair)
  have "Did (RemoveAll (pathJoin [DefaultLocalPath, ''pvc-1''])) None \<in> set (nhist (snd (run_state (cleanupOrphanedVolumes orphanEnv) ?s)))"
    by code_simp
  with r have d: "Did (RemoveAll (pathJoin [DefaultLocalPath, ''pvc-1''])) None \<in> set (nhist s')" by simp
  have h: "nhist ?s = []" by (simp add: emptyNs_def initRc_def)
  have "getenv orphanEnv ''CSI_LOCAL_PATH'' = []" by (simp add: orphanEnv_def quietEnv_def)
  with cleanupOrphanedVolumes_confirmed [OF r] obtain t where "nhist s' = nhist ?s @ t" "everyStep (confirmed orphanEnv DefaultLocalPath) (nhist ?s) t" by auto
  with r d h show ?thesis by (intro exI [of _ ?s] exI [of _ s'] exI [of _ t]) simp
qed

end
