(* ===== verification/NodeStaging.thy ===== *)
theory NodeStaging
  imports Obligations
begin

text \<open>
  Staging a local volume (\<^verbatim>\<open>driver/node.go\<close>, \<^verbatim>\<open>driver/node_luks.go\<close>): what \<^verbatim>\<open>NodeStageVolume\<close> may do to the data of
  the volume, and what a successful call has put at the staging path.
\<close>

section \<open>Requests that destroy data\<close>

fun destroys :: "event \<Rightarrow> bool" where
  "destroys (Ran (Cmd name args _) _) = (name \<in> {''fallocate'', ''truncate''} \<or> hasPrefix name ''mkfs'' \<or>
     name = CryptsetupCmd \<and> take 1 args = [''luksFormat''])"
| "destroys (Did f _) = (case f of Remove _ \<Rightarrow> True | RemoveAll _ \<Rightarrow> True | Rename _ _ \<Rightarrow> True | WriteFile _ _ \<Rightarrow> True
     | CreateFile _ \<Rightarrow> True | Truncate _ _ \<Rightarrow> True | _ \<Rightarrow> False)"
| "destroys _ = False"

abbreviation harmless :: "event \<Rightarrow> bool" where
  "harmless e \<equiv> \<not> destroys e"

text \<open>A program ran and did not succeed; a file was found missing, or smaller than the 16 MiB of a LUKS header.\<close>

definition failedProbe :: "cmd \<Rightarrow> hist \<Rightarrow> bool" where
  "failedProbe c t = list_ex (\<lambda>e. case e of Ran c' r \<Rightarrow> c' = c \<and> cmdErr r \<noteq> None | _ \<Rightarrow> False) t"

definition absentOrSmall :: "env \<Rightarrow> string \<Rightarrow> hist \<Rightarrow> hist \<Rightarrow> bool" where
  "absentOrSmall env f h t = (\<exists>u w. t = u @ Asked (QStat f) # w \<and>
     (case stat env (h @ u) f of Inl e \<Rightarrow> e = ENOENT | Inr fi \<Rightarrow> fi_size fi < 16 * 1024 * 1024))"

definition justified :: "env \<Rightarrow> string \<Rightarrow> string \<Rightarrow> hist \<Rightarrow> hist \<Rightarrow> event \<Rightarrow> bool" where
  "justified env backingFile dev h t e = (harmless e \<or>
     (\<exists>pass r. e = Ran (luksFormatCmd backingFile pass) r) \<and> failedProbe (isLuksCmd backingFile) t \<or>
     (\<exists>fs c r. mkfsCmd fs dev = Some c \<and> e = Ran c r) \<and> failedProbe (Cmd ''blkid'' [dev] []) t \<or>
     ((\<exists>r. e = Did (Remove backingFile) r) \<or> (\<exists>sz r. e = Ran (Cmd ''fallocate'' [''-l'', sz, backingFile] []) r) \<or>
      (\<exists>sz r. e = Ran (Cmd ''truncate'' [''-s'', sz, backingFile] []) r)) \<and> absentOrSmall env backingFile h t)"

lemma failedProbe_append [simp]: "failedProbe c (t @ t') = (failedProbe c t \<or> failedProbe c t')"
  by (simp add: failedProbe_def)

lemma absentOrSmall_earlier: "absentOrSmall env f (h @ t) t' \<Longrightarrow> absentOrSmall env f h (t @ t')"
  unfolding absentOrSmall_def by (metis append.assoc)

lemma absentOrSmall_later: "absentOrSmall env f h t \<Longrightarrow> absentOrSmall env f h (t @ t')"
  unfolding absentOrSmall_def by (metis append.assoc append_Cons)

interpretation staging: obligation "justified env backingFile dev" for env backingFile dev
  by unfold_locales (auto simp: justified_def intro: absentOrSmall_earlier absentOrSmall_later)

lemma upholds_harmless: "emits m harmless \<Longrightarrow> staging.upholds env bf dev hist m"
  by (erule staging.upholds_emits) (simp add: justified_def)

lemma looks_harmless: "looks e \<Longrightarrow> harmless e"
  by (cases e) auto

lemmas harmless_looks = emits_weaken [OF _ looks_harmless]

section \<open>Operations that destroy nothing\<close>

lemma opening_harmless: "emits (OpenLUKS env f m pass) harmless" "emits (CloseLUKS env m) harmless" "emits (IsLUKSOpened env m) harmless"
  unfolding OpenLUKS_def CloseLUKS_def IsLUKSOpened_def runCryptsetup_def runBounded_def by (intro emits_rules; simp)+

lemma mountpoint_harmless: "emits (isMountPoint env p) harmless" "emits (isMountedFrom env p d) harmless"
  unfolding isMountPoint_def isMountedFrom_def by (intro emits_rules harmless_looks [OF mount_queries_emit(2)]; simp)+

lemma isVolumeStaged_harmless: "emits (isVolumeStaged env v p) harmless"
  unfolding isVolumeStaged_def Let_def by (intro emits_rules opening_harmless mountpoint_harmless)

lemma secrets_harmless: "emits (getPassphraseFromRequest env v ctx) harmless" "emits (extractFsGroup env ctx cap) harmless"
  unfolding getPassphraseFromRequest_def passphraseOf_def FetchVolumeSecrets_def fetchPassphrase_def fetchS3Config_def Let_def
    extractFsGroup_def extractFsGroupFromPod_def
  by (intro emits_rules harmless_looks [OF getPVByVolumeID_looks] harmless_looks [OF getStorageClassParameters_looks]; simp)+

lemma ownership_harmless: "emits (applyFsGroupPermissions env p g m) harmless"
  unfolding applyFsGroupPermissions_def Let_def by (intro emits_rules) simp_all

lemma mounting_harmless: "emits (mountDevice env d p cap) harmless"
proof -
  have "umounts p e \<Longrightarrow> harmless e" for e by (auto simp: umounts_def dest: looks_harmless)
  then show ?thesis unfolding mountDevice_def
    by (intro emits_rules mountpoint_harmless emits_weaken [OF unmountPath_umounts]) simp_all
qed

section \<open>Operations that ask first\<close>

text \<open>What follows a probe in the same operation may rest on it.\<close>

lemma upholds_probe:
  assumes "\<And>s x s'. run_state m s = (x, s') \<Longrightarrow> \<exists>e. hist s' = hist s @ [e] \<and> harmless e \<and> emits (f x) (justified env bf dev (hist s) [e])"
  shows "staging.upholds env bf dev hist (State_Monad.bind m f)"
proof (rule staging.upholdsI)
  fix s r s' assume r: "run_state (State_Monad.bind m f) s = (r, s')"
  obtain x s1 where x: "run_state m s = (x, s1)" by fastforce
  from assms [OF x] obtain e where e: "hist s1 = hist s @ [e]" "harmless e" "emits (f x) (justified env bf dev (hist s) [e])" by blast
  from r x have "run_state (f x) s1 = (r, s')" by simp
  from emitsD [OF e(3) this] obtain t where t: "hist s' = hist s1 @ t" "list_all (justified env bf dev (hist s) [e]) t" by blast
  from staging.steps_settled [OF t(2)] e(2) have "everyStep (justified env bf dev) (hist s) (e # t)" by (simp add: justified_def)
  with e(1) t(1) show "\<exists>t. hist s' = hist s @ t \<and> everyStep (justified env bf dev) (hist s) t" by auto
qed

lemma upholds_run:
  assumes "\<And>r. harmless (Ran c r)" "\<And>h r. emits (f r) (justified env bf dev h [Ran c r])"
  shows "staging.upholds env bf dev hist (State_Monad.bind (run env c) f)"
  using assms by (intro upholds_probe) auto

lemma upholds_stat:
  assumes "\<And>h. emits (f (stat env h p)) (justified env bf dev h [Asked (QStat p)])"
  shows "staging.upholds env bf dev hist (State_Monad.bind (osStat env p) f)"
  using assms by (intro upholds_probe) auto

lemma emits_harmless_justified: "emits m harmless \<Longrightarrow> emits m (justified env bf dev h t)"
  by (erule emits_weaken) (simp add: justified_def)

lemma FormatAndOpenLUKS_upholds: "staging.upholds env bf dev hist (FormatAndOpenLUKS env bf m pass)"
  unfolding FormatAndOpenLUKS_def
proof (rule upholds_probe)
  fix s x s' assume x: "run_state (IsLUKSDevice env bf) s = (x, s')"
  let ?e = "Ran (isLuksCmd bf) (exec env (hist s) (isLuksCmd bf))"
  let ?J = "justified env bf dev (hist s) [?e]"
  have "emits (runCryptsetup env pass [''luksFormat'', ''--batch-mode'', bf]) ?J" if "\<not> x"
  proof -
    from that x have "failedProbe (isLuksCmd bf) [?e]"
      by (auto simp: run_IsLUKSDevice failedProbe_def split: cmdres.splits)
    then show ?thesis unfolding runCryptsetup_def runBounded_def by (intro emits_rules) (auto simp: justified_def)
  qed
  then have "emits (if x then OpenLUKS env bf m pass else orFail (runCryptsetup env pass [''luksFormat'', ''--batch-mode'', bf])
      (WrapV ''luksFormat'') (OpenLUKS env bf m pass)) ?J"
    by (intro emits_rules emits_harmless_justified [OF opening_harmless(1)])
  moreover have "hist s' = hist s @ [?e]" using x by (auto simp: run_IsLUKSDevice)
  ultimately show "\<exists>e. hist s' = hist s @ [e] \<and> harmless e \<and> emits (if x then OpenLUKS env bf m pass
      else orFail (runCryptsetup env pass [''luksFormat'', ''--batch-mode'', bf]) (WrapV ''luksFormat'') (OpenLUKS env bf m pass))
      (justified env bf dev (hist s) [e])" by (intro exI [of _ ?e]) simp
qed

lemma formatDevice_upholds: "staging.upholds env bf dev hist (formatDevice env dev cap)"
proof -
  have "justified env bf dev h [Ran (Cmd ''blkid'' [dev] []) x] (Ran c r)" if "cmdErr x \<noteq> None" "mkfsCmd fs dev = Some c" for h x c fs r
    using that by (auto simp: justified_def failedProbe_def)
  then show ?thesis unfolding formatDevice_def
    by (intro staging.upholds_case staging.upholds_ret upholds_run emits_rules) auto
qed

lemma CreateBackingFile_justified:
  assumes "absentOrSmall env bf h t"
  shows "emits (CreateBackingFile env bf sz) (justified env bf dev h t)"
  unfolding CreateBackingFile_def ensureFreeSpace_def using assms by (intro emits_rules) (auto simp: justified_def)

lemma ensureBackingFileExists_upholds: "staging.upholds env bf dev hist (ensureBackingFileExists env n ctx bf)"
proof -
  have a: "absentOrSmall env bf h [Asked (QStat bf)]"
    if "stat env h bf = Inl ENOENT \<or> (\<exists>fi. stat env h bf = Inr fi \<and> fi_size fi < 16 * 1024 * 1024)" for h
    unfolding absentOrSmall_def using that by (intro exI [of _ "[]"]) auto
  show ?thesis unfolding ensureBackingFileExists_def Let_def
    by (intro upholds_stat emits_rules CreateBackingFile_justified a) (auto simp: justified_def intro!: a)
qed

lemma prepareVolumeStaging_upholds:
  assumes "\<not> isS3Backend (sr_context req)" "v = sr_volumeID req"
  shows "staging.upholds env (GenerateBackingFilePath (GetLocalPath env v) v) dev nhist (prepareVolumeStaging env req)"
proof -
  have "emits (fsCall env (MkdirAll p)) harmless" for p by (intro emits_rules) simp
  from upholds_harmless [OF this] show ?thesis unfolding prepareVolumeStaging_def Let_def using assms
    by (auto intro!: staging.upholds_rules staging.upholds_rcl upholds_harmless [OF secrets_harmless(1)] upholds_harmless [OF secrets_harmless(2)]
        ensureBackingFileExists_upholds)
qed

text \<open>What a successful preparation hands on.\<close>

lemma prepareVolumeStaging_params:
  assumes "run_state (prepareVolumeStaging env req) s = (Inr p, s')" "\<not> isS3Backend (sr_context req)" "v = sr_volumeID req"
  shows "sp_backingFile p = GenerateBackingFilePath (GetLocalPath env v) v" "sp_mapperName p = GenerateMapperName v"
    "sp_mappedDevice p = GetMappedDevicePath (GenerateMapperName v)" "sp_stagingTargetPath p = sr_stagingTargetPath req"
    "sp_volumeCapability p = sr_capability req"
  using assms by (auto simp: prepareVolumeStaging_def Let_def split: prod.splits option.splits sum.splits)

lemma stageLUKS_upholds: "staging.upholds env (sp_backingFile p) (sp_mappedDevice p) nhist (stageLUKS env p)"
  unfolding stageLUKS_def setupLUKSDevice_def mountAndConfigureVolume_def
  by (intro staging.upholds_rules staging.upholds_rcl FormatAndOpenLUKS_upholds formatDevice_upholds
      upholds_harmless [OF mounting_harmless] upholds_harmless [OF ownership_harmless] upholds_harmless [OF opening_harmless(2)])


text \<open>A node on which a volume is staged for the first time: no backing file, nothing on the device.\<close>

definition freshEnv :: env where
  "freshEnv = expandEnv\<lparr>
     exec := \<lambda>_ c. if cmdName c = ''blkid'' \<or> take 1 (cmdArgs c) = [''isLuks''] then CmdFail [] [] else CmdOk [],
     stat := \<lambda>h p. if hasSuffix p ''.img'' \<and> list_ex (\<lambda>c. cmdName c = ''fallocate'') (ranCmds h)
                   then Inr \<lparr>fi_size = 1073741824, fi_isdir = False, fi_dev = []\<rparr> else Inl ENOENT\<rparr>"

definition freshRequest :: StageRequest where
  "freshRequest = \<lparr>sr_volumeID = ''v'', sr_stagingTargetPath = ''/stage'',
     sr_capability = Some \<lparr>cap_mount = Some \<lparr>mv_fsType = [], mv_mountGroup = [], mv_flags = []\<rparr>, cap_mode = UNKNOWN\<rparr>,
     sr_context = Map.empty\<rparr>"

lemma fresh_staged: "fst (run_state (NodeStageVolume freshEnv freshRequest) (emptyNs [] ''n'' ''1'' 0 initRc)) = Inr ()"
  by code_simp


section \<open>What a staged volume is\<close>

text \<open>During a call the mapping of the volume was found, or opened from its backing file with a passphrase.\<close>

definition mapped :: "env \<Rightarrow> string \<Rightarrow> hist \<Rightarrow> hist \<Rightarrow> bool" where
  "mapped env v h t = (
     (\<exists>u w fi. t = u @ Asked (QStat (GetMappedDevicePath (GenerateMapperName v))) # w \<and>
        stat env (h @ u) (GetMappedDevicePath (GenerateMapperName v)) = Inr fi) \<or>
     (\<exists>pass out. pass \<noteq> [] \<and> Ran (luksOpenCmd (GenerateBackingFilePath (GetLocalPath env v) v) (GenerateMapperName v) pass) (CmdOk out) \<in> set t))"

text \<open>A device was mounted at a path, or the kernel named it as the source of the mount there.\<close>

definition mountedFrom :: "string \<Rightarrow> string \<Rightarrow> hist \<Rightarrow> bool" where
  "mountedFrom dev p t = (\<exists>e out. e \<in> set t \<and> ((\<exists>args. e = Ran (Cmd ''mount'' (args @ [dev, p]) []) (CmdOk out)) \<or>
     e = Ran (Cmd ''findmnt'' [''-n'', ''-o'', ''SOURCE'', p] []) (CmdOk out) \<and> trimSpace out = dev))"

lemma mapped_earlier: "mapped env v (h @ t) t' \<Longrightarrow> mapped env v h (t @ t')"
  unfolding mapped_def by (metis UnCI append.assoc set_append)

lemma mapped_found:
  "stat env h (GetMappedDevicePath (GenerateMapperName v)) = Inr fi \<Longrightarrow> mapped env v h (Asked (QStat (GetMappedDevicePath (GenerateMapperName v))) # w)"
  unfolding mapped_def by (metis append_Nil append_Nil2)

lemma mapped_opened:
  "pass \<noteq> [] \<Longrightarrow> Ran (luksOpenCmd (GenerateBackingFilePath (GetLocalPath env v) v) (GenerateMapperName v) pass) (CmdOk out) \<in> set t \<Longrightarrow>
    mapped env v h t"
  unfolding mapped_def by blast

lemma mountedFrom_mount: "mountedFrom dev p (t @ [Ran (Cmd ''mount'' (args @ [dev, p]) []) (CmdOk out)])"
  unfolding mountedFrom_def by (rule exI, rule exI [of _ out]) auto

lemma mountedFrom_append: "mountedFrom dev p t \<or> mountedFrom dev p t' \<Longrightarrow> mountedFrom dev p (t @ t')"
  by (auto simp: mountedFrom_def)

lemma OpenLUKS_mapped:
  assumes "run_state (OpenLUKS env (GenerateBackingFilePath (GetLocalPath env v) v) (GenerateMapperName v) pass) s = (None, s')" "pass \<noteq> []"
  shows "\<exists>t. hist s' = hist s @ t \<and> mapped env v (hist s) t"
proof -
  let ?p = "GetMappedDevicePath (GenerateMapperName v)"
  from OpenLUKS_result [OF assms(1)] obtain t where t: "hist s' = hist s @ Asked (QStat ?p) # t"
    "isl (stat env (hist s) ?p) \<longrightarrow> (\<exists>out u. t = u @ [Ran (luksOpenCmd (GenerateBackingFilePath (GetLocalPath env v) v) (GenerateMapperName v) pass) (CmdOk out)])"
    by (auto simp: GetMappedDevicePath_def split: if_splits)
  have "mapped env v (hist s) (Asked (QStat ?p) # t)"
  proof (cases "stat env (hist s) ?p")
    case (Inl e)
    with t(2) obtain out u where
      "t = u @ [Ran (luksOpenCmd (GenerateBackingFilePath (GetLocalPath env v) v) (GenerateMapperName v) pass) (CmdOk out)]" by auto
    with assms(2) show ?thesis by (intro mapped_opened [of pass _ _ out]) simp_all
  next
    case (Inr fi)
    then show ?thesis by (rule mapped_found)
  qed
  with t(1) show ?thesis by blast
qed

lemma FormatAndOpenLUKS_mapped:
  assumes "run_state (FormatAndOpenLUKS env (GenerateBackingFilePath (GetLocalPath env v) v) (GenerateMapperName v) pass) s = (None, s')" "pass \<noteq> []"
  shows "\<exists>t. hist s' = hist s @ t \<and> mapped env v (hist s) t"
proof -
  let ?bf = "GenerateBackingFilePath (GetLocalPath env v) v"
  let ?s1 = "s\<lparr>hist := hist s @ [Ran (isLuksCmd ?bf) (exec env (hist s) (isLuksCmd ?bf))]\<rparr>"
  obtain q s2 where q: "run_state (runCryptsetup env pass [''luksFormat'', ''--batch-mode'', ?bf]) ?s1 = (q, s2)" by fastforce
  from runCryptsetup_trace [of env pass "[''luksFormat'', ''--batch-mode'', ?bf]" ?s1] q obtain t where "hist s2 = hist ?s1 @ t" by auto
  moreover have "run_state (OpenLUKS env ?bf (GenerateMapperName v) pass) ?s1 = (None, s') \<or>
      run_state (OpenLUKS env ?bf (GenerateMapperName v) pass) s2 = (None, s')"
    using assms(1) q by (auto simp: FormatAndOpenLUKS_def run_IsLUKSDevice split: if_splits option.splits)
  moreover have "\<exists>t. hist s' = hist s @ t \<and> mapped env v (hist s) t"
    if "run_state (OpenLUKS env ?bf (GenerateMapperName v) pass) a = (None, s')" "hist a = hist s @ u" for a u
    using OpenLUKS_mapped [OF that(1) assms(2)] that(2) mapped_earlier [of env v "hist s" u] by auto
  ultimately show ?thesis by auto
qed

lemma mountDevice_mounts:
  assumes "run_state (mountDevice env dev p cap) s = (None, s')"
  shows "\<exists>t. hist s' = hist s @ t \<and> mountedFrom dev p t"
proof -
  from assms obtain m where m: "mountOf cap = Some m" by (auto simp: mountDevice_def split: option.splits)
  obtain b s1 where b: "run_state (isMountPoint env p) s = (b, s1)" by fastforce
  from emitsD [OF mountpoint_harmless(1) b] obtain t1 where t1: "hist s1 = hist s @ t1" by blast
  define x where "x = exec env (hist s1) (Cmd ''findmnt'' [''-n'', ''-o'', ''SOURCE'', p] [])"
  define s2 where "s2 = (if b then s1\<lparr>hist := hist s1 @ [Ran (Cmd ''findmnt'' [''-n'', ''-o'', ''SOURCE'', p] []) x]\<rparr> else s1)"
  obtain t2 where t2: "hist s2 = hist s1 @ t2" by (cases b) (simp_all add: s2_def)
  show ?thesis
  proof (cases "b \<and> cmdErr x = None \<and> trimSpace (cmdOut x) = dev")
    case True
    then have "s' = s2" using assms m b by (auto simp: mountDevice_def isMountedFrom_def s2_def x_def)
    with True t1 show ?thesis by (auto simp: s2_def mountedFrom_def cmdOut_def)
  next
    case False
    obtain q s3 where q: "run_state (if b then unmountPath env p else ret None) s2 = (q, s3)" by fastforce
    have "emits (if b then unmountPath env p else ret None) (umounts p)" by (intro emits_rules unmountPath_umounts)
    from emitsD [OF this q] obtain t3 where t3: "hist s3 = hist s2 @ t3" by blast
    define k where "k = Did (MkdirAll p) (fsDo env (hist s3) (MkdirAll p))"
    define c where "c = Cmd ''mount'' (([''-t'', fsTypeOf m] @ (if mv_flags m \<noteq> [] then [''-o'', joinStr '','' (mv_flags m)] else [])) @ [dev, p]) []"
    from assms m b False q have "\<exists>out. hist s' = hist s3 @ [k, Ran c (CmdOk out)]"
      by (cases b) (auto simp: mountDevice_def isMountedFrom_def s2_def x_def k_def c_def split: if_splits option.splits)
    then obtain out where "hist s' = hist s @ (t1 @ t2 @ t3 @ [k]) @ [Ran c (CmdOk out)]" using t1 t2 t3 by auto
    then show ?thesis unfolding c_def using mountedFrom_mount by blast
  qed
qed

lemma isVolumeStaged_staged:
  assumes "run_state (isVolumeStaged env v p) s = (True, s')"
  shows "\<exists>t1 t2. hist s' = hist s @ t1 @ t2 \<and> mapped env v (hist s) t1 \<and> mountedFrom (GetMappedDevicePath (GenerateMapperName v)) p t2"
proof -
  let ?d = "GetMappedDevicePath (GenerateMapperName v)"
  let ?s1 = "s\<lparr>hist := hist s @ [Asked (QStat ?d)]\<rparr>"
  obtain b s2 where b: "run_state (isMountPoint env p) ?s1 = (b, s2)" by fastforce
  from emitsD [OF mountpoint_harmless(1) b] obtain t1 where t1: "hist s2 = hist s @ Asked (QStat ?d) # t1" by auto
  define x where "x = exec env (hist s2) (Cmd ''findmnt'' [''-n'', ''-o'', ''SOURCE'', p] [])"
  define e where "e = Ran (Cmd ''findmnt'' [''-n'', ''-o'', ''SOURCE'', p] []) x"
  have x: "\<not> isl (stat env (hist s) ?d)" "cmdErr x = None" "trimSpace (cmdOut x) = ?d" "hist s' = hist s2 @ [e]"
    using assms b by (auto simp: isVolumeStaged_def isMountedFrom_def Let_def GetMappedDevicePath_def x_def e_def split: if_splits)
  have "mountedFrom ?d p [e]" using x(2,3) by (auto simp: mountedFrom_def e_def cmdOut_def)
  moreover have "mapped env v (hist s) (Asked (QStat ?d) # t1)" using x(1) mapped_found by (metis sum.collapse(2))
  ultimately show ?thesis using t1 x(4) by (intro exI [of _ "Asked (QStat ?d) # t1"] exI [of _ "[e]"]) simp
qed

lemma mountAndConfigureVolume_mounts:
  fixes s :: "'s mnt_scheme"
  assumes "run_state (mountAndConfigureVolume env p) s = (None, s')"
  shows "\<exists>t. hist s' = hist s @ t \<and> mountedFrom (sp_mappedDevice p) (sp_stagingTargetPath p) t"
proof -
  obtain q s1 where q: "run_state (formatDevice env (sp_mappedDevice p) (sp_volumeCapability p)) s = (q, s1)" by fastforce
  from staging.upholdsD [OF formatDevice_upholds q] obtain t1 where t1: "hist s1 = hist s @ t1" by blast
  obtain x s2 where x: "run_state (mountDevice env (sp_mappedDevice p) (sp_stagingTargetPath p) (sp_volumeCapability p)) s1 = (x, s2)" by fastforce
  from assms q x have none: "x = None" by (auto simp: mountAndConfigureVolume_def split: option.splits)
  with mountDevice_mounts x obtain t2 where t2: "hist s2 = hist s1 @ t2" "mountedFrom (sp_mappedDevice p) (sp_stagingTargetPath p) t2" by blast
  define k :: "('s mnt_scheme, goerr option) state" where "k = (case sp_fsGroup p of None \<Rightarrow> ret None
    | Some g \<Rightarrow> orFail (applyFsGroupPermissions env (sp_stagingTargetPath p) g (sp_fsMode p)) (WrapV ''fsGroup'') (ret None))"
  have "emits k harmless" unfolding k_def by (intro emits_rules ownership_harmless)
  moreover have "run_state k s2 = (None, s')" using assms q x none by (auto simp: mountAndConfigureVolume_def k_def split: option.splits)
  ultimately obtain t3 where "hist s' = hist s2 @ t3" by (blast dest: emitsD)
  with t1 t2 mountedFrom_append show ?thesis by (intro exI [of _ "t1 @ t2 @ t3"]) auto
qed

lemma stageLUKS_staged:
  assumes "run_state (stageLUKS env p) s = (Inr (), s')" "sp_passphrase p \<noteq> []" "sp_mapperName p = GenerateMapperName v"
    "sp_backingFile p = GenerateBackingFilePath (GetLocalPath env v) v"
  shows "\<exists>t1 t2. nhist s' = nhist s @ t1 @ t2 \<and> mapped env v (nhist s) t1 \<and> mountedFrom (sp_mappedDevice p) (sp_stagingTargetPath p) t2"
proof -
  obtain q b where q: "run_state (setupLUKSDevice env p) (base s) = (q, b)" by fastforce
  with assms(1) have n: "q = None" by (auto simp: stageLUKS_def checkE_def split: option.splits)
  obtain m c where m: "run_state (mountAndConfigureVolume env p) b = (m, c)" by fastforce
  with assms(1) q n have "m = None" "base s' = c" by (auto simp: stageLUKS_def checkE_def split: option.splits prod.splits)
  moreover from n q assms(2-4) FormatAndOpenLUKS_mapped [of env v "sp_passphrase p" "base s" b] obtain t1 where
    "hist b = nhist s @ t1" "mapped env v (nhist s) t1" by (auto simp: setupLUKSDevice_def)
  ultimately show ?thesis using mountAndConfigureVolume_mounts [of env p b c] m by auto
qed

lemma passphrases_nonempty:
  "run_state (passphraseOf env sc ctx) s = (Inr pw, s') \<Longrightarrow> pw \<noteq> []"
  "run_state (getPassphraseFromRequest env v ctx) s = (Inr pw, s') \<Longrightarrow> pw \<noteq> []"
  "run_state (getPassphraseForRestore env v ctx) s = (Inr pw, s') \<Longrightarrow> pw \<noteq> []"
proof -
  show p: "pw \<noteq> []" if "run_state (passphraseOf env sc ctx) s = (Inr pw, s')" for pw sc ctx and s s' :: "'s os_scheme"
    using that by (auto simp: passphraseOf_def split: prod.splits sum.splits if_splits)
  show "run_state (getPassphraseFromRequest env v ctx) s = (Inr pw, s') \<Longrightarrow> pw \<noteq> []"
    "run_state (getPassphraseForRestore env v ctx) s = (Inr pw, s') \<Longrightarrow> pw \<noteq> []"
    using p by (fastforce simp: getPassphraseFromRequest_def getPassphraseForRestore_def split: prod.splits sum.splits)+
qed

lemma prepareVolumeStaging_passphrase:
  assumes "run_state (prepareVolumeStaging env req) s = (Inr p, s')" "\<not> isS3Backend (sr_context req)"
  shows "sp_passphrase p \<noteq> []"
  using assms passphrases_nonempty(2) by (fastforce simp: prepareVolumeStaging_def Let_def split: prod.splits option.splits sum.splits)

text \<open>
  C7: A staged local volume is an encrypted one. When \<^verbatim>\<open>NodeStageVolume\<close> succeeds on a volume that is not an S3 volume, then during the call the LUKS
  mapping of the volume was found, or opened from its own backing file with a passphrase that is not empty, and after that the device of
  this very mapping was mounted at the staging path, or found to be the source of the mount there.
\<close>

theorem NodeStageVolume_encrypted:
  assumes "\<not> isS3Backend (sr_context req)" "run_state (NodeStageVolume env req) s = (Inr (), s')"
  shows "\<exists>t0 t1 t2. nhist s' = nhist s @ t0 @ t1 @ t2 \<and> mapped env (sr_volumeID req) (nhist s @ t0) t1 \<and>
    mountedFrom (GetMappedDevicePath (GenerateMapperName (sr_volumeID req))) (sr_stagingTargetPath req) t2"
proof -
  let ?v = "sr_volumeID req" and ?p = "sr_stagingTargetPath req"
  let ?d = "GetMappedDevicePath (GenerateMapperName ?v)"
  obtain b b1 where b: "run_state (isVolumeStaged env ?v ?p) (base s) = (b, b1)" by fastforce
  let ?s1 = "s\<lparr>base := b1\<rparr>"
  have a: "run_state (isAlreadyStaged env ?v ?p (sr_context req)) s = (Inr b, ?s1)"
    using b assms(1) by (simp add: isAlreadyStaged_def)
  have val: "validateStageVolumeRequest req = None" using assms(2) by (auto simp: NodeStageVolume_def split: option.splits)
  show ?thesis
  proof (cases b)
    case True
    with assms(2) val a have "base s' = b1" by (auto simp: NodeStageVolume_def)
    with isVolumeStaged_staged [of env ?v ?p "base s" b1] b True obtain t1 t2 where
      "nhist s' = nhist s @ [] @ t1 @ t2" "mapped env ?v (nhist s @ []) t1" "mountedFrom ?d ?p t2" by auto
    then show ?thesis by blast
  next
    case False
    obtain q s2 where q: "run_state (prepareVolumeStaging env req) ?s1 = (q, s2)" by fastforce
    with assms val a False obtain p where p: "q = Inr p" "run_state (stageLUKS env p) s2 = (Inr (), s')"
      by (auto simp: NodeStageVolume_def split: sum.splits)
    note f = prepareVolumeStaging_params [OF q [unfolded p(1)] assms(1) refl]
    from staging.upholdsD [OF prepareVolumeStaging_upholds [OF assms(1) refl] q] obtain t where t: "nhist s2 = hist b1 @ t" by auto
    from emitsD [OF isVolumeStaged_harmless b] obtain t' where t': "hist b1 = nhist s @ t'" by blast
    from stageLUKS_staged [OF p(2) prepareVolumeStaging_passphrase [OF q [unfolded p(1)] assms(1)] f(2,1)] f(3,4) t t'
    obtain t1 t2 where "nhist s' = nhist s @ (t' @ t) @ t1 @ t2" "mapped env ?v (nhist s @ (t' @ t)) t1" "mountedFrom ?d ?p t2" by auto
    then show ?thesis by blast
  qed
qed

theorem NodeStageVolume_encrypted_witness:
  "\<exists>s s' t0 t1 t2. run_state (NodeStageVolume freshEnv freshRequest) s = (Inr (), s') \<and> nhist s' = nhist s @ t0 @ t1 @ t2 \<and>
     mapped freshEnv ''v'' (nhist s @ t0) t1 \<and> mountedFrom (GetMappedDevicePath (GenerateMapperName ''v'')) ''/stage'' t2"
proof -
  let ?s = "emptyNs [] ''n'' ''1'' 0 initRc"
  obtain s' where r: "run_state (NodeStageVolume freshEnv freshRequest) ?s = (Inr (), s')" using fresh_staged by (metis prod.collapse)
  have l: "\<not> isS3Backend (sr_context freshRequest)" by code_simp
  from NodeStageVolume_encrypted [OF l r] r show ?thesis by (fastforce simp: freshRequest_def)
qed

section \<open>Publishing a local volume\<close>

definition bound :: "string \<Rightarrow> string \<Rightarrow> hist \<Rightarrow> bool" where
  "bound p q t = list_ex (\<lambda>e. case e of
     Ran c (CmdOk _) \<Rightarrow> c = Cmd ''nsenter'' [''-t'', ''1'', ''-m'', ''-u'', ''mount'', ''--bind'', p, q] [] | _ \<Rightarrow> False) t"

lemma restore_passphrase_harmless: "emits (getPassphraseForRestore env v ctx) harmless"
  using secrets_harmless(1) [of env v ctx] by (simp add: getPassphraseForRestore_def getPassphraseFromRequest_def)

lemma restore_harmless: "emits (restoreLUKSVolumeStaging env v p ctx) harmless"
  unfolding restoreLUKSVolumeStaging_def restoreLUKSDeviceAndMount_def Let_def
  by (intro emits_rules opening_harmless mounting_harmless secrets_harmless(2) ownership_harmless restore_passphrase_harmless) simp_all

lemma bindMount_harmless: "emits (bindMount env p q ro) harmless"
  unfolding bindMount_def runCmdBounded_def runCmdBoundedOutput_def by (intro emits_rules) simp_all

lemma NodePublishVolume_harmless:
  assumes "\<not> isS3Backend (pr_context req)"
  shows "emitsN (NodePublishVolume env req) harmless"
proof -
  have "emitsN (ensureVolumeStaged env req) harmless" using assms unfolding ensureVolumeStaged_def
    by (auto intro!: emitsN_rules emitsN_rcl isVolumeStaged_harmless restore_harmless)
  then show ?thesis using assms unfolding NodePublishVolume_def publish_def checkE_def
    by (auto intro!: emitsN_rules emitsN_rcl secrets_harmless(2) ownership_harmless bindMount_harmless split: option.split)
qed

lemma bindMount_binds:
  assumes "run_state (bindMount env p q ro) s = (None, s')"
  shows "\<exists>t. hist s' = hist s @ t \<and> bound p q t"
  using assms by (auto simp: bindMount_def run_runCmdBounded bound_def split: if_splits option.splits)

lemma restoreDevice_staged:
  fixes s :: "'s mnt_scheme"
  assumes "run_state (restoreLUKSDeviceAndMount env v (GenerateBackingFilePath (GetLocalPath env v) v) p pw ctx) s = (None, s')" "pw \<noteq> []"
  shows "\<exists>t1 t2. hist s' = hist s @ t1 @ t2 \<and> mapped env v (hist s) t1 \<and> mountedFrom (GetMappedDevicePath (GenerateMapperName v)) p t2"
proof -
  let ?d = "GetMappedDevicePath (GenerateMapperName v)"
  let ?c = "Some \<lparr>cap_mount = Some \<lparr>mv_fsType = ''ext4'', mv_mountGroup = [], mv_flags = []\<rparr>, cap_mode = UNKNOWN\<rparr>"
  obtain q s1 where q: "run_state (OpenLUKS env (GenerateBackingFilePath (GetLocalPath env v) v) (GenerateMapperName v) pw) s = (q, s1)" by fastforce
  with assms(1) have n: "q = None" by (auto simp: restoreLUKSDeviceAndMount_def Let_def split: option.splits)
  obtain m s2 where m: "run_state (mountDevice env ?d p ?c) s1 = (m, s2)" by fastforce
  define k :: "('s mnt_scheme, goerr option) state" where "k = do {
    g \<leftarrow> extractFsGroup env ctx None;
    (case g of None \<Rightarrow> ret None
     | Some i \<Rightarrow> orFail (applyFsGroupPermissions env p i (extractFsMode ctx)) (WrapV ''fsGroup'') (ret None)) }"
  from assms(1) q n m have k: "m = None" "run_state k s2 = (None, s')"
    by (auto simp: restoreLUKSDeviceAndMount_def Let_def k_def split: option.splits prod.splits)
  have "emits k harmless" unfolding k_def by (intro emits_rules secrets_harmless(2) ownership_harmless)
  from emitsD [OF this k(2)] obtain t3 where "hist s' = hist s2 @ t3" by blast
  moreover from OpenLUKS_mapped [OF q [unfolded n] assms(2)] obtain t1 where "hist s1 = hist s @ t1" "mapped env v (hist s) t1" by blast
  moreover from mountDevice_mounts [OF m [unfolded k(1)]] obtain t2 where "hist s2 = hist s1 @ t2" "mountedFrom ?d p t2" by blast
  ultimately show ?thesis using mountedFrom_append by (intro exI [of _ t1] exI [of _ "t2 @ t3"]) auto
qed

lemma restore_staged:
  fixes s :: "'s mnt_scheme"
  assumes "run_state (restoreLUKSVolumeStaging env v p ctx) s = (None, s')"
  shows "\<exists>t0 t1 t2. hist s' = hist s @ t0 @ t1 @ t2 \<and> mapped env v (hist s @ t0) t1 \<and> mountedFrom (GetMappedDevicePath (GenerateMapperName v)) p t2"
proof -
  let ?bf = "GenerateBackingFilePath (GetLocalPath env v) v"
  let ?s1 = "s\<lparr>hist := hist s @ [Asked (QStat ?bf)]\<rparr>"
  obtain q s2 where q: "run_state (getPassphraseForRestore env v ctx) ?s1 = (q, s2)" by fastforce
  from assms q obtain pw where pw: "q = Inr pw" "run_state (restoreLUKSDeviceAndMount env v ?bf p pw ctx) s2 = (None, s')"
    by (auto simp: restoreLUKSVolumeStaging_def Let_def split: if_splits sum.splits option.splits prod.splits)
  from emitsD [OF restore_passphrase_harmless q] obtain t where t: "hist s2 = hist s @ Asked (QStat ?bf) # t" by auto
  from restoreDevice_staged [OF pw(2) passphrases_nonempty(3) [OF q [unfolded pw(1)]]] t obtain t1 t2 where
    "hist s' = hist s @ (Asked (QStat ?bf) # t) @ t1 @ t2" "mapped env v (hist s @ (Asked (QStat ?bf) # t)) t1"
    "mountedFrom (GetMappedDevicePath (GenerateMapperName v)) p t2" by auto
  then show ?thesis by blast
qed

lemma ensureVolumeStaged_local:
  assumes "run_state (ensureVolumeStaged env req) s = (None, s')" "\<not> isS3Backend (pr_context req)"
  shows "\<exists>t0 t1 t2. nhist s' = nhist s @ t0 @ t1 @ t2 \<and> mapped env (pr_volumeID req) (nhist s @ t0) t1 \<and>
    mountedFrom (GetMappedDevicePath (GenerateMapperName (pr_volumeID req))) (pr_stagingTargetPath req) t2"
proof -
  let ?v = "pr_volumeID req" and ?p = "pr_stagingTargetPath req"
  obtain b b1 where b: "run_state (isVolumeStaged env ?v ?p) (base s) = (b, b1)" by fastforce
  from emitsD [OF isVolumeStaged_harmless b] obtain t where t: "hist b1 = nhist s @ t" by blast
  show ?thesis
  proof (cases b)
    case True
    with assms b have "base s' = b1" by (auto simp: ensureVolumeStaged_def)
    with isVolumeStaged_staged [of env ?v ?p "base s" b1] b True show ?thesis by (metis append_Nil append_Nil2)
  next
    case False
    with assms b have "run_state (restoreLUKSVolumeStaging env ?v ?p (pr_context req)) b1 = (None, base s')"
      by (auto simp: ensureVolumeStaged_def split: prod.splits)
    from restore_staged [OF this] t obtain t0 t1 t2 where "nhist s' = nhist s @ (t @ t0) @ t1 @ t2" "mapped env ?v (nhist s @ (t @ t0)) t1"
      "mountedFrom (GetMappedDevicePath (GenerateMapperName ?v)) ?p t2" by auto
    then show ?thesis by blast
  qed
qed

lemma publish_local:
  assumes "run_state (publish env req g) s = (Inr (), s')" "\<not> isS3Backend (pr_context req)"
  shows "\<exists>t0 t1 t2 t3. nhist s' = nhist s @ t0 @ t1 @ t2 @ t3 \<and> mapped env (pr_volumeID req) (nhist s @ t0) t1 \<and>
    mountedFrom (GetMappedDevicePath (GenerateMapperName (pr_volumeID req))) (pr_stagingTargetPath req) t2 \<and>
    bound (pr_stagingTargetPath req) (pr_targetPath req) t3"
proof -
  let ?p = "pr_stagingTargetPath req"
  obtain q s1 where q: "run_state (ensureVolumeStaged env req) s = (q, s1)" by fastforce
  with assms(1) have n: "q = None" by (auto simp: publish_def split: option.splits)
  from ensureVolumeStaged_local [OF q [unfolded n] assms(2)] obtain t0 t1 t2 where t: "nhist s1 = nhist s @ t0 @ t1 @ t2"
    "mapped env (pr_volumeID req) (nhist s @ t0) t1" "mountedFrom (GetMappedDevicePath (GenerateMapperName (pr_volumeID req))) ?p t2" by blast
  define k where "k = (case g of None \<Rightarrow> ret ()
    | Some i \<Rightarrow> do { _ \<leftarrow> rcl (applyFsGroupPermissions env ?p i (extractFsMode (pr_context req))); ret () })"
  obtain u s2 where k: "run_state k s1 = (u, s2)" by (metis prod.collapse)
  have "emitsN k harmless" unfolding k_def by (intro emitsN_rules emitsN_rcl ownership_harmless)
  from emitsND [OF this k] obtain t3 where t3: "nhist s2 = nhist s1 @ t3" by blast
  from assms q n k have "run_state (bindMount env ?p (pr_targetPath req) (pr_readonly req)) (base s2) = (None, base s')"
    by (auto simp: publish_def k_def split: option.splits prod.splits)
  from bindMount_binds [OF this] obtain t4 where t4: "nhist s' = nhist s2 @ t4" "bound ?p (pr_targetPath req) t4" by blast
  have "nhist s' = nhist s @ t0 @ t1 @ t2 @ (t3 @ t4)" using t t3 t4 by simp
  moreover have "bound ?p (pr_targetPath req) (t3 @ t4)" using t4(2) by (simp add: bound_def)
  ultimately show ?thesis using t by blast
qed

text \<open>
  C8: A pod gets the encrypted volume, and nothing is destroyed on the way. While a local volume is published, also when its staging has to be
  restored after a reboot, nothing is formatted, allocated, removed or overwritten. When the request succeeds, then in this order the
  LUKS mapping of the volume was found or opened from its own backing file with a passphrase that is not empty, its device was mounted at the
  staging path or found to be the source there, and the staging path was bound to the path of the pod.
\<close>

theorem NodePublishVolume_encrypted:
  assumes "\<not> isS3Backend (pr_context req)" "run_state (NodePublishVolume env req) s = (r, s')"
  shows "\<exists>t. nhist s' = nhist s @ t \<and> list_all harmless t \<and> (r = Inr () \<longrightarrow>
    (\<exists>t0 t1 t2 t3. t = t0 @ t1 @ t2 @ t3 \<and> mapped env (pr_volumeID req) (nhist s @ t0) t1 \<and>
       mountedFrom (GetMappedDevicePath (GenerateMapperName (pr_volumeID req))) (pr_stagingTargetPath req) t2 \<and>
       bound (pr_stagingTargetPath req) (pr_targetPath req) t3))"
proof -
  let ?v = "pr_volumeID req" and ?p = "pr_stagingTargetPath req"
  from emitsND [OF NodePublishVolume_harmless [OF assms(1)] assms(2)] obtain t where t: "nhist s' = nhist s @ t" "list_all harmless t" by blast
  have "\<exists>t0 t1 t2 t3. nhist s' = nhist s @ t0 @ t1 @ t2 @ t3 \<and> mapped env ?v (nhist s @ t0) t1 \<and>
       mountedFrom (GetMappedDevicePath (GenerateMapperName ?v)) ?p t2 \<and> bound ?p (pr_targetPath req) t3" if "r = Inr ()"
  proof -
    obtain g b where g: "run_state (extractFsGroup env (pr_context req) (pr_capability req)) (base s) = (g, b)" by fastforce
    from emitsD [OF secrets_harmless(2) g] obtain u where u: "hist b = nhist s @ u" by blast
    from assms that g have "run_state (publish env req g) (s\<lparr>base := b\<rparr>) = (Inr (), s')"
      by (auto simp: NodePublishVolume_def split: option.splits)
    from publish_local [OF this assms(1)] u obtain t0 t1 t2 t3 where "nhist s' = nhist s @ (u @ t0) @ t1 @ t2 @ t3"
      "mapped env ?v (nhist s @ (u @ t0)) t1" "mountedFrom (GetMappedDevicePath (GenerateMapperName ?v)) ?p t2" "bound ?p (pr_targetPath req) t3"
      by auto
    then show ?thesis by blast
  qed
  with t show ?thesis by auto
qed

text \<open>The volume of that node is published after a reboot: the backing file is there, the mapping is not.\<close>

definition rebootEnv :: env where
  "rebootEnv = freshEnv\<lparr>exec := \<lambda>_ _. CmdOk [],
     stat := \<lambda>_ p. if hasSuffix p ''.img'' then Inr \<lparr>fi_size = 1073741824, fi_isdir = False, fi_dev = []\<rparr> else Inl ENOENT\<rparr>"

definition rebootRequest :: PublishRequest where
  "rebootRequest = \<lparr>pr_volumeID = ''v'', pr_stagingTargetPath = ''/stage'', pr_targetPath = ''/pod'', pr_capability = None,
     pr_context = Map.empty, pr_readonly = False\<rparr>"

theorem NodePublishVolume_encrypted_witness:
  "\<exists>s s' t0 t1 t2 t3. run_state (NodePublishVolume rebootEnv rebootRequest) s = (Inr (), s') \<and> nhist s' = nhist s @ t0 @ t1 @ t2 @ t3 \<and>
     mapped rebootEnv ''v'' (nhist s @ t0) t1 \<and> mountedFrom (GetMappedDevicePath (GenerateMapperName ''v'')) ''/stage'' t2 \<and> bound ''/stage'' ''/pod'' t3"
proof -
  let ?s = "emptyNs [] ''n'' ''1'' 0 initRc"
  have "fst (run_state (NodePublishVolume rebootEnv rebootRequest) ?s) = Inr ()" by code_simp
  then obtain s' where r: "run_state (NodePublishVolume rebootEnv rebootRequest) ?s = (Inr (), s')" by (metis prod.collapse)
  have l: "\<not> isS3Backend (pr_context rebootRequest)" by code_simp
  have q: "pr_volumeID rebootRequest = ''v''" "pr_stagingTargetPath rebootRequest = ''/stage''" "pr_targetPath rebootRequest = ''/pod''"
    by (simp_all add: rebootRequest_def)
  from NodePublishVolume_encrypted [OF l r, unfolded q] r show ?thesis by blast
qed

text \<open>
  The restore after a reboot does not know the file system of the volume: whatever was made when the volume was first staged, every
  mount it runs asks for ext4, so a volume with ext3 or xfs is not restored by a kernel that takes the type at its word.
\<close>

definition mountsExt4 :: "event \<Rightarrow> bool" where
  "mountsExt4 e = (case e of Ran c _ \<Rightarrow> cmdName c = ''mount'' \<longrightarrow> take 2 (cmdArgs c) = [''-t'', ''ext4''] | _ \<Rightarrow> True)"

lemma looks_mountsExt4: "looks e \<Longrightarrow> mountsExt4 e"
  by (cases e) (auto simp: mountsExt4_def)

lemma restore_assumes_ext4: "emits (restoreLUKSVolumeStaging env v p ctx) mountsExt4"
proof -
  note l = emits_weaken [OF _ looks_mountsExt4]
  have "umounts p e \<Longrightarrow> mountsExt4 e" for e by (auto simp: umounts_def mountsExt4_def dest: looks_mountsExt4)
  note u = emits_weaken [OF unmountPath_umounts this]
  show ?thesis
    unfolding restoreLUKSVolumeStaging_def restoreLUKSDeviceAndMount_def Let_def mountDevice_def isMountPoint_def isMountedFrom_def
      OpenLUKS_def CloseLUKS_def IsLUKSOpened_def runCryptsetup_def runBounded_def getPassphraseForRestore_def passphraseOf_def
      FetchVolumeSecrets_def fetchPassphrase_def fetchS3Config_def extractFsGroup_def extractFsGroupFromPod_def applyFsGroupPermissions_def
    by (intro emits_rules u l [OF mount_queries_emit(2)] l [OF getPVByVolumeID_looks] l [OF getStorageClassParameters_looks])
       (auto simp: mountsExt4_def mountOf_def fsTypeOf_def)
qed

end
