(* ===== verification/NodeChecker.thy ===== *)
theory NodeChecker
  imports NodeSafety
begin

text \<open>
  The stale-mount checker (\<^verbatim>\<open>cleanupStaleS3Mounts\<close> in \<^verbatim>\<open>driver/node_s3.go\<close>) is the only part of the driver that tears down mounts nobody
  asked it to touch. Here: it only looks, until it has proof that a mount is dead or missing.
\<close>

section \<open>Looking\<close>

text \<open>
  Requests that disturb nobody: queries, the listing of rclone's VFS registry (with the option that the first call into rclone sets), and
  resolving kubelet's directory.
\<close>

definition watching :: "event \<Rightarrow> bool" where
  "watching e = (looks e \<or> (\<exists>p y. e = RpcCalled ''vfs/list'' p y) \<or> (\<exists>y. e = RpcCalled (fst optionsCall) (snd optionsCall) y) \<or>
     (\<exists>r. e = Ran (Cmd ''nsenter'' [''-t'', ''1'', ''-m'', ''-u'', ''readlink'', ''-f'', DefaultKubeletRoot] []) r))"

lemma watching_simps [simp]:
  "watching (Asked q)" "watching (Kube k)" "watching (RpcCalled ''vfs/list'' p y)"
  "watching (Ran (Cmd ''nsenter'' [''-t'', ''1'', ''-m'', ''-u'', ''readlink'', ''-f'', DefaultKubeletRoot] []) r)"
  by (simp_all add: watching_def)

lemma looks_watching: "looks e \<Longrightarrow> watching e"
  by (simp add: watching_def)

lemma watching_looks: "emits m looks \<Longrightarrow> emits m watching"
  by (erule emits_weaken) (rule looks_watching)

lemma emitsN_modS: "(\<And>s. base (f s) = base s) \<Longrightarrow> emitsN (modS f) P"
  by (rule emitsN_keep) simp

lemma statfsBounded_watching: "emitsN (statfsBounded env p) watching"
  unfolding statfsBounded_def probeInFlight_def awaitStatfs_def dropStatfsProbe_def whenS_def
  by (intro emitsN_rules emitsN_modS emitsN_rcl emits_rules emits_askS) simp_all

lemma probeMountReads_watching: "emits (probeMountReads env p) watching"
proof -
  have e: "emits (probeEntries env d n es) watching" for d n es
    by (induction es arbitrary: n) (auto simp: Let_def intro!: emits_rules)
  have d: "emits (probeDirs env n ds) watching" for n ds
    by (induction ds arbitrary: n) (auto intro!: emits_rules e split: probeRes.split)
  have "emits (probeLevels env k ds) watching" for k ds
    by (induction k arbitrary: ds) (auto intro!: emits_rules d split: probeRes.split)
  then show ?thesis unfolding probeMountReads_def by (intro emits_rules)
qed

lemma mountVFSResponsive_watching: "emitsN (mountVFSResponsive env p) watching"
proof -
  have o: "emitsN (case r of Blocked \<Rightarrow> ret True | Done e \<Rightarrow> do { dropVfsProbe p; ret (e = None) }) watching" for r :: "errno option outcome"
    unfolding dropVfsProbe_def by (cases r) (auto intro!: emitsN_rules emitsN_modS)
  show ?thesis unfolding mountVFSResponsive_def dropVfsProbe_def [symmetric]
    by (intro emitsN_rules o emitsN_rcl [OF probeMountReads_watching] emitsN_rcl emits_rules) (simp_all add: dropVfsProbe_def emitsN_modS)
qed

lemma lookups_watch:
  "emitsN (getVolumeIDFromVolData env d) watching" "emitsN (isFUSEMountPoint env p) watching" "emitsN (expectedFSName env v) watching"
  "emitsN (getS3VolumeContext env v) watching" "emitsN (resolveVolumeRefs env v) watching" "emitsN (podsUsingPVC env n c) watching"
  "emitsN (nodeIOStalled env) watching" "emitsN (csiPluginPath env) watching"
proof -
  show "emitsN (csiPluginPath env) watching"
    unfolding csiPluginPath_def resolveKubeletRoot_def Let_def runCmdBoundedOutput_def
    by (intro emitsN_rules emitsN_modS emitsN_rcl emits_rules) simp_all
  show "emitsN (expectedFSName env v) watching" unfolding expectedFSName_def managerOf_def FSNameForVolume_def LoadVFSNameMap_def
    by (intro emitsN_rules emitsN_rcl emits_rules) simp_all
qed (unfold getVolumeIDFromVolData_def volHandle_def isFUSEMountPoint_def getS3VolumeContext_def resolveVolumeRefs_def podsUsingPVC_def nodeIOStalled_def,
   (intro emitsN_rules emitsN_rcl emits_rules watching_looks [OF mount_queries_emit(4)] watching_looks [OF getPVByVolumeID_looks]; simp)+)

lemma vfsRegistryMissing_watching: "emitsN (vfsRegistryMissing env d names) watching"
  unfolding vfsRegistryMissing_def setStrikes_def Let_def isVolumeSetupInProgress_def isBackgroundDraining_def
  by (intro emitsN_rules emitsN_modS lookups_watch) simp_all

lemma inspectMount_watching: "emitsN (inspectMount env names d p) watching"
  unfolding inspectMount_def Let_def
  by (intro emitsN_rules statfsBounded_watching lookups_watch vfsRegistryMissing_watching mountVFSResponsive_watching)

lemma RegisteredVFSNames_watching: "emits (RegisteredVFSNames env) watching"
  unfolding RegisteredVFSNames_def by (intro emits_rules RPCWithTimeout_emits) (simp_all add: watching_def)

section \<open>Proof before repair\<close>

text \<open>
  A mount is dead when statfs does not return in its budget or fails as on a dead daemon, when rclone's registry has lacked its VFS for the
  second time, or when reading it fails or hangs. It is missing when statfs answers and a host mount table shows no FUSE mount there.
\<close>

definition provedDead :: "env \<Rightarrow> string list option \<Rightarrow> string \<Rightarrow> string \<Rightarrow> ns \<Rightarrow> bool" where
  "provedDead env names dir p s = ((\<exists>r b. run_state (statfsBounded env p) s = (r, b) \<and> (snd r \<or> (\<exists>e. fst r = Some e \<and> isMountDeadErr e))) \<or>
     (\<exists>a b. run_state (vfsRegistryMissing env dir names) a = (True, b)) \<or> (\<exists>a b. run_state (mountVFSResponsive env p) a = (False, b)))"

definition provedMissing :: "env \<Rightarrow> string \<Rightarrow> ns \<Rightarrow> bool" where
  "provedMissing env p s = (\<exists>b c. run_state (statfsBounded env p) s = ((None, False), b) \<and> run_state (isFUSEMountPoint env p) b = (False, c))"

text \<open>
  The checker looks at a volume and finds a reason to repair it: its mount is dead, or it is missing although a pod uses the volume; and no handler
  is setting the volume up and no drain is running.
\<close>

definition needsRepair :: "env \<Rightarrow> string list option \<Rightarrow> string \<Rightarrow> ns \<Rightarrow> bool" where
  "needsRepair env names dir s = (\<exists>st s1 v s2. run_state (inspectMount env names dir (pathJoin [dir, ''globalmount''])) s = (st, s1) \<and>
     run_state (getVolumeIDFromVolData env dir) s1 = (v, s2) \<and>
     (v \<noteq> [] \<longrightarrow> v \<notin> volumesInSetup s2 \<and> v \<notin> backgroundDrains s2) \<and>
     (provedDead env names dir (pathJoin [dir, ''globalmount'']) s \<or> provedMissing env (pathJoin [dir, ''globalmount'']) s \<and> v \<noteq> [] \<and>
        (\<exists>n c a pods b. run_state (podsUsingPVC env n c) a = (pods, b) \<and> pods \<noteq> [])))"

lemma inspectMount_verdict:
  assumes "run_state (inspectMount env names d p) s = (st, s1)"
  shows "st = Stale \<Longrightarrow> provedDead env names d p s" and "st = Missing \<Longrightarrow> provedMissing env p s"
proof -
  obtain r b where r: "run_state (statfsBounded env p) s = (r, b)" by fastforce
  obtain f c where f: "run_state (isFUSEMountPoint env p) b = (f, c)" by fastforce
  obtain z e where z: "run_state (vfsRegistryMissing env d names) c = (z, e)" by fastforce
  obtain m g where m: "run_state (mountVFSResponsive env p) e = (m, g)" by fastforce
  show "st = Missing \<Longrightarrow> provedMissing env p s" unfolding provedMissing_def
    using assms r f z m by (cases r) (auto simp: inspectMount_def Let_def split: if_splits option.splits)
  show "st = Stale \<Longrightarrow> provedDead env names d p s" unfolding provedDead_def
    using assms r f z m by (cases r) (auto simp: inspectMount_def Let_def split: if_splits option.splits)
qed

text \<open>One listing of rclone's registry without the VFS is not enough: the strike before it must have been recorded.\<close>

lemma vfsRegistryMissing_confirmed:
  assumes "run_state (vfsRegistryMissing env dir names) s = (True, s')"
  shows "\<exists>ns v name k a b. names = Some ns \<and> run_state (getVolumeIDFromVolData env dir) s = (v, a) \<and> v \<noteq> [] \<and>
    run_state (expectedFSName env v) a = (name, b) \<and> name \<notin> set ns \<and> zombieVFSStrikes b v = Some k \<and> k + 1 \<ge> zombieVFSConfirmations"
  using assms by (auto simp: vfsRegistryMissing_def Let_def zombieVFSConfirmations_def isVolumeSetupInProgress_def isBackgroundDraining_def
      split: option.splits if_splits prod.splits)

lemma checkVolume_watches:
  assumes "run_state (checkVolume env names dir) s = (u, s')" "\<not> needsRepair env names dir s"
  shows "\<exists>t. nhist s' = nhist s @ t \<and> list_all watching t"
proof -
  let ?p = "pathJoin [dir, ''globalmount'']"
  obtain st s1 where i: "run_state (inspectMount env names dir ?p) s = (st, s1)" by fastforce
  obtain v s2 where v: "run_state (getVolumeIDFromVolData env dir) s1 = (v, s2)" by fastforce
  from emitsND [OF inspectMount_watching i] emitsND [OF lookups_watch(1) v] obtain t1 t2 where
    t: "nhist s1 = nhist s @ t1" "list_all watching t1" "nhist s2 = nhist s1 @ t2" "list_all watching t2" by blast
  obtain c s3 where c: "run_state (getS3VolumeContext env v) s2 = (c, s3)" by fastforce
  obtain refs s4 where r: "run_state (resolveVolumeRefs env v) s3 = (refs, s4)" by fastforce
  obtain pods s5 where q: "run_state (podsUsingPVC env (fst refs) (fst (snd refs))) s4 = (pods, s5)" by fastforce
  from emitsND [OF lookups_watch(4) c] emitsND [OF lookups_watch(5) r] emitsND [OF lookups_watch(6) q] obtain t3 t4 t5 where
    t': "nhist s3 = nhist s2 @ t3" "list_all watching t3" "nhist s4 = nhist s3 @ t4" "list_all watching t4" "nhist s5 = nhist s4 @ t5" "list_all watching t5" by blast
  have "v \<noteq> [] \<and> (v \<in> volumesInSetup s2 \<or> v \<in> backgroundDrains s2) \<or> st \<noteq> Stale \<and> (st = Missing \<and> v \<noteq> [] \<longrightarrow> pods = [])"
    using assms(2) i v q inspectMount_verdict [OF i] unfolding needsRepair_def by blast
  then have "nhist s' \<in> {nhist s1, nhist s2, nhist s3, nhist s5}"
    using assms(1) i v c r q
    by (cases st) (auto simp: checkVolume_def Let_def whenS_def isVolumeSetupInProgress_def isBackgroundDraining_def reconcileSucceeded_def split: if_splits option.splits)
  with t t' show ?thesis by auto
qed

lemma checkVolumes_watches:
  assumes "run_state (checkVolumes env names dir es) s = (u, s')"
  shows "(\<exists>t. nhist s' = nhist s @ t \<and> list_all watching t) \<or>
    (\<exists>name a t. (name, True) \<in> set es \<and> nhist a = nhist s @ t \<and> list_all watching t \<and> needsRepair env names (pathJoin [dir, name]) a)"
  using assms
proof (induction es arbitrary: s)
  case (Cons e es)
  obtain name isdir where e: "e = (name, isdir)" by fastforce
  obtain x s1 where 1: "run_state (whenS isdir (checkVolume env names (pathJoin [dir, name]))) s = (x, s1)" by (metis surj_pair)
  with Cons.prems e have 2: "run_state (checkVolumes env names dir es) s1 = (u, s')" by simp
  show ?case
  proof (cases "isdir \<and> needsRepair env names (pathJoin [dir, name]) s")
    case True
    with e show ?thesis by (intro disjI2 exI [of _ name] exI [of _ s] exI [of _ "[]"]) simp
  next
    case False
    with 1 checkVolume_watches [of env names "pathJoin [dir, name]" s x s1] obtain t where t: "nhist s1 = nhist s @ t" "list_all watching t"
      by (cases isdir) (auto simp: whenS_def)
    from Cons.IH [OF 2] show ?thesis
    proof
      assume "\<exists>t. nhist s' = nhist s1 @ t \<and> list_all watching t"
      with t show ?thesis by auto
    next
      assume "\<exists>name a t. (name, True) \<in> set es \<and> nhist a = nhist s1 @ t \<and> list_all watching t \<and> needsRepair env names (pathJoin [dir, name]) a"
      then obtain m a t' where "(m, True) \<in> set es" "nhist a = nhist s1 @ t'" "list_all watching t'" "needsRepair env names (pathJoin [dir, m]) a" by blast
      with t show ?thesis by (intro disjI2 exI [of _ m] exI [of _ a] exI [of _ "t @ t'"]) simp
    qed
  qed
qed simp


text \<open>A node with one staging directory whose FUSE daemon is gone; the tick detaches the mount.\<close>

definition deadMountEnv :: env where
  "deadMountEnv = quietEnv\<lparr>readFile := \<lambda>_ p. if p = hostMountInfo then Inr [] else Inl ENOENT,
     stat := \<lambda>_ _. Inr \<lparr>fi_size = 0, fi_isdir = True, fi_dev = []\<rparr>,
     readDir := \<lambda>_ _. Inr [(''h'', True)], statfs := \<lambda>_ _. Inl ENOTCONN\<rparr>"


end
