(* ===== verification/NodeLimits.thy ===== *)
theory NodeLimits
  imports NodeService RateLimit
begin

text \<open>
  What bounds the repair of the node service: how often a volume is remounted and its consumers are restarted, which pods may be
  deleted, and how much a read probe looks at.
\<close>

section \<open>Rate limits\<close>

text \<open>A request to restart consumers, or to remount a volume, after something else has happened on the node.\<close>

type_synonym request = "env \<times> (ns \<Rightarrow> ns)"

definition askRestart :: "string \<Rightarrow> request \<Rightarrow> ns \<Rightarrow> bool \<times> ns" where
  "askRestart volumeID e s = run_state (consumerRestartAllowed (fst e) volumeID) (snd e s)"

definition askReconcile :: "string \<Rightarrow> request \<Rightarrow> ns \<Rightarrow> bool \<times> ns" where
  "askReconcile volumeID e s = run_state (reconcileAllowed (fst e) volumeID) (snd e s)"

definition clockForward :: "env \<Rightarrow> bool" where
  "clockForward env = (\<forall>h q. now env h \<le> now env (h @ [Asked q]))"

definition lastRestart :: "string \<Rightarrow> ns \<Rightarrow> int option" where
  "lastRestart volumeID s = consumerRestartTimes s volumeID"

definition restartSound :: "string \<Rightarrow> request \<Rightarrow> bool" where
  "restartSound volumeID e = (clockForward (fst e) \<and> (\<forall>s. lastRestart volumeID (snd e s) = lastRestart volumeID s))"

interpretation restarts: rate_limiter "askRestart v" "lastRestart v" "\<lambda>_. consumerRestartCooldown" "\<lambda>_. True" "restartSound v" for v
proof
  fix e s s'
  assume e: "restartSound v e"
  then have l: "consumerRestartTimes (snd e s) v = consumerRestartTimes s v" by (simp add: restartSound_def lastRestart_def)
  show "askRestart v e s = (False, s') \<Longrightarrow> lastRestart v s' = lastRestart v s"
    using l by (auto simp: askRestart_def consumerRestartAllowed_def registrationHealthy_def lastRestart_def split: if_splits option.splits)
  have n: "now (fst e) h \<le> now (fst e) (h @ [Asked q])" for h q using e by (simp add: restartSound_def clockForward_def)
  show "askRestart v e s = (True, s') \<Longrightarrow>
      \<exists>t. lastRestart v s' = Some t \<and> (\<forall>t0. True \<longrightarrow> lastRestart v s = Some t0 \<longrightarrow> t0 + consumerRestartCooldown \<le> t)"
    using l n [of "nhist (snd e s)" QNow]
    by (auto simp: askRestart_def consumerRestartAllowed_def registrationHealthy_def lastRestart_def split: if_splits option.splits)
qed simp

section \<open>Backing off\<close>

definition attemptsOf :: "string \<Rightarrow> ns \<Rightarrow> nat" where
  "attemptsOf volumeID s = (case reconcileAttempts s volumeID of None \<Rightarrow> 0 | Some a \<Rightarrow> ra_count a)"

definition lastReconcile :: "string \<Rightarrow> ns \<Rightarrow> int option" where
  "lastReconcile volumeID s = map_option ra_last (reconcileAttempts s volumeID)"

definition reconcileSound :: "string \<Rightarrow> request \<Rightarrow> bool" where
  "reconcileSound volumeID e = (clockForward (fst e) \<and> (\<forall>s. reconcileAttempts (snd e s) volumeID = reconcileAttempts s volumeID))"

lemma backoffWait_values: "backoffWait n = (if n \<le> 2 then minutes 2 else if n = 3 then minutes 4 else if n = 4 then minutes 8 else minutes 15)"
proof -
  have "n \<le> 2 \<or> n = 3 \<or> n = 4 \<or> 5 \<le> n" by arith
  moreover have "5 \<le> n \<Longrightarrow> min (n - 2) 3 = 3" by simp
  ultimately show ?thesis
    by (auto simp: backoffWait_def reconcileFreeAttempts_def reconcileBackoffBase_def reconcileBackoffMax_def minutes_def seconds_def push_bit_eq_mult)
qed

lemma backoffWait_mono: "m \<le> n \<Longrightarrow> backoffWait m \<le> backoffWait n"
  by (auto simp: backoffWait_values minutes_def seconds_def)

lemma run_reconcileAllowed:
  assumes "clockForward env" "run_state (reconcileAllowed env v) s = (b, s')"
  shows "if b then \<exists>t. reconcileAttempts s' v = Some \<lparr>ra_count = attemptsOf v s + 1, ra_last = t\<rparr> \<and>
      (\<forall>t0. reconcileFreeAttempts \<le> attemptsOf v s \<longrightarrow> lastReconcile v s = Some t0 \<longrightarrow> t0 + backoffWait (attemptsOf v s) \<le> t)
    else reconcileAttempts s' v = reconcileAttempts s v \<and> reconcileFreeAttempts \<le> attemptsOf v s"
proof -
  have "now env (nhist s) \<le> now env (nhist s @ [Asked QNow])" using assms(1) by (simp add: clockForward_def)
  with assms(2) show ?thesis
    by (auto simp: reconcileAllowed_def attemptsOf_def lastReconcile_def reconcileFreeAttempts_def Let_def split: if_splits option.splits)
qed

interpretation reconciles: rate_limiter "askReconcile v" "lastReconcile v" "\<lambda>s. backoffWait (attemptsOf v s)"
  "\<lambda>s. reconcileFreeAttempts \<le> attemptsOf v s" "reconcileSound v" for v
proof
  fix e s b s'
  assume e: "reconcileSound v e" and a: "askReconcile v e s = (b, s')"
  then have r: "clockForward (fst e)" "run_state (reconcileAllowed (fst e) v) (snd e s) = (b, s')"
    and k: "attemptsOf v (snd e s) = attemptsOf v s" "lastReconcile v (snd e s) = lastReconcile v s"
    by (simp_all add: askReconcile_def reconcileSound_def attemptsOf_def lastReconcile_def)
  note run_reconcileAllowed [OF r]
  then have m: "attemptsOf v s \<le> attemptsOf v s'" using k by (auto simp: attemptsOf_def split: if_splits option.splits)
  show "backoffWait (attemptsOf v s) \<le> backoffWait (attemptsOf v s')" by (rule backoffWait_mono [OF m])
  show "reconcileFreeAttempts \<le> attemptsOf v s \<Longrightarrow> reconcileFreeAttempts \<le> attemptsOf v s'" using m by simp
next
  fix e s s'
  assume e: "reconcileSound v e" and a: "askReconcile v e s = (False, s')"
  then show "lastReconcile v s' = lastReconcile v s"
    using run_reconcileAllowed [of "fst e" v "snd e s" False s'] by (simp add: askReconcile_def reconcileSound_def lastReconcile_def)
next
  fix e s s'
  assume e: "reconcileSound v e" and a: "askReconcile v e s = (True, s')"
  then show "\<exists>t. lastReconcile v s' = Some t \<and>
      (\<forall>t0. reconcileFreeAttempts \<le> attemptsOf v s \<longrightarrow> lastReconcile v s = Some t0 \<longrightarrow> t0 + backoffWait (attemptsOf v s) \<le> t)"
    using run_reconcileAllowed [of "fst e" v "snd e s" True s'] by (auto simp: askReconcile_def reconcileSound_def lastReconcile_def attemptsOf_def)
qed

section \<open>How often repair acts\<close>

text \<open>
  C23: Consumers are never restarted in a loop. However the requests for one volume interleave with the rest of the node, as long
  as nothing else touches the volume's stamp and the clock does not run backwards, the restarts that are
  granted lie at least five minutes apart, so that \<open>n\<close> of them take at least \<open>5 * (n - 1)\<close> minutes.
\<close>

theorem consumer_restarts_spaced:
  assumes "list_all (restartSound volumeID) es" "ts = grantTimes (askRestart volumeID) (lastRestart volumeID) es s"
  shows "spaced consumerRestartCooldown ts \<and> (ts \<noteq> [] \<longrightarrow> hd ts + consumerRestartCooldown * int (length ts - 1) \<le> last ts)"
  using restarts.grants_spaced [OF assms(1)] assms(2) spaced_last by simp

definition tickingEnv :: env where
  "tickingEnv = quietEnv\<lparr>now := \<lambda>h. minutes (3 * int (length h))\<rparr>"

lemma tickingEnv_forward: "clockForward tickingEnv"
  by (simp add: clockForward_def tickingEnv_def minutes_def seconds_def)

definition idleNs :: ns where
  "idleNs = \<lparr>base = initRc, nodeID = [], driverEndpoint = [], driverName = DriverName, driverVersion = [],
     mountManagers = Map.empty, volumesInSetup = {}, backgroundDrains = {}, pendingDrains = {}, drainTasks = [],
     mountedAt = Map.empty, strandedRetry = Map.empty, vfsProbesInFlight = Map.empty, zombieVFSStrikes = Map.empty,
     statfsProbesInFlight = {}, reconcileAttempts = Map.empty, consumerRestartTimes = Map.empty, lastNodeGetInfo = 0,
     registrationHealthStart = 0, regHealthy = True, regUnhealthy = False, logStalled = False, cacheUnencrypted = False,
     kubeletRootCache = [], lastLibrcloneOK = 0, probeCurrent = False\<rparr>"

theorem consumer_restarts_spaced_witness:
  "\<exists>ts. ts = grantTimes (askRestart ''v'') (lastRestart ''v'') (replicate 5 (tickingEnv, id)) idleNs \<and> length ts = 3 \<and>
     spaced consumerRestartCooldown ts"
proof -
  let ?ts = "grantTimes (askRestart ''v'') (lastRestart ''v'') (replicate 5 (tickingEnv, id)) idleNs"
  have "list_all (restartSound ''v'') (replicate 5 (tickingEnv, id))" by (simp add: restartSound_def tickingEnv_forward list_all_iff)
  from consumer_restarts_spaced [OF this refl] have "spaced consumerRestartCooldown ?ts" by blast
  moreover have "length ?ts = 3" by code_simp
  ultimately show ?thesis by blast
qed

text \<open>
  A volume whose repair does not hold is not remounted in a loop. Once the free attempts are used up, and until a
  remount succeeds, further attempts lie at least the current back-off apart, which is never below two and never above
  fifteen minutes.
\<close>

theorem reconcile_backs_off:
  assumes "list_all (reconcileSound volumeID) es" "reconcileFreeAttempts \<le> attemptsOf volumeID s"
  shows "spaced (backoffWait (attemptsOf volumeID s)) (grantTimes (askReconcile volumeID) (lastReconcile volumeID) es s) \<and>
    minutes 2 \<le> backoffWait (attemptsOf volumeID s) \<and> backoffWait (attemptsOf volumeID s) \<le> minutes 15"
  using reconciles.grants_spaced [OF assms order_refl] by (simp add: backoffWait_values minutes_def seconds_def)

theorem reconcile_backs_off_witness:
  "\<exists>s. attemptsOf ''v'' s = 2 \<and> spaced (minutes 2) (grantTimes (askReconcile ''v'') (lastReconcile ''v'') (replicate 5 (tickingEnv, id)) s) \<and>
     length (grantTimes (askReconcile ''v'') (lastReconcile ''v'') (replicate 5 (tickingEnv, id)) s) = 2"
proof -
  let ?s = "idleNs\<lparr>reconcileAttempts := [''v'' \<mapsto> \<lparr>ra_count = 2, ra_last = - minutes 5\<rparr>]\<rparr>"
  have "list_all (reconcileSound ''v'') (replicate 5 (tickingEnv, id))" by (simp add: reconcileSound_def tickingEnv_forward list_all_iff)
  moreover have 2: "attemptsOf ''v'' ?s = 2" by (simp add: attemptsOf_def)
  moreover have "backoffWait 2 = minutes 2" by (simp add: backoffWait_values)
  ultimately have "spaced (minutes 2) (grantTimes (askReconcile ''v'') (lastReconcile ''v'') (replicate 5 (tickingEnv, id)) ?s)"
    using reconcile_backs_off [of "''v''" "replicate 5 (tickingEnv, id)" ?s] by (simp add: reconcileFreeAttempts_def)
  moreover have "length (grantTimes (askReconcile ''v'') (lastReconcile ''v'') (replicate 5 (tickingEnv, id)) ?s) = 2" by code_simp
  ultimately show ?thesis using 2 by blast
qed

section \<open>Which pods are deleted\<close>

text \<open>The events an operation of the node service adds.\<close>

definition addedEvents :: "ns \<Rightarrow> ns \<Rightarrow> event list" where
  "addedEvents s s' = drop (length (nhist s)) (nhist s')"

lemma podByUID_Some: "podByUID ps u = Some p \<Longrightarrow> p \<in> set ps \<and> pod_uid p = u"
  by (auto simp: podByUID_def find_Some_iff)

text \<open>
  C24: Only a pod that needs it is deleted. Whenever \<^verbatim>\<open>deletePodByUID\<close> sends a deletion, it names the pod of that UID as just
  listed, which has not succeeded; it forces the deletion only when the pod has a controller that will replace it and its own
  grace period has run out, and it asks for an orderly one only when the pod is neither terminating nor failed.
\<close>

theorem deletePodByUID_justified:
  assumes "run_state (deletePodByUID env podUID) s = (u, s')" "DeletedPod namespace name force r \<in> set (addedEvents s s')"
  shows "\<exists>ps p. listPods env (nhist s) [] = Inr ps \<and> p \<in> set ps \<and> pod_uid p = podUID \<and> pod_namespace p = namespace \<and> pod_name p = name \<and>
    pod_phase p \<noteq> Succeeded \<and>
    (if force then pod_hasController p \<and> (\<exists>d. pod_deletion p = Some d \<and> terminationDeadline p d < now env (nhist s @ [Kube (KListPods [])]))
     else pod_deletion p = None \<and> pod_phase p \<noteq> Failed)"
  using assms
  by (auto simp: addedEvents_def deletePodByUID_def deletePod_def forceDeletePod_def kubeDeletePod_def podStuckTerminating_def record_event_def
      dest!: podByUID_Some split: if_splits sum.splits option.splits)

definition wedgedPod :: pod where
  "wedgedPod = \<lparr>pod_namespace = ''ns'', pod_name = ''p'', pod_uid = ''u'', pod_phase = Running, pod_deletion = Some 0, pod_grace = Some 30,
     pod_hasController = True, pod_restartNever = False, pod_fsGroup = None, pod_volumes = [], pod_containers = [], pod_initContainers = []\<rparr>"

theorem deletePodByUID_justified_witness:
  "\<exists>s s' r. run_state (deletePodByUID (tickingEnv\<lparr>listPods := \<lambda>_ _. Inr [wedgedPod]\<rparr>) ''u'') s = ((), s') \<and>
     DeletedPod ''ns'' ''p'' True r \<in> set (addedEvents s s') \<and> pod_hasController wedgedPod"
proof -
  let ?env = "tickingEnv\<lparr>listPods := \<lambda>_ _. Inr [wedgedPod]\<rparr>"
  obtain s' where r: "run_state (deletePodByUID ?env ''u'') idleNs = ((), s')" by (metis old.unit.exhaust surj_pair)
  have "DeletedPod ''ns'' ''p'' True None \<in> set (addedEvents idleNs (snd (run_state (deletePodByUID ?env ''u'') idleNs)))" by code_simp
  with r have x: "DeletedPod ''ns'' ''p'' True None \<in> set (addedEvents idleNs s')" by simp
  from deletePodByUID_justified [OF r x] have "pod_hasController wedgedPod" by auto
  with r x show ?thesis by blast
qed

section \<open>What a read probe costs\<close>

text \<open>The listings of a history.\<close>

definition listings :: "hist \<Rightarrow> nat" where
  "listings h = length (filter (\<lambda>e. case e of Asked (QReadDirRaw _ _) \<Rightarrow> True | _ \<Rightarrow> False) h)"

lemma listings_simps [simp]:
  "listings [] = 0" "listings (h @ h') = listings h + listings h'" "listings (Asked (QReadDirRaw p n) # h) = Suc (listings h)"
  "listings (Asked (QOpenFile p) # h) = listings h" "listings (Asked (QCloseFile p) # h) = listings h"
  by (simp_all add: listings_def)

lemma probeEntries_listings:
  "run_state (probeEntries env dir nxt es) s = (r, s') \<Longrightarrow> length nxt \<le> 8 \<Longrightarrow>
     listings (hist s') = listings (hist s) \<and> (case r of PGo nxt' \<Rightarrow> length nxt' \<le> 8 | _ \<Rightarrow> True)"
  by (induction env dir nxt es arbitrary: s rule: probeEntries.induct) (auto simp: Let_def split: if_splits option.splits)

lemma probeDirs_listings:
  "run_state (probeDirs env nxt ds) s = (r, s') \<Longrightarrow> length nxt \<le> 8 \<Longrightarrow>
     listings (hist s') \<le> listings (hist s) + length ds \<and> (case r of PGo nxt' \<Rightarrow> length nxt' \<le> 8 | _ \<Rightarrow> True)"
proof (induction ds arbitrary: nxt s)
  case (Cons dir ds)
  obtain es x where d: "readDirRawOf env (hist s) dir 512 = (es, x)" by fastforce
  let ?s = "s\<lparr>hist := hist s @ [Asked (QReadDirRaw dir 512)]\<rparr>"
  obtain y s1 where y: "run_state (probeEntries env dir nxt es) ?s = (y, s1)" by fastforce
  note e = probeEntries_listings [OF y Cons.prems(2)]
  show ?case
  proof (cases y)
    case (PGo n)
    with Cons.IH [of n s1] e Cons.prems d y show ?thesis by (fastforce split: if_splits option.splits)
  qed (use e Cons.prems d y in \<open>auto split: if_splits option.splits\<close>)
qed auto

lemma probeLevels_listings:
  "run_state (probeLevels env d ds) s = (r, s') \<Longrightarrow> length ds \<le> 8 \<Longrightarrow> listings (hist s') \<le> listings (hist s) + 8 * d"
proof (induction d arbitrary: ds s)
  case (Suc d)
  obtain y s1 where y: "run_state (probeDirs env [] ds) s = (y, s1)" by fastforce
  have e: "listings (hist s1) \<le> listings (hist s) + length ds" "case y of PGo n \<Rightarrow> length n \<le> 8 | _ \<Rightarrow> True"
    using probeDirs_listings [OF y] by simp_all
  show ?case
  proof (cases y)
    case (PGo n)
    with Suc.IH [of n s1] e Suc.prems y show ?thesis by (fastforce split: if_splits)
  qed (use e Suc.prems y in \<open>auto split: if_splits\<close>)
qed simp

text \<open>
  A read probe is bounded whatever the mount holds: it lists at most seventeen directories, the root, eight of
  its children and eight of theirs, so a tree of any depth or width cannot make a tick of the checker run away.
\<close>

theorem probeMountReads_bounded:
  "listings (hist (snd (run_state (probeMountReads env root) s))) \<le> listings (hist s) + 17"
proof -
  obtain y s1 where y: "run_state (probeDirs env [] [root]) s = (y, s1)" by fastforce
  note e = probeDirs_listings [OF y]
  have "listings (hist (snd (run_state (probeLevels env 3 [root]) s))) \<le> listings (hist s) + 17"
  proof (cases y)
    case (PGo n)
    with e have "length n \<le> 8" by simp
    with probeLevels_listings [of env 2 n s1] e y PGo show ?thesis
      by (cases "run_state (probeLevels env 2 n) s1") (simp add: numeral_3_eq_3 numeral_2_eq_2 del: probeDirs.simps)
  qed (use e y in \<open>auto simp: numeral_3_eq_3 simp del: probeDirs.simps\<close>)
  then show ?thesis by (simp add: probeMountReads_def case_prod_beta)
qed

end
