(* ===== verification/CacheScan.thy ===== *)
theory CacheScan
  imports VfsCache
begin

text \<open>
  The two searches for unuploaded writes (\<^verbatim>\<open>rclone/vfscache.go\<close>): the one that asks about a volume, on which unstaging rests, and
  the one that lists volumes, on which the recovery of stranded uploads rests. On a cache that does not change meanwhile they
  agree with one reference definition, and so with each other.
\<close>

section \<open>A cache that stands still\<close>

text \<open>\<open>still env es dirty\<close>: the metadata directory lists \<open>es\<close>, and a search below a VFS name finds something exactly when \<open>dirty\<close> says so.\<close>

definition still :: "env \<Rightarrow> (string \<times> bool) list \<Rightarrow> (string \<Rightarrow> bool) \<Rightarrow> bool" where
  "still env es dirty = (\<forall>h. readDir env h (pathJoin [VFSCacheBasePath, ''vfsMeta'']) = Inr es \<and>
     (\<forall>n. fst (run_state (hasDirtyCacheItemsAt env VFSCacheBasePath n) \<lparr>hist = h\<rparr>) = dirty n))"

definition dirtyVolumes :: "(string \<times> bool) list \<Rightarrow> (string \<Rightarrow> bool) \<Rightarrow> string set" where
  "dirtyVolumes es dirty = {volumeIDOfVFSName n |n. (n, True) \<in> set es \<and> dirty n}"

lemma still_dirty: "still env es dirty \<Longrightarrow> fst (run_state (hasDirtyCacheItemsAt env VFSCacheBasePath n) s) = dirty n"
proof -
  assume "still env es dirty"
  moreover have "fst (run_state (hasDirtyCacheItemsAt env VFSCacheBasePath n) s)
      = fst (run_state (hasDirtyCacheItemsAt env VFSCacheBasePath n) \<lparr>hist = hist s\<rparr>)"
    by (simp add: hasDirtyCacheItemsAt_def case_prod_beta dirtyWalk_hist_only [of env _ "s\<lparr>hist := _\<rparr>"])
  ultimately show ?thesis by (simp add: still_def)
qed

lemma anyDirty_still:
  assumes "still env es0 dirty"
  shows "fst (run_state (anyDirty env VFSCacheBasePath v es) s) = (v \<in> dirtyVolumes es dirty)"
proof (induction es arbitrary: s)
  case (Cons e es)
  obtain n d where "e = (n, d)" by fastforce
  then show ?case using Cons.IH
    by (cases "dirty n") (auto simp: still_dirty [OF assms] dirtyVolumes_def case_prod_beta)
qed (simp add: dirtyVolumes_def)

lemma collectDirty_still:
  assumes "still env es0 dirty"
  shows "set (fst (run_state (collectDirty env VFSCacheBasePath acc es) s)) = set acc \<union> dirtyVolumes es dirty"
proof (induction es arbitrary: acc s)
  case (Cons e es)
  obtain n d where "e = (n, d)" by fastforce
  then show ?case using Cons.IH
    by (cases "dirty n") (auto simp: still_dirty [OF assms] dirtyVolumes_def case_prod_beta Let_def)
qed (simp add: dirtyVolumes_def)

lemma collectDirty_distinct: "distinct acc \<Longrightarrow> distinct (fst (run_state (collectDirty env b acc es) s))"
  by (induction env b acc es arbitrary: s rule: collectDirty.induct) (auto simp: Let_def case_prod_beta)



end
