(* ===== verification/AsyncLog.thy ===== *)
theory AsyncLog
  imports Host "HOL-Library.Sublist"
begin

text \<open>
  The log writer that never blocks (\<^verbatim>\<open>asynclog/asynclog.go\<close>): writers put lines into a bounded channel or drop and count them, and
  one goroutine carries the channel to the output. The writers and the phases of the goroutine are the steps of a transition
  system. It refines a lossy log: lines come out in the order written, none twice, and every line that does not
  come out is counted.
\<close>

section \<open>The writer\<close>

text \<open>What reaches the output: a queued line, a line written past the queue, and the two reports of the goroutine.\<close>

datatype chunk = Line string | Direct string | StallReport int | DropReport int

text \<open>
  Where the goroutine is: waiting for the channel, in the write of a line that began at a time, or after it. The counter of
  dropped lines is a 64-bit integer in the source; it would take \<open>2 ^ 63\<close> lines dropped in one stall to overflow it.
\<close>

datatype runPhase = Waiting | Writing string int | Wrote int

record Writer =
  ch :: "string list"
  chDepth :: nat
  droppedLines :: int
  written :: "chunk list" \<comment> \<open>what the output has taken\<close>
  writeStartedAt :: int
  runAt :: runPhase
  directWrites :: "string list" \<comment> \<open>goroutines of \<^verbatim>\<open>WriteBounded\<close> that are still blocked\<close>

definition New :: "nat \<Rightarrow> Writer" where
  "New depth = \<lparr>ch = [], chDepth = depth, droppedLines = 0, written = [], writeStartedAt = 0, runAt = Waiting, directWrites = []\<rparr>"

text \<open>The result is always the length of the line and no error.\<close>

definition Write :: "string \<Rightarrow> Writer \<Rightarrow> nat \<times> Writer" where
  "Write p w = (length p,
     if length (ch w) < chDepth w then w\<lparr>ch := ch w @ [p]\<rparr> else w\<lparr>droppedLines := droppedLines w + 1\<rparr>)"

definition stallReportThreshold :: int where
  "stallReportThreshold = seconds 5"

definition syncWriteTimeout :: int where
  "syncWriteTimeout = seconds 5"

text \<open>The three stretches of \<^verbatim>\<open>run\<close> between which others may act.\<close>

definition receive :: "int \<Rightarrow> Writer \<Rightarrow> Writer" where
  "receive t w = (case (runAt w, ch w) of
       (Waiting, buf # rest) \<Rightarrow> w\<lparr>ch := rest, writeStartedAt := t, runAt := Writing buf t\<rparr>
     | _ \<Rightarrow> w)"

definition finishWrite :: "Writer \<Rightarrow> Writer" where
  "finishWrite w = (case runAt w of
       Writing buf start \<Rightarrow> w\<lparr>written := written w @ [Line buf], writeStartedAt := 0, runAt := Wrote start\<rparr>
     | _ \<Rightarrow> w)"

definition report :: "int \<Rightarrow> Writer \<Rightarrow> Writer" where
  "report t w = (case runAt w of
       Wrote start \<Rightarrow>
         w\<lparr>written := written w @ (if t - start > stallReportThreshold then [StallReport (t - start)] else []) @
             (if droppedLines w > 0 then [DropReport (droppedLines w)] else []),
           droppedLines := 0, runAt := Waiting\<rparr>
     | _ \<Rightarrow> w)"

definition StalledFor :: "int \<Rightarrow> Writer \<Rightarrow> int" where
  "StalledFor t w = (if writeStartedAt w = 0 then 0 else t - writeStartedAt w)"

definition DefaultStalledFor :: "int \<Rightarrow> Writer option \<Rightarrow> int" where
  "DefaultStalledFor t dflt = (case dflt of Some w \<Rightarrow> StalledFor t w | None \<Rightarrow> 0)"

text \<open>A direct write completes within its timeout, or is left to its goroutine.\<close>

definition WriteBounded :: "string \<Rightarrow> bool \<Rightarrow> Writer \<Rightarrow> bool \<times> Writer" where
  "WriteBounded s inTime w =
     (inTime, if inTime then w\<lparr>written := written w @ [Direct s]\<rparr> else w\<lparr>directWrites := directWrites w @ [s]\<rparr>)"

definition WriteSync :: "string \<Rightarrow> bool \<Rightarrow> Writer \<Rightarrow> Writer" where
  "WriteSync s inTime w = snd (WriteBounded s inTime w)"

definition directDone :: "string \<Rightarrow> Writer \<Rightarrow> Writer" where
  "directDone s w = (if s \<in> set (directWrites w) then w\<lparr>written := written w @ [Direct s], directWrites := remove1 s (directWrites w)\<rparr> else w)"

definition Dropped :: "Writer \<Rightarrow> int" where
  "Dropped w = droppedLines w"

text \<open>
  \<^verbatim>\<open>Flush\<close>: in its round \<open>i\<close> the loop sees the channel's length \<open>qlen i\<close> and the time \<open>clock i\<close>. \<open>None\<close>: the rounds
  allowed here did not suffice.
\<close>

fun flushLoop :: "(nat \<Rightarrow> nat) \<Rightarrow> (nat \<Rightarrow> int) \<Rightarrow> int \<Rightarrow> nat \<Rightarrow> nat \<Rightarrow> nat option" where
  "flushLoop qlen clock deadline i 0 = None"
| "flushLoop qlen clock deadline i (Suc n) =
     (if qlen i > 0 \<and> clock i < deadline then flushLoop qlen clock deadline (Suc i) n else Some i)"

definition Flush :: "(nat \<Rightarrow> nat) \<Rightarrow> (nat \<Rightarrow> int) \<Rightarrow> int \<Rightarrow> nat \<Rightarrow> nat option" where
  "Flush qlen clock timeout rounds = flushLoop qlen clock (clock 0 + timeout) 0 rounds"

section \<open>Steps\<close>

text \<open>A step is labelled with the line if it is a write.\<close>

inductive logStep :: "Writer \<Rightarrow> string option \<Rightarrow> Writer \<Rightarrow> bool" where
  writes: "logStep w (Some p) (snd (Write p w))"
| received: "logStep w None (receive t w)"
| finished: "logStep w None (finishWrite w)"
| reported: "logStep w None (report t w)"
| direct: "logStep w None (WriteSync s b w)"
| directEnds: "logStep w None (directDone s w)"

inductive_cases logStepE: "logStep w l w'"

section \<open>Simulations\<close>

text \<open>
  The contract of a refinement: from an initial state every step of the implementation is a step of the specification on the
  abstract states, as long as the invariant holds, and keeps it. Labels are what an observer sees; a silent step of the
  implementation may stutter.
\<close>

inductive lruns :: "('s \<Rightarrow> 'l option \<Rightarrow> 's \<Rightarrow> bool) \<Rightarrow> 's \<Rightarrow> 'l list \<Rightarrow> 's \<Rightarrow> bool" for step where
  none: "lruns step s [] s"
| silent: "lruns step s ls s' \<Longrightarrow> step s' None s'' \<Longrightarrow> lruns step s ls s''"
| seen: "lruns step s ls s' \<Longrightarrow> step s' (Some l) s'' \<Longrightarrow> lruns step s (ls @ [l]) s''"

locale simulation =
  fixes cstep :: "'c \<Rightarrow> 'l option \<Rightarrow> 'c \<Rightarrow> bool"
    and astep :: "'a \<Rightarrow> 'l option \<Rightarrow> 'a \<Rightarrow> bool"
    and abst :: "'c \<Rightarrow> 'a"
    and inv :: "'c \<Rightarrow> bool"
  assumes inv_step: "inv c \<Longrightarrow> cstep c lab c' \<Longrightarrow> inv c'"
    and seen_step: "inv c \<Longrightarrow> cstep c (Some l) c' \<Longrightarrow> astep (abst c) (Some l) (abst c')"
    and silent_step: "inv c \<Longrightarrow> cstep c None c' \<Longrightarrow> abst c' = abst c"
begin

lemma refines: "lruns cstep c ls c' \<Longrightarrow> inv c \<Longrightarrow> inv c' \<and> lruns astep (abst c) ls (abst c')"
proof (induction rule: lruns.induct)
  case (silent s ls s' s'')
  then show ?case using inv_step silent_step by metis
next
  case (seen s ls s' l s'')
  then show ?case using inv_step seen_step lruns.seen by metis
qed (simp add: lruns.none)

end

section \<open>A lossy log\<close>

text \<open>
  The specification: lines that were accepted, in order, and the number of those that were lost. A write is accepted or lost,
  whatever the specification likes; it never waits.
\<close>

record lossy =
  accepted :: "string list"
  lost :: int

inductive lossyStep :: "lossy \<Rightarrow> string option \<Rightarrow> lossy \<Rightarrow> bool" where
  accept: "lossyStep a (Some p) (a\<lparr>accepted := accepted a @ [p]\<rparr>)"
| lose: "lossyStep a (Some p) (a\<lparr>lost := lost a + 1\<rparr>)"

lemma lossy_counts: "lruns lossyStep a ls a' \<Longrightarrow> int (length (accepted a')) + lost a' = int (length (accepted a)) + lost a + int (length ls)"
  by (induction rule: lruns.induct) (auto elim!: lossyStep.cases)

lemma lossy_order: "lruns lossyStep a ls a' \<Longrightarrow> \<exists>new. accepted a' = accepted a @ new \<and> subseq new ls"
proof (induction rule: lruns.induct)
  case (seen s ls s' l s'')
  then obtain new where new: "accepted s' = accepted s @ new" "subseq new ls" by blast
  from seen.hyps(2) show ?case
  proof cases
    case accept
    with new have "accepted s'' = accepted s @ new @ [l]" "subseq (new @ [l]) (ls @ [l])" by simp_all
    then show ?thesis by blast
  next
    case lose
    with new show ?thesis by (auto intro: subseq_rev_drop_many)
  qed
qed (auto elim: lossyStep.cases)

text \<open>The lines of an output, and the number of dropped lines it reports.\<close>

definition linesOf :: "chunk list \<Rightarrow> string list" where
  "linesOf cs = List.map_filter (\<lambda>c. case c of Line l \<Rightarrow> Some l | _ \<Rightarrow> None) cs"

definition reportedOf :: "chunk list \<Rightarrow> int" where
  "reportedOf cs = sum_list (map (\<lambda>c. case c of DropReport n \<Rightarrow> n | _ \<Rightarrow> 0) cs)"

lemma outputs_simps [simp]:
  "linesOf [] = []" "linesOf (cs @ cs') = linesOf cs @ linesOf cs'" "linesOf (Line l # cs) = l # linesOf cs"
  "linesOf (Direct l # cs) = linesOf cs" "linesOf (StallReport n # cs) = linesOf cs" "linesOf (DropReport n # cs) = linesOf cs"
  "reportedOf [] = 0" "reportedOf (cs @ cs') = reportedOf cs + reportedOf cs'" "reportedOf (Line l # cs) = reportedOf cs"
  "reportedOf (Direct l # cs) = reportedOf cs" "reportedOf (StallReport n # cs) = reportedOf cs"
  "reportedOf (DropReport n # cs) = n + reportedOf cs"
  by (simp_all add: linesOf_def reportedOf_def List.map_filter_def)

definition inFlight :: "runPhase \<Rightarrow> string list" where
  "inFlight r = (case r of Writing buf _ \<Rightarrow> [buf] | _ \<Rightarrow> [])"

definition logAbs :: "Writer \<Rightarrow> lossy" where
  "logAbs w = \<lparr>accepted = linesOf (written w) @ inFlight (runAt w) @ ch w, lost = reportedOf (written w) + droppedLines w\<rparr>"

definition logInv :: "Writer \<Rightarrow> bool" where
  "logInv w = (length (ch w) \<le> chDepth w \<and> 0 \<le> droppedLines w)"

lemmas log_steps = Write_def receive_def finishWrite_def report_def WriteSync_def WriteBounded_def directDone_def

interpretation async_log: simulation logStep lossyStep logAbs logInv
proof
  fix c l c'
  assume "logInv c" "logStep c l c'"
  then show "logInv c'"
    by (auto elim!: logStepE simp: logInv_def log_steps split: runPhase.splits list.splits)
next
  fix c l c'
  assume "logInv c" "logStep c (Some l) c'"
  then have c': "c' = snd (Write l c)" by (auto elim: logStepE)
  show "lossyStep (logAbs c) (Some l) (logAbs c')"
  proof (cases "length (ch c) < chDepth c")
    case True
    with lossyStep.accept [of "logAbs c" l] c' show ?thesis by (simp add: logAbs_def Write_def)
  next
    case False
    with lossyStep.lose [of "logAbs c" l] c' show ?thesis by (simp add: logAbs_def Write_def add.assoc)
  qed
next
  fix c c'
  assume "logInv c" "logStep c None c'"
  then show "logAbs c' = logAbs c"
    by (auto elim!: logStepE simp: logInv_def logAbs_def inFlight_def log_steps split: runPhase.splits list.splits if_splits)
qed

section \<open>What a reader of the log may rely on\<close>


lemmas log_none = lruns.none [where step = logStep]
lemmas log_seen = lruns.seen [where step = logStep]
lemmas log_silent = lruns.silent [where step = logStep]


text \<open>The stall is measured exactly while a write is in flight.\<close>

lemma StalledFor_phase:
  assumes "lruns logStep (New depth) ps w" "\<And>buf start. runAt w \<noteq> Writing buf start"
  shows "StalledFor t w = 0"
proof -
  have "(\<forall>buf start. runAt w \<noteq> Writing buf start) \<longrightarrow> writeStartedAt w = 0" using assms(1)
    by (induction "New depth" ps w rule: lruns.induct)
       (auto simp: New_def log_steps elim!: logStepE split: runPhase.splits list.splits if_splits)
  with assms(2) show ?thesis by (simp add: StalledFor_def)
qed

section \<open>Flushing ends\<close>

lemma flushLoop_ends:
  assumes "\<And>i. clock i + 10000000 \<le> clock (Suc i)" "deadline \<le> clock i + 10000000 * int n"
  shows "\<exists>k. flushLoop qlen clock deadline i (Suc n) = Some k"
  using assms(2)
proof (induction n arbitrary: i)
  case (Suc n)
  have "deadline \<le> clock (Suc i) + 10000000 * int n" using Suc.prems assms(1) [of i] by (simp add: algebra_simps)
  from Suc.IH [OF this] show ?case by simp
qed simp

end
