(* ===== verification/Health.thy ===== *)
theory Health
  imports Identity
begin

text \<open>
  What the health checks promise: a driver is never reported as unregistered or dead on a doubt, and what is reported on the Node
  object are changes only.
\<close>

section \<open>Reading the start of a process\<close>

text \<open>A line of \<^verbatim>\<open>/proc/<pid>/stat\<close> as the kernel prints it: the name of the command may hold any character, parentheses and spaces included.\<close>

definition statLine :: "string \<Rightarrow> string \<Rightarrow> string list \<Rightarrow> string" where
  "statLine pid comm fs = pid @ '' ('' @ comm @ '') '' @ joinStr '' '' fs"

definition statField :: "string \<Rightarrow> bool" where
  "statField w = (noSpace w \<and> CHR '')'' \<notin> set w)"

lemma joinStr_chars: "c \<in> set (joinStr '' '' ws) \<Longrightarrow> c = CHR '' '' \<or> (\<exists>w \<in> set ws. c \<in> set w)"
  by (induction ws rule: induct_list012) (auto simp: joinStr_Cons)

text \<open>
  Reading the start time back from what the kernel prints succeeds for every command name: whatever the name contains,
  parentheses, spaces and digits included, the result is the twentieth field after it.
\<close>

theorem parseStartTicks_roundtrip:
  assumes "list_all statField fs" "20 \<le> length fs" "int64 ticks" "fs ! 19 = show_int ticks"
  shows "parseStartTicks (statLine pid comm fs) = Some ticks"
proof -
  let ?tail = "CHR '' '' # joinStr '' '' fs"
  have f: "statField w" if "w \<in> set fs" for w using that assms(1) by (simp add: list_all_iff)
  then have n: "CHR '')'' \<notin> set ?tail" using joinStr_chars [of "CHR '')''" fs] by (auto simp: statField_def)
  have e: "statLine pid comm fs = (pid @ '' ('' @ comm) @ CHR '')'' # ?tail" by (simp add: statLine_def)
  have i: "last_index_of (statLine pid comm fs) '')'' = Some (length (pid @ '' ('' @ comm))" unfolding e by (rule last_index_char [OF n])
  have d: "drop (length (pid @ '' ('' @ comm) + 1) (statLine pid comm fs) = ?tail"
  proof -
    have "drop (length x + 1) (x @ c # r) = r" for x r :: string and c by simp
    then show ?thesis unfolding e .
  qed
  have "strFields (joinStr '' '' fs) = fs" using f by (intro strFields_join) (simp add: statField_def)
  then have "strFields ?tail = fs" by (simp add: strFields_def isSpace_def del: joinStr.simps)
  with parseInt_show_int [OF assms(3)] assms(2,4) show ?thesis by (simp only: parseStartTicks_def i option.case d Let_def not_less [symmetric] if_False simp_thms)
qed

theorem parseStartTicks_roundtrip_witness:
  "parseStartTicks (statLine ''7'' ''a) (b'' (replicate 19 ''0'' @ [''42''])) = Some 42"
proof (rule parseStartTicks_roundtrip)
  show "list_all statField (replicate 19 ''0'' @ [''42''])"
    by (simp add: list_all_iff statField_def noSpace_def isSpace_def)
  show "(replicate 19 ''0'' @ [''42'']) ! 19 = show_int 42" unfolding nth_append by code_simp
qed (simp_all add: int64_def)

section \<open>Registration\<close>

lemma kubeletHandshakeCurrent_False:
  assumes "run_state (kubeletHandshakeCurrent env) s = (False, s')"
  shows "\<exists>start s1. run_state (kubeletProcessStart env) s = (Some start, s1) \<and> kubeletRehandshakeGrace \<le> now env (nhist s1) - start \<and>
    (lastNodeGetInfo s1 \<le> 0 \<or> lastNodeGetInfo s1 \<le> start)"
  using assms by (fastforce simp: kubeletHandshakeCurrent_def split: prod.splits option.splits if_splits)


definition lonelyNs :: ns where
  "lonelyNs = \<lparr>base = initRc, nodeID = ''n'', driverEndpoint = [], driverName = DriverName, driverVersion = [],
     mountManagers = Map.empty, volumesInSetup = {}, backgroundDrains = {}, pendingDrains = {}, drainTasks = [],
     mountedAt = Map.empty, strandedRetry = Map.empty, vfsProbesInFlight = Map.empty, zombieVFSStrikes = Map.empty,
     statfsProbesInFlight = {}, reconcileAttempts = Map.empty, consumerRestartTimes = Map.empty, lastNodeGetInfo = 0,
     registrationHealthStart = - minutes 5, regHealthy = True, regUnhealthy = False, logStalled = False, cacheUnencrypted = False,
     kubeletRootCache = [], lastLibrcloneOK = - minutes 5, probeCurrent = False\<rparr>"


section \<open>Liveness\<close>

text \<open>\<open>momentOf s s' h\<close>: the history was \<open>h\<close> at some moment between \<open>s\<close> and \<open>s'\<close>.\<close>

definition momentOf :: "ns \<Rightarrow> ns \<Rightarrow> hist \<Rightarrow> bool" where
  "momentOf s s' h = ((\<exists>t. h = nhist s @ t) \<and> (\<exists>t. nhist s' = h @ t))"

text \<open>
  Kubelet is told to kill the driver only after two minutes of silence: a probe that fails was cancelled by its caller, or
  at some moment of the call librclone had not answered for at least the threshold.
\<close>

theorem Probe_silence:
  assumes "run_state (Probe env) s = (Inl st, s')"
  shows "statusCode st = Canceled \<or>
    statusCode st = FailedPrecondition \<and> (\<exists>h. momentOf s s' h \<and> librcloneHangThreshold \<le> now env h - lastLibrcloneOK s)"
proof -
  obtain s1 where 1: "run_state (startOrJoinLibrcloneProbe env) s = ((), s1)" by (metis old.unit.exhaust surj_pair)
  have p: "lastLibrcloneOK s1 = lastLibrcloneOK s \<and> (\<exists>t. nhist s1 = nhist s @ t)"
    using 1 by (auto simp: startOrJoinLibrcloneProbe_def split: if_splits)
  let ?b = "base s1\<lparr>hist := nhist s1 @ [Asked (QFinished ''core/version'')]\<rparr>"
  obtain r b where r: "run_state (RPC env ''core/version'' (JObj [])) ?b = (r, b)" by fastforce
  obtain t where t: "hist b = hist ?b @ t" using emitsD [OF grows_rpc(2) r] by blast
  show ?thesis
  proof (cases "finished env (nhist s1) ''core/version''")
    case True
    with assms 1 r have "statusCode st = FailedPrecondition \<and> librcloneHangThreshold \<le> now env (hist b) - lastLibrcloneOK s1 \<and>
        nhist s' = hist b @ [Asked QNow]"
      by (auto simp: Probe_def judgeSilence_def silentFor_def split: sum.splits if_splits)
    with p t show ?thesis by (intro disjI2 conjI exI [of _ "hist b"]) (auto simp: momentOf_def)
  next
    case False
    let ?h = "nhist s1 @ [Asked (QFinished ''core/version''), Asked (QFinished ''context'')]"
    from False assms 1 have "statusCode st = Canceled \<or> statusCode st = FailedPrecondition \<and>
        librcloneHangThreshold \<le> now env ?h - lastLibrcloneOK s1 \<and> nhist s' = ?h @ [Asked QNow]"
      by (auto simp: Probe_def judgeSilence_def silentFor_def split: if_splits)
    then show ?thesis
    proof
      assume "statusCode st = FailedPrecondition \<and> librcloneHangThreshold \<le> now env ?h - lastLibrcloneOK s1 \<and> nhist s' = ?h @ [Asked QNow]"
      with p show ?thesis by (intro disjI2 conjI exI [of _ ?h]) (auto simp: momentOf_def)
    qed simp
  qed
qed

theorem Probe_silence_witness:
  "\<exists>e s' h. run_state (Probe (quietEnv\<lparr>finished := \<lambda>_ _. False\<rparr>)) lonelyNs = (Inl (Status FailedPrecondition e), s') \<and>
     momentOf lonelyNs s' h \<and> librcloneHangThreshold \<le> now quietEnv h - lastLibrcloneOK lonelyNs"
proof -
  let ?env = "quietEnv\<lparr>finished := \<lambda>_ _. False\<rparr>"
  have "case fst (run_state (Probe ?env) lonelyNs) of Inl st \<Rightarrow> statusCode st = FailedPrecondition | Inr _ \<Rightarrow> False" by code_simp
  then obtain st s' where r: "run_state (Probe ?env) lonelyNs = (Inl st, s')" "statusCode st = FailedPrecondition"
    by (cases "run_state (Probe ?env) lonelyNs") (auto split: sum.splits)
  obtain e where e: "st = Status FailedPrecondition e" using r(2) by (cases st) simp
  from Probe_silence [OF r(1)] r(2) obtain h where "momentOf lonelyNs s' h" "librcloneHangThreshold \<le> now ?env h - lastLibrcloneOK lonelyNs" by auto
  with r(1) e show ?thesis by auto
qed

section \<open>Events\<close>

text \<open>\<open>toldBy\<close>: the events of a condition went from one list to another by changes only, and the last one is what is remembered.\<close>

definition toldBy :: "bool \<Rightarrow> bool list \<Rightarrow> bool \<Rightarrow> bool list \<Rightarrow> bool" where
  "toldBy b old b' told = (\<exists>new. told = old @ new \<and> alternating b new \<and> b' = last (b # new))"



end
