(* ===== verification/DriverMain.thy ===== *)
theory DriverMain
  imports Registration
begin

text \<open>
  The program itself (\<^verbatim>\<open>cmd/main.go\<close>): what happens before the driver serves and after it stops. A \<^verbatim>\<open>klog.Fatal\<close> ends the
  process at once, without the deferred calls.
\<close>

record flags =
  fl_endpoint :: string
  fl_nodeID :: string
  fl_version :: bool
  fl_vfsCacheSize :: string
  fl_luksSecretName :: string
  fl_luksSecretNamespace :: string
  fl_luksSecretKey :: string

text \<open>\<^verbatim>\<open>version.GetVersion\<close>, from the three strings the build sets.\<close>

definition GetVersion :: "string \<Rightarrow> string \<Rightarrow> string \<Rightarrow> string" where
  "GetVersion Version GitCommit BuildDate = Version @ '' (commit: '' @ GitCommit @ '', built: '' @ BuildDate @ '')''"

datatype bootEnd = PrintedVersion | Fatal goerr | Serving

definition secretParamsOf :: "flags \<Rightarrow> SecretParams" where
  "secretParamsOf fl = \<lparr>LUKSSecret = \<lparr>ref_name = fl_luksSecretName fl, ref_namespace = fl_luksSecretNamespace fl\<rparr>,
     S3Secret = \<lparr>ref_name = [], ref_namespace = []\<rparr>, PassphraseKey = fl_luksSecretKey fl\<rparr>"

text \<open>The branch of node mode; a node without an in-cluster configuration has no client.\<close>

definition setupNode :: "env \<Rightarrow> flags \<Rightarrow> ('s rc_scheme, goerr option) state" where
  "setupNode env fl =
     (if \<not> hasClient env then ret (Some (Err ''in-cluster config''))
      else do {
        v \<leftarrow> FetchVolumeSecrets env (secretParamsOf fl);
        (case v of
           Inl e \<Rightarrow> ret (Some (WrapV ''fetch LUKS passphrase'' e))
         | Inr vs \<Rightarrow>
             if vs_passphrase vs = [] then ret (Some (Err ''LUKS passphrase is empty''))
             else do {
               p \<leftarrow> SetupVFSCache env (fl_vfsCacheSize fl) (vs_passphrase vs) (fl_nodeID fl);
               ret (case p of Inl e \<Rightarrow> Some (WrapV ''set up encrypted VFS cache'' e) | Inr _ \<Rightarrow> None)
             })
      })"

definition boot :: "env \<Rightarrow> flags \<Rightarrow> ('s rc_scheme, bootEnd) state" where
  "boot env fl =
     (if fl_version fl then ret PrintedVersion
      else if fl_nodeID fl = [] then ret (Fatal (Err ''NodeID cannot be empty''))
      else do {
        e \<leftarrow> (if isControllerMode (fl_endpoint fl) then ret None else setupNode env fl);
        (case e of
           Some err \<Rightarrow> ret (Fatal err)
         | None \<Rightarrow> do { Initialize env; ret Serving })
      })"

text \<open>
  \<^verbatim>\<open>Driver.Run\<close>: the socket of a previous process is removed, then the server listens (\<open>listenErr\<close>) and serves until the
  context is cancelled or it ends with an error (\<open>serveErr\<close>; \<open>None\<close> for the cancelled context).
\<close>

definition Run :: "env \<Rightarrow> flags \<Rightarrow> goerr option \<Rightarrow> goerr option \<Rightarrow> ('s rc_scheme, goerr option) state" where
  "Run env fl listenErr serveErr = (case parseURL env (fl_endpoint fl) of
       None \<Rightarrow> ret (Some (Err ''parse endpoint''))
     | Some _ \<Rightarrow> do {
         r \<leftarrow> fsCall env (Remove (endpointAddr env (fl_endpoint fl)));
         ret (if r \<noteq> None \<and> r \<noteq> Some ENOENT then fsErr r else if listenErr \<noteq> None then listenErr else serveErr)
       })"

text \<open>After \<^verbatim>\<open>Run\<close>: an error ends the process without the deferred calls, otherwise they run in reverse order.\<close>

definition shutdown :: "env \<Rightarrow> flags \<Rightarrow> goerr option \<Rightarrow> ('s rc_scheme, unit) state" where
  "shutdown env fl runErr =
     (if runErr \<noteq> None then ret ()
      else do {
        Finalize;
        if isControllerMode (fl_endpoint fl) then ret ()
        else do { _ \<leftarrow> TeardownVFSCache env; ret () }
      })"

text \<open>The program: its exit status, 255 being that of \<^verbatim>\<open>klog.Fatal\<close>. What the services do while it runs is the subject of the other theories.\<close>

definition main :: "env \<Rightarrow> flags \<Rightarrow> goerr option \<Rightarrow> goerr option \<Rightarrow> ('s rc_scheme, int) state" where
  "main env fl listenErr serveErr = do {
     b \<leftarrow> boot env fl;
     (case b of
        PrintedVersion \<Rightarrow> ret 0
      | Fatal _ \<Rightarrow> ret 255
      | Serving \<Rightarrow> do {
          e \<leftarrow> Run env fl listenErr serveErr;
          shutdown env fl e;
          ret (if e = None then 0 else 255)
        })
   }"

text \<open>An orderly end on a node closes the cache's LUKS volume; after an error of the server nothing is torn down.\<close>

lemma shutdown_closes:
  fixes s :: "'s rc_scheme"
  assumes "\<not> isControllerMode (fl_endpoint fl)"
  shows "run_state (shutdown env fl None) s = (u, s') \<Longrightarrow> \<exists>s0 t u r. run_state (CloseLUKS env VFSCacheMapperName) (s0 :: 's rc_scheme) = (r, u) \<and> hist s' = hist u @ t"
    and "run_state (shutdown env fl (Some e)) s = ((), s)"
proof -
  show "run_state (shutdown env fl (Some e)) s = ((), s)" by (simp add: shutdown_def)
  assume r: "run_state (shutdown env fl None) s = (u, s')"
  obtain x s1 where 1: "run_state (unmountFilesystem env VFSCacheBasePath) (snd (run_state Finalize s)) = (x, s1)" by fastforce
  obtain y s2 where 2: "run_state (CloseLUKS env VFSCacheMapperName) s1 = (y, s2)" by fastforce
  obtain z s3 where 3: "run_state (findLoopDevice env VFSCacheBackingFile) s2 = (z, s3)" by fastforce
  have "\<exists>t. hist s3 = hist s2 @ t" using 3 by (auto simp: findLoopDevice_def split: prod.splits if_splits cmdres.splits)
  moreover have "\<exists>t. hist s' = hist s3 @ t"
    using r 1 2 3 assms by (auto simp: shutdown_def TeardownVFSCache_def detachLoopDevice_def case_prod_beta split: sum.splits if_splits)
  ultimately show "\<exists>s0 t u r. run_state (CloseLUKS env VFSCacheMapperName) (s0 :: 's rc_scheme) = (r, u) \<and> hist s' = hist u @ t"
    using 2 by (metis append_assoc)
qed

section \<open>Nothing is cached in plaintext\<close>

text \<open>\<open>noRPC\<close>: an event that is not a call into librclone.\<close>

fun noRPC :: "event \<Rightarrow> bool" where
  "noRPC (RpcCalled _ _ _) = False"
| "noRPC _ = True"

lemma noRPC_run: "emits (runBounded env i c as) noRPC" "emits (runCryptsetup env i as) noRPC" "emits (IsLUKSOpened env m) noRPC"
  "emits (IsLUKSDevice env d) noRPC"
  unfolding IsLUKSDevice_def runCryptsetup_def runBounded_def IsLUKSOpened_def by (intro emits_rules; simp)+

lemma noRPC_luks:
  "emits (OpenLUKS env d m p) noRPC" "emits (CloseLUKS env m) noRPC" "emits (ResizeLUKS env m p) noRPC"
  "emits (FormatAndOpenLUKS env d m p) noRPC"
  unfolding OpenLUKS_def CloseLUKS_def ResizeLUKS_def FormatAndOpenLUKS_def
  by (intro emits_rules noRPC_run; simp)+

lemma noRPC_cache:
  "emits (cleanupStaleVFSCache env p) noRPC" "emits (createCacheVolume env sz pw n) noRPC" "emits (openCacheVolume env sz pw) noRPC"
  "emits (pinAndVerifyCacheDir env p) noRPC" "emits (mountCacheVolume env p) noRPC"
  unfolding cleanupStaleVFSCache_def createCacheVolume_def openCacheVolume_def pinAndVerifyCacheDir_def mountCacheVolume_def
    isVFSCacheMounted_def findLoopDevice_def detachLoopDevice_def setupLoopDevice_def formatExt4_def recordVFSCacheNodeID_def
    resizeVFSCacheIfNeeded_def VerifyCacheEncrypted_def verifyCacheEncryptedAt_def mountFilesystem_def Let_def
  by (intro emits_rules noRPC_luks emits_askS; simp)+

lemma noRPC_setup: "emits (SetupVFSCache env sz pw n) noRPC"
proof -
  have "emits (prepareCacheVolume env c p n) noRPC" for c p
    unfolding prepareCacheVolume_def by (intro emits_rules noRPC_cache; simp)
  then show ?thesis
    unfolding SetupVFSCache_def vfsCachePassphrase_def isVFSCacheMounted_def by (intro emits_rules emits_modS noRPC_cache; simp)
qed

lemma noRPC_secrets: "emits (FetchVolumeSecrets env p) noRPC"
  unfolding FetchVolumeSecrets_def fetchPassphrase_def fetchS3Config_def Let_def by (intro emits_rules; simp)

text \<open>
  C18: On a node, rclone is not touched before the cache is encrypted. If the program gets as far as serving in node mode, then
  right before librclone was initialised the cache directory had been proved to be a mount of its own, and from the start of the
  program until that moment no call went into librclone: no file content can have been cached on the node's own disk.
\<close>

theorem boot_encrypts_first:
  fixes s :: "'s rc_scheme"
  assumes "run_state (boot env fl) s = (Serving, s')" "IsNodeMode (fl_endpoint fl)"
  shows "\<exists>(s1 :: 's rc_scheme) t. hist s1 = hist s @ t \<and> list_all noRPC t \<and> provedEncrypted env s1 \<and> run_state (Initialize env) s1 = ((), s')"
proof -
  have c: "\<not> isControllerMode (fl_endpoint fl)" using assms(2) mode_tests_agree by simp
  obtain v s0 where v: "run_state (FetchVolumeSecrets env (secretParamsOf fl)) s = (v, s0)" by fastforce
  obtain vs where vs: "v = Inr vs" using assms(1) c v by (cases v) (auto simp: boot_def setupNode_def split: if_splits)
  obtain p s1 where p: "run_state (SetupVFSCache env (fl_vfsCacheSize fl) (vs_passphrase vs) (fl_nodeID fl)) s0 = (p, s1)" by fastforce
  from assms(1) c v vs p have r: "\<exists>d. p = Inr d" "run_state (Initialize env) s1 = ((), s')"
    by (auto simp: boot_def setupNode_def split: if_splits sum.splits prod.splits)
  then have "provedEncrypted env s1" using ensuresD [OF SetupVFSCache_post p] by (auto simp: setupPost_def)
  moreover obtain t1 t2 where "hist s0 = hist s @ t1" "list_all noRPC t1" "hist s1 = hist s0 @ t2" "list_all noRPC t2"
    using emitsD [OF noRPC_secrets v] emitsD [OF noRPC_setup p] by blast
  ultimately show ?thesis using r(2) by (intro exI [of _ s1] exI [of _ "t1 @ t2"]) auto
qed

definition bootFlags :: flags where
  "bootFlags = \<lparr>fl_endpoint = ''unix:///csi/csi.sock'', fl_nodeID = ''n'', fl_version = False, fl_vfsCacheSize = ''1'',
     fl_luksSecretName = ''luks-secret'', fl_luksSecretNamespace = ''kube-system'', fl_luksSecretKey = ''passphrase''\<rparr>"

definition bootRc :: rc where
  "bootRc = \<lparr>hist = [], mountsStacks = None, mountsFlat = Map.empty, mountsReadAt = None, mountsInFlight = False,
     mountsBlockedAt = 0, mountsTakenAt = 0, initOnceDone = False, initDone = False, rpcInFlight = [], rpcSeq = 0,
     mountGeneration = 0, vfsCacheSize = 0\<rparr>"

definition bootEnv :: env where
  "bootEnv = quietEnv\<lparr>getSecret := \<lambda>_ _ _. Inr [''passphrase'' \<mapsto> ''secret''], getCacheDir := \<lambda>_. VFSCacheBasePath,
     stat := \<lambda>_ p. if p = VFSCacheBackingFile then Inl ENOENT
       else Inr \<lparr>fi_size = 0, fi_isdir = True, fi_dev = (if p = VFSCacheBasePath then ''a'' else ''b'')\<rparr>\<rparr>"

theorem boot_encrypts_first_witness:
  "\<exists>s'. run_state (boot bootEnv bootFlags) bootRc = (Serving, s') \<and> (\<exists>s1 :: rc. provedEncrypted bootEnv s1)"
proof -
  have n: "IsNodeMode (fl_endpoint bootFlags)" by (simp add: bootFlags_def IsNodeMode_def controllerSocketDir_def containsStr_def)
  have dir: "pathDir VFSCacheBasePath \<noteq> VFSCacheBasePath" "VFSCacheBasePath \<noteq> VFSCacheBackingFile" "pathDir VFSCacheBasePath \<noteq> VFSCacheBackingFile"
    by code_simp+
  have "\<exists>s'. run_state (SetupVFSCache bootEnv sz pw k) s = (Inr VFSCacheBasePath, s')" for sz pw k and s :: rc
    using dir by (simp add: SetupVFSCache_def bootEnv_def quietEnv_def vfsCachePassphrase_def isVFSCacheMounted_def
        pinAndVerifyCacheDir_def VerifyCacheEncrypted_def verifyCacheEncryptedAt_def)
  then have c: "fst (run_state (SetupVFSCache bootEnv sz pw k) s) = Inr VFSCacheBasePath" for sz pw k and s :: rc by (metis fst_conv)
  have e: "hasClient bootEnv" "getSecret bootEnv h a b = Inr [''passphrase'' \<mapsto> ''secret'']" for h a b by (simp_all add: bootEnv_def quietEnv_def)
  have "\<not> isControllerMode (fl_endpoint bootFlags)" using n mode_tests_agree by simp
  then have "fst (run_state (boot bootEnv bootFlags) bootRc) = Serving"
    by (simp add: boot_def setupNode_def FetchVolumeSecrets_def fetchPassphrase_def secretParamsOf_def bootFlags_def c e case_prod_beta)
  then obtain s' where r: "run_state (boot bootEnv bootFlags) bootRc = (Serving, s')" by (metis prod.collapse)
  from boot_encrypts_first [OF r n] r show ?thesis by blast
qed

end
