(* ===== verification/Spec2Isabelle.thy ===== *)
theory Spec2Isabelle
  imports NodeDrains NodeRecovery NodeTeardown NodeStaging NodeChecker NodeLimits CacheScan AsyncLog Health DriverMain
begin

text \<open>
  A model of the lukscryptwalker CSI driver, and why it is correct.

  \<^bold>\<open>The program.\<close> One binary (\<^verbatim>\<open>cmd/main.go\<close>) runs as the controller of a Kubernetes storage driver or, on every node, as
  its node plugin. A volume is either a LUKS container in a backing file of one node or a directory of an S3 bucket that
  rclone encrypts and mounts through FUSE. Before a node serves, it opens an encrypted volume for rclone's cache
  (\<^verbatim>\<open>rclone/vfscache.go\<close>), because cached S3 contents must not reach the node's disk in plaintext. The mount manager
  (\<^verbatim>\<open>rclone/syncmanager.go\<close>, \<^verbatim>\<open>rclone/session.go\<close>) mounts an S3 volume at a private session path under a VFS name of its own
  generation, binds it to the staging path, and on the way down waits for the uploads; writes that are still in the cache
  are the only copy there is. The node service (\<^verbatim>\<open>driver/node.go\<close>, \<^verbatim>\<open>driver/node_s3.go\<close>) serves kubelet's requests, drains
  volumes in background goroutines, and repairs what breaks: dead FUSE mounts, stranded consumers, abandoned
  uploads. Around it stand the checks of its registration with kubelet, the liveness probe, the self monitor, a watchdog
  on the host, and a log writer that never blocks.

  \<^bold>\<open>The model.\<close> Pure code is a function of the same name. Stateful code is a state monad over a record; every request to the
  outside (a system call, a program, the Kubernetes API, librclone, the clock) is answered by the record \<open>env\<close> of theory
  \<open>Host\<close> from the whole history of requests so far, and is appended to the history. So the world may change in
  any way between two requests, and theorems hold for every such world unless a hypothesis restricts it.
  A call with a budget may answer that the budget ran out; \<open>finished\<close> tells later whether its goroutine has
  returned. Errors are values (\<open>goerr\<close>, with Go's wrapping and \<^verbatim>\<open>errors.Is\<close>), gRPC codes included. Integers that may
  overflow are wrapped at 64 bits (\<open>wrap64\<close>). A handler holds the lock of its volume from beginning to end and is one
  step; a draining goroutine is kept as a task and runs as one step at any later time; tickers are the interleaving of steps.

  \<^bold>\<open>Theories and sources.\<close>
  \<^item> \<open>GoStrings\<close>, \<open>Prelude\<close>: strings and paths of the Go library, errors, state-monad lemmas and the collections the proofs use
    (\<open>keeps\<close>: an operation keeps a property of the state).
  \<^item> \<open>Host\<close>: the environment and histories; \<open>emits\<close>: an operation adds only such events.
  \<^item> \<open>Luks\<close>: \<^verbatim>\<open>luks/luks.go\<close>. \<open>Secrets\<close>: \<^verbatim>\<open>secrets/*.go\<close>. \<open>HostMounts\<close>: \<^verbatim>\<open>rclone/mounts.go\<close>.
  \<^item> \<open>Rclone\<close>: \<^verbatim>\<open>rclone/config.go\<close>, \<^verbatim>\<open>rclone/rclone.go\<close>. \<open>VfsNames\<close>: names and options in \<^verbatim>\<open>rclone/syncmanager.go\<close>.
  \<^item> \<open>VfsCache\<close>, \<open>CacheScan\<close>: \<^verbatim>\<open>rclone/vfscache.go\<close>, \<^verbatim>\<open>rclone/cachecheck.go\<close>. \<open>Session\<close>: \<^verbatim>\<open>rclone/session.go\<close>.
  \<^item> \<open>FuseSafe\<close>: \<^verbatim>\<open>rclone/fusesafe.go\<close>, down to the bytes of the kernel's directory records.
  \<^item> \<open>MountManager\<close>, with \<open>MountSafety\<close>, \<open>MountReady\<close>, \<open>MountCache\<close>: \<^verbatim>\<open>rclone/syncmanager.go\<close>.
  \<^item> \<open>Cluster\<close>: \<^verbatim>\<open>driver/k8s.go\<close>. \<open>Controller\<close>: \<^verbatim>\<open>driver/controller.go\<close>.
  \<^item> \<open>NodeMounts\<close>: mounts and backing files in \<^verbatim>\<open>driver/node.go\<close>, \<^verbatim>\<open>driver/utils.go\<close>. \<open>NodeLuks\<close>: \<^verbatim>\<open>driver/node_luks.go\<close>.
  \<^item> \<open>NodeState\<close>, \<open>NodeProbes\<close>, \<open>NodePods\<close>, \<open>NodeS3\<close>, \<open>NodeRepair\<close>: \<^verbatim>\<open>driver/node_s3.go\<close>, in that order state and limits, probing
    mounts, consumers, the life of an S3 volume, and repair. \<open>NodeService\<close>: the handlers and ticks of \<^verbatim>\<open>driver/node.go\<close>.
  \<^item> \<open>NodeSlots\<close>, \<open>NodeSystem\<close>, \<open>NodeSafety\<close>, \<open>NodeLimits\<close>: the node plugin as a transition system and its properties; \<open>NodeDrains\<close>,
    \<open>NodeRecovery\<close>: uploads that outlive their mount; \<open>NodeStaging\<close>, \<open>NodeTeardown\<close>: staging local volumes and taking them down, over
    \<open>Obligations\<close>, the calculus of requests that need a reason; \<open>NodeChecker\<close>: the stale-mount checker.
  \<^item> \<open>Registration\<close>, \<open>Identity\<close>, \<open>Health\<close>: \<^verbatim>\<open>driver/registration.go\<close>, \<^verbatim>\<open>driver/identity.go\<close>, \<^verbatim>\<open>driver/selfmonitor.go\<close>.
  \<^item> \<open>Watchdog\<close>: \<^verbatim>\<open>driver/watchdog.go\<close>, the shell script included. \<open>AsyncLog\<close>: \<^verbatim>\<open>asynclog/asynclog.go\<close>.
  \<^item> \<open>DriverMain\<close>: \<^verbatim>\<open>cmd/main.go\<close> and \<^verbatim>\<open>Driver.Run\<close>. \<open>RateLimit\<close>: the contract of the limiters.

  \<^bold>\<open>What is shown.\<close>
  \<^item> \<^emph>\<open>No write is lost silently.\<close> A volume is reported unstaged only after its cache was found clean or was given up by an
    operator (\<open>NodeSafety\<close>), the mount manager reports it drained only after rclone ended the session and the metadata on disk
    is clean (\<open>MountSafety\<close>), sweeps, eviction and validation spare dirty items (\<open>VfsCache\<close>, \<open>MountCache\<close>), and the two searches for
    unuploaded data agree (\<open>CacheScan\<close>). In every reachable state a volume has at most one drain (\<open>NodeSystem\<close>) and is mounted at most
    once, a drain records truly how it ended (\<open>NodeDrains\<close>), and the sweep over stranded uploads leaves none without an owner (\<open>NodeRecovery\<close>).
  \<^item> \<^emph>\<open>Nothing is stuck.\<close> After a drain has ended, however it ended, unstaging the volume succeeds unless that very call finds unuploaded
    data or cannot release the mount (\<open>NodeDrains\<close>); waiting for uploads ends within its budget (\<open>MountCache\<close>).
  \<^item> \<^emph>\<open>Nothing in plaintext.\<close> The driver serves only once the cache is proved to be on its own volume (\<open>VfsCache\<close>, \<open>DriverMain\<close>);
    a staged or published local volume is the mapping of its own LUKS container (\<open>NodeStaging\<close>); a pod gets a bind only of a live FUSE mount (\<open>NodeSafety\<close>); a mount that succeeds is visible to the host and belongs to its own
    session (\<open>MountReady\<close>).
  \<^item> \<^emph>\<open>Nothing else is destroyed.\<close> When a device is formatted (\<open>Luks\<close>, and for the whole of a staging request \<open>NodeStaging\<close>), where local volumes live (\<open>Controller\<close>,
    \<open>NodeLuks\<close>), what is purged (\<open>Rclone\<close>), which sessions are ended (\<open>Session\<close>), which pods are deleted and how often
    (\<open>NodeLimits\<close>), in which order a local volume is taken down and what its reclaim deletes
    (\<open>NodeTeardown\<close>), what the checker needs to know before it repairs a mount (\<open>NodeChecker\<close>), when the watchdog acts (\<open>Watchdog\<close>), when the driver lets kubelet kill it (\<open>Health\<close>).
  \<^item> \<^emph>\<open>Parsing and naming.\<close> Mount tables, directory records, VFS names and process start times are read back exactly (\<open>HostMounts\<close>, \<open>FuseSafe\<close>,
    \<open>VfsNames\<close>, \<open>Health\<close>); the log refines a lossy log (\<open>AsyncLog\<close>).
  \<^item> \<^emph>\<open>Where the code does less.\<close> Some theorems describe what the code does in cases its comments exclude: an older cache generation is
    ignored on unstaging, redaction does not end on some messages, an unknown mount table is taken for an empty one,
    the restore of a local volume assumes ext4.

  The interfaces are locales: \<open>params_retriever\<close> (the two lookups of StorageClass parameters), \<open>vfs_naming\<close>, \<open>rate_limiter\<close> (restarts,
  repairs, the watchdog's cures), \<open>core_tasks\<close>, extended to \<open>core_invariant\<close> and \<open>core_unconditional\<close> (invariants of the node state), \<open>edge_reporter\<close> (three health reports),
  \<open>simulation\<close> (the log), \<open>obligation\<close> (formatting and reclaiming local volumes).

  \<^bold>\<open>Loops.\<close> Loops over lists are recursion on the list. A loop that may not end is a partial function (\<open>redactLoop\<close>; \<open>None\<close> is not
  returning) and both cases are characterised. Loops with a deadline get as many rounds as their sleeps allow within it:
  \<open>readyRounds\<close> for the twenty seconds a mount may take, polled every half second, \<open>uploadRounds\<close> for an upload budget; with a clock that
  advances by at least what was slept, further rounds change nothing (\<open>mount_loops_in_budget\<close> and \<open>uploadsLoop_enough\<close> in \<open>MountCache\<close>). \<open>sessionTries\<close> bounds the search for a fresh
  session directory, whose names are timestamps; it suffices unless that many successive names are taken (\<open>Session\<close>). Stacked mounts
  are unwound at most \<open>maxMountStackUnwind\<close> times and generations tried at most \<open>maxVFSGenerations\<close> times, as in the source.

  \<^bold>\<open>Not modelled.\<close> Logging and the text of error messages beyond what the code inspects. The system calls themselves,
  librclone, encoding/json, net/url, Kubernetes and gRPC: the environment. Mutexes, whose sections are steps, and the interleaving of
  a handler with itself; the goroutines that only call a modelled function on a ticker, and the stack dumps before the process ends itself. The floating-point arithmetic of a few thresholds is a parameter.
\<close>

end
